(* ===== verification/Prelude.thy ===== *)
theory Prelude
  imports Main "HOL-Library.AList" "HOL-Library.Word"
begin

text \<open>
  Shared vocabulary of the development: the collections of simplification and inversion
  rules, Go maps as association lists (the order of the list stands for one iteration order
  of the map), results with an error, and the wrap-around of the 64-bit integers of Go.
\<close>

named_theorems gomap_simps \<open>lookup, update, delete and size of Go maps\<close>
named_theorems result_inv \<open>inversion rules for computations that can fail\<close>
named_theorems i64_simps \<open>evaluation of 64-bit arithmetic\<close>

subsection \<open>Go maps\<close>

type_synonym ('k, 'v) gomap = "('k \<times> 'v) list"

abbreviation wf_map :: "('k, 'v) gomap \<Rightarrow> bool" where
  "wf_map m \<equiv> distinct (map fst m)"

text \<open>\<open>m[k]\<close> in Go gives the zero value of the element type when the key is absent.\<close>

definition go_index :: "'v \<Rightarrow> ('k, 'v) gomap \<Rightarrow> 'k \<Rightarrow> 'v" where
  "go_index z m k = (case map_of m k of None \<Rightarrow> z | Some v \<Rightarrow> v)"

abbreviation go_put :: "'k \<Rightarrow> 'v \<Rightarrow> ('k, 'v) gomap \<Rightarrow> ('k, 'v) gomap" where
  "go_put \<equiv> AList.update"

abbreviation go_del :: "'k \<Rightarrow> ('k, 'v) gomap \<Rightarrow> ('k, 'v) gomap" where
  "go_del \<equiv> AList.delete"

text \<open>Copying every entry of \<open>kvs\<close> into \<open>m\<close>, as a \<open>for k, v := range kvs\<close> loop does.\<close>

fun go_put_all :: "('k, 'v) gomap \<Rightarrow> ('k, 'v) gomap \<Rightarrow> ('k, 'v) gomap" where
  "go_put_all [] m = m"
| "go_put_all ((k, v) # kvs) m = go_put_all kvs (go_put k v m)"

lemma map_of_go_put [simp, gomap_simps]: "map_of (go_put k v m) = (map_of m)(k \<mapsto> v)"
  by (rule update_conv')

lemma map_of_go_del [simp, gomap_simps]: "map_of (go_del k m) = (map_of m)(k := None)"
  by (rule delete_conv')

lemma wf_map_put [simp, gomap_simps]: "wf_map m \<Longrightarrow> wf_map (go_put k v m)"
  by (rule distinct_update)

lemma wf_map_del [simp, gomap_simps]: "wf_map m \<Longrightarrow> wf_map (go_del k m)"
  by (rule distinct_delete)

lemma length_go_put [gomap_simps]:
  "wf_map m \<Longrightarrow>
    length (go_put k v m) = (if map_of m k = None then Suc (length m) else length m)"
proof (induction m)
  case (Cons p m)
  then show ?case
    by (cases p) (force simp: map_of_eq_None_iff split: if_splits)
qed simp

lemma length_go_del_le: "length (go_del k m) \<le> length m"
  by (rule length_delete_le)

lemma go_index_Some [simp]: "map_of m k = Some v \<Longrightarrow> go_index z m k = v"
  by (simp add: go_index_def)

lemma go_index_None [simp]: "map_of m k = None \<Longrightarrow> go_index z m k = z"
  by (simp add: go_index_def)

lemma wf_map_put_all [simp]: "wf_map m \<Longrightarrow> wf_map (go_put_all kvs m)"
  by (induction kvs m rule: go_put_all.induct) auto

lemma map_of_put_all: "wf_map kvs \<Longrightarrow> map_of (go_put_all kvs m) = map_of m ++ map_of kvs"
proof (induction kvs m rule: go_put_all.induct)
  case (1 m)
  then show ?case by simp
next
  case (2 k v kvs m)
  then show ?case
    by (auto simp: map_add_def fun_eq_iff map_of_eq_None_iff split: option.splits)
qed

lemma wf_map_length_le:
  assumes "wf_map a" and "wf_map b" and "dom (map_of a) \<subseteq> dom (map_of b)"
  shows "length a \<le> length b"
proof -
  have "card (dom (map_of a)) \<le> card (dom (map_of b))"
    using assms(3) by (intro card_mono) (auto simp: finite_dom_map_of)
  then show ?thesis
    using assms(1,2) distinct_card [of "map fst a"] distinct_card [of "map fst b"]
    by (simp add: dom_map_of_conv_image_fst)
qed

text \<open>
  Two maps of the same size agree as soon as one extends the other: the argument behind
  comparing maps by length and then by looking up the keys of one of them.
\<close>

lemma wf_map_eq_by_subset:
  assumes "wf_map a" and "wf_map b" and "length a = length b"
    and "\<And>k v. map_of a k = Some v \<Longrightarrow> map_of b k = Some v"
  shows "map_of a = map_of b"
proof -
  have sub: "dom (map_of a) \<subseteq> dom (map_of b)"
    using assms(4) by auto
  have "card (dom (map_of a)) = card (dom (map_of b))"
    using assms(1-3) distinct_card [of "map fst a"] distinct_card [of "map fst b"]
    by (simp add: dom_map_of_conv_image_fst)
  with sub have dom: "dom (map_of a) = dom (map_of b)"
    by (simp add: card_subset_eq finite_dom_map_of)
  show ?thesis
  proof
    fix k
    show "map_of a k = map_of b k"
    proof (cases "map_of a k")
      case None
      with dom have "k \<notin> dom (map_of b)" by (metis domIff)
      with None show ?thesis by (simp add: domIff)
    next
      case (Some v)
      then show ?thesis using assms(4) [of k v] by simp
    qed
  qed
qed

subsection \<open>Results\<close>

definition check :: "bool \<Rightarrow> 'e \<Rightarrow> 'e + unit" where
  "check b e = (if b then Inr () else Inl e)"

text \<open>Sequencing: the first error ends the computation.\<close>

definition andThen :: "'e + 'a \<Rightarrow> ('a \<Rightarrow> 'e + 'b) \<Rightarrow> 'e + 'b" where
  "andThen r f = (case r of Inl e \<Rightarrow> Inl e | Inr x \<Rightarrow> f x)"

definition is_ok :: "'e + 'a \<Rightarrow> bool" where
  "is_ok r = (case r of Inl _ \<Rightarrow> False | Inr _ \<Rightarrow> True)"

definition map_err :: "('e \<Rightarrow> 'f) \<Rightarrow> 'e + 'a \<Rightarrow> 'f + 'a" where
  "map_err g r = (case r of Inl e \<Rightarrow> Inl (g e) | Inr x \<Rightarrow> Inr x)"

lemma check_inv [result_inv, simp]: "check b e = Inr u \<longleftrightarrow> b"
  by (simp add: check_def)

lemma check_Inl [result_inv, simp]: "check b e = Inl e' \<longleftrightarrow> \<not> b \<and> e' = e"
  by (auto simp: check_def)

lemma andThen_simps [simp]: "andThen (Inl e) f = Inl e" "andThen (Inr x) f = f x"
  by (simp_all add: andThen_def)

lemma andThen_inv [result_inv]: "andThen r f = Inr y \<longleftrightarrow> (\<exists>x. r = Inr x \<and> f x = Inr y)"
  by (cases r) auto

lemma andThen_Inl [result_inv]:
  "andThen r f = Inl e \<longleftrightarrow> r = Inl e \<or> (\<exists>x. r = Inr x \<and> f x = Inl e)"
  by (cases r) auto

lemma is_ok_simps [simp]: "\<not> is_ok (Inl e)" "is_ok (Inr x)"
  by (simp_all add: is_ok_def)

lemma is_ok_check [simp]: "is_ok (check b e) = b"
  by (simp add: check_def)

lemma is_ok_andThen [simp]:
  "is_ok (andThen r f) \<longleftrightarrow> (\<exists>x. r = Inr x \<and> is_ok (f x))"
  by (cases r) auto

lemma is_ok_map_err [simp]: "is_ok (map_err g r) = is_ok r"
  by (cases r) (auto simp: map_err_def)

lemma map_err_simps [simp]: "map_err g (Inl e) = Inl (g e)" "map_err g (Inr x) = Inr x"
  by (simp_all add: map_err_def)

lemma map_err_inv [result_inv]: "map_err g r = Inr x \<longleftrightarrow> r = Inr x"
  by (cases r) auto

lemma is_ok_unit: "is_ok (r :: 'e + unit) \<longleftrightarrow> r = Inr ()"
  by (cases r) auto

text \<open>A loop over a list that stops at the first error.\<close>

fun check_all :: "('a \<Rightarrow> 'e + unit) \<Rightarrow> 'a list \<Rightarrow> 'e + unit" where
  "check_all f [] = Inr ()"
| "check_all f (x # xs) = andThen (f x) (\<lambda>_. check_all f xs)"

lemma is_ok_check_all [simp]: "is_ok (check_all f xs) \<longleftrightarrow> (\<forall>x\<in>set xs. is_ok (f x))"
  by (induction xs) (auto simp: is_ok_unit andThen_inv)

text \<open>The panics of the Go runtime that the model has to account for.\<close>

datatype panic = NilDereference | SliceBounds

subsection \<open>64-bit integers\<close>

type_synonym i64 = "64 word"

text \<open>Signed comparison and the conversion \<open>int64(x)\<close> of an in-range integer.\<close>

definition i64_pos :: "i64 \<Rightarrow> bool" where
  "i64_pos x \<longleftrightarrow> 0 < sint x"

definition i64_neg :: "i64 \<Rightarrow> bool" where
  "i64_neg x \<longleftrightarrow> sint x < 0"

lemma sint_i64_of_int [i64_simps]:
  "- (2 ^ 63) \<le> x \<Longrightarrow> x < 2 ^ 63 \<Longrightarrow> sint (word_of_int x :: i64) = x"
  by (simp add: signed_take_bit_int_eq_self sint_uint unsigned_of_int
      signed_take_bit_take_bit)

lemma sint_i64_bounds: "- (2 ^ 63) \<le> sint (x :: i64)" "sint (x :: i64) < 2 ^ 63"
  using sint_ge [of x] sint_lt [of x] by simp_all

lemma sint_i64_mult [i64_simps]:
  fixes a b :: i64
  assumes "- (2 ^ 63) \<le> sint a * sint b" and "sint a * sint b < 2 ^ 63"
  shows "sint (a * b) = sint a * sint b"
proof -
  have "a * b = word_of_int (sint a * sint b)"
    by simp
  then show ?thesis
    using assms by (metis sint_i64_of_int)
qed

lemma sint_i64_add [i64_simps]:
  fixes a b :: i64
  assumes "- (2 ^ 63) \<le> sint a + sint b" and "sint a + sint b < 2 ^ 63"
  shows "sint (a + b) = sint a + sint b"
proof -
  have "a + b = word_of_int (sint a + sint b)"
    by simp
  then show ?thesis
    using assms by (metis sint_i64_of_int)
qed

text \<open>An element that is not in a prefix or a suffix lies behind or before it.\<close>

lemma skip_prefix:
  assumes "xs @ ys = pre @ x # post" and "x \<notin> set xs"
  shows "\<exists>pre'. pre = xs @ pre' \<and> ys = pre' @ x # post"
  using assms by (auto simp: append_eq_append_conv2 Cons_eq_append_conv append_eq_Cons_conv)

lemma skip_suffix:
  assumes "xs @ ys = pre @ x # post" and "x \<notin> set ys"
  shows "\<exists>post'. xs = pre @ x # post'"
  using assms by (auto simp: append_eq_append_conv2 Cons_eq_append_conv append_eq_Cons_conv)

end
