(* ===== verification/Go_Time.thy ===== *)
theory Go_Time
  imports Go_Strings "HOL-Library.Monad_Syntax"
begin

text \<open>
  The package time of Go as far as the program uses it. An instant is the number of
  nanoseconds since the zero \<open>Time\<close> (the first of January of year 1, UTC); a
  \<open>Duration\<close> is a signed 64-bit number of nanoseconds, so its arithmetic wraps.
\<close>

type_synonym gotime = int
type_synonym duration = i64

definition time_IsZero :: "gotime \<Rightarrow> bool" where
  "time_IsZero t \<longleftrightarrow> t = 0"

definition time_After :: "gotime \<Rightarrow> gotime \<Rightarrow> bool" where
  "time_After t u \<longleftrightarrow> u < t"

definition time_Add :: "gotime \<Rightarrow> duration \<Rightarrow> gotime" where
  "time_Add t d = t + sint d"

definition time_Second :: duration where
  "time_Second = 1000000000"

text \<open>\<open>time.Duration(s) * time.Second\<close>\<close>

definition seconds :: "i64 \<Rightarrow> duration" where
  "seconds s = s * time_Second"

lemma sint_seconds:
  assumes "\<bar>sint s\<bar> \<le> 9223372036"
  shows "sint (seconds s) = sint s * 1000000000"
proof -
  have one: "sint (1000000000 :: i64) = 1000000000"
    by simp
  have "- (2 ^ 63) \<le> sint s * 1000000000" "sint s * 1000000000 < 2 ^ 63"
    using assms by auto
  then show ?thesis
    unfolding seconds_def time_Second_def using sint_i64_mult [of s 1000000000] by (simp only: one)
qed

text \<open>\<open>time.Since\<close> answers the nearest duration that fits.\<close>

definition time_Since :: "gotime \<Rightarrow> gotime \<Rightarrow> duration" where
  "time_Since now' t =
     (if now' - t > 2 ^ 63 - 1 then word_of_int (2 ^ 63 - 1)
      else if now' - t < - (2 ^ 63) then word_of_int (- (2 ^ 63))
      else word_of_int (now' - t))"

lemma sint_time_Since: "sint (time_Since now' t) = max (- (2 ^ 63)) (min (2 ^ 63 - 1) (now' - t))"
proof -
  have "sint (word_of_int (2 ^ 63 - 1) :: i64) = 2 ^ 63 - 1" "sint (word_of_int (- (2 ^ 63)) :: i64) = - (2 ^ 63)"
    by (rule sint_i64_of_int; simp)+
  moreover have "\<not> now' - t > 2 ^ 63 - 1 \<Longrightarrow> \<not> now' - t < - (2 ^ 63) \<Longrightarrow>
      sint (word_of_int (now' - t) :: i64) = now' - t"
    by (rule sint_i64_of_int) auto
  ultimately show ?thesis
    unfolding time_Since_def min_def max_def by (simp del: of_int_diff)
qed

subsection \<open>Calendar dates\<close>

definition is_leap :: "int \<Rightarrow> bool" where
  "is_leap y \<longleftrightarrow> y mod 4 = 0 \<and> (y mod 100 \<noteq> 0 \<or> y mod 400 = 0)"

definition days_in :: "int \<Rightarrow> int \<Rightarrow> int" where
  "days_in m y =
     (if m = 2 then (if is_leap y then 29 else 28)
      else if m \<in> {4, 6, 9, 11} then 30 else 31)"

text \<open>Days from the zero date to the first of January of year \<open>y\<close>, and within a year.\<close>

definition days_before_year :: "int \<Rightarrow> int" where
  "days_before_year y = 365 * (y - 1) + (y - 1) div 4 - (y - 1) div 100 + (y - 1) div 400"

fun days_before_month :: "nat \<Rightarrow> int \<Rightarrow> int" where
  "days_before_month 0 y = 0"
| "days_before_month (Suc 0) y = 0"
| "days_before_month (Suc (Suc m)) y = days_before_month (Suc m) y + days_in (int (Suc m)) y"

definition date_seconds :: "int \<Rightarrow> int \<Rightarrow> int \<Rightarrow> int \<Rightarrow> int \<Rightarrow> int \<Rightarrow> int" where
  "date_seconds y mo d h mi s =
     (days_before_year y + days_before_month (nat mo) y + (d - 1)) * 86400
     + h * 3600 + mi * 60 + s"

subsection \<open>Reading an RFC 3339 timestamp\<close>

text \<open>
  \<open>time.Parse(time.RFC3339, s)\<close>: each part takes a prefix of the text and gives the rest.
  The hour may have one digit, as in Go; a fraction of a second may follow the seconds though
  the layout has none; an offset may be 24 hours or 60 minutes.
\<close>

definition getnum :: "bool \<Rightarrow> string \<Rightarrow> (int \<times> string) option" where
  "getnum fixed s = (case s of
       [] \<Rightarrow> None
     | [a] \<Rightarrow> if is_digit a \<and> \<not> fixed then Some (int (digit_val a), []) else None
     | a # b # r \<Rightarrow>
         if \<not> is_digit a then None
         else if is_digit b then Some (10 * int (digit_val a) + int (digit_val b), r)
         else if fixed then None else Some (int (digit_val a), b # r))"

definition skip_char :: "char \<Rightarrow> string \<Rightarrow> string option" where
  "skip_char c s = (case s of [] \<Rightarrow> None | x # r \<Rightarrow> if x = c then Some r else None)"

definition in_range :: "int \<Rightarrow> int \<Rightarrow> int \<Rightarrow> unit option" where
  "in_range lo hi x = (if lo \<le> x \<and> x \<le> hi then Some () else None)"

definition parse_year :: "string \<Rightarrow> (int \<times> string) option" where
  "parse_year s = (if 4 \<le> length s \<and> list_all is_digit (take 4 s)
     then Some (int (digits_val (take 4 s)), drop 4 s) else None)"

text \<open>The digits after the decimal point, at most nine of which count.\<close>

definition parse_fraction :: "string \<Rightarrow> int \<times> string" where
  "parse_fraction s = (case s of
       p # d # r \<Rightarrow>
         if (p = CHR ''.'' \<or> p = CHR '','') \<and> is_digit d then
           let ds = takeWhile is_digit (d # r); used = take 9 ds
           in (int (digits_val used) * 10 ^ (9 - length used), dropWhile is_digit (d # r))
         else (0, s)
     | _ \<Rightarrow> (0, s))"

definition parse_zone :: "string \<Rightarrow> (int \<times> string) option" where
  "parse_zone s = (case s of
       [] \<Rightarrow> None
     | z # r \<Rightarrow>
         if z = CHR ''Z'' then Some (0, r)
         else if length s < 6 \<or> s ! 3 \<noteq> CHR '':'' then None
         else do {
           (hr, _) \<leftarrow> getnum True (take 2 (drop 1 s));
           (mm, _) \<leftarrow> getnum True (take 2 (drop 4 s));
           _ \<leftarrow> in_range 0 24 hr;
           _ \<leftarrow> in_range 0 60 mm;
           if z = CHR ''+'' then Some ((hr * 60 + mm) * 60, drop 6 s)
           else if z = CHR ''-'' then Some (- ((hr * 60 + mm) * 60), drop 6 s)
           else None })"

definition parse_rfc3339 :: "string \<Rightarrow> gotime option" where
  "parse_rfc3339 s = do {
     (y, s) \<leftarrow> parse_year s;
     s \<leftarrow> skip_char (CHR ''-'') s;
     (mo, s) \<leftarrow> getnum True s;
     _ \<leftarrow> in_range 1 12 mo;
     s \<leftarrow> skip_char (CHR ''-'') s;
     (d, s) \<leftarrow> getnum True s;
     s \<leftarrow> skip_char (CHR ''T'') s;
     (h, s) \<leftarrow> getnum False s;
     _ \<leftarrow> in_range 0 23 h;
     s \<leftarrow> skip_char (CHR '':'') s;
     (mi, s) \<leftarrow> getnum True s;
     _ \<leftarrow> in_range 0 59 mi;
     s \<leftarrow> skip_char (CHR '':'') s;
     (sec, s) \<leftarrow> getnum True s;
     _ \<leftarrow> in_range 0 59 sec;
     let (nsec, s) = parse_fraction s;
     (off, s) \<leftarrow> parse_zone s;
     if s = [] \<and> 1 \<le> d \<and> d \<le> days_in mo y
     then Some ((date_seconds y mo d h mi sec - off) * 1000000000 + nsec) else None }"

lemma parse_rfc3339_epoch: "parse_rfc3339 ''1970-01-01T00:00:00Z'' = Some 62135596800000000000"
  by code_simp

lemma parse_rfc3339_offset:
  "parse_rfc3339 ''2026-03-01T01:30:00.5+01:30'' = parse_rfc3339 ''2026-03-01T00:00:00.5Z''"
  by code_simp

lemma parse_rfc3339_day: "parse_rfc3339 ''2026-02-29T00:00:00Z'' = None"
  by code_simp

end
