(* ===== verification/Api_Types.thy ===== *)
theory Api_Types
  imports Prelude
begin

text \<open>
  The data of pkg/api/v1alpha1/types.go: a \<open>GarbageCollectionPolicy\<close> with its spec and
  status, one record per struct, in the order of the file. A pointer field is an option, a
  slice a list (a nil slice is the empty list), a Go map an association list. The label
  selector is the struct of that name of the Kubernetes API, of which the program reads the
  fields kept here.
\<close>

record LabelSelectorRequirement =
  req_Key :: string
  req_Operator :: string
  req_Values :: "string list"

record LabelSelector =
  ls_MatchLabels :: "(string, string) gomap"
  ls_MatchExpressions :: "LabelSelectorRequirement list"

record FieldSelectorSpec =
  fs_MatchFields :: "(string, string) gomap"

record TargetResourceSpec =
  tr_APIVersion :: string
  tr_Kind :: string
  tr_Namespace :: string
  tr_LabelSelector :: "LabelSelector option"
  tr_FieldSelector :: "FieldSelectorSpec option"

record TTLSpec =
  ttl_SecondsAfterCreation :: "i64 option"
  ttl_FieldPath :: string
  ttl_Mappings :: "(string, i64) gomap"
  ttl_Default :: "i64 option"
  ttl_RelativeTo :: string
  ttl_SecondsAfter :: "i64 option"

record LabelCondition =
  lc_Key :: string
  lc_Value :: string
  lc_Operator :: string

record AnnotationCondition =
  ac_Key :: string
  ac_Value :: string

record FieldCondition =
  fc_FieldPath :: string
  fc_Operator :: string
  fc_Value :: string
  fc_Values :: "string list"

record ConditionsSpec =
  cs_Phase :: "string list"
  cs_HasLabels :: "LabelCondition list"
  cs_HasAnnotations :: "AnnotationCondition list"
  cs_And :: "FieldCondition list"

record BehaviorSpec =
  bh_MaxDeletionsPerSecond :: int
  bh_BatchSize :: int
  bh_DryRun :: bool
  bh_Finalizer :: string
  bh_PropagationPolicy :: string
  bh_GracePeriodSeconds :: "i64 option"

record GarbageCollectionPolicySpec =
  gs_TargetResource :: TargetResourceSpec
  gs_TTL :: TTLSpec
  gs_Conditions :: "ConditionsSpec option"
  gs_Behavior :: BehaviorSpec
  gs_EvaluationInterval :: "i64 option"
  gs_Paused :: bool

record GarbageCollectionPolicyStatus =
  st_Phase :: string
  st_ResourcesMatched :: int
  st_ResourcesDeleted :: int
  st_ResourcesPending :: int
  st_LastGCRun :: "int option"
  st_NextGCRun :: "int option"

record GarbageCollectionPolicy =
  gp_Namespace :: string
  gp_Name :: string
  gp_UID :: string
  gp_Spec :: GarbageCollectionPolicySpec
  gp_Status :: GarbageCollectionPolicyStatus

text \<open>The zero values of the structs, which a program gets by leaving fields out.\<close>

definition zero_TTLSpec :: TTLSpec where
  "zero_TTLSpec = \<lparr>ttl_SecondsAfterCreation = None, ttl_FieldPath = [], ttl_Mappings = [],
     ttl_Default = None, ttl_RelativeTo = [], ttl_SecondsAfter = None\<rparr>"

definition zero_BehaviorSpec :: BehaviorSpec where
  "zero_BehaviorSpec = \<lparr>bh_MaxDeletionsPerSecond = 0, bh_BatchSize = 0, bh_DryRun = False,
     bh_Finalizer = [], bh_PropagationPolicy = [], bh_GracePeriodSeconds = None\<rparr>"

definition zero_TargetResourceSpec :: TargetResourceSpec where
  "zero_TargetResourceSpec = \<lparr>tr_APIVersion = [], tr_Kind = [], tr_Namespace = [],
     tr_LabelSelector = None, tr_FieldSelector = None\<rparr>"

definition zero_Spec :: GarbageCollectionPolicySpec where
  "zero_Spec = \<lparr>gs_TargetResource = zero_TargetResourceSpec, gs_TTL = zero_TTLSpec,
     gs_Conditions = None, gs_Behavior = zero_BehaviorSpec, gs_EvaluationInterval = None,
     gs_Paused = False\<rparr>"

definition zero_Status :: GarbageCollectionPolicyStatus where
  "zero_Status = \<lparr>st_Phase = [], st_ResourcesMatched = 0, st_ResourcesDeleted = 0,
     st_ResourcesPending = 0, st_LastGCRun = None, st_NextGCRun = None\<rparr>"

definition zero_Policy :: GarbageCollectionPolicy where
  "zero_Policy = \<lparr>gp_Namespace = [], gp_Name = [], gp_UID = [], gp_Spec = zero_Spec,
     gp_Status = zero_Status\<rparr>"

lemmas zero_defs = zero_Policy_def zero_Status_def zero_Spec_def zero_TargetResourceSpec_def
  zero_BehaviorSpec_def zero_TTLSpec_def

text \<open>
  What the program reads of an object of the cluster. The objects are untyped trees of the
  package unstructured, which the program only touches through accessors: the fields below
  are the results of these accessors on one object. \<open>nestedString\<close> and \<open>nestedInt64\<close>
  give the value, whether it was found, and whether the accessor returned an error.
\<close>

type_synonym 'a nested = "'a \<times> bool \<times> bool"

record resource =
  res_UID :: string
  res_Namespace :: string
  res_Name :: string
  res_APIVersion :: string
  res_Kind :: string
  res_Group :: string
  res_Version :: string
  res_Labels :: "(string, string) gomap"
  res_Annotations :: "(string, string) gomap"
  res_CreationTime :: int
  nestedString :: "string list \<Rightarrow> string nested"
  nestedInt64 :: "string list \<Rightarrow> i64 nested"

text \<open>
  Documented behaviour of the accessors: a value that is found comes without an error.
\<close>

definition nested_lawful :: "resource \<Rightarrow> bool" where
  "nested_lawful r \<longleftrightarrow>
     (\<forall>p v e. nestedString r p = (v, True, e) \<longrightarrow> \<not> e) \<and>
     (\<forall>p v e. nestedInt64 r p = (v, True, e) \<longrightarrow> \<not> e)"

text \<open>An object with no labels and no nested fields, for closed examples.\<close>

definition plain_resource :: "string \<Rightarrow> string \<Rightarrow> int \<Rightarrow> resource" where
  "plain_resource ns name created = \<lparr>res_UID = name, res_Namespace = ns, res_Name = name,
     res_APIVersion = ''v1'', res_Kind = ''ConfigMap'', res_Group = [], res_Version = ''v1'',
     res_Labels = [], res_Annotations = [], res_CreationTime = created,
     nestedString = (\<lambda>_. ([], False, False)), nestedInt64 = (\<lambda>_. (0, False, False))\<rparr>"

end
