(* ===== verification/Field_Path.thy ===== *)
theory Field_Path
  imports Go_Strings
begin

text \<open>
  Field paths. The repository has two parsers of the same name: the one of pkg/controller
  splits at every dot, the one of internal/ttl lets a backslash protect a dot. The theory
  models both, states what they share as a locale and what separates them as theorems.
\<close>

subsection \<open>The two parsers\<close>

definition parseFieldPath :: "string \<Rightarrow> string list" where
  "parseFieldPath path = (if path = [] then [] else split_on (CHR ''.'') path)"

text \<open>The loop of the second parser: the rest of the path, the current segment, the result.\<close>

fun ttl_path_loop :: "string \<Rightarrow> string \<Rightarrow> string list \<Rightarrow> string list" where
  "ttl_path_loop [] current result = result @ [current]"
| "ttl_path_loop [c] current result =
     (if c = CHR ''.'' then ttl_path_loop [] [] (result @ [current])
      else ttl_path_loop [] (current @ [c]) result)"
| "ttl_path_loop (c # d # rest) current result =
     (if c = CHR 0x5C \<and> d = CHR ''.'' then ttl_path_loop rest (current @ [CHR ''.'']) result
      else if c = CHR ''.'' then ttl_path_loop (d # rest) [] (result @ [current])
      else ttl_path_loop (d # rest) (current @ [c]) result)"

definition ttl_parseFieldPath :: "string \<Rightarrow> string list" where
  "ttl_parseFieldPath path = (if path = [] then [] else ttl_path_loop path [] [])"

subsection \<open>What the parsers share\<close>

text \<open>A path has an escape when a backslash stands right before a dot.\<close>

definition has_escape :: "string \<Rightarrow> bool" where
  "has_escape path = contains path [CHR 0x5C, CHR ''.'']"

locale path_parser =
  fixes parse :: "string \<Rightarrow> string list"
  assumes parse_Nil: "parse [] = []"
    and parse_plain: "path \<noteq> [] \<Longrightarrow> \<not> has_escape path \<Longrightarrow> parse path = split_on (CHR ''.'') path"
begin

lemma parse_segment: "path \<noteq> [] \<Longrightarrow> CHR ''.'' \<notin> set path \<Longrightarrow> parse path = [path]"
proof -
  assume path: "path \<noteq> []" "CHR ''.'' \<notin> set path"
  then have "\<not> has_escape path"
    using set_mono_sublist [of "[CHR 0x5C, CHR ''.'']" path]
    by (auto simp: has_escape_def contains_iff_sublist)
  with path show "parse path = [path]"
    by (simp add: parse_plain split_on_single)
qed

lemma parse_join: "\<not> has_escape path \<Longrightarrow> go_join ''.'' (parse path) = path"
  by (cases "path = []") (simp_all add: parse_Nil parse_plain join_split_on)

lemma parse_length:
  "path \<noteq> [] \<Longrightarrow> \<not> has_escape path \<Longrightarrow> length (parse path) = Suc (count_list path (CHR ''.''))"
  by (simp add: parse_plain length_split_on)

end

text \<open>The result accumulator of the loop can be taken out.\<close>

lemma ttl_path_loop_acc: "ttl_path_loop path cur (r @ res) = r @ ttl_path_loop path cur res"
  by (induction path cur res rule: ttl_path_loop.induct) auto

lemma ttl_path_loop_result: "ttl_path_loop path cur res = res @ ttl_path_loop path cur []"
  using ttl_path_loop_acc [of path cur res "[]"] by simp

lemma ttl_path_loop_dot: "ttl_path_loop (CHR ''.'' # rest) cur [] = cur # ttl_path_loop rest [] []"
  using ttl_path_loop_result [of rest "[]" "[cur]"] by (cases rest) auto

lemma ttl_path_loop_plain:
  "c \<noteq> CHR ''.'' \<Longrightarrow> \<not> (c = CHR 0x5C \<and> has_prefix rest ''.'') \<Longrightarrow>
    ttl_path_loop (c # rest) cur [] = ttl_path_loop rest (cur @ [c]) []"
  by (cases rest) auto

lemma ttl_path_loop_escaped:
  "ttl_path_loop (CHR 0x5C # CHR ''.'' # rest) cur [] = ttl_path_loop rest (cur @ ''.'') []"
  by simp

lemma has_escape_Cons:
  "has_escape (c # rest) \<longleftrightarrow> (c = CHR 0x5C \<and> has_prefix rest ''.'') \<or> has_escape rest"
  by (cases rest) (auto simp: has_escape_def)

lemma ttl_path_loop_no_escape:
  "\<not> has_escape path \<Longrightarrow>
    ttl_path_loop path cur [] =
      (cur @ hd (split_on (CHR ''.'') path)) # tl (split_on (CHR ''.'') path)"
proof (induction path arbitrary: cur)
  case Nil
  then show ?case by simp
next
  case (Cons c rest)
  have IH: "ttl_path_loop rest cur' [] =
      (cur' @ hd (split_on (CHR ''.'') rest)) # tl (split_on (CHR ''.'') rest)" for cur'
    using Cons by (simp add: has_escape_Cons)
  obtain y ys where split: "split_on (CHR ''.'') rest = y # ys"
    by (cases "split_on (CHR ''.'') rest") auto
  show ?case
  proof (cases "c = CHR ''.''")
    case True
    then show ?thesis using IH [of "[]"] by (simp add: ttl_path_loop_dot split)
  next
    case False
    then have "ttl_path_loop (c # rest) cur [] = ttl_path_loop rest (cur @ [c]) []"
      using Cons.prems by (intro ttl_path_loop_plain) (auto simp: has_escape_Cons)
    then show ?thesis using IH [of "cur @ [c]"] False by (simp add: split)
  qed
qed

interpretation ctl_path: path_parser parseFieldPath
  by unfold_locales (simp_all add: parseFieldPath_def)

interpretation ttl_path: path_parser ttl_parseFieldPath
proof unfold_locales
  fix path :: string
  assume "path \<noteq> []" and "\<not> has_escape path"
  then show "ttl_parseFieldPath path = split_on (CHR ''.'') path"
    using ttl_path_loop_no_escape [of path "[]"] by (simp add: ttl_parseFieldPath_def)
qed (simp add: ttl_parseFieldPath_def)

text \<open>
  On every path without an escaped dot the parser of internal/ttl and the parser of
  pkg/controller give the same segments, so a TTL path and a selector path of that kind
  address the same field.
\<close>

theorem parsers_agree_without_escape:
  assumes "\<not> has_escape path"
  shows "ttl_parseFieldPath path = parseFieldPath path"
  using assms
  by (cases "path = []")
    (simp_all add: ttl_path.parse_Nil ctl_path.parse_Nil ttl_path.parse_plain ctl_path.parse_plain)

theorem parsers_agree_without_escape_witness:
  "\<not> has_escape ''spec.severity'' \<and> ttl_parseFieldPath ''spec.severity'' = parseFieldPath ''spec.severity''"
  using parsers_agree_without_escape [of "''spec.severity''"]
  by (simp add: has_escape_def)

subsection \<open>Escaping\<close>

text \<open>The path that names the segments \<open>ss\<close>, every dot of a segment escaped.\<close>

definition escape_segment :: "string \<Rightarrow> string" where
  "escape_segment s = concat (map (\<lambda>c. if c = CHR ''.'' then [CHR 0x5C, CHR ''.''] else [c]) s)"

definition path_of_segments :: "string list \<Rightarrow> string" where
  "path_of_segments ss = go_join ''.'' (map escape_segment ss)"

lemma escape_segment_simps [simp]:
  "escape_segment [] = []"
  "escape_segment (c # s) =
     (if c = CHR ''.'' then CHR 0x5C # CHR ''.'' # escape_segment s else c # escape_segment s)"
  by (simp_all add: escape_segment_def)

lemma ttl_path_loop_segment:
  assumes "rest = [] \<or> s = [] \<or> last s \<noteq> CHR 0x5C"
  shows "ttl_path_loop (escape_segment s @ rest) cur [] = ttl_path_loop rest (cur @ s) []"
  using assms
proof (induction s arbitrary: cur)
  case Nil
  then show ?case by simp
next
  case (Cons c s)
  have IH: "ttl_path_loop (escape_segment s @ rest) cur' [] = ttl_path_loop rest (cur' @ s) []" for cur'
    using Cons.prems by (intro Cons.IH) (cases s, auto)
  show ?case
  proof (cases "c = CHR ''.''")
    case True
    then show ?thesis using IH [of "cur @ ''.''"] by simp
  next
    case False
    have "\<not> (c = CHR 0x5C \<and> has_prefix (escape_segment s @ rest) ''.'')"
      using Cons.prems by (cases s) auto
    with False have "ttl_path_loop (c # escape_segment s @ rest) cur [] =
        ttl_path_loop (escape_segment s @ rest) (cur @ [c]) []"
      by (intro ttl_path_loop_plain)
    then show ?thesis using IH [of "cur @ [c]"] False by simp
  qed
qed

lemma ttl_path_loop_segments:
  assumes "ss \<noteq> []" and "\<forall>s\<in>set (butlast ss). s = [] \<or> last s \<noteq> CHR 0x5C"
  shows "ttl_path_loop (path_of_segments ss) [] [] = ss"
  using assms
proof (induction ss)
  case Nil
  then show ?case by simp
next
  case (Cons s ss)
  show ?case
  proof (cases ss)
    case Nil
    then show ?thesis
      using ttl_path_loop_segment [of "[]" s "[]"] by (simp add: path_of_segments_def)
  next
    case (Cons t ts)
    have path: "path_of_segments (s # ss) = escape_segment s @ (CHR ''.'' # path_of_segments ss)"
      by (simp add: path_of_segments_def Cons)
    have "ttl_path_loop (path_of_segments ss) [] [] = ss"
      using Cons.IH Cons.prems Cons by simp
    moreover have "s = [] \<or> last s \<noteq> CHR 0x5C"
      using Cons.prems Cons by simp
    ultimately show ?thesis
      using ttl_path_loop_segment [of "CHR ''.'' # path_of_segments ss" s "[]"]
      by (simp add: path ttl_path_loop_dot)
  qed
qed

text \<open>
  The parser of internal/ttl reads back every list of segments written with escaped
  dots, provided no segment but the last ends in a backslash (the format has no way to
  write such a segment).
\<close>

theorem ttl_parse_path_of_segments:
  assumes "path_of_segments ss \<noteq> []"
    and "\<forall>s\<in>set (butlast ss). s = [] \<or> last s \<noteq> CHR 0x5C"
  shows "ttl_parseFieldPath (path_of_segments ss) = ss"
proof -
  have "ss \<noteq> []"
    using assms(1) by (auto simp: path_of_segments_def)
  then show ?thesis
    using assms ttl_path_loop_segments by (simp add: ttl_parseFieldPath_def)
qed

theorem ttl_parse_path_of_segments_witness:
  "ttl_parseFieldPath (path_of_segments [''metadata'', ''annotations'', ''zen.io/ttl'']) =
    [''metadata'', ''annotations'', ''zen.io/ttl'']"
  by (rule ttl_parse_path_of_segments) (simp_all add: path_of_segments_def)

text \<open>
  The parsers disagree exactly when an escape is present: for an annotation key with a
  dot in it, the TTL parser yields the key, and the parser behind conditions and field
  selectors cuts the key in two and keeps the backslash.
\<close>

theorem parsers_differ_on_escape:
  assumes "CHR ''.'' \<notin> set a" and "CHR ''.'' \<notin> set b"
  shows "ttl_parseFieldPath (a @ [CHR 0x5C, CHR ''.''] @ b) = [a @ ''.'' @ b] \<and>
    parseFieldPath (a @ [CHR 0x5C, CHR ''.''] @ b) = [a @ [CHR 0x5C], b]"
proof
  let ?p = "a @ [CHR 0x5C, CHR ''.''] @ b"
  have id: "escape_segment s = s" if "CHR ''.'' \<notin> set s" for s
    using that by (induction s) auto
  have p: "?p = path_of_segments [a @ ''.'' @ b]"
    using id [OF assms(1)] id [OF assms(2)]
    by (simp add: path_of_segments_def escape_segment_def)
  have "ttl_path_loop ?p [] [] = [a @ ''.'' @ b]"
    unfolding p by (rule ttl_path_loop_segments) simp_all
  then show "ttl_parseFieldPath ?p = [a @ ''.'' @ b]"
    by (simp add: ttl_parseFieldPath_def)
  have "split_on (CHR ''.'') ((a @ [CHR 0x5C]) @ CHR ''.'' # b) = (a @ [CHR 0x5C]) # split_on (CHR ''.'') b"
    using assms(1) by (intro split_on_append) simp
  then show "parseFieldPath ?p = [a @ [CHR 0x5C], b]"
    using assms(2) by (simp add: parseFieldPath_def split_on_single)
qed

theorem parsers_differ_on_escape_witness:
  "ttl_parseFieldPath (''zen'' @ [CHR 0x5C, CHR ''.''] @ ''io'') = [''zen.io''] \<and>
   parseFieldPath (''zen'' @ [CHR 0x5C, CHR ''.''] @ ''io'') = [''zen'' @ [CHR 0x5C], ''io'']"
  using parsers_differ_on_escape [of "''zen''" "''io''"] by simp

end
