(* ===== verification/TTL.thy ===== *)
theory TTL
  imports Go_Time Api_Types Field_Path
begin

text \<open>
  The package internal/ttl: \<open>CalculateExpirationTime\<close> and \<open>IsExpired\<close>, over the \<open>Spec\<close>
  of that package, and the conversion of the policy's \<open>TTLSpec\<close> to it. The clock is read
  once for a relative TTL and once more for the comparison; each reading is an argument.
\<close>

subsection \<open>Configuration and errors\<close>

record Spec =
  sp_SecondsAfterCreation :: "i64 option"
  sp_FieldPath :: string
  sp_Mappings :: "(string, i64) gomap"
  sp_Default :: "i64 option"
  sp_RelativeTo :: string
  sp_SecondsAfter :: "i64 option"

datatype ttl_error =
    ErrNoValidTTLConfiguration
  | ErrFieldPathNotFound string
  | ErrNoMappingForFieldValue string
  | ErrRelativeTimestampFieldNotFound string
  | ErrInvalidTimestampFormat
  | ErrRelativeTTLExpired

definition convertToSDKTTLSpec :: "TTLSpec \<Rightarrow> Spec" where
  "convertToSDKTTLSpec g =
     \<lparr>sp_SecondsAfterCreation = ttl_SecondsAfterCreation g,
      sp_FieldPath = ttl_FieldPath g,
      sp_Mappings = ttl_Mappings g,
      sp_Default = ttl_Default g,
      sp_RelativeTo = ttl_RelativeTo g,
      sp_SecondsAfter = ttl_SecondsAfter g\<rparr>"

subsection \<open>The calculation\<close>

text \<open>
  \<open>CalculateExpirationTime\<close>, branch by branch. In the field branch the error flag and the
  found flag that the last test reads are those of the string access, which overwrites the
  ones of the integer access.
\<close>

definition CalculateExpirationTime ::
    "gotime \<Rightarrow> resource \<Rightarrow> Spec option \<Rightarrow> ttl_error + gotime" where
  "CalculateExpirationTime now resource ospec = (case ospec of
     None \<Rightarrow> Inl ErrNoValidTTLConfiguration
   | Some spec \<Rightarrow>
     (case sp_SecondsAfterCreation spec of
        Some secs \<Rightarrow> Inr (time_Add (res_CreationTime resource) (seconds secs))
      | None \<Rightarrow>
        if sp_FieldPath spec \<noteq> [] then
          (let fieldPath = ttl_parseFieldPath (sp_FieldPath spec);
               (val, found, err) = nestedInt64 resource fieldPath
           in if \<not> err \<and> found then Inr (time_Add (res_CreationTime resource) (seconds val))
              else
                let (strValue, found, err) = nestedString resource fieldPath
                in if \<not> err \<and> found \<and> sp_Mappings spec \<noteq> [] then
                     (case map_of (sp_Mappings spec) strValue of
                        Some mapped \<Rightarrow> Inr (time_Add (res_CreationTime resource) (seconds mapped))
                      | None \<Rightarrow>
                        (case sp_Default spec of
                           Some d \<Rightarrow> Inr (time_Add (res_CreationTime resource) (seconds d))
                         | None \<Rightarrow> Inl (ErrNoMappingForFieldValue strValue)))
                   else
                     (case sp_Default spec of
                        Some d \<Rightarrow>
                          if \<not> found then Inr (time_Add (res_CreationTime resource) (seconds d))
                          else Inl (ErrFieldPathNotFound (sp_FieldPath spec))
                      | None \<Rightarrow> Inl (ErrFieldPathNotFound (sp_FieldPath spec))))
        else if sp_RelativeTo spec \<noteq> [] \<and> sp_SecondsAfter spec \<noteq> None then
          (let fieldPath = ttl_parseFieldPath (sp_RelativeTo spec);
               (timestampStr, found, err) = nestedString resource fieldPath
           in if err \<or> \<not> found then Inl (ErrRelativeTimestampFieldNotFound (sp_RelativeTo spec))
              else (case parse_rfc3339 timestampStr of
                      None \<Rightarrow> Inl ErrInvalidTimestampFormat
                    | Some timestamp \<Rightarrow>
                        let expirationTime =
                              time_Add timestamp (seconds (the (sp_SecondsAfter spec)))
                        in if time_After now expirationTime then Inl ErrRelativeTTLExpired
                           else Inr expirationTime))
        else Inl ErrNoValidTTLConfiguration))"

text \<open>\<open>now1\<close> is the reading inside the calculation, \<open>now2\<close> the later one.\<close>

definition IsExpired ::
    "gotime \<Rightarrow> gotime \<Rightarrow> resource \<Rightarrow> Spec option \<Rightarrow> ttl_error + bool" where
  "IsExpired now1 now2 resource spec = (case CalculateExpirationTime now1 resource spec of
     Inl e \<Rightarrow> Inl e
   | Inr expirationTime \<Rightarrow>
       if time_IsZero expirationTime then Inr False
       else Inr (time_After now2 expirationTime))"

definition calculateExpirationTimeShared ::
    "gotime \<Rightarrow> resource \<Rightarrow> TTLSpec \<Rightarrow> ttl_error + gotime" where
  "calculateExpirationTimeShared now resource ttlSpec =
     CalculateExpirationTime now resource (Some (convertToSDKTTLSpec ttlSpec))"

subsection \<open>What a TTL promises\<close>

text \<open>
  The four modes, without the arithmetic of the machine: a TTL is an instant to count from
  and a number of seconds; only a relative TTL may be reported as already over.
\<close>

datatype ttl_plan = FromCreation i64 | FromField gotime i64

definition field_plan :: "resource \<Rightarrow> Spec \<Rightarrow> ttl_error + ttl_plan" where
  "field_plan r spec =
     (let p = ttl_parseFieldPath (sp_FieldPath spec);
          (iv, ifound, ierr) = nestedInt64 r p;
          (sv, sfound, serr) = nestedString r p;
          orElse = (\<lambda>e. case sp_Default spec of Some d \<Rightarrow> Inr (FromCreation d) | None \<Rightarrow> Inl e)
      in if ifound \<and> \<not> ierr then Inr (FromCreation iv)
         else if sfound \<and> \<not> serr \<and> sp_Mappings spec \<noteq> [] then
           (case map_of (sp_Mappings spec) sv of
              Some s \<Rightarrow> Inr (FromCreation s) | None \<Rightarrow> orElse (ErrNoMappingForFieldValue sv))
         else if sfound then Inl (ErrFieldPathNotFound (sp_FieldPath spec))
         else orElse (ErrFieldPathNotFound (sp_FieldPath spec)))"

definition relative_plan :: "resource \<Rightarrow> Spec \<Rightarrow> i64 \<Rightarrow> ttl_error + ttl_plan" where
  "relative_plan r spec secs =
     (let (s, found, err) = nestedString r (ttl_parseFieldPath (sp_RelativeTo spec))
      in if err \<or> \<not> found then Inl (ErrRelativeTimestampFieldNotFound (sp_RelativeTo spec))
         else (case parse_rfc3339 s of None \<Rightarrow> Inl ErrInvalidTimestampFormat
               | Some t \<Rightarrow> Inr (FromField t secs)))"

definition ttl_plan_of :: "resource \<Rightarrow> Spec \<Rightarrow> ttl_error + ttl_plan" where
  "ttl_plan_of r spec = (case sp_SecondsAfterCreation spec of
     Some s \<Rightarrow> Inr (FromCreation s)
   | None \<Rightarrow>
     if sp_FieldPath spec \<noteq> [] then field_plan r spec
     else (case sp_SecondsAfter spec of
             Some s \<Rightarrow> if sp_RelativeTo spec \<noteq> [] then relative_plan r spec s
                       else Inl ErrNoValidTTLConfiguration
           | None \<Rightarrow> Inl ErrNoValidTTLConfiguration))"

fun plan_seconds :: "ttl_plan \<Rightarrow> i64" where
  "plan_seconds (FromCreation s) = s"
| "plan_seconds (FromField t s) = s"

fun plan_base :: "resource \<Rightarrow> ttl_plan \<Rightarrow> gotime" where
  "plan_base r (FromCreation s) = res_CreationTime r"
| "plan_base r (FromField t s) = t"

text \<open>The deadline in exact arithmetic.\<close>

definition plan_deadline :: "resource \<Rightarrow> ttl_plan \<Rightarrow> gotime" where
  "plan_deadline r p = plan_base r p + sint (plan_seconds p) * 1000000000"

definition plan_in_range :: "ttl_plan \<Rightarrow> bool" where
  "plan_in_range p \<longleftrightarrow> \<bar>sint (plan_seconds p)\<bar> \<le> 9223372036"

definition plan_result :: "gotime \<Rightarrow> resource \<Rightarrow> ttl_plan \<Rightarrow> ttl_error + gotime" where
  "plan_result now r p =
     (let t = time_Add (plan_base r p) (seconds (plan_seconds p))
      in case p of FromCreation _ \<Rightarrow> Inr t
         | FromField _ _ \<Rightarrow> if time_After now t then Inl ErrRelativeTTLExpired else Inr t)"

lemma CalculateExpirationTime_None [simp]:
  "CalculateExpirationTime now r None = Inl ErrNoValidTTLConfiguration"
  by (simp add: CalculateExpirationTime_def)

text \<open>The code computes the plan and then its deadline.\<close>

lemma CalculateExpirationTime_plan:
  "CalculateExpirationTime now r (Some spec) = andThen (ttl_plan_of r spec) (plan_result now r)"
  by (auto simp: CalculateExpirationTime_def ttl_plan_of_def field_plan_def relative_plan_def
      plan_result_def Let_def split: option.splits prod.splits)

lemma plan_time_in_range:
  "plan_in_range p \<Longrightarrow> time_Add (plan_base r p) (seconds (plan_seconds p)) = plan_deadline r p"
  by (simp add: plan_in_range_def time_Add_def plan_deadline_def sint_seconds)

text \<open>
  C7. Refinement: whenever the number of seconds fits (at most 9223372036, some 292 years),
  \<open>CalculateExpirationTime\<close> returns the exact deadline of the mode that the configuration
  selects, and reports a relative TTL as over exactly when the clock has passed it.
\<close>

theorem CalculateExpirationTime_exact:
  assumes "ttl_plan_of r spec = Inr p" and "plan_in_range p"
  shows "CalculateExpirationTime now r (Some spec) =
    (case p of
       FromCreation _ \<Rightarrow> Inr (plan_deadline r p)
     | FromField _ _ \<Rightarrow>
         if plan_deadline r p < now then Inl ErrRelativeTTLExpired else Inr (plan_deadline r p))"
  using assms plan_time_in_range [OF assms(2), of r]
  by (simp add: CalculateExpirationTime_plan plan_result_def time_After_def split: ttl_plan.split)

text \<open>A configuration with a fixed TTL, and a resource made at the start of the year 1970.\<close>

definition fixed_ttl :: "i64 \<Rightarrow> Spec" where
  "fixed_ttl s = \<lparr>sp_SecondsAfterCreation = Some s, sp_FieldPath = [], sp_Mappings = [],
     sp_Default = None, sp_RelativeTo = [], sp_SecondsAfter = None\<rparr>"

lemma ttl_plan_fixed [simp]: "ttl_plan_of r (fixed_ttl s) = Inr (FromCreation s)"
  by (simp add: ttl_plan_of_def fixed_ttl_def)

theorem CalculateExpirationTime_exact_witness:
  "CalculateExpirationTime 7 (plain_resource ''ns'' ''x'' 100) (Some (fixed_ttl 3600)) =
    Inr 3600000000100"
  using CalculateExpirationTime_exact
    [of "plain_resource ''ns'' ''x'' 100" "fixed_ttl 3600" "FromCreation 3600" 7]
  by (simp add: plan_in_range_def plan_deadline_def plain_resource_def)

text \<open>
  Wrap-around: a fixed TTL of more than 9223372036 seconds (and less than twice that)
  multiplies past the range of \<open>time.Duration\<close> and comes out negative, so the expiration
  time lies before the creation of the resource and the resource counts as expired at once.
\<close>

theorem long_fixed_ttl_expires_in_the_past:
  assumes "sp_SecondsAfterCreation spec = Some s"
    and "9223372036 < sint s" and "sint s \<le> 18446744073"
  shows "\<exists>t. CalculateExpirationTime now r (Some spec) = Inr t \<and> t < res_CreationTime r"
proof -
  have "seconds s = word_of_int (sint s * 1000000000 - 2 ^ 64)"
  proof -
    have "seconds s = word_of_int (sint s * 1000000000)"
      by (simp add: seconds_def time_Second_def)
    also have "\<dots> = word_of_int (sint s * 1000000000 - 2 ^ 64)"
      by (simp add: word_of_int_eq_iff take_bit_eq_mod)
    finally show ?thesis .
  qed
  then have "sint (seconds s) = sint s * 1000000000 - 2 ^ 64"
    using assms(2,3) by (simp only:) (rule sint_i64_of_int; simp)
  then have "sint (seconds s) < 0"
    using assms(3) by simp
  then show ?thesis
    using assms(1)
    by (simp add: CalculateExpirationTime_plan ttl_plan_of_def plan_result_def time_Add_def)
qed

theorem long_fixed_ttl_expires_in_the_past_witness:
  "\<exists>t. CalculateExpirationTime 0 (plain_resource ''ns'' ''x'' 100) (Some (fixed_ttl 9223372037)) =
     Inr t \<and> t < 100"
  using long_fixed_ttl_expires_in_the_past
    [of "fixed_ttl 9223372037" 9223372037 0 "plain_resource ''ns'' ''x'' 100"]
  by (simp add: fixed_ttl_def plain_resource_def)

text \<open>
  \<open>IsExpired\<close> decides exactly: it returns true only when the later clock reading is
  past the computed expiration time, never for the zero time, and it fails exactly when the
  calculation fails. An elapsed relative TTL is such a failure, so \<open>IsExpired\<close> reports it
  as the error \<open>ErrRelativeTTLExpired\<close> and not as expired.
\<close>

theorem IsExpired_characterised:
  "IsExpired now1 now2 r spec =
     andThen (CalculateExpirationTime now1 r spec) (\<lambda>t. Inr (t \<noteq> 0 \<and> t < now2)) \<and>
   (\<forall>base secs. \<forall>sp. spec = Some sp \<and> ttl_plan_of r sp = Inr (FromField base secs) \<and>
      base + sint (seconds secs) < now1 \<longrightarrow>
      IsExpired now1 now2 r spec = Inl ErrRelativeTTLExpired)"
  by (auto simp: IsExpired_def time_IsZero_def time_After_def CalculateExpirationTime_plan
      plan_result_def time_Add_def split: sum.split)

text \<open>A resource whose status says when it was last processed, and a TTL relative to it.\<close>

definition processed_resource :: "string \<Rightarrow> resource" where
  "processed_resource ts = (plain_resource ''ns'' ''job'' 100)
     \<lparr>nestedString := (\<lambda>p. if p = [''status'', ''lastProcessedAt''] then (ts, True, False)
                          else ([], False, False))\<rparr>"

definition relative_ttl :: "i64 \<Rightarrow> Spec" where
  "relative_ttl s = \<lparr>sp_SecondsAfterCreation = None, sp_FieldPath = [], sp_Mappings = [],
     sp_Default = None, sp_RelativeTo = ''status.lastProcessedAt'', sp_SecondsAfter = Some s\<rparr>"

lemma relative_plan_example:
  "ttl_plan_of (processed_resource ''1970-01-01T00:00:00Z'') (relative_ttl 60) =
     Inr (FromField 62135596800000000000 60)"
proof -
  have "ttl_parseFieldPath ''status.lastProcessedAt'' = [''status'', ''lastProcessedAt'']"
    by (simp add: ttl_parseFieldPath_def)
  then show ?thesis
    by (simp add: ttl_plan_of_def relative_ttl_def relative_plan_def processed_resource_def
        parse_rfc3339_epoch)
qed

theorem IsExpired_characterised_witness:
  "IsExpired 62135596860000000001 62135596860000000001
     (processed_resource ''1970-01-01T00:00:00Z'') (Some (relative_ttl 60)) =
     Inl ErrRelativeTTLExpired"
proof -
  have "62135596800000000000 + sint (seconds 60) < (62135596860000000001 :: int)"
    using sint_seconds [of 60] by simp
  then show ?thesis
    using IsExpired_characterised [of 62135596860000000001 62135596860000000001
        "processed_resource ''1970-01-01T00:00:00Z''" "Some (relative_ttl 60)"]
      relative_plan_example by blast
qed

text \<open>The precedence of the modes: a field path hides a relative TTL.\<close>

lemma field_path_hides_relative:
  "sp_FieldPath spec \<noteq> [] \<Longrightarrow>
     ttl_plan_of r (spec\<lparr>sp_RelativeTo := rel, sp_SecondsAfter := sa\<rparr>) = ttl_plan_of r spec"
  by (auto simp: ttl_plan_of_def field_plan_def Let_def split: option.splits prod.splits)

end
