(* ===== verification/Selectors.thy ===== *)
theory Selectors
  imports Api_Types Field_Path "HOL-Library.Multiset"
begin

text \<open>
  Which resources a policy targets: \<open>matchesSelectorsShared\<close> of pkg/controller/shared.go,
  the namespace normalisation of reconciler_helpers.go, and the comparison of label selectors
  of label_selectors.go that decides whether an informer is out of date. Turning a label
  selector into a predicate on labels is the work of the Kubernetes API machinery: it is the
  parameter \<open>as_selector\<close>, where \<open>None\<close> is a selector that it rejects.
\<close>

type_synonym as_selector = "LabelSelector \<Rightarrow> ((string, string) gomap \<Rightarrow> bool) option"

subsection \<open>Matching\<close>

definition matchFieldSelector :: "resource \<Rightarrow> (string, string) gomap \<Rightarrow> bool" where
  "matchFieldSelector resource matchFields = list_all (\<lambda>(key, val).
     let (fieldValue, found, err) = nestedString resource (parseFieldPath key)
     in \<not> (err \<or> \<not> found \<or> fieldValue \<noteq> val)) matchFields"

definition matchesSelectorsShared ::
    "as_selector \<Rightarrow> resource \<Rightarrow> TargetResourceSpec \<Rightarrow> bool" where
  "matchesSelectorsShared as_selector resource target =
     (let namespace = (if tr_Namespace target = [] then ''*'' else tr_Namespace target)
      in if namespace \<noteq> ''*'' \<and> res_Namespace resource \<noteq> namespace then False
         else if (case tr_LabelSelector target of
                    None \<Rightarrow> False
                  | Some ls \<Rightarrow> (case as_selector ls of
                                  None \<Rightarrow> True
                                | Some matches \<Rightarrow> \<not> matches (res_Labels resource)))
         then False
         else (case tr_FieldSelector target of
                 None \<Rightarrow> True
               | Some fs \<Rightarrow> matchFieldSelector resource (fs_MatchFields fs)))"

definition normalizeNamespace :: "string \<Rightarrow> string" where
  "normalizeNamespace namespace =
     (let namespace = (if namespace = [] then ''*'' else namespace)
      in if namespace = ''*'' then [] else namespace)"

text \<open>The three tests as one conjunction.\<close>

definition in_namespace :: "string \<Rightarrow> resource \<Rightarrow> bool" where
  "in_namespace ns r \<longleftrightarrow> ns = [] \<or> ns = ''*'' \<or> res_Namespace r = ns"

definition labels_selected :: "as_selector \<Rightarrow> LabelSelector option \<Rightarrow> resource \<Rightarrow> bool" where
  "labels_selected as_selector ols r \<longleftrightarrow>
     (\<forall>ls. ols = Some ls \<longrightarrow> (\<exists>matches. as_selector ls = Some matches \<and> matches (res_Labels r)))"

definition field_equals :: "resource \<Rightarrow> string \<Rightarrow> string \<Rightarrow> bool" where
  "field_equals r path v \<longleftrightarrow> nestedString r (parseFieldPath path) = (v, True, False)"

definition fields_selected :: "FieldSelectorSpec option \<Rightarrow> resource \<Rightarrow> bool" where
  "fields_selected ofs r \<longleftrightarrow>
     (\<forall>fs. ofs = Some fs \<longrightarrow> (\<forall>(k, v)\<in>set (fs_MatchFields fs). field_equals r k v))"

lemma matchFieldSelector_iff:
  "matchFieldSelector r mf \<longleftrightarrow> (\<forall>(k, v)\<in>set mf. field_equals r k v)"
  unfolding matchFieldSelector_def field_equals_def list_all_iff Let_def
  by (rule ball_cong) (auto split: prod.splits)

text \<open>
  C24. A resource matches a target exactly when its namespace, labels and fields all match: an
  empty or starred namespace admits every resource, a missing selector admits every resource,
  and a label selector that cannot be converted admits none. So an empty namespace does not
  stand for the namespace of the policy, as the comment at \<open>validateNamespace\<close> has it.
\<close>

theorem matchesSelectorsShared_iff:
  "matchesSelectorsShared as_selector r target \<longleftrightarrow>
     in_namespace (tr_Namespace target) r \<and>
     labels_selected as_selector (tr_LabelSelector target) r \<and>
     fields_selected (tr_FieldSelector target) r"
  by (auto simp: matchesSelectorsShared_def in_namespace_def labels_selected_def
      fields_selected_def matchFieldSelector_iff Let_def split: option.splits)

theorem matchesSelectorsShared_iff_witness:
  "\<not> matchesSelectorsShared (\<lambda>_. None) (plain_resource ''ns'' ''x'' 0)
     (zero_TargetResourceSpec\<lparr>tr_LabelSelector := Some \<lparr>ls_MatchLabels = [], ls_MatchExpressions = []\<rparr>\<rparr>)"
  unfolding matchesSelectorsShared_iff by (simp add: labels_selected_def zero_defs)

lemma matchesSelectorsShared_namespace:
  "matchesSelectorsShared as_selector r target \<Longrightarrow> in_namespace (tr_Namespace target) r"
  by (auto simp: matchesSelectorsShared_def in_namespace_def Let_def split: if_splits)

text \<open>The order in which Go visits the map of a field selector has no effect.\<close>

lemma matchFieldSelector_order:
  "mset mf = mset mf' \<Longrightarrow> matchFieldSelector r mf = matchFieldSelector r mf'"
  unfolding matchFieldSelector_iff by (metis set_mset_mset)

text \<open>The namespace an informer watches is the one the matcher admits.\<close>

lemma normalizeNamespace_simps [simp]:
  "normalizeNamespace [] = []" "normalizeNamespace ''*'' = []"
  by (simp_all add: normalizeNamespace_def)

lemma normalizeNamespace_idem [simp]:
  "normalizeNamespace (normalizeNamespace ns) = normalizeNamespace ns"
  by (simp add: normalizeNamespace_def)

lemma in_namespace_normalize: "in_namespace (normalizeNamespace ns) r = in_namespace ns r"
  by (auto simp: in_namespace_def normalizeNamespace_def)

subsection \<open>The interface of a selector matcher\<close>

text \<open>
  The \<open>SelectorMatcher\<close> interface: its implementations promise that a match respects the
  namespace of the target.
\<close>

locale selector_matcher =
  fixes matches_selectors :: "resource \<Rightarrow> TargetResourceSpec \<Rightarrow> bool"
  assumes matches_namespace: "matches_selectors r t \<Longrightarrow> in_namespace (tr_Namespace t) r"
begin

lemma filter_namespace:
  "r \<in> set (filter (\<lambda>r. matches_selectors r t) rs) \<Longrightarrow>
    tr_Namespace t \<noteq> [] \<Longrightarrow> tr_Namespace t \<noteq> ''*'' \<Longrightarrow> res_Namespace r = tr_Namespace t"
  using matches_namespace by (auto simp: in_namespace_def)

end

interpretation shared_matcher: selector_matcher "matchesSelectorsShared as_selector"
  by unfold_locales (rule matchesSelectorsShared_namespace)

subsection \<open>Comparing label selectors\<close>

definition matchLabelsEqual :: "(string, string) gomap \<Rightarrow> (string, string) gomap \<Rightarrow> bool" where
  "matchLabelsEqual a b =
     (if length a \<noteq> length b then False else list_all (\<lambda>(k, v). go_index [] b k = v) a)"

fun values_equal :: "string list \<Rightarrow> string list \<Rightarrow> bool" where
  "values_equal [] bs = True"
| "values_equal (v # vs) [] = False"
| "values_equal (v # vs) (b # bs) = (if v \<noteq> b then False else values_equal vs bs)"

definition labelSelectorRequirementEqual ::
    "LabelSelectorRequirement \<Rightarrow> LabelSelectorRequirement \<Rightarrow> bool" where
  "labelSelectorRequirementEqual a b =
     (if req_Key a \<noteq> req_Key b \<or> req_Operator a \<noteq> req_Operator b \<or>
         length (req_Values a) \<noteq> length (req_Values b) then False
      else values_equal (req_Values a) (req_Values b))"

fun requirements_equal ::
    "LabelSelectorRequirement list \<Rightarrow> LabelSelectorRequirement list \<Rightarrow> bool" where
  "requirements_equal [] bs = True"
| "requirements_equal (a # as) [] = False"
| "requirements_equal (a # as) (b # bs) =
     (if \<not> labelSelectorRequirementEqual a b then False else requirements_equal as bs)"

definition matchExpressionsEqual ::
    "LabelSelectorRequirement list \<Rightarrow> LabelSelectorRequirement list \<Rightarrow> bool" where
  "matchExpressionsEqual a b = (if length a \<noteq> length b then False else requirements_equal a b)"

definition labelSelectorsEqual :: "LabelSelector option \<Rightarrow> LabelSelector option \<Rightarrow> bool" where
  "labelSelectorsEqual oa ob = (case (oa, ob) of
     (None, None) \<Rightarrow> True
   | (Some a, Some b) \<Rightarrow>
       if \<not> matchLabelsEqual (ls_MatchLabels a) (ls_MatchLabels b) then False
       else matchExpressionsEqual (ls_MatchExpressions a) (ls_MatchExpressions b)
   | _ \<Rightarrow> False)"

lemma values_equal_iff: "length as = length bs \<Longrightarrow> values_equal as bs \<longleftrightarrow> as = bs"
  by (induction as bs rule: list_induct2) auto

lemma labelSelectorRequirementEqual_iff [simp]: "labelSelectorRequirementEqual a b \<longleftrightarrow> a = b"
proof -
  have "a = b" if "req_Key a = req_Key b" "req_Operator a = req_Operator b"
      "req_Values a = req_Values b"
    using that by (cases a, cases b) simp
  then show ?thesis
    by (auto simp: labelSelectorRequirementEqual_def values_equal_iff)
qed

lemma requirements_equal_iff: "length as = length bs \<Longrightarrow> requirements_equal as bs \<longleftrightarrow> as = bs"
  by (induction as bs rule: list_induct2) auto

lemma matchExpressionsEqual_iff [simp]: "matchExpressionsEqual a b \<longleftrightarrow> a = b"
  by (auto simp: matchExpressionsEqual_def requirements_equal_iff)

lemma matchLabelsEqual_refl: "wf_map a \<Longrightarrow> matchLabelsEqual a a"
  by (auto simp: matchLabelsEqual_def list_all_iff)

lemma matchLabelsEqual_complete:
  assumes "wf_map a" and "wf_map b" and "map_of a = map_of b"
  shows "matchLabelsEqual a b"
proof -
  have "length a = length b"
    using assms wf_map_length_le [of a b] wf_map_length_le [of b a] by simp
  then show ?thesis
    using assms by (auto simp: matchLabelsEqual_def list_all_iff simp flip: assms(3))
qed

text \<open>
  On label maps whose values are not empty the comparison of selectors is exact: it
  answers true if and only if both selectors are absent, or both have the same labels (as
  maps) and the same list of expressions.
\<close>

theorem labelSelectorsEqual_exact:
  assumes "wf_map (ls_MatchLabels a)" and "wf_map (ls_MatchLabels b)"
    and "\<forall>v\<in>snd ` set (ls_MatchLabels a). v \<noteq> []"
  shows "labelSelectorsEqual (Some a) (Some b) \<longleftrightarrow>
    map_of (ls_MatchLabels a) = map_of (ls_MatchLabels b) \<and>
    ls_MatchExpressions a = ls_MatchExpressions b"
proof -
  let ?a = "ls_MatchLabels a" and ?b = "ls_MatchLabels b"
  have "map_of ?a = map_of ?b" if eq: "matchLabelsEqual ?a ?b"
  proof (rule wf_map_eq_by_subset)
    fix k v assume "map_of ?a k = Some v"
    then have "(k, v) \<in> set ?a" by (rule map_of_SomeD)
    with eq assms(3) have "go_index [] ?b k = v" "v \<noteq> []"
      by (auto simp: matchLabelsEqual_def list_all_iff split: if_splits)
    then show "map_of ?b k = Some v"
      by (auto simp: go_index_def split: option.splits)
  qed (use assms eq in \<open>simp_all add: matchLabelsEqual_def split: if_splits\<close>)
  with matchLabelsEqual_complete [OF assms(1,2)] show ?thesis
    by (auto simp: labelSelectorsEqual_def)
qed

definition labels_only :: "(string, string) gomap \<Rightarrow> LabelSelector" where
  "labels_only m = \<lparr>ls_MatchLabels = m, ls_MatchExpressions = []\<rparr>"

theorem labelSelectorsEqual_exact_witness:
  "\<not> labelSelectorsEqual (Some (labels_only [(''app'', ''a'')])) (Some (labels_only [(''app'', ''b'')]))"
  using labelSelectorsEqual_exact
    [of "labels_only [(''app'', ''a'')]" "labels_only [(''app'', ''b'')]"]
  by (simp add: labels_only_def fun_eq_iff exI [of _ "''app''"])

text \<open>
  With empty values the comparison is not exact: Go's map access gives the empty string
  for a missing key, so two selectors that ask for different keys, one of them with the empty
  value, compare as equal and a change from one to the other goes unnoticed.
\<close>

theorem labelSelectorsEqual_confuses_missing_and_empty:
  assumes "k \<noteq> k'"
  shows "labelSelectorsEqual (Some (labels_only [(k, [])])) (Some (labels_only [(k', v)])) \<and>
    map_of (ls_MatchLabels (labels_only [(k, [])])) \<noteq> map_of (ls_MatchLabels (labels_only [(k', v)]))"
  using assms
  by (auto simp: labelSelectorsEqual_def matchLabelsEqual_def labels_only_def fun_eq_iff)

theorem labelSelectorsEqual_confuses_missing_and_empty_witness:
  "labelSelectorsEqual (Some (labels_only [(''temp'', [])])) (Some (labels_only [(''app'', ''prod'')]))"
  using labelSelectorsEqual_confuses_missing_and_empty [of "''temp''" "''app''" "''prod''"] by simp

end
