(* ===== verification/Conditions.thy ===== *)
theory Conditions
  imports Selectors
begin

text \<open>
  The deletion conditions of pkg/controller/shared.go: phases, label conditions, annotation
  conditions and field conditions, each with the early returns of its loop. The specification
  is one conjunction over all the conditions, from which the order of the lists has vanished.
\<close>

subsection \<open>The code\<close>

fun phase_in :: "string \<Rightarrow> string list \<Rightarrow> bool" where
  "phase_in phase [] = False"
| "phase_in phase (p # ps) = (if phase = p then True else phase_in phase ps)"

definition meetsPhaseConditionsShared :: "resource \<Rightarrow> string list \<Rightarrow> bool" where
  "meetsPhaseConditionsShared resource phases =
     (if phases = [] then True
      else let (phase, found, _) = nestedString resource [''status'', ''phase'']
           in if \<not> found then False else phase_in phase phases)"

fun meetsLabelConditions_loop ::
    "(string, string) gomap \<Rightarrow> LabelCondition list \<Rightarrow> bool" where
  "meetsLabelConditions_loop resourceLabels [] = True"
| "meetsLabelConditions_loop resourceLabels (labelCond # rest) =
     (let val = go_index [] resourceLabels (lc_Key labelCond);
          ex = (map_of resourceLabels (lc_Key labelCond) \<noteq> None);
          op = lc_Operator labelCond;
          continue = meetsLabelConditions_loop resourceLabels rest
      in if op = ''Exists'' then (if \<not> ex then False else continue)
         else if op = ''Equals'' \<or> op = [] then
           (if \<not> ex \<or> val \<noteq> lc_Value labelCond then False else continue)
         else if op = ''In'' then
           (if \<not> ex then False
            else
              let found = (if lc_Value labelCond \<noteq> [] then val = lc_Value labelCond else False)
              in if \<not> found then False else continue)
         else if op = ''NotIn'' then
           (if \<not> ex then continue
            else if val = lc_Value labelCond then False else continue)
         else False)"

definition meetsLabelConditionsShared :: "resource \<Rightarrow> LabelCondition list \<Rightarrow> bool" where
  "meetsLabelConditionsShared resource labelConds =
     meetsLabelConditions_loop (res_Labels resource) labelConds"

fun meetsAnnotationConditions_loop ::
    "(string, string) gomap \<Rightarrow> AnnotationCondition list \<Rightarrow> bool" where
  "meetsAnnotationConditions_loop annotations [] = True"
| "meetsAnnotationConditions_loop annotations (annCond # rest) =
     (let val = go_index [] annotations (ac_Key annCond);
          ex = (map_of annotations (ac_Key annCond) \<noteq> None)
      in if \<not> ex \<or> val \<noteq> ac_Value annCond then False
         else meetsAnnotationConditions_loop annotations rest)"

definition meetsAnnotationConditionsShared ::
    "resource \<Rightarrow> AnnotationCondition list \<Rightarrow> bool" where
  "meetsAnnotationConditionsShared resource annConds =
     meetsAnnotationConditions_loop (res_Annotations resource) annConds"

fun value_in :: "string \<Rightarrow> string list \<Rightarrow> bool" where
  "value_in fieldValue [] = False"
| "value_in fieldValue (v # vs) = (if fieldValue = v then True else value_in fieldValue vs)"

definition matchesFieldOperatorShared :: "string \<Rightarrow> FieldCondition \<Rightarrow> bool" where
  "matchesFieldOperatorShared fieldValue fieldCond =
     (let op = fc_Operator fieldCond
      in if op = ''Equals'' then fieldValue = fc_Value fieldCond
         else if op = ''NotEquals'' then fieldValue \<noteq> fc_Value fieldCond
         else if op = ''In'' then value_in fieldValue (fc_Values fieldCond)
         else if op = ''NotIn'' then \<not> value_in fieldValue (fc_Values fieldCond)
         else False)"

fun meetsFieldConditionsShared :: "resource \<Rightarrow> FieldCondition list \<Rightarrow> bool" where
  "meetsFieldConditionsShared resource [] = True"
| "meetsFieldConditionsShared resource (fieldCond # rest) =
     (let (fieldValue, found, _) = nestedString resource (parseFieldPath (fc_FieldPath fieldCond))
      in if \<not> found then False
         else if \<not> matchesFieldOperatorShared fieldValue fieldCond then False
         else meetsFieldConditionsShared resource rest)"

definition meetsConditionsShared :: "resource \<Rightarrow> ConditionsSpec \<Rightarrow> bool" where
  "meetsConditionsShared resource conditions =
     (if \<not> meetsPhaseConditionsShared resource (cs_Phase conditions) then False
      else if \<not> meetsLabelConditionsShared resource (cs_HasLabels conditions) then False
      else if \<not> meetsAnnotationConditionsShared resource (cs_HasAnnotations conditions) then False
      else if \<not> meetsFieldConditionsShared resource (cs_And conditions) then False
      else True)"

subsection \<open>The meaning of one condition\<close>

definition phase_ok :: "resource \<Rightarrow> string list \<Rightarrow> bool" where
  "phase_ok r phases \<longleftrightarrow> phases = [] \<or>
     (\<exists>ph\<in>set phases. \<exists>err. nestedString r [''status'', ''phase''] = (ph, True, err))"

definition label_ok :: "(string, string) gomap \<Rightarrow> LabelCondition \<Rightarrow> bool" where
  "label_ok labels c =
     (let l = map_of labels (lc_Key c); v = lc_Value c
      in if lc_Operator c = ''Exists'' then l \<noteq> None
         else if lc_Operator c \<in> {''Equals'', []} then l = Some v
         else if lc_Operator c = ''In'' then v \<noteq> [] \<and> l = Some v
         else lc_Operator c = ''NotIn'' \<and> l \<noteq> Some v)"

definition annotation_ok :: "(string, string) gomap \<Rightarrow> AnnotationCondition \<Rightarrow> bool" where
  "annotation_ok annotations c \<longleftrightarrow> map_of annotations (ac_Key c) = Some (ac_Value c)"

definition operator_ok :: "string \<Rightarrow> FieldCondition \<Rightarrow> bool" where
  "operator_ok v c \<longleftrightarrow>
     fc_Operator c = ''Equals'' \<and> v = fc_Value c \<or>
     fc_Operator c = ''NotEquals'' \<and> v \<noteq> fc_Value c \<or>
     fc_Operator c = ''In'' \<and> v \<in> set (fc_Values c) \<or>
     fc_Operator c = ''NotIn'' \<and> v \<notin> set (fc_Values c)"

definition field_ok :: "resource \<Rightarrow> FieldCondition \<Rightarrow> bool" where
  "field_ok r c \<longleftrightarrow>
     (\<exists>v err. nestedString r (parseFieldPath (fc_FieldPath c)) = (v, True, err) \<and> operator_ok v c)"

lemma phase_in_iff: "phase_in p ps \<longleftrightarrow> p \<in> set ps"
  by (induction ps) auto

lemma value_in_iff [simp]: "value_in v vs \<longleftrightarrow> v \<in> set vs"
  by (induction vs) auto

lemma meetsPhase_iff: "meetsPhaseConditionsShared r phases \<longleftrightarrow> phase_ok r phases"
  by (auto simp: meetsPhaseConditionsShared_def phase_ok_def phase_in_iff Let_def
      split: prod.splits)

lemma meetsLabel_step:
  "meetsLabelConditions_loop labels (c # cs) \<longleftrightarrow>
     label_ok labels c \<and> meetsLabelConditions_loop labels cs"
  by (cases "map_of labels (lc_Key c)") (auto simp: label_ok_def Let_def)

declare meetsLabelConditions_loop.simps(2) [simp del]

lemma meetsLabel_iff:
  "meetsLabelConditions_loop labels cs \<longleftrightarrow> (\<forall>c\<in>set cs. label_ok labels c)"
  by (induction cs) (auto simp: meetsLabel_step)

lemma meetsAnnotation_iff:
  "meetsAnnotationConditions_loop annotations cs \<longleftrightarrow> (\<forall>c\<in>set cs. annotation_ok annotations c)"
  by (induction cs) (auto simp: annotation_ok_def Let_def go_index_def split: option.splits)

lemma matchesFieldOperator_iff: "matchesFieldOperatorShared v c \<longleftrightarrow> operator_ok v c"
  by (auto simp: matchesFieldOperatorShared_def operator_ok_def Let_def)

lemma meetsField_iff: "meetsFieldConditionsShared r cs \<longleftrightarrow> (\<forall>c\<in>set cs. field_ok r c)"
  by (induction cs)
    (auto simp: field_ok_def matchesFieldOperator_iff split: prod.splits if_splits)

subsection \<open>Properties\<close>

text \<open>
  C23. The four loops with their early returns compute one conjunction: a resource meets the
  conditions exactly when its phase is listed (or none is), and every label condition, every
  annotation condition and every field condition holds of it.
\<close>

theorem meetsConditionsShared_iff:
  "meetsConditionsShared r c \<longleftrightarrow>
     phase_ok r (cs_Phase c) \<and>
     list_all (label_ok (res_Labels r)) (cs_HasLabels c) \<and>
     list_all (annotation_ok (res_Annotations r)) (cs_HasAnnotations c) \<and>
     list_all (field_ok r) (cs_And c)"
  by (simp add: meetsConditionsShared_def meetsPhase_iff meetsLabelConditionsShared_def
      meetsLabel_iff meetsAnnotationConditionsShared_def meetsAnnotation_iff meetsField_iff
      list_all_iff)

lemma meetsConditionsShared_parts:
  "meetsConditionsShared r c \<longleftrightarrow>
     phase_ok r (cs_Phase c) \<and>
     (\<forall>lc\<in>set (cs_HasLabels c). label_ok (res_Labels r) lc) \<and>
     (\<forall>ac\<in>set (cs_HasAnnotations c). annotation_ok (res_Annotations r) ac) \<and>
     (\<forall>fc\<in>set (cs_And c). field_ok r fc)"
  by (simp add: meetsConditionsShared_def meetsPhase_iff meetsLabelConditionsShared_def
      meetsLabel_iff meetsAnnotationConditionsShared_def meetsAnnotation_iff meetsField_iff)

definition conditions_le :: "ConditionsSpec \<Rightarrow> ConditionsSpec \<Rightarrow> bool" where
  "conditions_le c c' \<longleftrightarrow>
     (cs_Phase c = [] \<or> cs_Phase c' \<noteq> [] \<and> set (cs_Phase c') \<subseteq> set (cs_Phase c)) \<and>
     set (cs_HasLabels c) \<subseteq> set (cs_HasLabels c') \<and>
     set (cs_HasAnnotations c) \<subseteq> set (cs_HasAnnotations c') \<and>
     set (cs_And c) \<subseteq> set (cs_And c')"

text \<open>
  Conditions only narrow: a specification with fewer phases to choose from, and with at
  least the label, annotation and field conditions of another, in any order, is met by no
  resource that fails the other.
\<close>

theorem conditions_narrow:
  assumes "conditions_le c c'" and "meetsConditionsShared r c'"
  shows "meetsConditionsShared r c"
  using assms unfolding meetsConditionsShared_parts conditions_le_def phase_ok_def by blast

definition no_conditions :: ConditionsSpec where
  "no_conditions = \<lparr>cs_Phase = [], cs_HasLabels = [], cs_HasAnnotations = [], cs_And = []\<rparr>"

theorem conditions_narrow_witness:
  "meetsConditionsShared (plain_resource ''ns'' ''x'' 0) no_conditions"
proof -
  let ?c = "no_conditions\<lparr>cs_HasLabels := [\<lparr>lc_Key = ''keep'', lc_Value = ''yes'', lc_Operator = ''NotIn''\<rparr>]\<rparr>"
  have "conditions_le no_conditions ?c"
    by (simp add: conditions_le_def no_conditions_def)
  moreover have "meetsConditionsShared (plain_resource ''ns'' ''x'' 0) ?c"
    by (simp add: meetsConditionsShared_parts no_conditions_def phase_ok_def label_ok_def
        plain_resource_def)
  ultimately show ?thesis by (rule conditions_narrow)
qed

text \<open>
  The matchers fail safe: a label condition or a field condition with an operator the
  code does not list is met by no resource. In particular the operator \<open>Exists\<close>, which the
  API type documents for field conditions, is not among those the code evaluates.
\<close>

theorem unknown_operators_never_match:
  assumes "lc \<in> set (cs_HasLabels c) \<and>
      lc_Operator lc \<notin> {''Exists'', ''Equals'', [], ''In'', ''NotIn''} \<or>
    fc \<in> set (cs_And c) \<and> fc_Operator fc \<notin> {''Equals'', ''NotEquals'', ''In'', ''NotIn''}"
  shows "\<not> meetsConditionsShared r c"
proof -
  have "\<not> label_ok (res_Labels r) lc" if "lc_Operator lc \<notin> {''Exists'', ''Equals'', [], ''In'', ''NotIn''}"
    using that by (simp add: label_ok_def)
  moreover have "\<not> field_ok r fc" if "fc_Operator fc \<notin> {''Equals'', ''NotEquals'', ''In'', ''NotIn''}"
    using that by (auto simp: field_ok_def operator_ok_def)
  ultimately show ?thesis
    using assms unfolding meetsConditionsShared_parts by blast
qed

theorem unknown_operators_never_match_witness:
  "\<not> meetsConditionsShared
     ((plain_resource ''ns'' ''x'' 0)\<lparr>nestedString := (\<lambda>_. (''v'', True, False))\<rparr>)
     (no_conditions\<lparr>cs_And := [\<lparr>fc_FieldPath = ''spec.ttl'', fc_Operator = ''Exists'',
        fc_Value = [], fc_Values = []\<rparr>]\<rparr>)"
  by (rule unknown_operators_never_match
      [where fc = "\<lparr>fc_FieldPath = ''spec.ttl'', fc_Operator = ''Exists'', fc_Value = [], fc_Values = []\<rparr>"])
    (simp add: no_conditions_def)

text \<open>
  Absence is treated in opposite ways: a label condition \<open>NotIn\<close> holds of a resource
  without the label, while a field condition, whatever its operator, \<open>NotIn\<close> and
  \<open>NotEquals\<close> included, fails for a resource without the field.
\<close>

theorem absent_label_and_absent_field:
  assumes "map_of (res_Labels r) (lc_Key lc) = None" and "lc_Operator lc = ''NotIn''"
    and "nestedString r (parseFieldPath (fc_FieldPath fc)) = (v, False, err)"
  shows "meetsConditionsShared r (no_conditions\<lparr>cs_HasLabels := [lc]\<rparr>) \<and>
    \<not> meetsConditionsShared r (no_conditions\<lparr>cs_And := [fc]\<rparr>)"
  using assms
  by (simp add: meetsConditionsShared_parts no_conditions_def phase_ok_def label_ok_def field_ok_def)

theorem absent_label_and_absent_field_witness:
  "meetsConditionsShared (plain_resource ''ns'' ''x'' 0)
     (no_conditions\<lparr>cs_HasLabels := [\<lparr>lc_Key = ''app'', lc_Value = ''a'', lc_Operator = ''NotIn''\<rparr>]\<rparr>) \<and>
   \<not> meetsConditionsShared (plain_resource ''ns'' ''x'' 0)
     (no_conditions\<lparr>cs_And := [\<lparr>fc_FieldPath = ''spec.app'', fc_Operator = ''NotIn'',
        fc_Value = [], fc_Values = [''a'']\<rparr>]\<rparr>)"
  by (rule absent_label_and_absent_field [where v = "[]" and err = False])
    (simp_all add: plain_resource_def)

end
