(* ===== verification/Decision.thy ===== *)
theory Decision
  imports TTL Conditions
begin

text \<open>
  The decision whether a resource is deleted now: \<open>GCPolicyReconciler.shouldDelete\<close>, which
  tests the conditions and then the TTL, and \<open>PolicyEvaluationService.shouldDelete\<close>, which
  tests the TTL only (its caller has tested the conditions). The clock is read inside the
  calculation of a relative TTL and again for the comparison: the arguments \<open>now1\<close> and
  \<open>now2\<close>.
\<close>

definition ReasonTTLExpired :: string where "ReasonTTLExpired = ''ttl_expired''"
definition ReasonNotExpired :: string where "ReasonNotExpired = ''not_expired''"
definition ReasonNoTTL :: string where "ReasonNoTTL = ''no_ttl''"
definition ReasonConditionNotMet :: string where "ReasonConditionNotMet = ''condition_not_met''"

lemmas reason_defs = ReasonTTLExpired_def ReasonNotExpired_def ReasonNoTTL_def
  ReasonConditionNotMet_def

definition service_shouldDelete ::
    "gotime \<Rightarrow> gotime \<Rightarrow> resource \<Rightarrow> GarbageCollectionPolicy \<Rightarrow> bool \<times> string" where
  "service_shouldDelete now1 now2 resource policy =
     (case calculateExpirationTimeShared now1 resource (gs_TTL (gp_Spec policy)) of
        Inl err \<Rightarrow>
          if err = ErrRelativeTTLExpired then (True, ReasonTTLExpired) else (False, ReasonNoTTL)
      | Inr expirationTime \<Rightarrow>
          if time_IsZero expirationTime then (False, ReasonNoTTL)
          else if time_After now2 expirationTime then (True, ReasonTTLExpired)
          else (False, ReasonNotExpired))"

definition reconciler_shouldDelete ::
    "gotime \<Rightarrow> gotime \<Rightarrow> resource \<Rightarrow> GarbageCollectionPolicy \<Rightarrow> bool \<times> string" where
  "reconciler_shouldDelete now1 now2 resource policy =
     (if (case gs_Conditions (gp_Spec policy) of
            None \<Rightarrow> False | Some conditions \<Rightarrow> \<not> meetsConditionsShared resource conditions)
      then (False, ReasonConditionNotMet)
      else
        (case calculateExpirationTimeShared now1 resource (gs_TTL (gp_Spec policy)) of
           Inl err \<Rightarrow>
             if err = ErrRelativeTTLExpired then (True, ReasonTTLExpired) else (False, ReasonNoTTL)
         | Inr expirationTime \<Rightarrow>
             if time_IsZero expirationTime then (False, ReasonNoTTL)
             else if time_After now2 expirationTime then (True, ReasonTTLExpired)
             else (False, ReasonNotExpired)))"

subsection \<open>The specification\<close>

definition policy_conditions_met :: "resource \<Rightarrow> GarbageCollectionPolicy \<Rightarrow> bool" where
  "policy_conditions_met r p \<longleftrightarrow>
     (\<forall>c. gs_Conditions (gp_Spec p) = Some c \<longrightarrow> meetsConditionsShared r c)"

definition policy_plan :: "resource \<Rightarrow> GarbageCollectionPolicy \<Rightarrow> ttl_error + ttl_plan" where
  "policy_plan r p = ttl_plan_of r (convertToSDKTTLSpec (gs_TTL (gp_Spec p)))"

text \<open>The deadline as the machine computes it, and whether it has passed.\<close>

definition machine_deadline :: "resource \<Rightarrow> ttl_plan \<Rightarrow> gotime" where
  "machine_deadline r pl = time_Add (plan_base r pl) (seconds (plan_seconds pl))"

fun plan_is_relative :: "ttl_plan \<Rightarrow> bool" where
  "plan_is_relative (FromCreation _) = False"
| "plan_is_relative (FromField _ _) = True"

definition ttl_over :: "gotime \<Rightarrow> gotime \<Rightarrow> resource \<Rightarrow> GarbageCollectionPolicy \<Rightarrow> bool" where
  "ttl_over now1 now2 r p \<longleftrightarrow>
     (\<exists>pl. policy_plan r p = Inr pl \<and>
        (let d = machine_deadline r pl
         in plan_is_relative pl \<and> d < now1 \<or> d \<noteq> 0 \<and> d < now2))"

lemma calculateExpirationTimeShared_plan:
  "calculateExpirationTimeShared now r (gs_TTL (gp_Spec p)) = andThen (policy_plan r p) (plan_result now r)"
  by (simp add: calculateExpirationTimeShared_def policy_plan_def CalculateExpirationTime_plan)

lemma ttl_plan_of_not_expired: "ttl_plan_of r spec \<noteq> Inl ErrRelativeTTLExpired"
  by (auto simp: ttl_plan_of_def field_plan_def relative_plan_def Let_def
      split: option.splits prod.splits)

lemma plan_result_machine:
  "plan_result now r pl =
     (if plan_is_relative pl \<and> machine_deadline r pl < now then Inl ErrRelativeTTLExpired
      else Inr (machine_deadline r pl))"
  by (cases pl) (auto simp: plan_result_def machine_deadline_def time_After_def)

lemma service_shouldDelete_fst: "fst (service_shouldDelete now1 now2 r p) = ttl_over now1 now2 r p"
proof (cases "policy_plan r p")
  case (Inl e)
  then have "e \<noteq> ErrRelativeTTLExpired"
    using ttl_plan_of_not_expired by (auto simp: policy_plan_def)
  with Inl show ?thesis
    by (simp add: service_shouldDelete_def calculateExpirationTimeShared_plan ttl_over_def)
next
  case (Inr pl)
  then show ?thesis
    by (auto simp: service_shouldDelete_def calculateExpirationTimeShared_plan ttl_over_def
        plan_result_machine time_IsZero_def time_After_def Let_def)
qed

text \<open>
  The reconciler's decision is the service's decision with the conditions in front of it, for
  the verdict and for the reason; the service checks the conditions elsewhere, in its loop.
\<close>

lemma reconciler_shouldDelete_service:
  "reconciler_shouldDelete now1 now2 r p =
     (if policy_conditions_met r p then service_shouldDelete now1 now2 r p
      else (False, ReasonConditionNotMet))"
  by (auto simp: reconciler_shouldDelete_def service_shouldDelete_def policy_conditions_met_def
      split: option.splits)

lemma reconciler_shouldDelete_fst:
  "fst (reconciler_shouldDelete now1 now2 r p) \<longleftrightarrow>
     policy_conditions_met r p \<and> ttl_over now1 now2 r p"
  using service_shouldDelete_fst [of now1 now2 r p]
  by (auto simp: reconciler_shouldDelete_def service_shouldDelete_def policy_conditions_met_def
      split: option.splits)

lemma shouldDelete_reason:
  "fst (service_shouldDelete now1 now2 r p) \<Longrightarrow>
     snd (service_shouldDelete now1 now2 r p) = ReasonTTLExpired"
  by (auto simp: service_shouldDelete_def split: sum.splits if_splits)

text \<open>
  C6. A resource is chosen for deletion exactly when the conditions hold and the deadline of
  the TTL has passed: for a policy whose TTL fits and a deadline other than the zero time,
  and a clock that does not run backwards, the decision is the comparison of the exact
  deadline with the current time. The reason given is then \<open>ttl_expired\<close>.
\<close>

theorem reconciler_shouldDelete_exact:
  assumes "now1 \<le> now2" and "policy_plan r p = Inr pl"
    and "plan_in_range pl" and "plan_deadline r pl \<noteq> 0"
  shows "(reconciler_shouldDelete now1 now2 r p = (True, ReasonTTLExpired)) \<longleftrightarrow>
    policy_conditions_met r p \<and> plan_deadline r pl < now2"
proof -
  have d: "machine_deadline r pl = plan_deadline r pl"
    using plan_time_in_range [OF assms(3)] by (simp add: machine_deadline_def)
  have "ttl_over now1 now2 r p \<longleftrightarrow> plan_deadline r pl < now2"
    using assms by (auto simp: ttl_over_def d Let_def)
  then have fst: "fst (reconciler_shouldDelete now1 now2 r p) \<longleftrightarrow>
      policy_conditions_met r p \<and> plan_deadline r pl < now2"
    by (simp add: reconciler_shouldDelete_fst)
  have "snd (reconciler_shouldDelete now1 now2 r p) = ReasonTTLExpired"
    if "fst (reconciler_shouldDelete now1 now2 r p)"
    using that by (auto simp: reconciler_shouldDelete_def split: option.splits sum.splits if_splits)
  with fst show ?thesis
    by (metis fst_conv prod.collapse)
qed

definition fixed_policy :: "i64 \<Rightarrow> GarbageCollectionPolicy" where
  "fixed_policy s = zero_Policy\<lparr>gp_Spec := zero_Spec\<lparr>gs_TTL := zero_TTLSpec
     \<lparr>ttl_SecondsAfterCreation := Some s\<rparr>\<rparr>\<rparr>"

lemma policy_plan_fixed [simp]: "policy_plan r (fixed_policy s) = Inr (FromCreation s)"
  by (simp add: policy_plan_def fixed_policy_def convertToSDKTTLSpec_def ttl_plan_of_def zero_defs)

theorem reconciler_shouldDelete_exact_witness:
  "(reconciler_shouldDelete 0 3600000000101 (plain_resource ''ns'' ''x'' 100) (fixed_policy 3600) =
      (True, ReasonTTLExpired)) \<longleftrightarrow>
    policy_conditions_met (plain_resource ''ns'' ''x'' 100) (fixed_policy 3600) \<and>
    plan_deadline (plain_resource ''ns'' ''x'' 100) (FromCreation 3600) < 3600000000101"
  by (rule reconciler_shouldDelete_exact)
    (simp_all add: plan_in_range_def plan_deadline_def plain_resource_def)

text \<open>
  Without a usable TTL nothing is deleted: when the configuration yields no deadline for
  the resource (no mode set, field missing, value unmapped, timestamp missing or malformed),
  the answer is no, whatever the clock says.
\<close>

theorem no_ttl_never_deletes:
  assumes "policy_plan r p = Inl e"
  shows "\<not> fst (reconciler_shouldDelete now1 now2 r p) \<and>
    service_shouldDelete now1 now2 r p = (False, ReasonNoTTL)"
proof -
  have "e \<noteq> ErrRelativeTTLExpired"
    using assms ttl_plan_of_not_expired by (auto simp: policy_plan_def)
  then have "service_shouldDelete now1 now2 r p = (False, ReasonNoTTL)"
    using assms by (simp add: service_shouldDelete_def calculateExpirationTimeShared_plan)
  then show ?thesis
    using assms by (simp add: reconciler_shouldDelete_fst ttl_over_def)
qed

theorem no_ttl_never_deletes_witness:
  "\<not> fst (reconciler_shouldDelete 5 6 (plain_resource ''ns'' ''x'' 0) zero_Policy)"
  using no_ttl_never_deletes [of "plain_resource ''ns'' ''x'' 0" zero_Policy ErrNoValidTTLConfiguration 5 6]
  by (simp add: policy_plan_def ttl_plan_of_def convertToSDKTTLSpec_def zero_defs)

end
