(* ===== verification/Go_Errors.thy ===== *)
theory Go_Errors
  imports Go_Strings Prelude
begin

text \<open>
  Error values. The datatype has one constructor per concrete error type of the source: a
  plain error, a network error of the standard library (its text, whether it reports a
  timeout and whether it is a \<open>*net.OpError\<close>), \<open>fmt.Errorf\<close> with \<open>%w\<close>, \<open>ContextError\<close> of
  internal/errors/errors.go, \<open>ClassifiedError\<close> of internal/errors/classified.go and
  \<open>ErrorWithCode\<close> of internal/logging/errors.go. A \<open>ContextError\<close> is a pointer in the code;
  the model returns the value that the pointer has after the call. A nil map of contexts
  reads and extends like an empty one.
\<close>

datatype ErrorClass = Transient | Permanent | ResourceExhausted

datatype go_error =
    PlainError string
  | NetError string bool bool
  | WrapError string go_error
  | ContextError string string "go_error option" "(string, string) gomap"
  | ClassifiedError go_error ErrorClass int
  | ErrorWithCode string string "go_error option"

fun class_String :: "ErrorClass \<Rightarrow> string" where
  "class_String Transient = ''transient''"
| "class_String Permanent = ''permanent''"
| "class_String ResourceExhausted = ''resource_exhausted''"

text \<open>The texts of a \<open>ContextError\<close> and of an \<open>ErrorWithCode\<close>, with the text of the error inside.\<close>

definition ContextError_Error :: "string \<Rightarrow> string option \<Rightarrow> string" where
  "ContextError_Error msg inner = (case inner of Some t \<Rightarrow> msg @ '': '' @ t | None \<Rightarrow> msg)"

definition ErrorWithCode_Error :: "string \<Rightarrow> string \<Rightarrow> string option \<Rightarrow> string" where
  "ErrorWithCode_Error code msg inner =
     (case inner of Some t \<Rightarrow> ''['' @ code @ ''] '' @ msg @ '': '' @ t | None \<Rightarrow> ''['' @ code @ ''] '' @ msg)"

lemmas error_texts [simp] = ContextError_Error_def ErrorWithCode_Error_def

fun error_text :: "go_error \<Rightarrow> string" where
  "error_text (PlainError msg) = msg"
| "error_text (NetError msg timeout op) = msg"
| "error_text (WrapError msg e) = msg @ '': '' @ error_text e"
| "error_text (ContextError typ msg (Some e) ctx) = ContextError_Error msg (Some (error_text e))"
| "error_text (ContextError typ msg None ctx) = ContextError_Error msg None"
| "error_text (ClassifiedError e c code) =
     (if code > 0
      then ''['' @ class_String c @ ''] status '' @ show_int code @ '': '' @ error_text e
      else ''['' @ class_String c @ ''] '' @ error_text e)"
| "error_text (ErrorWithCode code msg (Some e)) = ErrorWithCode_Error code msg (Some (error_text e))"
| "error_text (ErrorWithCode code msg None) = ErrorWithCode_Error code msg None"

fun err_unwrap :: "go_error \<Rightarrow> go_error option" where
  "err_unwrap (PlainError msg) = None"
| "err_unwrap (NetError msg timeout op) = None"
| "err_unwrap (WrapError msg e) = Some e"
| "err_unwrap (ContextError typ msg inner ctx) = inner"
| "err_unwrap (ClassifiedError e c code) = Some e"
| "err_unwrap (ErrorWithCode code msg inner) = inner"

text \<open>The chain that \<open>errors.Is\<close> and \<open>errors.As\<close> walk, outermost error first.\<close>

fun err_chain :: "go_error \<Rightarrow> go_error list" where
  "err_chain (PlainError msg) = [PlainError msg]"
| "err_chain (NetError msg timeout op) = [NetError msg timeout op]"
| "err_chain (WrapError msg e) = WrapError msg e # err_chain e"
| "err_chain (ContextError typ msg None ctx) = [ContextError typ msg None ctx]"
| "err_chain (ContextError typ msg (Some e) ctx) = ContextError typ msg (Some e) ctx # err_chain e"
| "err_chain (ClassifiedError e c code) = ClassifiedError e c code # err_chain e"
| "err_chain (ErrorWithCode code msg None) = [ErrorWithCode code msg None]"
| "err_chain (ErrorWithCode code msg (Some e)) = ErrorWithCode code msg (Some e) # err_chain e"

definition errors_As :: "(go_error \<Rightarrow> bool) \<Rightarrow> go_error \<Rightarrow> go_error option" where
  "errors_As p e = List.find p (err_chain e)"

definition errors_Is :: "go_error \<Rightarrow> go_error \<Rightarrow> bool" where
  "errors_Is e target \<longleftrightarrow> target \<in> set (err_chain e)"

fun is_ContextError :: "go_error \<Rightarrow> bool" where
  "is_ContextError (ContextError typ msg inner ctx) = True"
| "is_ContextError _ = False"

subsection \<open>internal/errors/errors.go\<close>

definition err_New :: "string \<Rightarrow> string \<Rightarrow> go_error" where
  "err_New errType message = ContextError errType message None []"

definition err_Wrap :: "go_error \<Rightarrow> string \<Rightarrow> string \<Rightarrow> go_error" where
  "err_Wrap e errType message = ContextError errType message (Some e) []"

text \<open>\<open>fmt.Sprintf\<close> is a parameter of the formatting constructors.\<close>

definition err_Wrapf :: "(string \<Rightarrow> 'a list \<Rightarrow> string) \<Rightarrow> go_error \<Rightarrow> string \<Rightarrow> string \<Rightarrow> 'a list \<Rightarrow> go_error" where
  "err_Wrapf sprintf e errType format args = ContextError errType (sprintf format args) (Some e) []"

text \<open>The methods of a \<open>ContextError\<close>; other errors do not have them.\<close>

fun ctx_WithContext :: "go_error \<Rightarrow> string \<Rightarrow> string \<Rightarrow> go_error" where
  "ctx_WithContext (ContextError typ msg inner ctx) key val =
     ContextError typ msg inner (go_put key val ctx)"
| "ctx_WithContext e key val = e"

fun GetContext :: "go_error \<Rightarrow> string \<Rightarrow> string" where
  "GetContext (ContextError typ msg inner ctx) key = go_index [] ctx key"
| "GetContext e key = []"

fun error_Type :: "go_error \<Rightarrow> string" where
  "error_Type (ContextError typ msg inner ctx) = typ"
| "error_Type _ = []"

fun set_error_Type :: "string \<Rightarrow> go_error \<Rightarrow> go_error" where
  "set_error_Type t (ContextError typ msg inner ctx) = ContextError t msg inner ctx"
| "set_error_Type t e = e"

definition WithContext :: "go_error \<Rightarrow> string \<Rightarrow> string \<Rightarrow> go_error" where
  "WithContext e key val =
     (case errors_As is_ContextError e of
        Some ctxErr \<Rightarrow> ctx_WithContext ctxErr key val
      | None \<Rightarrow> ContextError [] (error_text e) (Some e) [(key, val)])"

fun ctx_put_all :: "(string, string) gomap \<Rightarrow> go_error \<Rightarrow> go_error" where
  "ctx_put_all kvs (ContextError typ msg inner ctx) = ContextError typ msg inner (go_put_all kvs ctx)"
| "ctx_put_all kvs e = e"

definition WithMultipleContext :: "go_error \<Rightarrow> (string, string) gomap \<Rightarrow> go_error" where
  "WithMultipleContext e context =
     (case errors_As is_ContextError e of
        Some ctxErr \<Rightarrow> ctx_put_all context ctxErr
      | None \<Rightarrow> ContextError [] (error_text e) (Some e) context)"

subsection \<open>pkg/errors/errors.go\<close>

definition gc_New :: "string \<Rightarrow> string \<Rightarrow> go_error" where
  "gc_New errType message = err_New errType message"

definition gc_Wrap :: "go_error \<Rightarrow> string \<Rightarrow> string \<Rightarrow> go_error" where
  "gc_Wrap e errType message = err_Wrap e errType message"

definition gc_Wrapf :: "(string \<Rightarrow> 'a list \<Rightarrow> string) \<Rightarrow> go_error \<Rightarrow> string \<Rightarrow> string \<Rightarrow> 'a list \<Rightarrow> go_error" where
  "gc_Wrapf sprintf e errType format args = err_Wrapf sprintf e errType format args"

definition WithPolicy :: "go_error \<Rightarrow> string \<Rightarrow> string \<Rightarrow> go_error" where
  "WithPolicy e namespace name =
     WithMultipleContext e [(''policy_namespace'', namespace), (''policy_name'', name)]"

definition WithResource :: "go_error \<Rightarrow> string \<Rightarrow> string \<Rightarrow> go_error" where
  "WithResource e namespace name =
     WithMultipleContext e [(''resource_namespace'', namespace), (''resource_name'', name)]"

subsection \<open>What the context functions guarantee\<close>

lemma err_chain_head: "\<exists>rest. err_chain e = e # rest"
  by (cases e rule: err_chain.cases) auto

lemma errors_As_self [simp]: "is_ContextError e \<Longrightarrow> errors_As is_ContextError e = Some e"
  using err_chain_head [of e] by (auto simp: errors_As_def)

lemma errors_As_WrapError [simp]:
  "errors_As is_ContextError (WrapError msg e) = errors_As is_ContextError e"
  by (simp add: errors_As_def)

lemma errors_As_ContextError: "errors_As is_ContextError e = Some c \<Longrightarrow> is_ContextError c"
  by (auto simp: errors_As_def find_Some_iff)

lemma is_ContextError_iff: "is_ContextError e \<longleftrightarrow> (\<exists>t m i c. e = ContextError t m i c)"
  by (cases e) auto

lemma ContextError_ops [simp]:
  "is_ContextError (err_Wrap e t m)" "is_ContextError (err_New t m)"
  "is_ContextError (ctx_WithContext e k v) = is_ContextError e"
  "is_ContextError (set_error_Type t e) = is_ContextError e"
  "is_ContextError (ctx_put_all kvs e) = is_ContextError e"
  by (simp_all add: err_Wrap_def err_New_def) (cases e; simp)+

lemma is_ContextError_WithMultiple [simp]: "is_ContextError (WithMultipleContext e kvs)"
  by (auto simp: WithMultipleContext_def split: option.splits dest: errors_As_ContextError)

lemma is_ContextError_WithContext [simp]: "is_ContextError (WithContext e k v)"
  by (auto simp: WithContext_def split: option.splits dest: errors_As_ContextError)

lemma is_ContextError_With [simp]:
  "is_ContextError (WithPolicy e ns n)" "is_ContextError (WithResource e ns n)"
  by (simp_all add: WithPolicy_def WithResource_def)

text \<open>The context of an error as a function of the key, and how the operations change it.\<close>

lemma GetContext_ctx_WithContext [simp]:
  "is_ContextError e \<Longrightarrow> GetContext (ctx_WithContext e k v) k' = (if k' = k then v else GetContext e k')"
  by (cases e) (auto simp: go_index_def)

lemma GetContext_set_Type [simp]: "GetContext (set_error_Type t e) k = GetContext e k"
  by (cases e) auto

lemma error_Type_set [simp]: "is_ContextError e \<Longrightarrow> error_Type (set_error_Type t e) = t"
  by (cases e) auto

lemma GetContext_put_all:
  "is_ContextError e \<Longrightarrow> wf_map kvs \<Longrightarrow>
    GetContext (ctx_put_all kvs e) k = (case map_of kvs k of Some v \<Rightarrow> v | None \<Rightarrow> GetContext e k)"
  by (cases e) (auto simp: go_index_def map_of_put_all map_add_def split: option.splits)

definition inner_context :: "go_error \<Rightarrow> string \<Rightarrow> string" where
  "inner_context e k = (case errors_As is_ContextError e of None \<Rightarrow> [] | Some c \<Rightarrow> GetContext c k)"

lemma GetContext_WithMultiple:
  "wf_map kvs \<Longrightarrow> GetContext (WithMultipleContext e kvs) k =
    (case map_of kvs k of Some v \<Rightarrow> v | None \<Rightarrow> inner_context e k)"
  by (auto simp: WithMultipleContext_def inner_context_def go_index_def GetContext_put_all
      dest: errors_As_ContextError split: option.splits)

lemma inner_context_self [simp]: "is_ContextError e \<Longrightarrow> inner_context e k = GetContext e k"
  by (simp add: inner_context_def)

lemma GetContext_WithPolicy [simp]:
  "GetContext (WithPolicy e ns n) k =
    (if k = ''policy_namespace'' then ns else if k = ''policy_name'' then n else inner_context e k)"
  by (simp add: WithPolicy_def GetContext_WithMultiple)

lemma GetContext_WithResource [simp]:
  "GetContext (WithResource e ns n) k =
    (if k = ''resource_namespace'' then ns else if k = ''resource_name'' then n
     else inner_context e k)"
  by (simp add: WithResource_def GetContext_WithMultiple)

text \<open>Adding context to an error without one keeps the cause and repeats its text.\<close>

lemma WithMultipleContext_fresh:
  "errors_As is_ContextError e = None \<Longrightarrow>
    err_unwrap (WithMultipleContext e kvs) = Some e \<and>
    error_text (WithMultipleContext e kvs) = error_text e @ '': '' @ error_text e"
  by (simp add: WithMultipleContext_def)

text \<open>
  The context functions look through wrapping and answer with the context error they find
  inside: the message that \<open>fmt.Errorf\<close> put around it is lost from the result, which is no
  longer the error it was called with.
\<close>

theorem context_drops_outer_wrapping:
  assumes "is_ContextError e"
  shows "WithPolicy (WrapError msg e) ns n = WithPolicy e ns n \<and>
    error_text (WithPolicy (WrapError msg e) ns n) = error_text e"
proof -
  obtain t m i c where e: "e = ContextError t m i c"
    using assms by (auto simp: is_ContextError_iff)
  have "error_text (ContextError t m i c') = error_text (ContextError t m i c)" for c'
    by (cases i) auto
  then show ?thesis
    by (simp add: WithPolicy_def WithMultipleContext_def e)
qed

theorem context_drops_outer_wrapping_witness:
  "error_text (WithPolicy (WrapError ''attempt 3'' (err_New ''t'' ''refused'')) ''ns'' ''p'') =
    error_text (err_New ''t'' ''refused'')"
  by (rule context_drops_outer_wrapping [THEN conjunct2]) simp

end
