(* ===== verification/GVR.thy ===== *)
theory GVR
  imports Go_Strings
begin

text \<open>
  pkg/validation/gvr.go: from an API version and a kind to a group, version and resource.
  \<open>schema.ParseGroupVersion\<close> of the Kubernetes API machinery is the parameter \<open>parse_gv\<close>
  (\<open>None\<close> is its error).
\<close>

record GroupVersionResource =
  gvr_Group :: string
  gvr_Version :: string
  gvr_Resource :: string

datatype gvr_error =
    ErrAPIVersionEmpty
  | ErrKindEmpty
  | ErrInvalidAPIVersionFormat
  | ErrAPIVersionMultipleSeparators
  | ErrAPIVersionGroupEmpty
  | ErrAPIVersionVersionEmpty
  | ErrAPIVersionMissingVersion
  | ErrParseGroupVersion

definition PluralizeKind :: "string \<Rightarrow> string" where
  "PluralizeKind kind =
     (let lower = to_lower kind
      in if has_suffix lower ''s'' \<or> has_suffix lower ''x'' \<or> has_suffix lower ''z'' \<or>
            has_suffix lower ''ch'' \<or> has_suffix lower ''sh'' then lower @ ''es''
         else if has_suffix lower ''y'' \<and> length lower > 1
         then take (length lower - 1) lower @ ''ies''
         else lower @ ''s'')"

definition ParseGVR ::
    "(string \<Rightarrow> (string \<times> string) option) \<Rightarrow> string \<Rightarrow> string \<Rightarrow> gvr_error + GroupVersionResource" where
  "ParseGVR parse_gv apiVersion kind =
     (if apiVersion = [] then Inl ErrAPIVersionEmpty
      else if kind = [] then Inl ErrKindEmpty
      else
        andThen
          (if \<not> contains apiVersion ''/'' then
             (if \<not> has_prefix apiVersion ''v'' then Inl ErrInvalidAPIVersionFormat else Inr ())
           else
             let parts = split_on (CHR ''/'') apiVersion
             in if length parts \<noteq> 2 then Inl ErrAPIVersionMultipleSeparators
                else if parts ! 0 = [] then Inl ErrAPIVersionGroupEmpty
                else if parts ! 1 = [] then Inl ErrAPIVersionVersionEmpty
                else Inr ())
          (\<lambda>_. case parse_gv apiVersion of
             None \<Rightarrow> Inl ErrParseGroupVersion
           | Some (grp, version) \<Rightarrow>
               if version = [] then Inl ErrAPIVersionMissingVersion
               else Inr \<lparr>gvr_Group = grp, gvr_Version = version,
                         gvr_Resource = PluralizeKind kind\<rparr>))"

text \<open>
  The documented behaviour of \<open>ParseGroupVersion\<close> on the two shapes that pass the checks:
  a version alone has the empty group, and one separator splits group and version.
\<close>

definition parse_gv_lawful :: "(string \<Rightarrow> (string \<times> string) option) \<Rightarrow> bool" where
  "parse_gv_lawful parse_gv \<longleftrightarrow>
     (\<forall>v. v \<noteq> [] \<and> CHR ''/'' \<notin> set v \<longrightarrow> parse_gv v = Some ([], v)) \<and>
     (\<forall>g v. g \<noteq> [] \<and> v \<noteq> [] \<and> CHR ''/'' \<notin> set g \<and> CHR ''/'' \<notin> set v \<longrightarrow>
        parse_gv (g @ ''/'' @ v) = Some (g, v))"

text \<open>A function with that behaviour.\<close>

definition split_gv :: "string \<Rightarrow> (string \<times> string) option" where
  "split_gv s = (case split_on (CHR ''/'') s of
     [v] \<Rightarrow> Some ([], v) | [g, v] \<Rightarrow> Some (g, v) | _ \<Rightarrow> None)"

lemma split_gv_lawful: "parse_gv_lawful split_gv"
  by (auto simp: parse_gv_lawful_def split_gv_def split_on_single split_on_append)

text \<open>The shapes of an API version that the evaluation can use.\<close>

definition core_version :: "string \<Rightarrow> bool" where
  "core_version s \<longleftrightarrow> CHR ''/'' \<notin> set s \<and> has_prefix s ''v''"

definition grouped_version :: "string \<Rightarrow> string \<Rightarrow> string \<Rightarrow> bool" where
  "grouped_version s g v \<longleftrightarrow>
     s = g @ ''/'' @ v \<and> g \<noteq> [] \<and> v \<noteq> [] \<and> CHR ''/'' \<notin> set g \<and> CHR ''/'' \<notin> set v"

lemma grouped_version_split:
  "grouped_version s g v \<longleftrightarrow> split_on (CHR ''/'') s = [g, v] \<and> g \<noteq> [] \<and> v \<noteq> []"
proof
  assume "grouped_version s g v"
  then show "split_on (CHR ''/'') s = [g, v] \<and> g \<noteq> [] \<and> v \<noteq> []"
    by (auto simp: grouped_version_def split_on_append split_on_single)
next
  assume gv: "split_on (CHR ''/'') s = [g, v] \<and> g \<noteq> [] \<and> v \<noteq> []"
  then have "s = g @ ''/'' @ v"
    using join_split_on [of "CHR ''/''" s] by simp
  moreover have "CHR ''/'' \<notin> set g" "CHR ''/'' \<notin> set v"
    using gv split_on_no_sep [of _ "CHR ''/''" s] by simp_all
  ultimately show "grouped_version s g v"
    using gv by (simp add: grouped_version_def)
qed

lemma ParseGVR_core:
  assumes "parse_gv_lawful parse_gv" and "CHR ''/'' \<notin> set s" and "s \<noteq> []" and "kind \<noteq> []"
  shows "ParseGVR parse_gv s kind =
    (if has_prefix s ''v''
     then Inr \<lparr>gvr_Group = [], gvr_Version = s, gvr_Resource = PluralizeKind kind\<rparr>
     else Inl ErrInvalidAPIVersionFormat)"
  using assms by (simp add: ParseGVR_def contains_char parse_gv_lawful_def)

lemma ParseGVR_grouped:
  assumes "parse_gv_lawful parse_gv" and "grouped_version s g v" and "kind \<noteq> []"
  shows "ParseGVR parse_gv s kind =
    Inr \<lparr>gvr_Group = g, gvr_Version = v, gvr_Resource = PluralizeKind kind\<rparr>"
proof -
  have "split_on (CHR ''/'') s = [g, v]" "g \<noteq> []" "v \<noteq> []"
    using assms(2) by (simp_all add: grouped_version_split)
  moreover have "parse_gv s = Some (g, v)" "CHR ''/'' \<in> set s" "s \<noteq> []"
    using assms(1,2) by (auto simp: grouped_version_def parse_gv_lawful_def)
  ultimately show ?thesis
    using assms(3) by (simp add: ParseGVR_def contains_char)
qed

lemma ParseGVR_other:
  assumes "CHR ''/'' \<in> set s" and "\<nexists>g v. grouped_version s g v"
  shows "\<exists>e. ParseGVR parse_gv s kind = Inl e"
proof -
  have "parts ! 0 = [] \<or> parts ! 1 = []"
    if split: "split_on (CHR ''/'') s = parts" and len: "length parts = 2" for parts
  proof -
    obtain g v where "parts = [g, v]"
      using len by (auto simp: numeral_2_eq_2 length_Suc_conv)
    then show ?thesis using assms(2) split by (auto simp: grouped_version_split)
  qed
  then show ?thesis
    using assms(1) by (auto simp: ParseGVR_def contains_char Let_def)
qed

lemma ParseGVR_iff:
  assumes "parse_gv_lawful parse_gv"
  shows "ParseGVR parse_gv apiVersion kind = Inr gvr \<longleftrightarrow>
    kind \<noteq> [] \<and> gvr_Resource gvr = PluralizeKind kind \<and>
    (core_version apiVersion \<and> gvr_Group gvr = [] \<and> gvr_Version gvr = apiVersion \<or>
     grouped_version apiVersion (gvr_Group gvr) (gvr_Version gvr))"
proof -
  have eq: "gvr = x \<longleftrightarrow> gvr_Group gvr = gvr_Group x \<and> gvr_Version gvr = gvr_Version x \<and>
      gvr_Resource gvr = gvr_Resource x" for x
    by (cases gvr, cases x) auto
  consider (empty) "apiVersion = [] \<or> kind = []"
    | (core) "apiVersion \<noteq> []" "kind \<noteq> []" "CHR ''/'' \<notin> set apiVersion"
    | (grouped) g v where "kind \<noteq> []" "grouped_version apiVersion g v"
    | (other) "CHR ''/'' \<in> set apiVersion" "\<nexists>g v. grouped_version apiVersion g v"
    by blast
  then show ?thesis
  proof cases
    case empty
    then show ?thesis by (auto simp: ParseGVR_def core_version_def grouped_version_def)
  next
    case core
    then have "\<not> grouped_version apiVersion g v" for g v
      by (auto simp: grouped_version_def)
    with core show ?thesis
      by (simp add: ParseGVR_core [OF assms] core_version_def eq [symmetric]
          eq [of "\<lparr>gvr_Group = [], gvr_Version = apiVersion, gvr_Resource = PluralizeKind kind\<rparr>"]
          eq_commute [of _ gvr]) auto
  next
    case grouped
    then have "\<not> core_version apiVersion"
      by (auto simp: grouped_version_def core_version_def)
    moreover have "grouped_version apiVersion g' v' \<longleftrightarrow> g' = g \<and> v' = v" for g' v'
      using grouped(2) by (auto simp: grouped_version_split)
    ultimately show ?thesis
      using grouped by (auto simp: ParseGVR_grouped [OF assms] eq)
  next
    case other
    then obtain e where "ParseGVR parse_gv apiVersion kind = Inl e"
      using ParseGVR_other by blast
    with other show ?thesis by (auto simp: core_version_def)
  qed
qed

text \<open>
  \<open>ParseGVR\<close> accepts exactly the API versions of the form \<open>v...\<close> without a
  separator and \<open>group/version\<close> with one separator and both parts present, together with a
  kind, and then returns group, version and the plural of the kind.
\<close>

theorem ParseGVR_accepts:
  assumes "parse_gv_lawful parse_gv"
  shows "ParseGVR parse_gv apiVersion kind = Inr gvr \<longleftrightarrow>
    kind \<noteq> [] \<and> gvr_Resource gvr = PluralizeKind kind \<and>
    (core_version apiVersion \<and> gvr_Group gvr = [] \<and> gvr_Version gvr = apiVersion \<or>
     grouped_version apiVersion (gvr_Group gvr) (gvr_Version gvr))"
  by (rule ParseGVR_iff [OF assms])

theorem ParseGVR_accepts_witness:
  "ParseGVR split_gv ''apps/v1'' ''Deployment'' =
    Inr \<lparr>gvr_Group = ''apps'', gvr_Version = ''v1'', gvr_Resource = ''deployments''\<rparr>"
proof -
  have "grouped_version ''apps/v1'' ''apps'' ''v1''"
    by (simp add: grouped_version_def)
  moreover have "PluralizeKind ''Deployment'' = ''deployments''"
    by code_simp
  ultimately show ?thesis
    unfolding ParseGVR_accepts [OF split_gv_lawful] by simp
qed

subsection \<open>Plurals\<close>

lemma has_suffix_append [simp]: "has_suffix (s @ t) t"
  by (auto simp: has_suffix_iff)

lemma PluralizeKind_case: "PluralizeKind (to_lower kind) = PluralizeKind kind"
  by (simp add: PluralizeKind_def)

lemma char_lower_es: "char_lower CHR ''e'' = CHR ''e''" "char_lower CHR ''s'' = CHR ''s''"
  "char_lower CHR ''i'' = CHR ''i''"
  by code_simp+

text \<open>
  The resource name is a lower-case word that ends in \<open>s\<close> and is longer than the kind,
  and it depends on the kind only up to case.
\<close>

theorem PluralizeKind_shape:
  "to_lower (PluralizeKind kind) = PluralizeKind kind \<and>
   has_suffix (PluralizeKind kind) ''s'' \<and> length kind < length (PluralizeKind kind) \<and>
   PluralizeKind (to_lower kind) = PluralizeKind kind"
proof -
  have low: "to_lower (take n (to_lower k)) = take n (to_lower k)" for n k
    by (simp add: to_lower_def take_map)
  have suf: "has_suffix (s @ ''es'') ''s''" "has_suffix (s @ ''ies'') ''s''" "has_suffix (s @ ''s'') ''s''" for s
    by (auto simp: has_suffix_iff)
  have "to_lower (PluralizeKind kind) = PluralizeKind kind"
    by (simp add: PluralizeKind_def Let_def to_lower_append low)
      (simp add: to_lower_def char_lower_es)
  moreover have "has_suffix (PluralizeKind kind) ''s''"
    by (simp add: PluralizeKind_def Let_def suf)
  moreover have "length kind < length (PluralizeKind kind)"
    by (auto simp: PluralizeKind_def Let_def)
  ultimately show ?thesis by (simp add: PluralizeKind_case)
qed

text \<open>
  The plural rules miss names of the Kubernetes API whose plural is irregular: a kind that
  is its own plural gets a second ending, and a \<open>y\<close> after a vowel is replaced as well.
\<close>

theorem PluralizeKind_irregular:
  "PluralizeKind ''Endpoints'' = ''endpointses'' \<and> PluralizeKind ''Gateway'' = ''gatewaies'' \<and>
   PluralizeKind ''NetworkPolicy'' = ''networkpolicies'' \<and> PluralizeKind ''Ingress'' = ''ingresses''"
  by code_simp

end
