(* ===== verification/World.thy ===== *)
theory World
  imports Go_Errors GVR Api_Types Go_Time
begin

text \<open>
  The boundary of the controller. Everything the controller does to the outside is an
  effect, appended to the log of the world; everything it observes (the cancellation of its
  context, the answers of the API server, of the rate limiters, of discovery, the clock) is
  an answer of the record \<open>outside\<close> at the current tick, and each observation advances the
  tick, so that two observations may differ. The metrics of pkg/controller/metrics.go and the
  events of pkg/controller/events.go and internal/events/events.go are effects.
\<close>

record GroupVersionKind =
  gvk_Group :: string
  gvk_Version :: string
  gvk_Kind :: string

record DeleteOptions =
  do_GracePeriodSeconds :: "i64 option"
  do_PropagationPolicy :: "string option"

text \<open>A call of the API server; \<open>dr_Namespace\<close> is \<open>None\<close> for a cluster-scoped resource.\<close>

record DeleteRequest =
  dr_GVR :: GroupVersionResource
  dr_Namespace :: "string option"
  dr_Name :: string
  dr_Options :: DeleteOptions

text \<open>The unstructured objects that the controller writes.\<close>

datatype json =
    JString string
  | JInt int
  | JArray "json list"
  | JObject "(string \<times> json) list"
  | JBool bool
  | JNull

datatype effect =
    LimiterWait nat
  | DeleteCall DeleteRequest
  | Sleep i64
  | CounterInc string "string list"
  | GaugeSet string "string list" int
  | HistogramObserve string "string list" int
  | SendEvent string string string string string
  | PutStatus string string "(string, json) gomap"

record world =
  wd_tick :: nat
  wd_log :: "effect list"
  wd_gvr_cache :: "(GroupVersionKind, GroupVersionResource) gomap option"

record outside =
  ctx_done :: "nat \<Rightarrow> bool"
  ctx_err :: "nat \<Rightarrow> go_error"
  limiter_wait :: "nat \<Rightarrow> nat \<Rightarrow> go_error option"
  api_delete :: "nat \<Rightarrow> DeleteRequest \<Rightarrow> go_error option"
  rest_mapping :: "(nat \<Rightarrow> GroupVersionKind \<Rightarrow> GroupVersionResource option) option"
  now :: "nat \<Rightarrow> gotime"
  IsTimeout :: "go_error \<Rightarrow> bool"
  IsServerTimeout :: "go_error \<Rightarrow> bool"
  IsTooManyRequests :: "go_error \<Rightarrow> bool"
  IsServiceUnavailable :: "go_error \<Rightarrow> bool"
  IsNotFound :: "go_error \<Rightarrow> bool"
  get_policy_object :: "nat \<Rightarrow> string \<Rightarrow> string \<Rightarrow> go_error + (string, json) gomap"
  update_status :: "nat \<Rightarrow> string \<Rightarrow> (string, json) gomap \<Rightarrow> go_error option"
  format_rfc3339 :: "gotime \<Rightarrow> string"
  status_ctx_done :: "nat \<Rightarrow> bool"

definition tick :: "world \<Rightarrow> world" where
  "tick w = w\<lparr>wd_tick := Suc (wd_tick w)\<rparr>"

definition emit :: "effect list \<Rightarrow> world \<Rightarrow> world" where
  "emit es w = w\<lparr>wd_log := wd_log w @ es\<rparr>"

definition check_ctx :: "('x) outside_scheme \<Rightarrow> world \<Rightarrow> bool \<times> world" where
  "check_ctx out w = (ctx_done out (wd_tick w), tick w)"

definition read_clock :: "('x) outside_scheme \<Rightarrow> world \<Rightarrow> gotime \<times> world" where
  "read_clock out w = (now out (wd_tick w), tick w)"

subsection \<open>Metrics\<close>

text \<open>
  A metric is declared with its kind, its name and the names of its labels; one without labels
  is a vector with none. The help texts and the buckets of the histograms are left out. The
  library panics when a vector is asked for another number of labels than declared, and when
  two metrics are declared with one name.
\<close>

datatype metric_kind = Counter | Gauge | Histogram

record metric =
  mt_Kind :: metric_kind
  mt_Name :: string
  mt_Labels :: "string list"

definition resource_labels :: "string list" where
  "resource_labels = [''policy_namespace'', ''policy_name'', ''resource_api_version'', ''resource_kind'']"

definition gcPoliciesTotal :: metric where
  "gcPoliciesTotal = \<lparr>mt_Kind = Gauge, mt_Name = ''gc_policies_total'', mt_Labels = [''phase'']\<rparr>"

definition gcResourcesMatchedTotal :: metric where
  "gcResourcesMatchedTotal =
     \<lparr>mt_Kind = Counter, mt_Name = ''gc_resources_matched_total'', mt_Labels = resource_labels\<rparr>"

definition gcResourcesDeletedTotal :: metric where
  "gcResourcesDeletedTotal =
     \<lparr>mt_Kind = Counter, mt_Name = ''gc_resources_deleted_total'', mt_Labels = resource_labels @ [''reason'']\<rparr>"

definition gcDeletionDurationSeconds :: metric where
  "gcDeletionDurationSeconds =
     \<lparr>mt_Kind = Histogram, mt_Name = ''gc_deletion_duration_seconds'', mt_Labels = resource_labels\<rparr>"

definition gcErrorsTotal :: metric where
  "gcErrorsTotal = \<lparr>mt_Kind = Counter, mt_Name = ''gc_errors_total'',
     mt_Labels = [''policy_namespace'', ''policy_name'', ''error_type'']\<rparr>"

definition gcEvaluationDurationSeconds :: metric where
  "gcEvaluationDurationSeconds = \<lparr>mt_Kind = Histogram, mt_Name = ''gc_evaluation_duration_seconds'',
     mt_Labels = [''policy_namespace'', ''policy_name'']\<rparr>"

definition gcInformersTotal :: metric where
  "gcInformersTotal = \<lparr>mt_Kind = Gauge, mt_Name = ''gc_informers_total'', mt_Labels = []\<rparr>"

definition gcRateLimitersTotal :: metric where
  "gcRateLimitersTotal = \<lparr>mt_Kind = Gauge, mt_Name = ''gc_rate_limiters_total'', mt_Labels = []\<rparr>"

definition gcResourcesPendingTotal :: metric where
  "gcResourcesPendingTotal =
     \<lparr>mt_Kind = Gauge, mt_Name = ''gc_resources_pending_total'', mt_Labels = resource_labels\<rparr>"

definition gcLeaderElectionStatus :: metric where
  "gcLeaderElectionStatus = \<lparr>mt_Kind = Gauge, mt_Name = ''gc_leader_election_status'', mt_Labels = []\<rparr>"

definition gcLeaderElectionTransitionsTotal :: metric where
  "gcLeaderElectionTransitionsTotal =
     \<lparr>mt_Kind = Counter, mt_Name = ''gc_leader_election_transitions_total'', mt_Labels = []\<rparr>"

definition served :: "metric list" where
  "served = [gcPoliciesTotal, gcResourcesMatchedTotal, gcResourcesDeletedTotal, gcDeletionDurationSeconds,
     gcErrorsTotal, gcEvaluationDurationSeconds, gcInformersTotal, gcRateLimitersTotal,
     gcResourcesPendingTotal, gcLeaderElectionStatus, gcLeaderElectionTransitionsTotal]"

definition metric_Inc :: "metric \<Rightarrow> string list \<Rightarrow> effect list" where
  "metric_Inc m vs = [CounterInc (mt_Name m) vs]"

definition metric_Set :: "metric \<Rightarrow> string list \<Rightarrow> int \<Rightarrow> effect list" where
  "metric_Set m vs x = [GaugeSet (mt_Name m) vs x]"

definition metric_Observe :: "metric \<Rightarrow> string list \<Rightarrow> int \<Rightarrow> effect list" where
  "metric_Observe m vs x = [HistogramObserve (mt_Name m) vs x]"

definition recordPolicyPhase :: "string \<Rightarrow> int \<Rightarrow> effect list" where
  "recordPolicyPhase phase count = metric_Set gcPoliciesTotal [phase] count"

definition recordResourceMatched :: "string \<Rightarrow> string \<Rightarrow> string \<Rightarrow> string \<Rightarrow> effect list" where
  "recordResourceMatched ns name apiVersion kind =
     metric_Inc gcResourcesMatchedTotal [ns, name, apiVersion, kind]"

definition recordResourceDeleted ::
    "string \<Rightarrow> string \<Rightarrow> string \<Rightarrow> string \<Rightarrow> string \<Rightarrow> int \<Rightarrow> effect list" where
  "recordResourceDeleted ns name apiVersion kind reason duration =
     metric_Inc gcResourcesDeletedTotal [ns, name, apiVersion, kind, reason] @
     metric_Observe gcDeletionDurationSeconds [ns, name, apiVersion, kind] duration"

definition recordError :: "string \<Rightarrow> string \<Rightarrow> string \<Rightarrow> effect list" where
  "recordError ns name errorType = metric_Inc gcErrorsTotal [ns, name, errorType]"

definition recordEvaluationDuration :: "string \<Rightarrow> string \<Rightarrow> int \<Rightarrow> effect list" where
  "recordEvaluationDuration ns name duration = metric_Observe gcEvaluationDurationSeconds [ns, name] duration"

definition recordInformerCount :: "int \<Rightarrow> effect list" where
  "recordInformerCount count = metric_Set gcInformersTotal [] count"

definition recordRateLimiterCount :: "int \<Rightarrow> effect list" where
  "recordRateLimiterCount count = metric_Set gcRateLimitersTotal [] count"

definition recordResourcesPending ::
    "string \<Rightarrow> string \<Rightarrow> string \<Rightarrow> string \<Rightarrow> int \<Rightarrow> effect list" where
  "recordResourcesPending ns name apiVersion kind count =
     metric_Set gcResourcesPendingTotal [ns, name, apiVersion, kind] count"

definition recordLeaderElectionStatus :: "bool \<Rightarrow> effect list" where
  "recordLeaderElectionStatus isLeader =
     (if isLeader then metric_Set gcLeaderElectionStatus [] 1 else metric_Set gcLeaderElectionStatus [] 0)"

definition recordLeaderElectionTransition :: "effect list" where
  "recordLeaderElectionTransition = metric_Inc gcLeaderElectionTransitionsTotal []"

lemmas metric_defs = recordPolicyPhase_def recordResourceMatched_def recordResourceDeleted_def
  recordError_def recordEvaluationDuration_def recordInformerCount_def recordRateLimiterCount_def
  recordResourcesPending_def recordLeaderElectionStatus_def recordLeaderElectionTransition_def
  metric_Inc_def metric_Set_def metric_Observe_def gcPoliciesTotal_def gcResourcesMatchedTotal_def
  gcResourcesDeletedTotal_def gcDeletionDurationSeconds_def gcErrorsTotal_def gcEvaluationDurationSeconds_def
  gcInformersTotal_def gcRateLimitersTotal_def gcResourcesPendingTotal_def gcLeaderElectionStatus_def
  gcLeaderElectionTransitionsTotal_def

text \<open>A use that fits a declaration; the functions above use the metrics as declared.\<close>

definition declared :: "metric_kind \<Rightarrow> string \<Rightarrow> string list \<Rightarrow> bool" where
  "declared k n vs \<longleftrightarrow>
     list_ex (\<lambda>m. mt_Kind m = k \<and> mt_Name m = n \<and> length (mt_Labels m) = length vs) served"

fun well_labelled :: "effect \<Rightarrow> bool" where
  "well_labelled (CounterInc n vs) = declared Counter n vs"
| "well_labelled (GaugeSet n vs x) = declared Gauge n vs"
| "well_labelled (HistogramObserve n vs x) = declared Histogram n vs"
| "well_labelled _ = True"

lemma declared_served:
  "m \<in> set served \<Longrightarrow> length vs = length (mt_Labels m) \<Longrightarrow> declared (mt_Kind m) (mt_Name m) vs"
  by (auto simp: declared_def list_ex_iff)

lemma metric_well_labelled:
  "m \<in> set served \<Longrightarrow> mt_Kind m = Counter \<Longrightarrow> length vs = length (mt_Labels m) \<Longrightarrow>
    list_all well_labelled (metric_Inc m vs)"
  "m \<in> set served \<Longrightarrow> mt_Kind m = Gauge \<Longrightarrow> length vs = length (mt_Labels m) \<Longrightarrow>
    list_all well_labelled (metric_Set m vs x)"
  "m \<in> set served \<Longrightarrow> mt_Kind m = Histogram \<Longrightarrow> length vs = length (mt_Labels m) \<Longrightarrow>
    list_all well_labelled (metric_Observe m vs x)"
  using declared_served [of m vs] by (simp_all add: metric_Inc_def metric_Set_def metric_Observe_def)

subsection \<open>Events\<close>

text \<open>
  A recorder of pkg/controller is nil (\<open>None\<close>), or holds a recorder of internal/events that is
  nil or not. An event names its object, its type, its reason and its message.
\<close>

type_synonym EventRecorder = "bool option"

definition events_Eventf ::
    "EventRecorder \<Rightarrow> GarbageCollectionPolicy \<Rightarrow> string \<Rightarrow> string \<Rightarrow> string \<Rightarrow> effect list" where
  "events_Eventf er policy eventType reason message =
     (if er = None \<or> er = Some False then []
      else [SendEvent (gp_Namespace policy) (gp_Name policy) eventType reason message])"

definition RecordPolicyEvaluated ::
    "EventRecorder \<Rightarrow> GarbageCollectionPolicy \<Rightarrow> int \<Rightarrow> int \<Rightarrow> int \<Rightarrow> effect list" where
  "RecordPolicyEvaluated er policy matched deleted pending =
     events_Eventf er policy ''Normal'' ''PolicyEvaluated''
       (''Evaluated policy: matched='' @ show_int matched @ '', deleted='' @ show_int deleted @
        '', pending='' @ show_int pending)"

definition RecordResourceDeleted ::
    "EventRecorder \<Rightarrow> GarbageCollectionPolicy \<Rightarrow> resource \<Rightarrow> string \<Rightarrow> effect list" where
  "RecordResourceDeleted er policy resource reason =
     events_Eventf er policy ''Normal'' ''ResourceDeleted''
       (''Deleted resource '' @ res_Name resource @ '' (reason: '' @ reason @ '')'')"

definition RecordEvaluationFailed ::
    "EventRecorder \<Rightarrow> GarbageCollectionPolicy \<Rightarrow> go_error \<Rightarrow> effect list" where
  "RecordEvaluationFailed er policy err =
     events_Eventf er policy ''Warning'' ''EvaluationFailed''
       (''Failed to evaluate policy: '' @ error_text err)"

definition RecordStatusUpdateFailed ::
    "EventRecorder \<Rightarrow> GarbageCollectionPolicy \<Rightarrow> go_error \<Rightarrow> effect list" where
  "RecordStatusUpdateFailed er policy err =
     events_Eventf er policy ''Warning'' ''StatusUpdateFailed''
       (''Failed to update policy status: '' @ error_text err)"

definition RecordPolicyCreated :: "EventRecorder \<Rightarrow> GarbageCollectionPolicy \<Rightarrow> effect list" where
  "RecordPolicyCreated er policy =
     events_Eventf er policy ''Normal'' ''PolicyCreated'' ''GarbageCollectionPolicy created''"

definition RecordPolicyUpdated :: "EventRecorder \<Rightarrow> GarbageCollectionPolicy \<Rightarrow> effect list" where
  "RecordPolicyUpdated er policy =
     events_Eventf er policy ''Normal'' ''PolicyUpdated'' ''GarbageCollectionPolicy updated''"

definition RecordPolicyDeleted :: "EventRecorder \<Rightarrow> GarbageCollectionPolicy \<Rightarrow> effect list" where
  "RecordPolicyDeleted er policy =
     events_Eventf er policy ''Normal'' ''PolicyDeleted'' ''GarbageCollectionPolicy deleted''"

lemmas event_defs = RecordPolicyEvaluated_def RecordResourceDeleted_def RecordEvaluationFailed_def
  RecordStatusUpdateFailed_def RecordPolicyCreated_def RecordPolicyUpdated_def
  RecordPolicyDeleted_def events_Eventf_def

subsection \<open>What a step may add to the log\<close>

definition appends :: "(effect \<Rightarrow> bool) \<Rightarrow> world \<Rightarrow> world \<Rightarrow> bool" where
  "appends P w w' \<longleftrightarrow> (\<exists>es. wd_log w' = wd_log w @ es \<and> list_all P es)"

lemma appends_refl [simp, intro]: "appends P w w"
  by (simp add: appends_def)

lemma appends_trans [trans]: "appends P w w' \<Longrightarrow> appends P w' w'' \<Longrightarrow> appends P w w''"
  by (force simp: appends_def)

lemma appends_tick [simp]: "appends P w (tick w') = appends P w w'" "appends P (tick w) w' = appends P w w'"
  by (simp_all add: appends_def tick_def)

lemma appends_gvr_cache [simp]:
  "appends P w (w'\<lparr>wd_gvr_cache := c\<rparr>) = appends P w w'"
  by (simp add: appends_def)

lemma appends_emit: "list_all P es \<Longrightarrow> appends P w w' \<Longrightarrow> appends P w (emit es w')"
  by (auto simp: appends_def emit_def)

lemma appends_mono: "appends P w w' \<Longrightarrow> (\<And>e. P e \<Longrightarrow> Q e) \<Longrightarrow> appends Q w w'"
  by (auto simp: appends_def list_all_iff)

lemma wd_log_simps [simp]:
  "wd_log (tick w) = wd_log w" "wd_log (emit es w) = wd_log w @ es"
  "wd_tick (tick w) = Suc (wd_tick w)" "wd_tick (emit es w) = wd_tick w"
  "wd_gvr_cache (tick w) = wd_gvr_cache w" "wd_gvr_cache (emit es w) = wd_gvr_cache w"
  by (simp_all add: tick_def emit_def)

text \<open>Metrics and events, as opposed to calls that act on the cluster.\<close>

fun bookkeeping :: "effect \<Rightarrow> bool" where
  "bookkeeping (CounterInc n ls) = well_labelled (CounterInc n ls)"
| "bookkeeping (GaugeSet n ls v) = well_labelled (GaugeSet n ls v)"
| "bookkeeping (HistogramObserve n ls v) = well_labelled (HistogramObserve n ls v)"
| "bookkeeping (SendEvent ns n t r m) = True"
| "bookkeeping _ = False"

lemma bookkeeping_labelled: "bookkeeping e \<Longrightarrow> well_labelled e"
  by (cases e) auto

lemma bookkeeping_vectors:
  "m \<in> set served \<Longrightarrow> mt_Kind m = Counter \<Longrightarrow> length vs = length (mt_Labels m) \<Longrightarrow>
    list_all bookkeeping (metric_Inc m vs)"
  "m \<in> set served \<Longrightarrow> mt_Kind m = Gauge \<Longrightarrow> length vs = length (mt_Labels m) \<Longrightarrow>
    list_all bookkeeping (metric_Set m vs x)"
  "m \<in> set served \<Longrightarrow> mt_Kind m = Histogram \<Longrightarrow> length vs = length (mt_Labels m) \<Longrightarrow>
    list_all bookkeeping (metric_Observe m vs x)"
  using metric_well_labelled [of m vs] by (simp_all add: metric_Inc_def metric_Set_def metric_Observe_def)

lemma served_metrics [simp]:
  "gcPoliciesTotal \<in> set served" "gcResourcesMatchedTotal \<in> set served" "gcResourcesDeletedTotal \<in> set served"
  "gcDeletionDurationSeconds \<in> set served" "gcErrorsTotal \<in> set served" "gcEvaluationDurationSeconds \<in> set served"
  "gcInformersTotal \<in> set served" "gcRateLimitersTotal \<in> set served" "gcResourcesPendingTotal \<in> set served"
  by (simp_all add: served_def)

lemma metric_shapes [simp]:
  "mt_Kind gcPoliciesTotal = Gauge" "length (mt_Labels gcPoliciesTotal) = 1"
  "mt_Kind gcResourcesMatchedTotal = Counter" "length (mt_Labels gcResourcesMatchedTotal) = 4"
  "mt_Kind gcResourcesDeletedTotal = Counter" "length (mt_Labels gcResourcesDeletedTotal) = 5"
  "mt_Kind gcDeletionDurationSeconds = Histogram" "length (mt_Labels gcDeletionDurationSeconds) = 4"
  "mt_Kind gcErrorsTotal = Counter" "length (mt_Labels gcErrorsTotal) = 3"
  "mt_Kind gcEvaluationDurationSeconds = Histogram" "length (mt_Labels gcEvaluationDurationSeconds) = 2"
  "mt_Kind gcInformersTotal = Gauge" "mt_Labels gcInformersTotal = []"
  "mt_Kind gcRateLimitersTotal = Gauge" "mt_Labels gcRateLimitersTotal = []"
  "mt_Kind gcResourcesPendingTotal = Gauge" "length (mt_Labels gcResourcesPendingTotal) = 4"
  by (simp_all add: metric_defs resource_labels_def)

lemma bookkeeping_metrics [simp]:
  "list_all bookkeeping (recordPolicyPhase p n)" "list_all bookkeeping (recordResourceMatched a b c d)"
  "list_all bookkeeping (recordResourceDeleted a b c d r t)" "list_all bookkeeping (recordError a b ty)"
  "list_all bookkeeping (recordEvaluationDuration a b t)" "list_all bookkeeping (recordInformerCount n)"
  "list_all bookkeeping (recordRateLimiterCount n)" "list_all bookkeeping (recordResourcesPending a b c d n)"
  by (simp_all add: recordPolicyPhase_def recordResourceMatched_def recordResourceDeleted_def recordError_def
      recordEvaluationDuration_def recordInformerCount_def recordRateLimiterCount_def recordResourcesPending_def
      bookkeeping_vectors)

lemma bookkeeping_events [simp]: "list_all bookkeeping (events_Eventf er p t r m)"
  by (simp add: events_Eventf_def)

lemma bookkeeping_records [simp]:
  "list_all bookkeeping (RecordPolicyEvaluated er p a b c)"
  "list_all bookkeeping (RecordResourceDeleted er p r reason)"
  "list_all bookkeeping (RecordEvaluationFailed er p e)"
  "list_all bookkeeping (RecordStatusUpdateFailed er p e)"
  by (simp_all add: RecordPolicyEvaluated_def RecordResourceDeleted_def RecordEvaluationFailed_def
      RecordStatusUpdateFailed_def)

lemma bookkeeping_concat: "(\<And>x. x \<in> set xs \<Longrightarrow> list_all bookkeeping (f x)) \<Longrightarrow> list_all bookkeeping (concat (map f xs))"
  by (induction xs) simp_all

text \<open>A world without history, an outside that answers everything at once, for examples.\<close>

definition fresh_world :: world where
  "fresh_world = \<lparr>wd_tick = 0, wd_log = [], wd_gvr_cache = Some []\<rparr>"

definition calm_outside :: outside where
  "calm_outside = \<lparr>ctx_done = (\<lambda>_. False), ctx_err = (\<lambda>_. PlainError ''context canceled''),
     limiter_wait = (\<lambda>_ _. None), api_delete = (\<lambda>_ _. None), rest_mapping = None, now = (\<lambda>_. 0),
     IsTimeout = (\<lambda>e. e = PlainError ''timeout''), IsServerTimeout = (\<lambda>_. False),
     IsTooManyRequests = (\<lambda>_. False), IsServiceUnavailable = (\<lambda>_. False),
     IsNotFound = (\<lambda>e. e = PlainError ''not found''),
     get_policy_object = (\<lambda>_ _ _. Inr []), update_status = (\<lambda>_ _ _. None),
     format_rfc3339 = (\<lambda>_. ''2026-01-01T00:00:00Z''), status_ctx_done = (\<lambda>_. False)\<rparr>"

end
