(* ===== verification/Backoff.thy ===== *)
theory Backoff
  imports Prelude
begin

text \<open>
  internal/backoff/backoff.go: the retry delays. The factor and the jitter are 64-bit floats.
  A float is modelled by its exact value, a dyadic number \<open>m * 2 ^ e\<close>, and every operation
  rounds the mantissa to 53 bits, to nearest with ties to even, as IEEE 754 does. The
  exponent is not bounded: infinities, NaNs and subnormal numbers are not modelled, they do
  not occur for products of a 64-bit integer with factors of moderate size. A float outside
  the range of int64 converts to the least integer, which is what amd64 does (the language
  leaves it open).
\<close>

subsection \<open>Floats\<close>

record gofloat =
  mant :: int
  expo :: int

definition round_shift :: "int \<Rightarrow> nat \<Rightarrow> int" where
  "round_shift m k =
     (if k = 0 then m
      else
        (let q = m div 2 ^ k; r = m mod 2 ^ k; half = 2 ^ (k - 1)
         in if r < half then q else if r > half then q + 1 else if even q then q else q + 1))"

text \<open>The number of bits of a number, and the rounding of a dyadic to 53 bits.\<close>

function bit_width :: "int \<Rightarrow> nat" where
  "bit_width n = (if n \<le> 0 then 0 else Suc (bit_width (n div 2)))"
  by pat_completeness auto
termination
  by (relation "measure nat") auto

declare bit_width.simps [simp del]

definition round53 :: "int \<Rightarrow> int \<Rightarrow> gofloat" where
  "round53 m e =
     (let k = bit_width \<bar>m\<bar> - 53 in \<lparr>mant = round_shift m k, expo = e + int k\<rparr>)"

definition float_of_int :: "int \<Rightarrow> gofloat" where
  "float_of_int i = round53 i 0"

definition float_mult :: "gofloat \<Rightarrow> gofloat \<Rightarrow> gofloat" where
  "float_mult x y = round53 (mant x * mant y) (expo x + expo y)"

definition float_pos :: "gofloat \<Rightarrow> bool" where
  "float_pos x \<longleftrightarrow> mant x > 0"

text \<open>Conversion to an integer truncates toward zero.\<close>

definition trunc_shift :: "int \<Rightarrow> nat \<Rightarrow> int" where
  "trunc_shift m k = (if m < 0 then - (- m div 2 ^ k) else m div 2 ^ k)"

definition int_of_float :: "gofloat \<Rightarrow> int" where
  "int_of_float x =
     (if expo x \<ge> 0 then mant x * 2 ^ nat (expo x) else trunc_shift (mant x) (nat (- expo x)))"

definition i64_of_float :: "gofloat \<Rightarrow> i64" where
  "i64_of_float x =
     (let i = int_of_float x in
      if - (2 ^ 63) \<le> i \<and> i < 2 ^ 63 then word_of_int i else word_of_int (- (2 ^ 63)))"

definition i64_half :: "i64 \<Rightarrow> i64" where
  "i64_half x = word_of_int (trunc_shift (sint x) 1)"

subsection \<open>The code\<close>

record Config =
  bc_Steps :: int
  bc_Duration :: i64
  bc_Factor :: gofloat
  bc_Jitter :: gofloat
  bc_Cap :: i64

record Backoff =
  bo_config :: Config
  bo_step :: int

text \<open>The nearest floats of 2.0 and 0.1.\<close>

definition float_2_0 :: gofloat where "float_2_0 = \<lparr>mant = 1, expo = 1\<rparr>"
definition float_0_1 :: gofloat where "float_0_1 = \<lparr>mant = 3602879701896397, expo = - 55\<rparr>"

definition DefaultConfig :: Config where
  "DefaultConfig = \<lparr>bc_Steps = 5, bc_Duration = 100 * 1000000, bc_Factor = float_2_0,
     bc_Jitter = float_0_1, bc_Cap = 30 * 1000000000\<rparr>"

definition NewBackoff :: "Config \<Rightarrow> Backoff" where
  "NewBackoff config = \<lparr>bo_config = config, bo_step = 0\<rparr>"

definition grow :: "Config \<Rightarrow> i64 \<Rightarrow> i64" where
  "grow c duration =
     (let duration = i64_of_float (float_mult (float_of_int (sint duration)) (bc_Factor c))
      in if sint duration > sint (bc_Cap c) then bc_Cap c else duration)"

fun grow_loop :: "Config \<Rightarrow> nat \<Rightarrow> i64 \<Rightarrow> i64" where
  "grow_loop c 0 duration = duration"
| "grow_loop c (Suc n) duration = grow_loop c n (grow c duration)"

definition add_jitter :: "Config \<Rightarrow> i64 \<Rightarrow> i64" where
  "add_jitter c duration =
     (if float_pos (bc_Jitter c)
      then duration + i64_half (i64_of_float (float_mult (float_of_int (sint duration)) (bc_Jitter c)))
      else duration)"

definition Next :: "Backoff \<Rightarrow> i64 \<times> Backoff" where
  "Next b =
     (if bo_step b \<ge> bc_Steps (bo_config b) then (0, b)
      else
        (let duration = grow_loop (bo_config b) (nat (bo_step b)) (bc_Duration (bo_config b));
             duration = add_jitter (bo_config b) duration
         in (duration, b\<lparr>bo_step := bo_step b + 1\<rparr>)))"

definition Reset :: "Backoff \<Rightarrow> Backoff" where
  "Reset b = b\<lparr>bo_step := 0\<rparr>"

definition Step :: "Backoff \<Rightarrow> int" where
  "Step b = bo_step b"

definition IsExhausted :: "Backoff \<Rightarrow> bool" where
  "IsExhausted b \<longleftrightarrow> bo_step b \<ge> bc_Steps (bo_config b)"

subsection \<open>Bounds and exhaustion\<close>

lemma grow_le_Cap: "sint (grow c d) \<le> sint (bc_Cap c)"
  by (simp add: grow_def Let_def)

lemma grow_loop_le_Cap: "sint d \<le> sint (bc_Cap c) \<Longrightarrow> sint (grow_loop c n d) \<le> sint (bc_Cap c)"
  by (induction c n d rule: grow_loop.induct) (simp_all add: grow_le_Cap)

text \<open>The delays drawn in sequence, and the backoff after that.\<close>

fun delays :: "nat \<Rightarrow> Backoff \<Rightarrow> i64 list \<times> Backoff" where
  "delays 0 b = ([], b)"
| "delays (Suc n) b = (let (d, b') = Next b; (ds, b'') = delays n b' in (d # ds, b''))"

lemma Next_config [simp]: "bo_config (snd (Next b)) = bo_config b"
  by (simp add: Next_def Let_def)

lemma Next_step: "bo_step (snd (Next b)) = (if IsExhausted b then bo_step b else bo_step b + 1)"
  by (simp add: Next_def IsExhausted_def Let_def)

lemma snd_delays_Suc: "snd (delays (Suc n) b) = snd (delays n (snd (Next b)))"
  by (simp add: Let_def split: prod.splits)

lemma delays_state:
  "bo_config (snd (delays n b)) = bo_config b \<and>
   bo_step (snd (delays n b)) =
     (if IsExhausted b then bo_step b else min (bo_step b + int n) (bc_Steps (bo_config b)))"
proof (induction n arbitrary: b)
  case (Suc n)
  show ?case
    using Suc [of "snd (Next b)"] Next_step [of b]
    unfolding snd_delays_Suc by (auto simp: IsExhausted_def min_def split: if_splits)
qed (auto simp: IsExhausted_def)

text \<open>
  The backoff grants exactly the configured number of attempts: starting fresh it is
  exhausted after \<open>Steps\<close> draws and not before, from then on a draw answers 0 and changes
  nothing, and \<open>Reset\<close> makes it fresh again.
\<close>

theorem backoff_grants_Steps:
  assumes "0 \<le> bc_Steps c"
  shows "(IsExhausted (snd (delays n (NewBackoff c))) \<longleftrightarrow> int n \<ge> bc_Steps c) \<and>
    (IsExhausted b \<longrightarrow> Next b = (0, b)) \<and>
    Reset (snd (delays n (NewBackoff c))) = NewBackoff c"
  using delays_state [of n "NewBackoff c"] assms
  by (auto simp: IsExhausted_def NewBackoff_def Reset_def Next_def min_def split: if_splits)

theorem backoff_grants_Steps_witness:
  "IsExhausted (snd (delays 5 (NewBackoff DefaultConfig))) \<and>
    \<not> IsExhausted (snd (delays 4 (NewBackoff DefaultConfig)))"
  using backoff_grants_Steps [of DefaultConfig 5] backoff_grants_Steps [of DefaultConfig 4]
  by (simp add: DefaultConfig_def)

text \<open>
  The delay before jitter never exceeds the larger of the initial duration and the cap,
  for every factor, positive or not, and with every rounding.
\<close>

theorem base_delay_capped:
  "sint (grow_loop c n (bc_Duration c)) \<le> max (sint (bc_Duration c)) (sint (bc_Cap c))"
proof (cases n)
  case (Suc m)
  then show ?thesis
    using grow_loop_le_Cap [OF grow_le_Cap, of c m "bc_Duration c"] by simp
qed simp

text \<open>
  The schedule of the default configuration, with float rounding: 105, 210, 420, 840 and
  1680 milliseconds, and 0 after the fifth draw.
\<close>

theorem default_schedule:
  "fst (delays 7 (NewBackoff DefaultConfig)) =
    [105000000, 210000000, 420000000, 840000000, 1680000000, 0, 0]"
  by code_simp

end
