(* ===== verification/Deletion.thy ===== *)
theory Deletion
  imports World Backoff
begin

text \<open>
  From the decision to delete to the call of the API server: propagation policy and delete
  options (shared.go, reconciler_helpers.go), resolution of the resource name with its cache
  (gvr_resolver.go), the deletion of one resource with rate limit and dry run (reconciler.go),
  the retry loop and the deletion of a batch (shared.go). A function of the code that acts on
  the outside takes and returns the world; an error result is an option, \<open>None\<close> for nil.
\<close>

subsection \<open>Options\<close>

definition getDeletionPropagationPolicy :: "string \<Rightarrow> string" where
  "getDeletionPropagationPolicy policyStr =
     (if policyStr = ''Foreground'' then ''Foreground''
      else if policyStr = ''Orphan'' then ''Orphan''
      else ''Background'')"

definition buildDeleteOptions :: "GarbageCollectionPolicy \<Rightarrow> DeleteOptions" where
  "buildDeleteOptions policy =
     (let o0 = \<lparr>do_GracePeriodSeconds = None, do_PropagationPolicy = None\<rparr>;
          o1 = (if bh_GracePeriodSeconds (gs_Behavior (gp_Spec policy)) \<noteq> None
                then o0\<lparr>do_GracePeriodSeconds := bh_GracePeriodSeconds (gs_Behavior (gp_Spec policy))\<rparr>
                else o0)
      in o1\<lparr>do_PropagationPolicy :=
           Some (getDeletionPropagationPolicy (bh_PropagationPolicy (gs_Behavior (gp_Spec policy))))\<rparr>)"

subsection \<open>gvr_resolver.go\<close>

definition resource_gvk :: "resource \<Rightarrow> GroupVersionKind" where
  "resource_gvk r = \<lparr>gvk_Group = res_Group r, gvk_Version = res_Version r, gvk_Kind = res_Kind r\<rparr>"

definition resolveGVRWithPluralization :: "GroupVersionKind \<Rightarrow> GroupVersionResource" where
  "resolveGVRWithPluralization gvk =
     \<lparr>gvr_Group = gvk_Group gvk, gvr_Version = gvk_Version gvk,
      gvr_Resource = PluralizeKind (gvk_Kind gvk)\<rparr>"

text \<open>
  The cache is the argument: it is \<open>Some\<close> of the map of the resolver. The error of the
  function is always nil, so it is left out.
\<close>

definition ResolveGVR ::
    "('x) outside_scheme \<Rightarrow> GroupVersionKind \<Rightarrow> (GroupVersionKind, GroupVersionResource) gomap \<Rightarrow>
      world \<Rightarrow> GroupVersionResource \<times> world" where
  "ResolveGVR out gvk cache w =
     (case map_of cache gvk of
        Some gvr \<Rightarrow> (gvr, w)
      | None \<Rightarrow>
          (case rest_mapping out of
             Some restMapping \<Rightarrow>
               (let w1 = tick w in
                case restMapping (wd_tick w) gvk of
                  Some gvr \<Rightarrow> (gvr, w1\<lparr>wd_gvr_cache := Some (go_put gvk gvr cache)\<rparr>)
                | None \<Rightarrow> (resolveGVRWithPluralization gvk, w1))
           | None \<Rightarrow> (resolveGVRWithPluralization gvk, w)))"

definition resolveGVRForDeletion ::
    "('x) outside_scheme \<Rightarrow> resource \<Rightarrow> world \<Rightarrow> GroupVersionResource \<times> world" where
  "resolveGVRForDeletion out resource w =
     (case wd_gvr_cache w of
        Some cache \<Rightarrow> ResolveGVR out (resource_gvk resource) cache w
      | None \<Rightarrow>
          (\<lparr>gvr_Group = gvk_Group (resource_gvk resource),
            gvr_Version = gvk_Version (resource_gvk resource),
            gvr_Resource = PluralizeKind (res_Kind resource)\<rparr>, w))"

subsection \<open>The deletion of one resource\<close>

definition performResourceDeletion ::
    "('x) outside_scheme \<Rightarrow> resource \<Rightarrow> GroupVersionResource \<Rightarrow> DeleteOptions \<Rightarrow> world \<Rightarrow>
      go_error option \<times> world" where
  "performResourceDeletion out resource gvr deleteOptions w =
     (let namespace = res_Namespace resource;
          req = (if namespace = []
                 then \<lparr>dr_GVR = gvr, dr_Namespace = None, dr_Name = res_Name resource, dr_Options = deleteOptions\<rparr>
                 else \<lparr>dr_GVR = gvr, dr_Namespace = Some namespace, dr_Name = res_Name resource,
                        dr_Options = deleteOptions\<rparr>);
          err = api_delete out (wd_tick w) req;
          w = emit [DeleteCall req] (tick w)
      in case err of
           Some e \<Rightarrow> if \<not> IsNotFound out e then (Some e, w) else (None, w)
         | None \<Rightarrow> (None, w))"

definition limiter_Wait :: "('x) outside_scheme \<Rightarrow> nat \<Rightarrow> world \<Rightarrow> go_error option \<times> world" where
  "limiter_Wait out rateLimiter w =
     (limiter_wait out (wd_tick w) rateLimiter, emit [LimiterWait rateLimiter] (tick w))"

definition deleteResource ::
    "('x) outside_scheme \<Rightarrow> resource \<Rightarrow> GarbageCollectionPolicy \<Rightarrow> nat \<Rightarrow> world \<Rightarrow>
      go_error option \<times> world" where
  "deleteResource out resource policy rateLimiter w =
     (case limiter_Wait out rateLimiter w of
        (Some err, w) \<Rightarrow> (Some err, w)
      | (None, w) \<Rightarrow>
          if bh_DryRun (gs_Behavior (gp_Spec policy)) then (None, w)
          else
            (let (gvr, w) = resolveGVRForDeletion out resource w;
                 deleteOptions = buildDeleteOptions policy
             in performResourceDeletion out resource gvr deleteOptions w))"

subsection \<open>Retries\<close>

text \<open>
  The loop of \<open>deleteResourceWithBackoffShared\<close> over a deleter, with the backoff and the last
  error as its variables. \<open>break\<close> on a zero delay leaves the loop. The wait is a select
  between the context and the timer: the observation at that tick says which one fires.
\<close>

definition retryable :: "('x) outside_scheme \<Rightarrow> go_error \<Rightarrow> bool" where
  "retryable out err =
     (IsTimeout out err \<or> IsServerTimeout out err \<or> IsTooManyRequests out err \<or> IsServiceUnavailable out err)"

definition exhausted_error :: "go_error option \<Rightarrow> go_error" where
  "exhausted_error lastErr =
     (case lastErr of
        Some e \<Rightarrow> WrapError ''deletion failed after retries'' e
      | None \<Rightarrow> PlainError ''deletion failed after retries: %!w(<nil>)'')"

function (sequential) backoff_loop ::
    "('x) outside_scheme \<Rightarrow> (world \<Rightarrow> go_error option \<times> world) \<Rightarrow> Backoff \<Rightarrow> go_error option \<Rightarrow>
      world \<Rightarrow> go_error option \<times> world" where
  "backoff_loop out deleter b lastErr w =
     (if IsExhausted b then (Some (exhausted_error lastErr), w)
      else
        (let (done, w) = check_ctx out w
         in if done then (Some (ctx_err out (wd_tick w)), w)
            else
              (case deleter w of
                 (None, w) \<Rightarrow> (None, w)
               | (Some err, w) \<Rightarrow>
                   if retryable out err then
                     (let (duration, b') = Next b
                      in if duration = 0 then (Some (exhausted_error (Some err)), w)
                         else
                           (let (done, w) = check_ctx out w
                            in if done then (Some (ctx_err out (wd_tick w)), w)
                               else backoff_loop out deleter b' (Some err) (emit [Sleep duration] w)))
                   else if IsNotFound out err then (None, w)
                   else (Some err, w))))"
  by pat_completeness auto
termination
  by (relation "measure (\<lambda>(out, deleter, b, lastErr, w). nat (bc_Steps (bo_config b) - bo_step b))")
    (auto simp: Next_def IsExhausted_def Let_def)

declare backoff_loop.simps [simp del]

definition ErrNoDeleter :: go_error where
  "ErrNoDeleter = PlainError ''no deleter provided''"

text \<open>The two deleters of the signature; a nil interface is \<open>None\<close>.\<close>

definition deleteResourceWithBackoffShared ::
    "('x) outside_scheme \<Rightarrow> (world \<Rightarrow> go_error option \<times> world) option \<Rightarrow>
      (world \<Rightarrow> go_error option \<times> world) option \<Rightarrow> world \<Rightarrow> go_error option \<times> world" where
  "deleteResourceWithBackoffShared out deleterWithCtx deleterWithoutCtx w =
     (let b = NewBackoff DefaultConfig
      in case deleterWithCtx of
           Some d \<Rightarrow> backoff_loop out d b None w
         | None \<Rightarrow>
             (case deleterWithoutCtx of
                Some d \<Rightarrow> backoff_loop out d b None w
              | None \<Rightarrow>
                  (let (done, w) = check_ctx out w
                   in if done then (Some (ctx_err out (wd_tick w)), w) else (Some ErrNoDeleter, w))))"

definition DeleteResourceWithBackoff ::
    "('x) outside_scheme \<Rightarrow> resource \<Rightarrow> GarbageCollectionPolicy \<Rightarrow> nat \<Rightarrow> world \<Rightarrow>
      go_error option \<times> world" where
  "DeleteResourceWithBackoff out resource policy rateLimiter =
     deleteResourceWithBackoffShared out (Some (deleteResource out resource policy rateLimiter)) None"

subsection \<open>A batch\<close>

definition deletion_error :: "GarbageCollectionPolicy \<Rightarrow> resource \<Rightarrow> go_error \<Rightarrow> go_error" where
  "deletion_error policy resource err =
     set_error_Type ''deletion_failed''
       (WithResource (WithPolicy err (gp_Namespace policy) (gp_Name policy))
          (res_Namespace resource) (res_Name resource))"

text \<open>
  The body of the loop of \<open>deleteBatchShared\<close> after the check of the context: what it adds to
  the count and to the errors. The deleter is any implementation of the interface.
\<close>

definition batch_item ::
    "('x) outside_scheme \<Rightarrow> (resource \<Rightarrow> world \<Rightarrow> go_error option \<times> world) \<Rightarrow> EventRecorder \<Rightarrow>
      GarbageCollectionPolicy \<Rightarrow> nat \<Rightarrow> (string, string) gomap \<Rightarrow> resource \<Rightarrow> world \<Rightarrow>
      (int \<times> go_error list) \<times> world" where
  "batch_item out del er policy rateLimiter reasons resource w =
     (case limiter_Wait out rateLimiter w of
        (Some err, w) \<Rightarrow> ((0, [WrapError ''rate limiter error'' err]), w)
      | (None, w) \<Rightarrow>
          (let (deleteStart, w) = read_clock out w
           in case del resource w of
                (Some err, w) \<Rightarrow>
                  ((0, [deletion_error policy resource err]),
                   emit (recordError (gp_Namespace policy) (gp_Name policy) ''deletion_failed'') w)
              | (None, w) \<Rightarrow>
                  (let (now', w) = read_clock out w;
                       reason = go_index [] reasons (res_UID resource);
                       w = emit (recordResourceDeleted (gp_Namespace policy) (gp_Name policy)
                             (tr_APIVersion (gs_TargetResource (gp_Spec policy)))
                             (tr_Kind (gs_TargetResource (gp_Spec policy)))
                             reason (now' - deleteStart)) w
                   in ((1, []),
                       emit (if er \<noteq> None then RecordResourceDeleted er policy resource reason else []) w))))"

fun deleteBatch_loop ::
    "('x) outside_scheme \<Rightarrow> (resource \<Rightarrow> world \<Rightarrow> go_error option \<times> world) \<Rightarrow> EventRecorder \<Rightarrow>
      GarbageCollectionPolicy \<Rightarrow> nat \<Rightarrow> (string, string) gomap \<Rightarrow>
      nat \<Rightarrow> resource list \<Rightarrow> int \<Rightarrow> go_error list \<Rightarrow> world \<Rightarrow> (int \<times> go_error list) \<times> world" where
  "deleteBatch_loop out del er policy rateLimiter reasons i [] deletedCount errs w =
     ((deletedCount, errs), w)"
| "deleteBatch_loop out del er policy rateLimiter reasons i (resource # rest) deletedCount errs w =
     (let (done, w) = (if i mod 50 = 0 then check_ctx out w else (False, w))
      in if done then ((deletedCount, errs), w)
         else
           (let ((deleted, failed), w) = batch_item out del er policy rateLimiter reasons resource w
            in deleteBatch_loop out del er policy rateLimiter reasons (Suc i) rest
                 (deletedCount + deleted) (errs @ failed) w))"

definition deleteBatchShared ::
    "('x) outside_scheme \<Rightarrow> (resource \<Rightarrow> world \<Rightarrow> go_error option \<times> world) \<Rightarrow> EventRecorder \<Rightarrow>
      resource list \<Rightarrow> GarbageCollectionPolicy \<Rightarrow> nat \<Rightarrow> (string, string) gomap \<Rightarrow> world \<Rightarrow>
      (int \<times> go_error list) \<times> world" where
  "deleteBatchShared out del er batch policy rateLimiter reasons w =
     deleteBatch_loop out del er policy rateLimiter reasons 0 batch 0 [] w"

text \<open>\<open>GCPolicyReconciler.deleteBatch\<close>.\<close>

definition deleteBatch ::
    "('x) outside_scheme \<Rightarrow> EventRecorder \<Rightarrow> resource list \<Rightarrow> GarbageCollectionPolicy \<Rightarrow> nat \<Rightarrow>
      (string, string) gomap \<Rightarrow> world \<Rightarrow> (int \<times> go_error list) \<times> world" where
  "deleteBatch out er batch policy rateLimiter reasons =
     deleteBatchShared out (\<lambda>resource. DeleteResourceWithBackoff out resource policy rateLimiter)
       er batch policy rateLimiter reasons"

text \<open>One round of the loop, without the patterns.\<close>

lemma deleteBatch_loop_Cons:
  "deleteBatch_loop out del er policy l reasons i (r # rest) n errs w =
     (if i mod 50 = 0 \<and> ctx_done out (wd_tick w) then ((n, errs), tick w)
      else
        (let q = batch_item out del er policy l reasons r (if i mod 50 = 0 then tick w else w)
         in deleteBatch_loop out del er policy l reasons (Suc i) rest
              (n + fst (fst q)) (errs @ snd (fst q)) (snd q)))"
  by (auto simp: check_ctx_def Let_def split: prod.splits)

declare deleteBatch_loop.simps(2) [simp del]

subsection \<open>The names of a kind\<close>

text \<open>
  Under which names the API server is asked for the resources of a kind: those that discovery
  answers for it at some time, and the English plurals of the kind in its own group and version,
  among them the guess of the resolver. The cache may hold one more name for a kind.
\<close>

definition plural_forms :: "string \<Rightarrow> string set" where
  "plural_forms kind = {to_lower kind @ ''s'', to_lower kind @ ''es'', butlast (to_lower kind) @ ''ies''}"

definition discovered :: "('x) outside_scheme \<Rightarrow> GroupVersionKind \<Rightarrow> GroupVersionResource set" where
  "discovered out gvk = {gvr. \<exists>f t. rest_mapping out = Some f \<and> f t gvk = Some gvr}"

definition cached :: "world \<Rightarrow> GroupVersionKind \<Rightarrow> GroupVersionResource set" where
  "cached w gvk = {gvr. \<exists>cache. wd_gvr_cache w = Some cache \<and> map_of cache gvk = Some gvr}"

definition served_names :: "('x) outside_scheme \<Rightarrow> GroupVersionKind \<Rightarrow> GroupVersionResource set" where
  "served_names out gvk = {gvr. gvr_Group gvr = gvk_Group gvk \<and> gvr_Version gvr = gvk_Version gvk \<and>
     gvr_Resource gvr \<in> plural_forms (gvk_Kind gvk)} \<union> discovered out gvk"

definition names_of :: "('x) outside_scheme \<Rightarrow> world \<Rightarrow> GroupVersionKind \<Rightarrow> GroupVersionResource set" where
  "names_of out w gvk = served_names out gvk \<union> cached w gvk"

definition cache_confirmed :: "('x) outside_scheme \<Rightarrow> world \<Rightarrow> bool" where
  "cache_confirmed out w \<longleftrightarrow>
     (\<forall>cache gvk gvr. wd_gvr_cache w = Some cache \<longrightarrow> map_of cache gvk = Some gvr \<longrightarrow>
        (\<exists>f t. rest_mapping out = Some f \<and> f t gvk = Some gvr))"

text \<open>A step of the cache: it only gains names that discovery answered, and it stays.\<close>

definition cache_step :: "('x) outside_scheme \<Rightarrow> world \<Rightarrow> world \<Rightarrow> bool" where
  "cache_step out w w' \<longleftrightarrow>
     (\<forall>gvk. cached w' gvk \<subseteq> cached w gvk \<union> discovered out gvk) \<and>
     (wd_gvr_cache w \<noteq> None \<longrightarrow> wd_gvr_cache w' \<noteq> None)"

lemma cached_simps [simp]:
  "cached (tick w) = cached w" "cached (emit es w) = cached w"
  by (simp_all add: cached_def fun_eq_iff)

lemma cache_confirmed_cached: "cache_confirmed out w \<longleftrightarrow> (\<forall>gvk. cached w gvk \<subseteq> discovered out gvk)"
  by (auto simp: cache_confirmed_def cached_def discovered_def)

lemma cache_confirmed_simps [simp]:
  "cache_confirmed out (tick w) = cache_confirmed out w"
  "cache_confirmed out (emit es w) = cache_confirmed out w"
  by (simp_all add: cache_confirmed_def)

lemma cache_step_confirmed: "cache_step out w w' \<Longrightarrow> cache_confirmed out w \<Longrightarrow> cache_confirmed out w'"
  unfolding cache_step_def cache_confirmed_cached by blast

lemma cache_step_refl [simp]: "cache_step out w w"
  by (simp add: cache_step_def)

lemma cache_step_trans: "cache_step out w w' \<Longrightarrow> cache_step out w' w'' \<Longrightarrow> cache_step out w w''"
  unfolding cache_step_def by blast

lemma cache_step_simps [simp]:
  "cache_step out w (emit es w') = cache_step out w w'" "cache_step out w (tick w') = cache_step out w w'"
  "cache_step out (tick w) w' = cache_step out w w'"
  by (simp_all add: cache_step_def)

lemma cache_step_names: "cache_step out w w' \<Longrightarrow> names_of out w' gvk \<subseteq> names_of out w gvk"
  by (auto simp: cache_step_def names_of_def served_names_def)

lemma confirmed_names: "cache_confirmed out w \<Longrightarrow> names_of out w gvk = served_names out gvk"
  by (auto simp: cache_confirmed_cached names_of_def served_names_def)

lemma plural_served: "resolveGVRWithPluralization gvk \<in> served_names out gvk"
  by (auto simp: served_names_def resolveGVRWithPluralization_def PluralizeKind_def plural_forms_def Let_def
      butlast_conv_take)

text \<open>What is found in the cache, asked of discovery or guessed is a name of the kind.\<close>

lemma ResolveGVR_name:
  assumes "wd_gvr_cache w = Some cache"
  shows "fst (ResolveGVR out gvk cache w) \<in> names_of out w gvk"
    and "cache_step out w (snd (ResolveGVR out gvk cache w))"
  using assms plural_served [of gvk out]
  by (auto simp: ResolveGVR_def names_of_def served_names_def discovered_def cached_def cache_step_def Let_def
      simp del: map_of_eq_Some_iff split: option.splits if_splits)

lemma resolve_name: "fst (resolveGVRForDeletion out r w) \<in> names_of out w (resource_gvk r)"
  using ResolveGVR_name(1) [of w _ out "resource_gvk r"] plural_served [of "resource_gvk r" out]
  by (auto simp: resolveGVRForDeletion_def names_of_def resolveGVRWithPluralization_def resource_gvk_def
      split: option.splits)

lemma resolve_cache_step: "cache_step out w (snd (resolveGVRForDeletion out r w))"
  by (auto simp: resolveGVRForDeletion_def ResolveGVR_name(2) split: option.splits)

lemma perform_cache_step: "cache_step out w (snd (performResourceDeletion out r gvr opts w))"
  by (simp add: performResourceDeletion_def Let_def split: option.splits)

lemma deleteResource_cache_step: "cache_step out w (snd (deleteResource out r p l w))"
proof -
  obtain e w1 where w1: "limiter_Wait out l w = (e, w1)" by fastforce
  then have s1: "cache_step out w w1"
    by (auto simp: limiter_Wait_def)
  obtain gvr w2 where w2: "resolveGVRForDeletion out r w1 = (gvr, w2)" by fastforce
  then have "cache_step out w w2"
    using cache_step_trans [OF s1 resolve_cache_step] by (metis snd_conv)
  from cache_step_trans [OF this perform_cache_step] s1 show ?thesis
    by (cases e) (auto simp: deleteResource_def w1 w2)
qed

subsection \<open>What a deletion may do\<close>

text \<open>
  The request for a resource: its own name and namespace, one of the names \<open>N\<close> of its own
  group, version and kind, and the delete options of the policy.
\<close>

definition request_for ::
    "(GroupVersionKind \<Rightarrow> GroupVersionResource set) \<Rightarrow> resource \<Rightarrow> GarbageCollectionPolicy \<Rightarrow> DeleteRequest \<Rightarrow> bool" where
  "request_for N r p req \<longleftrightarrow> dr_GVR req \<in> N (resource_gvk r) \<and> dr_Name req = res_Name r \<and>
     dr_Namespace req = (if res_Namespace r = [] then None else Some (res_Namespace r)) \<and>
     dr_Options req = buildDeleteOptions p"

fun permitted ::
    "(GroupVersionKind \<Rightarrow> GroupVersionResource set) \<Rightarrow> resource \<Rightarrow> GarbageCollectionPolicy \<Rightarrow> nat \<Rightarrow> effect \<Rightarrow> bool" where
  "permitted N r p l (LimiterWait l') = (l' = l)"
| "permitted N r p l (DeleteCall req) = (\<not> bh_DryRun (gs_Behavior (gp_Spec p)) \<and> request_for N r p req)"
| "permitted N r p l (Sleep d) = True"
| "permitted N r p l _ = False"

lemma ResolveGVR_log [simp]: "wd_log (snd (ResolveGVR out gvk cache w)) = wd_log w"
  by (simp add: ResolveGVR_def Let_def split: option.splits)

lemma resolveGVRForDeletion_log [simp]: "wd_log (snd (resolveGVRForDeletion out r w)) = wd_log w"
  by (simp add: resolveGVRForDeletion_def split: option.splits)

lemma limiter_Wait_log [simp]: "wd_log (snd (limiter_Wait out l w)) = wd_log w @ [LimiterWait l]"
  by (simp add: limiter_Wait_def)

lemma performResourceDeletion_log:
  "\<exists>req. wd_log (snd (performResourceDeletion out r gvr opts w)) = wd_log w @ [DeleteCall req] \<and>
    dr_GVR req = gvr \<and> dr_Name req = res_Name r \<and> dr_Options req = opts \<and>
    dr_Namespace req = (if res_Namespace r = [] then None else Some (res_Namespace r))"
  by (simp add: performResourceDeletion_def Let_def split: option.splits)

text \<open>The log of one attempt: one wait, and one call unless the wait failed or it is a dry run.\<close>

lemma deleteResource_log:
  "wd_log (snd (deleteResource out r p l w)) =
     wd_log w @ [LimiterWait l] \<or>
   \<not> bh_DryRun (gs_Behavior (gp_Spec p)) \<and>
     (\<exists>req. request_for (names_of out w) r p req \<and>
        wd_log (snd (deleteResource out r p l w)) = wd_log w @ [LimiterWait l, DeleteCall req])"
proof -
  obtain e w1 where w1: "limiter_Wait out l w = (e, w1)" by fastforce
  then have log1: "wd_log w1 = wd_log w @ [LimiterWait l]" and step1: "cache_step out w w1"
    using limiter_Wait_log [of out l w] by (auto simp: limiter_Wait_def)
  obtain gvr w2 where w2: "resolveGVRForDeletion out r w1 = (gvr, w2)" by fastforce
  then have log2: "wd_log w2 = wd_log w1"
    using resolveGVRForDeletion_log [of out r w1] by simp
  have gvr: "gvr \<in> names_of out w (resource_gvk r)"
    using resolve_name [of out r w1] cache_step_names [OF step1, of "resource_gvk r"] by (auto simp: w2)
  show ?thesis
    using performResourceDeletion_log [of out r gvr "buildDeleteOptions p" w2] gvr
    by (cases e) (auto simp: deleteResource_def w1 w2 log1 log2 request_for_def)
qed

text \<open>
  What is appended to the log under the names of the world before, and under any more of them:
  with a step of the cache this is transitive, since a step brings no name that was not there.
\<close>

definition logs ::
    "('x) outside_scheme \<Rightarrow> ((GroupVersionKind \<Rightarrow> GroupVersionResource set) \<Rightarrow> effect \<Rightarrow> bool) \<Rightarrow> world \<Rightarrow> world \<Rightarrow> bool" where
  "logs out P w w' \<longleftrightarrow> cache_step out w w' \<and>
     (\<forall>N. (\<forall>gvk. names_of out w gvk \<subseteq> N gvk) \<longrightarrow> appends (P N) w w')"

lemma logs_intro: "cache_step out w w' \<Longrightarrow> (\<And>N. appends (P N) w w') \<Longrightarrow> logs out P w w'"
  by (simp add: logs_def)

lemma logs_cache: "logs out P w w' \<Longrightarrow> cache_step out w w'"
  by (simp add: logs_def)

lemma logs_appends: "logs out P w w' \<Longrightarrow> appends (P (names_of out w)) w w'"
  by (simp add: logs_def)

lemma logs_refl: "logs out P w w"
  by (simp add: logs_def appends_refl)

lemma logs_trans: "logs out P w w' \<Longrightarrow> logs out P w' w'' \<Longrightarrow> logs out P w w''"
proof -
  assume l: "logs out P w w'" "logs out P w' w''"
  have step: "cache_step out w w'" "cache_step out w' w''"
    using l by (simp_all add: logs_def)
  have "appends (P N) w w''" if "\<forall>gvk. names_of out w gvk \<subseteq> N gvk" for N
  proof (rule appends_trans)
    show "appends (P N) w w'"
      using l(1) that by (simp add: logs_def)
    have "\<forall>gvk. names_of out w' gvk \<subseteq> N gvk"
      using cache_step_names [OF step(1)] that by blast
    then show "appends (P N) w' w''"
      using l(2) by (simp add: logs_def)
  qed
  then show ?thesis
    unfolding logs_def using cache_step_trans [OF step] by blast
qed

lemma logs_emit: "(\<And>N. list_all (P N) es) \<Longrightarrow> logs out P w (emit es w)"
  by (simp add: logs_intro appends_emit)

lemma logs_mono: "logs out P w w' \<Longrightarrow> (\<And>N e. P N e \<Longrightarrow> Q N e) \<Longrightarrow> logs out Q w w'"
  unfolding logs_def by (meson appends_mono)

lemma logs_tick [simp]:
  "logs out P w (tick w') = logs out P w w'" "logs out P (tick w) w' = logs out P w w'"
  by (simp_all add: logs_def names_of_def)

lemma request_for_mono:
  "request_for N r p req \<Longrightarrow> \<forall>gvk. N gvk \<subseteq> M gvk \<Longrightarrow> request_for M r p req"
  by (auto simp: request_for_def)

lemma deleteResource_logs: "logs out (\<lambda>N. permitted N r p l) w (snd (deleteResource out r p l w))"
  using deleteResource_log [of out r p l w] deleteResource_cache_step [of out w r p l]
  unfolding logs_def appends_def by (auto intro: request_for_mono)

subsection \<open>Relations that every loop respects\<close>

text \<open>
  A reflexive and transitive relation between the world before and after, which observing the
  outside respects. When every deletion of one resource respects it, so do the retry loop and
  the batch: this is what the loops promise about any deleter behind the interface.
\<close>

locale world_relation =
  fixes R :: "world \<Rightarrow> world \<Rightarrow> bool"
  assumes R_refl: "R w w"
    and R_trans: "R w w' \<Longrightarrow> R w' w'' \<Longrightarrow> R w w''"
    and R_tick: "R w (tick w)"
begin

lemma backoff_loop_rel:
  assumes "\<And>w. R w (snd (d w))" and "\<And>t w. R w (emit [Sleep t] w)"
  shows "R w (snd (backoff_loop out d b lastErr w))"
  using assms
proof (induction out d b lastErr w rule: backoff_loop.induct)
  case (1 out d b lastErr w)
  obtain e w1 where w1: "d (tick w) = (e, w1)" by fastforce
  then have log1: "R w w1"
    using 1(2) [of "tick w"] R_trans [OF R_tick] by simp
  show ?case
  proof (cases "IsExhausted b \<or> ctx_done out (wd_tick w)")
    case True
    then show ?thesis
      by (auto simp: backoff_loop.simps [of _ _ b] check_ctx_def R_refl R_tick)
  next
    case go: False
    show ?thesis
    proof (cases e)
      case None
      with go log1 show ?thesis
        by (simp add: backoff_loop.simps [of _ _ b] check_ctx_def w1)
    next
      case (Some err)
      obtain t b' where nx: "Next b = (t, b')" by fastforce
      have ih: "R (emit [Sleep t] (tick w1)) (snd (backoff_loop out d b' (Some err) (emit [Sleep t] (tick w1))))"
        if "retryable out err" "t \<noteq> 0" "\<not> ctx_done out (wd_tick w1)"
        using go that 1(2,3) Some w1 nx by (intro 1(1)) (auto simp: check_ctx_def)
      have "R w (emit [Sleep t] (tick w1))"
        using R_trans [OF R_trans [OF log1 R_tick] 1(3)] .
      from R_trans [OF this ih] R_trans [OF log1 R_tick] go log1 Some show ?thesis
        by (auto simp: backoff_loop.simps [of _ _ b] check_ctx_def w1 nx)
    qed
  qed
qed

lemma batch_item_rel:
  assumes del: "\<And>w. R w (snd (del r w))"
    and book: "\<And>es w. list_all bookkeeping es \<Longrightarrow> R w (emit es w)"
    and wait: "\<And>w. R w (emit [LimiterWait l] w)"
  shows "R w (snd (batch_item out del er policy l reasons r w))"
proof -
  obtain e w1 where w1: "limiter_Wait out l w = (e, w1)" by fastforce
  then have log1: "R w w1"
    using R_trans [OF R_tick wait, of w] by (simp add: limiter_Wait_def)
  obtain e' w2 where w2: "del r (tick w1) = (e', w2)" by fastforce
  then have log2: "R w w2"
    using R_trans [OF R_trans [OF log1 R_tick] del] by simp
  have book2: "list_all bookkeeping es \<Longrightarrow> R w w' \<Longrightarrow> R w (emit es w')" for es w'
    using R_trans book by blast
  show ?thesis
    using log1 log2 R_trans [OF log2 R_tick]
    by (cases e; cases e') (auto simp: batch_item_def w1 w2 read_clock_def Let_def intro!: book2)
qed

lemma batch_loop_rel:
  assumes "\<And>r w. r \<in> set rest \<Longrightarrow> R w (snd (del r w))"
    and "\<And>es w. list_all bookkeeping es \<Longrightarrow> R w (emit es w)"
    and "\<And>w. R w (emit [LimiterWait l] w)"
  shows "R w (snd (deleteBatch_loop out del er policy l reasons i rest n errs w))"
  using assms(1)
proof (induction rest arbitrary: i n errs w)
  case (Cons r rest)
  have step: "R w1 (snd (deleteBatch_loop out del er policy l reasons i' rest n' errs'
      (snd (batch_item out del er policy l reasons r w1))))" for w1 i' n' errs'
    using Cons.prems by (intro R_trans [OF batch_item_rel [OF _ assms(2,3)] Cons.IH]) auto
  show ?case
    using step R_trans [OF R_tick step] by (simp add: deleteBatch_loop_Cons Let_def R_tick)
qed (simp add: R_refl)

end

interpretation log_relation: world_relation "appends P" for P
  by unfold_locales (auto intro: appends_trans)

interpretation logs_relation: world_relation "logs out P" for out P
  by unfold_locales (auto intro: logs_refl logs_trans)

interpretation cache_relation: world_relation "cache_step out" for out
  by unfold_locales (auto intro: cache_step_trans)

lemma DeleteResourceWithBackoff_logs:
  "logs out (\<lambda>N. permitted N r p l) w (snd (DeleteResourceWithBackoff out r p l w))"
  by (simp add: DeleteResourceWithBackoff_def deleteResourceWithBackoffShared_def Let_def
      logs_relation.backoff_loop_rel deleteResource_logs logs_emit)

definition batch_effect ::
    "(GroupVersionKind \<Rightarrow> GroupVersionResource set) \<Rightarrow> GarbageCollectionPolicy \<Rightarrow> nat \<Rightarrow> resource list \<Rightarrow> effect \<Rightarrow> bool" where
  "batch_effect N p l batch e \<longleftrightarrow> bookkeeping e \<or> (\<exists>r\<in>set batch. permitted N r p l e) \<or> e = LimiterWait l"

lemma deleteBatch_logs:
  "logs out (\<lambda>N. batch_effect N p l batch) w (snd (deleteBatch out er batch p l reasons w))"
  unfolding deleteBatch_def deleteBatchShared_def
proof (rule logs_relation.batch_loop_rel)
  fix r w
  assume "r \<in> set batch"
  then show "logs out (\<lambda>N. batch_effect N p l batch) w (snd (DeleteResourceWithBackoff out r p l w))"
    by (auto simp: batch_effect_def intro!: logs_mono [OF DeleteResourceWithBackoff_logs])
qed (auto simp: batch_effect_def list_all_iff intro!: logs_emit)

text \<open>
  C14. A batch deletes nothing but its own resources: every call to the API server names a
  resource of the batch, by its name and namespace and by a name of its own group, version and
  kind (one that discovery answers for it, the cached one, or a plural of the kind), it carries
  the delete options of the policy, and there is no call in a dry run.
\<close>

theorem batch_deletes_only_its_resources:
  "\<exists>es. wd_log (snd (deleteBatch out er batch policy l reasons w)) = wd_log w @ es \<and>
    (\<forall>req. DeleteCall req \<in> set es \<longrightarrow>
       \<not> bh_DryRun (gs_Behavior (gp_Spec policy)) \<and> (\<exists>r\<in>set batch. request_for (names_of out w) r policy req))"
  using logs_appends [OF deleteBatch_logs [of out policy l batch w er reasons]]
  unfolding appends_def by (force simp: list_all_iff batch_effect_def)

theorem batch_deletes_only_its_resources_witness:
  "(\<forall>req. DeleteCall req \<notin> set (wd_log (snd (deleteBatch calm_outside None [plain_resource ''ns'' ''a'' 0]
     (zero_Policy\<lparr>gp_Spec := zero_Spec\<lparr>gs_Behavior := zero_BehaviorSpec\<lparr>bh_DryRun := True\<rparr>\<rparr>\<rparr>) 0 [] fresh_world)))) \<and>
   list_all (\<lambda>e. case e of DeleteCall req \<Rightarrow> dr_GVR req \<in> names_of calm_outside fresh_world (resource_gvk (plain_resource ''ns'' ''a'' 0))
       | _ \<Rightarrow> True)
     (wd_log (snd (deleteBatch calm_outside None [plain_resource ''ns'' ''a'' 0] zero_Policy 0 [] fresh_world)))"
  using batch_deletes_only_its_resources [of calm_outside None "[plain_resource ''ns'' ''a'' 0]"
      "zero_Policy\<lparr>gp_Spec := zero_Spec\<lparr>gs_Behavior := zero_BehaviorSpec\<lparr>bh_DryRun := True\<rparr>\<rparr>\<rparr>" 0 "[]" fresh_world]
    batch_deletes_only_its_resources [of calm_outside None "[plain_resource ''ns'' ''a'' 0]" zero_Policy 0 "[]" fresh_world]
  by (auto simp: fresh_world_def request_for_def list_all_iff split: effect.splits)

subsection \<open>The cache of resource names\<close>

lemma cache_step_emit: "cache_step out w (emit es w)"
  by simp

lemma deleteBatch_cache_step: "cache_step out w (snd (deleteBatch out er batch policy l reasons w))"
proof -
  have "cache_step out w (snd (DeleteResourceWithBackoff out r policy l w))" for r w
    unfolding DeleteResourceWithBackoff_def deleteResourceWithBackoffShared_def Let_def option.case
    by (intro cache_relation.backoff_loop_rel deleteResource_cache_step cache_step_emit)
  then show ?thesis
    unfolding deleteBatch_def deleteBatchShared_def
    by (intro cache_relation.batch_loop_rel cache_step_emit)
qed

text \<open>Time only moves on.\<close>

definition later :: "world \<Rightarrow> world \<Rightarrow> bool" where
  "later w w' \<longleftrightarrow> wd_tick w \<le> wd_tick w'"

lemma later_simps [simp]: "later w w" "later w (emit es w') = later w w'" "later (emit es w) w' = later w w'" "later w (tick w)"
  by (simp_all add: later_def)

interpretation time_relation: world_relation later
  by unfold_locales (auto simp: later_def)

lemma later_tick [simp]: "later w w' \<Longrightarrow> later w (tick w')"
  by (simp add: later_def)

lemma ResolveGVR_later: "later w (snd (ResolveGVR out gvk cache w))"
  by (auto simp: later_def ResolveGVR_def Let_def split: option.splits)

lemma resolve_later: "later w (snd (resolveGVRForDeletion out r w))"
  by (auto simp: resolveGVRForDeletion_def ResolveGVR_later split: option.splits)

lemma deleteResource_later: "later w (snd (deleteResource out r p l w))"
proof -
  obtain gvr w2 where w2: "resolveGVRForDeletion out r (emit [LimiterWait l] (tick w)) = (gvr, w2)"
    by fastforce
  then have "later w w2"
    using resolve_later [of "emit [LimiterWait l] (tick w)" out r] by (simp add: later_def)
  then show ?thesis
    by (simp add: deleteResource_def limiter_Wait_def performResourceDeletion_def w2 Let_def split: option.splits)
qed

lemma DeleteResourceWithBackoff_later: "later w (snd (DeleteResourceWithBackoff out r p l w))"
  unfolding DeleteResourceWithBackoff_def deleteResourceWithBackoffShared_def Let_def option.case
  by (intro time_relation.backoff_loop_rel deleteResource_later) simp

lemma batch_item_later: "later w (snd (batch_item out (\<lambda>r. DeleteResourceWithBackoff out r p l) er p l reasons r w))"
  by (intro time_relation.batch_item_rel DeleteResourceWithBackoff_later) simp_all

lemma deleteBatch_later: "later w (snd (deleteBatch out er batch p l reasons w))"
  unfolding deleteBatch_def deleteBatchShared_def
  by (intro time_relation.batch_loop_rel DeleteResourceWithBackoff_later) simp_all

text \<open>
  C19. The cache of the resolver is never poisoned: whatever the retries and the answers of
  discovery, every entry that a batch leaves in the cache was an answer of the REST mapper, so
  a name guessed by pluralization is asked for again the next time.
\<close>

theorem gvr_cache_never_poisoned:
  assumes "cache_confirmed out w"
  shows "cache_confirmed out (snd (deleteBatch out er batch policy l reasons w))"
  by (rule cache_step_confirmed [OF deleteBatch_cache_step assms])

theorem gvr_cache_never_poisoned_witness:
  "cache_confirmed calm_outside
    (snd (deleteBatch calm_outside None [plain_resource ''ns'' ''a'' 0] zero_Policy 0 [] fresh_world))"
  by (rule gvr_cache_never_poisoned) (simp add: cache_confirmed_def fresh_world_def)

subsection \<open>Retries\<close>

fun is_call :: "effect \<Rightarrow> bool" where
  "is_call (DeleteCall req) = True"
| "is_call _ = False"

fun sleep_of :: "effect \<Rightarrow> i64 list" where
  "sleep_of (Sleep d) = [d]"
| "sleep_of _ = []"

definition calls :: "effect list \<Rightarrow> nat" where
  "calls es = length (filter is_call es)"

definition sleeps :: "effect list \<Rightarrow> i64 list" where
  "sleeps es = concat (map sleep_of es)"

definition waits :: "nat \<Rightarrow> effect list \<Rightarrow> nat" where
  "waits l es = length (filter (\<lambda>e. e = LimiterWait l) es)"

lemma effect_counts [simp]:
  "calls [] = 0" "calls (e # es) = (if is_call e then Suc (calls es) else calls es)"
  "calls (es @ fs) = calls es + calls fs"
  "sleeps [] = []" "sleeps (e # es) = sleep_of e @ sleeps es" "sleeps (es @ fs) = sleeps es @ sleeps fs"
  "waits l [] = 0" "waits l (e # es) = (if e = LimiterWait l then Suc (waits l es) else waits l es)"
  "waits l (es @ fs) = waits l es + waits l fs"
  by (simp_all add: calls_def sleeps_def waits_def)

definition attempts_left :: "Backoff \<Rightarrow> nat" where
  "attempts_left b = nat (bc_Steps (bo_config b) - bo_step b)"

lemma attempts_left_0: "attempts_left b = 0 \<longleftrightarrow> IsExhausted b"
  by (simp add: attempts_left_def IsExhausted_def)

lemma attempts_left_Next: "\<not> IsExhausted b \<Longrightarrow> attempts_left b = Suc (attempts_left (snd (Next b)))"
  using Next_step [of b] by (simp add: attempts_left_def IsExhausted_def)

text \<open>An attempt makes at most one call and does not sleep.\<close>

definition attempt_like :: "(world \<Rightarrow> go_error option \<times> world) \<Rightarrow> bool" where
  "attempt_like d \<longleftrightarrow>
     (\<forall>w. \<exists>es. wd_log (snd (d w)) = wd_log w @ es \<and> calls es \<le> 1 \<and> sleeps es = [])"

lemma attempt_like_deleteResource: "attempt_like (deleteResource out r p l)"
  unfolding attempt_like_def
proof
  fix w
  show "\<exists>es. wd_log (snd (deleteResource out r p l w)) = wd_log w @ es \<and> calls es \<le> 1 \<and> sleeps es = []"
    using deleteResource_log [of out r p l w] by fastforce
qed

lemma backoff_loop_schedule:
  assumes "attempt_like d"
  shows "\<exists>es k. wd_log (snd (backoff_loop out d b lastErr w)) = wd_log w @ es \<and>
    calls es \<le> attempts_left b \<and> k \<le> attempts_left b \<and>
    sleeps es = take k (fst (delays (attempts_left b) b))"
proof (induction "attempts_left b" arbitrary: b lastErr w)
  case 0
  then have "IsExhausted b" using attempts_left_0 by simp
  then show ?case
    by (intro exI [of _ "[]"] exI [of _ 0]) (simp add: backoff_loop.simps)
next
  case (Suc n)
  have more: "\<not> IsExhausted b" using Suc(2) attempts_left_0 [of b] by simp
  obtain t b' where nx: "Next b = (t, b')" by fastforce
  have left: "attempts_left b' = n" "attempts_left b = Suc n"
    using Suc(2) attempts_left_Next [OF more] nx by simp_all
  have ds: "fst (delays (Suc n) b) = t # fst (delays n b')"
    by (simp add: nx split: prod.splits)
  obtain e w1 where w1: "d (tick w) = (e, w1)" by fastforce
  obtain es1 where es1: "wd_log w1 = wd_log w @ es1" "calls es1 \<le> 1" "sleeps es1 = []"
    using assms w1 unfolding attempt_like_def by (metis snd_conv wd_log_simps(1))
  obtain es2 k where es2: "wd_log (snd (backoff_loop out d b' e (emit [Sleep t] (tick w1)))) =
      wd_log (emit [Sleep t] (tick w1)) @ es2" "calls es2 \<le> n" "k \<le> n"
      "sleeps es2 = take k (fst (delays n b'))"
    using Suc(1) [of b' e "emit [Sleep t] (tick w1)"] left by auto
  define Q where "Q w' \<longleftrightarrow> (\<exists>es k. wd_log w' = wd_log w @ es \<and> calls es \<le> Suc n \<and> k \<le> Suc n \<and>
      sleeps es = take k (fst (delays (Suc n) b)))" for w' :: world
  have "Q (snd (backoff_loop out d b' e (emit [Sleep t] (tick w1))))"
    unfolding Q_def ds using es1 es2 by (intro exI [of _ "es1 @ [Sleep t] @ es2"] exI [of _ "Suc k"]) auto
  moreover have "Q w"
    unfolding Q_def by (intro exI [of _ "[]"] exI [of _ 0]) simp
  moreover have "Q w1"
    unfolding Q_def using es1 by (intro exI [of _ es1] exI [of _ 0]) simp
  moreover have "Q (tick w') = Q w'" for w'
    by (simp add: Q_def)
  ultimately have "Q (snd (backoff_loop out d b lastErr w))"
    using more by (auto simp: backoff_loop.simps [of out d b] check_ctx_def w1 nx split: option.splits)
  then show ?case
    unfolding Q_def left .
qed

text \<open>
  C15. Retries are bounded: deleting one resource calls the API server at most five times, and
  the waits between the attempts are the first entries of the schedule 105, 210, 420, 840,
  1680 milliseconds, whatever the answers.
\<close>

theorem retries_bounded:
  "\<exists>es k. wd_log (snd (DeleteResourceWithBackoff out r p l w)) = wd_log w @ es \<and> calls es \<le> 5 \<and>
    sleeps es = take k [105000000, 210000000, 420000000, 840000000, 1680000000]"
proof -
  have five: "attempts_left (NewBackoff DefaultConfig) = 5"
    by (simp add: attempts_left_def NewBackoff_def DefaultConfig_def)
  have "fst (delays 5 (NewBackoff DefaultConfig)) = [105000000, 210000000, 420000000, 840000000, 1680000000]"
    by code_simp
  with backoff_loop_schedule [OF attempt_like_deleteResource, where out=out and b="NewBackoff DefaultConfig"
      and lastErr=None and w=w]
  show ?thesis
    unfolding DeleteResourceWithBackoff_def deleteResourceWithBackoffShared_def Let_def option.case five
    by (metis (no_types, lifting))
qed

text \<open>The outcome when every attempt fails in the same way.\<close>

lemma backoff_loop_persistent:
  assumes d: "\<And>w. fst (d w) = Some e \<and>
      (\<exists>es. wd_log (snd (d w)) = wd_log w @ es \<and> calls es = 1 \<and> sleeps es = [])"
    and "retryable out e" and "\<And>t. \<not> ctx_done out t" and "0 \<notin> set (fst (delays (attempts_left b) b))"
    and "\<not> IsExhausted b \<or> lastErr = Some e"
  shows "fst (backoff_loop out d b lastErr w) = Some (exhausted_error (Some e)) \<and>
    (\<exists>es. wd_log (snd (backoff_loop out d b lastErr w)) = wd_log w @ es \<and>
      calls es = attempts_left b \<and> sleeps es = fst (delays (attempts_left b) b))"
  using assms(4,5)
proof (induction "attempts_left b" arbitrary: b lastErr w)
  case 0
  then have "IsExhausted b" using attempts_left_0 by simp
  with 0 show ?case
    by (simp add: backoff_loop.simps)
next
  case (Suc n)
  have more: "\<not> IsExhausted b" using Suc(2) attempts_left_0 [of b] by simp
  obtain t b' where nx: "Next b = (t, b')" by fastforce
  have left: "attempts_left b' = n" "attempts_left b = Suc n"
    using Suc(2) attempts_left_Next [OF more] nx by simp_all
  have ds: "fst (delays (Suc n) b) = t # fst (delays n b')"
    by (simp add: nx split: prod.splits)
  obtain es1 w1 where w1: "d (tick w) = (Some e, w1)" "wd_log w1 = wd_log w @ es1" "calls es1 = 1" "sleeps es1 = []"
    using d [of "tick w"] by (metis prod.collapse wd_log_simps(1))
  have t: "t \<noteq> 0" "0 \<notin> set (fst (delays n b'))"
    using Suc(3) unfolding left ds by auto
  have unfold: "backoff_loop out d b lastErr w = backoff_loop out d b' (Some e) (emit [Sleep t] (tick w1))"
    using more assms(2,3) t(1) by (simp add: backoff_loop.simps [of out d b] check_ctx_def w1(1) nx)
  from Suc(1) [of b' "Some e" "emit [Sleep t] (tick w1)"] t(2) left
  obtain es2 where "fst (backoff_loop out d b lastErr w) = Some (exhausted_error (Some e))"
    "wd_log (snd (backoff_loop out d b lastErr w)) = wd_log w @ (es1 @ [Sleep t] @ es2)"
    "calls es2 = n" "sleeps es2 = fst (delays n b')"
    unfolding unfold by (auto simp: w1)
  then show ?case
    unfolding left ds using w1 by (intro conjI exI [of _ "es1 @ [Sleep t] @ es2"]) auto
qed

text \<open>
  A persistent failure is reported: when the context lives, the limiter grants and the
  server answers every call for a resource with the same retryable error, the deletion makes
  five calls, waits after each of them (after the last one as well, when no attempt follows),
  and returns the error wrapped.
\<close>

theorem persistent_failure:
  assumes "\<And>t. \<not> ctx_done out t" and "\<And>t. limiter_wait out t l = None"
    and "\<And>t req. api_delete out t req = Some e" and "retryable out e" and "\<not> IsNotFound out e"
    and "\<not> bh_DryRun (gs_Behavior (gp_Spec p))"
  shows "fst (DeleteResourceWithBackoff out r p l w) = Some (WrapError ''deletion failed after retries'' e) \<and>
    (\<exists>es. wd_log (snd (DeleteResourceWithBackoff out r p l w)) = wd_log w @ es \<and> calls es = 5 \<and>
      sleeps es = [105000000, 210000000, 420000000, 840000000, 1680000000])"
proof -
  have five: "attempts_left (NewBackoff DefaultConfig) = 5"
    by (simp add: attempts_left_def NewBackoff_def DefaultConfig_def)
  have sched: "fst (delays 5 (NewBackoff DefaultConfig)) = [105000000, 210000000, 420000000, 840000000, 1680000000]"
    by code_simp
  have "fst (deleteResource out r p l w) = Some e \<and>
      (\<exists>es. wd_log (snd (deleteResource out r p l w)) = wd_log w @ es \<and> calls es = 1 \<and> sleeps es = [])" for w
  proof -
    obtain gvr w2 where w2: "resolveGVRForDeletion out r (emit [LimiterWait l] (tick w)) = (gvr, w2)"
      by fastforce
    then have "wd_log w2 = wd_log w @ [LimiterWait l]"
      using resolveGVRForDeletion_log [of out r "emit [LimiterWait l] (tick w)"] by simp
    with assms w2 show ?thesis
      by (simp add: deleteResource_def limiter_Wait_def performResourceDeletion_def Let_def)
  qed
  from backoff_loop_persistent [OF this, of out "NewBackoff DefaultConfig" None w] assms(1,4)
  show ?thesis
    unfolding DeleteResourceWithBackoff_def deleteResourceWithBackoffShared_def Let_def option.case five sched
    by (simp add: exhausted_error_def IsExhausted_def NewBackoff_def DefaultConfig_def)
qed

theorem persistent_failure_witness:
  "fst (DeleteResourceWithBackoff (calm_outside\<lparr>api_delete := (\<lambda>_ _. Some (PlainError ''timeout''))\<rparr>)
      (plain_resource ''ns'' ''a'' 0) zero_Policy 0 fresh_world) =
    Some (WrapError ''deletion failed after retries'' (PlainError ''timeout''))"
  using persistent_failure [of "calm_outside\<lparr>api_delete := (\<lambda>_ _. Some (PlainError ''timeout''))\<rparr>" 0
      "PlainError ''timeout''" zero_Policy "plain_resource ''ns'' ''a'' 0" fresh_world]
  by (simp add: calm_outside_def retryable_def zero_defs)

subsection \<open>Counts and errors of a batch\<close>

definition well_reported :: "GarbageCollectionPolicy \<Rightarrow> resource list \<Rightarrow> go_error \<Rightarrow> bool" where
  "well_reported p batch err \<longleftrightarrow>
     (\<exists>e. err = WrapError ''rate limiter error'' e) \<or>
     (error_Type err = ''deletion_failed'' \<and>
      GetContext err ''policy_namespace'' = gp_Namespace p \<and>
      GetContext err ''policy_name'' = gp_Name p \<and>
      (\<exists>r\<in>set batch. GetContext err ''resource_namespace'' = res_Namespace r \<and>
         GetContext err ''resource_name'' = res_Name r))"

lemma deletion_error_reported: "well_reported p [r] (deletion_error p r err)"
  by (simp add: well_reported_def deletion_error_def)

lemma batch_item_result:
  "fst (batch_item out del er p l reasons r w) = (1, []) \<or>
   (\<exists>e. fst (batch_item out del er p l reasons r w) = (0, [e]) \<and> well_reported p [r] e)"
proof (cases "limiter_Wait out l w")
  case (Pair e w1)
  then show ?thesis
    using deletion_error_reported
    by (cases e; cases "del r (tick w1)"; cases "fst (del r (tick w1))")
      (auto simp: batch_item_def read_clock_def Let_def well_reported_def)
qed

lemma deleteBatch_loop_result:
  "\<exists>m fs. fst (deleteBatch_loop out del er p l reasons i rest n errs w) = (n + int m, errs @ fs) \<and>
    m + length fs \<le> length rest \<and> (\<forall>f\<in>set fs. well_reported p rest f) \<and>
    ((\<forall>t. \<not> ctx_done out t) \<longrightarrow> m + length fs = length rest)"
proof (induction rest arbitrary: i n errs w)
  case (Cons r rest)
  show ?case
  proof (cases "i mod 50 = 0 \<and> ctx_done out (wd_tick w)")
    case True
    then show ?thesis
      by (intro exI [of _ 0] exI [of _ "[]"]) (auto simp: deleteBatch_loop_Cons)
  next
    case False
    define q where "q = batch_item out del er p l reasons r (if i mod 50 = 0 then tick w else w)"
    obtain k gs where kgs: "fst q = (int k, gs)" "k + length gs = 1" "\<forall>f\<in>set gs. well_reported p [r] f"
      using batch_item_result [of out del er p l reasons r "if i mod 50 = 0 then tick w else w"]
      unfolding q_def [symmetric]
      by (elim disjE exE conjE) (force intro: that [of 1 "[]"], auto intro: that [of 0])
    obtain m fs where mfs: "fst (deleteBatch_loop out del er p l reasons (Suc i) rest (n + int k) (errs @ gs) (snd q)) =
        (n + int k + int m, (errs @ gs) @ fs)" "m + length fs \<le> length rest"
      "\<forall>f\<in>set fs. well_reported p rest f" "(\<forall>t. \<not> ctx_done out t) \<longrightarrow> m + length fs = length rest"
      using Cons.IH [of "Suc i" "n + int k" "errs @ gs" "snd q"] by auto
    have "\<forall>f\<in>set (gs @ fs). well_reported p (r # rest) f"
      using kgs(3) mfs(3) by (auto simp: well_reported_def)
    with False kgs(1,2) mfs(1,2,4) show ?thesis
      by (intro exI [of _ "k + m"] exI [of _ "gs @ fs"])
        (auto simp: deleteBatch_loop_Cons Let_def q_def [symmetric])
  qed
qed simp

text \<open>
  C16. The result of a batch is honest: deletions and errors together never exceed the batch,
  they account for every resource unless the context was cancelled, and every error is either
  a refusal of the rate limiter or names the policy and the resource of the batch that failed.
\<close>

theorem batch_result_accounts:
  "(case fst (deleteBatch out er batch policy l reasons w) of (n, errs) \<Rightarrow>
     0 \<le> n \<and> n + int (length errs) \<le> int (length batch) \<and>
     (\<forall>e\<in>set errs. well_reported policy batch e) \<and>
     ((\<forall>t. \<not> ctx_done out t) \<longrightarrow> n + int (length errs) = int (length batch)))"
  using deleteBatch_loop_result [of out "\<lambda>r. DeleteResourceWithBackoff out r policy l" er policy l reasons 0 batch 0 "[]" w]
  by (auto simp: deleteBatch_def deleteBatchShared_def)

theorem batch_result_accounts_witness:
  "int (length (snd (fst (deleteBatch calm_outside None [plain_resource ''ns'' ''a'' 0] zero_Policy 0 [] fresh_world)))) \<le> 1"
  using batch_result_accounts [where out=calm_outside and er=None and batch="[plain_resource ''ns'' ''a'' 0]"
      and policy=zero_Policy and l=0 and reasons="[]" and w=fresh_world]
  by (auto split: prod.splits)

definition deleted_incs :: "effect list \<Rightarrow> nat" where
  "deleted_incs es = length (filter (\<lambda>e. \<exists>ls. e = CounterInc ''gc_resources_deleted_total'' ls) es)"

lemma deleted_incs_simps [simp]:
  "deleted_incs [] = 0" "deleted_incs (es @ fs) = deleted_incs es + deleted_incs fs"
  "deleted_incs (e # es) =
     (if \<exists>ls. e = CounterInc ''gc_resources_deleted_total'' ls then Suc (deleted_incs es) else deleted_incs es)"
  by (simp_all add: deleted_incs_def)

text \<open>An outside that is not in the way from some time on.\<close>

definition smooth :: "('x) outside_scheme \<Rightarrow> nat \<Rightarrow> nat \<Rightarrow> bool" where
  "smooth out T l \<longleftrightarrow>
     (\<forall>t\<ge>T. \<not> ctx_done out t \<and> limiter_wait out t l = None \<and> (\<forall>req. api_delete out t req = None))"

lemma deleteResource_smooth:
  assumes "smooth out T l" and "T \<le> wd_tick w"
  shows "fst (deleteResource out r p l w) = None \<and>
    (\<exists>es. wd_log (snd (deleteResource out r p l w)) = wd_log w @ LimiterWait l # es \<and>
      calls es = (if bh_DryRun (gs_Behavior (gp_Spec p)) then 0 else 1) \<and> waits l es = 0 \<and> deleted_incs es = 0)"
proof -
  obtain gvr w2 where w2: "resolveGVRForDeletion out r (emit [LimiterWait l] (tick w)) = (gvr, w2)"
    by fastforce
  then have "wd_log w2 = wd_log w @ [LimiterWait l]" "T \<le> wd_tick w2"
    using resolveGVRForDeletion_log [of out r "emit [LimiterWait l] (tick w)"]
      resolve_later [of "emit [LimiterWait l] (tick w)" out r] assms(2) by (simp_all add: later_def)
  with assms w2 show ?thesis
    by (simp add: deleteResource_def limiter_Wait_def smooth_def performResourceDeletion_def Let_def)
qed

lemma backoff_smooth:
  assumes "smooth out T l" and "T \<le> wd_tick w"
  shows "DeleteResourceWithBackoff out r p l w = deleteResource out r p l (tick w)"
proof -
  have "fst (deleteResource out r p l (tick w)) = None"
    using deleteResource_smooth [OF assms(1), of "tick w"] assms(2) by simp
  with assms show ?thesis
    by (cases "deleteResource out r p l (tick w)")
      (simp add: DeleteResourceWithBackoff_def deleteResourceWithBackoffShared_def smooth_def Let_def
        backoff_loop.simps check_ctx_def IsExhausted_def NewBackoff_def DefaultConfig_def)
qed

lemma smooth_item:
  assumes "smooth out T l" and "T \<le> wd_tick w"
  shows "fst (batch_item out (\<lambda>r. DeleteResourceWithBackoff out r p l) er p l reasons r w) = (1, []) \<and>
    (\<exists>es. wd_log (snd (batch_item out (\<lambda>r. DeleteResourceWithBackoff out r p l) er p l reasons r w)) = wd_log w @ es \<and>
      calls es = (if bh_DryRun (gs_Behavior (gp_Spec p)) then 0 else 1) \<and>
      waits l es = 2 \<and> deleted_incs es = 1)"
proof -
  define w0 where "w0 = tick (emit [LimiterWait l] (tick w))"
  have T: "T \<le> wd_tick w0" "T \<le> wd_tick (tick w0)"
    using assms(2) by (simp_all add: w0_def)
  obtain w1 where w1: "deleteResource out r p l (tick w0) = (None, w1)"
    using deleteResource_smooth [OF assms(1) T(2)] by (metis prod.collapse)
  then obtain es where "wd_log w1 = wd_log w @ LimiterWait l # LimiterWait l # es"
    "calls es = (if bh_DryRun (gs_Behavior (gp_Spec p)) then 0 else 1)" "waits l es = 0" "deleted_incs es = 0"
    using deleteResource_smooth [OF assms(1) T(2), of r p] by (auto simp: w0_def)
  with w1 show ?thesis
    using assms backoff_smooth [OF assms(1) T(1)]
    by (auto simp: batch_item_def limiter_Wait_def smooth_def read_clock_def Let_def w0_def
        metric_defs RecordResourceDeleted_def events_Eventf_def)
qed

lemma smooth_loop:
  assumes "smooth out T l"
  shows "T \<le> wd_tick w \<Longrightarrow>
    fst (deleteBatch_loop out (\<lambda>r. DeleteResourceWithBackoff out r p l) er p l reasons i rest n errs w) =
      (n + int (length rest), errs) \<and>
    (\<exists>es. wd_log (snd (deleteBatch_loop out (\<lambda>r. DeleteResourceWithBackoff out r p l) er p l reasons i rest n errs w)) =
        wd_log w @ es \<and>
      calls es = (if bh_DryRun (gs_Behavior (gp_Spec p)) then 0 else length rest) \<and>
      waits l es = 2 * length rest \<and> deleted_incs es = length rest)"
proof (induction rest arbitrary: i n errs w)
  case (Cons r rest)
  define w0 where "w0 = (if i mod 50 = 0 then tick w else w)"
  have w0: "wd_log w0 = wd_log w" "T \<le> wd_tick w0"
    using Cons.prems by (simp_all add: w0_def)
  obtain w1 es1 where item: "batch_item out (\<lambda>r. DeleteResourceWithBackoff out r p l) er p l reasons r w0 = ((1, []), w1)"
    "wd_log w1 = wd_log w0 @ es1" "calls es1 = (if bh_DryRun (gs_Behavior (gp_Spec p)) then 0 else 1)"
    "waits l es1 = 2" "deleted_incs es1 = 1"
    using smooth_item [OF assms w0(2), of p er reasons r] by (metis prod.collapse)
  have "T \<le> wd_tick w1"
    using batch_item_later [of w0 out p l er reasons r] w0(2) by (simp add: item(1) later_def)
  then obtain es2 where rec: "fst (deleteBatch_loop out (\<lambda>r. DeleteResourceWithBackoff out r p l) er p l reasons (Suc i) rest (n + 1) errs w1) =
      (n + 1 + int (length rest), errs)"
    "wd_log (snd (deleteBatch_loop out (\<lambda>r. DeleteResourceWithBackoff out r p l) er p l reasons (Suc i) rest (n + 1) errs w1)) = wd_log w1 @ es2"
    "calls es2 = (if bh_DryRun (gs_Behavior (gp_Spec p)) then 0 else length rest)"
    "waits l es2 = 2 * length rest" "deleted_incs es2 = length rest"
    using Cons.IH [of w1 "Suc i" "n + 1" errs] by auto
  have "\<not> ctx_done out (wd_tick w)" using assms Cons.prems by (simp add: smooth_def)
  then have "deleteBatch_loop out (\<lambda>r. DeleteResourceWithBackoff out r p l) er p l reasons i (r # rest) n errs w =
      deleteBatch_loop out (\<lambda>r. DeleteResourceWithBackoff out r p l) er p l reasons (Suc i) rest (n + 1) errs w1"
    by (simp add: deleteBatch_loop_Cons w0_def [symmetric] item(1))
  then show ?case
    using rec item(2-) w0(1) by (auto intro!: exI [of _ "es1 @ es2"])
qed simp

text \<open>
  What a batch costs and reports when nothing is in the way: every resource is counted as
  deleted and adds one to the counter of deleted resources, also in a dry run, where the API
  server is never called; and every resource takes two tokens of the rate limiter, one in the
  batch loop and one in the deletion itself, so that deletions run at half the configured rate.
\<close>

theorem smooth_batch:
  assumes "smooth out T l" and "T \<le> wd_tick w"
  shows "fst (deleteBatch out er batch p l reasons w) = (int (length batch), []) \<and>
    (\<exists>es. wd_log (snd (deleteBatch out er batch p l reasons w)) = wd_log w @ es \<and>
      calls es = (if bh_DryRun (gs_Behavior (gp_Spec p)) then 0 else length batch) \<and>
      deleted_incs es = length batch \<and> waits l es = 2 * length batch)"
  using smooth_loop [OF assms, of p er reasons 0 batch 0 "[]"]
  unfolding deleteBatch_def deleteBatchShared_def by auto

theorem smooth_batch_witness:
  "fst (deleteBatch calm_outside None [plain_resource ''ns'' ''a'' 0, plain_resource ''ns'' ''b'' 0]
      (zero_Policy\<lparr>gp_Spec := zero_Spec\<lparr>gs_Behavior := zero_BehaviorSpec\<lparr>bh_DryRun := True\<rparr>\<rparr>\<rparr>) 0 [] fresh_world) = (2, [])"
  using smooth_batch [of calm_outside 0 0 fresh_world None "[plain_resource ''ns'' ''a'' 0, plain_resource ''ns'' ''b'' 0]"]
  by (simp add: smooth_def calm_outside_def)

end
