(* ===== verification/Env_Config.thy ===== *)
theory Env_Config
  imports Go_Errors
begin

text \<open>
  internal/config: reading the configuration from environment variables, in two styles, the
  accumulating \<open>Validator\<close> of validator.go and the single functions of env.go, and the rate
  limit lookup of ingester_rate_limit.go. The environment maps a name to its value, a missing
  variable to the empty string, as \<open>os.Getenv\<close> does. The two parsers \<open>url.Parse\<close> (the scheme
  of the result, or an error) and \<open>time.ParseDuration\<close> are arguments: no statement here
  depends on their grammar.
\<close>

type_synonym env = "string \<Rightarrow> string"

record go_parsers =
  url_Parse :: "string \<Rightarrow> string option"
  time_ParseDuration :: "string \<Rightarrow> i64 option"

definition ParseBool :: "string \<Rightarrow> bool option" where
  "ParseBool s =
     (if s \<in> {''1'', ''t'', ''T'', ''TRUE'', ''true'', ''True''} then Some True
      else if s \<in> {''0'', ''f'', ''F'', ''FALSE'', ''false'', ''False''} then Some False
      else None)"

definition show_list :: "string list \<Rightarrow> string" where
  "show_list xs = ''['' @ go_join '' '' xs @ '']''"

definition http_url :: "go_parsers \<Rightarrow> string \<Rightarrow> bool" where
  "http_url g val = (url_Parse g val = Some ''http'' \<or> url_Parse g val = Some ''https'')"

definition csv_parts :: "string \<Rightarrow> string list" where
  "csv_parts val = filter (\<lambda>s. s \<noteq> []) (map trim_space (split_on (CHR '','') val))"

subsection \<open>validator.go\<close>

record ValidationError =
  ve_Field :: string
  ve_Message :: string

definition ve_Error :: "ValidationError \<Rightarrow> string" where
  "ve_Error e = ve_Field e @ '': '' @ ve_Message e"

type_synonym Validator = "ValidationError list"

definition NewValidator :: Validator where
  "NewValidator = []"

definition v_add :: "string \<Rightarrow> string \<Rightarrow> Validator \<Rightarrow> Validator" where
  "v_add key msg v = v @ [\<lparr>ve_Field = key, ve_Message = msg\<rparr>]"

definition RequireString :: "env \<Rightarrow> string \<Rightarrow> Validator \<Rightarrow> string \<times> Validator" where
  "RequireString env key v =
     (if env key = [] then ([], v_add key ''required but not set'' v) else (env key, v))"

definition OptionalString :: "env \<Rightarrow> string \<Rightarrow> string \<Rightarrow> Validator \<Rightarrow> string \<times> Validator" where
  "OptionalString env key defaultVal v = (if env key = [] then (defaultVal, v) else (env key, v))"

definition RequireURL :: "go_parsers \<Rightarrow> env \<Rightarrow> string \<Rightarrow> Validator \<Rightarrow> string \<times> Validator" where
  "RequireURL g env key v =
     (let (val, v) = RequireString env key v
      in if val = [] then ([], v)
         else if \<not> http_url g val then ([], v_add key (''invalid URL: '' @ val) v)
         else (val, v))"

definition OptionalURL ::
    "go_parsers \<Rightarrow> env \<Rightarrow> string \<Rightarrow> string \<Rightarrow> Validator \<Rightarrow> string \<times> Validator" where
  "OptionalURL g env key defaultVal v =
     (if env key = [] then (defaultVal, v)
      else if \<not> http_url g (env key) then (defaultVal, v_add key (''invalid URL: '' @ env key) v)
      else (env key, v))"

definition RequireInt :: "env \<Rightarrow> string \<Rightarrow> Validator \<Rightarrow> int \<times> Validator" where
  "RequireInt env key v =
     (let (val, v) = RequireString env key v
      in if val = [] then (0, v)
         else (case atoi val of
             None \<Rightarrow> (0, v_add key (''must be integer, got: '' @ val) v)
           | Some i \<Rightarrow> (i, v)))"

definition OptionalInt :: "env \<Rightarrow> string \<Rightarrow> int \<Rightarrow> Validator \<Rightarrow> int \<times> Validator" where
  "OptionalInt env key defaultVal v =
     (if env key = [] then (defaultVal, v)
      else (case atoi (env key) of
          None \<Rightarrow> (defaultVal, v_add key (''must be integer, got: '' @ env key) v)
        | Some i \<Rightarrow> (i, v)))"

definition RequireBool :: "env \<Rightarrow> string \<Rightarrow> Validator \<Rightarrow> bool \<times> Validator" where
  "RequireBool env key v =
     (let (val, v) = RequireString env key v
      in if val = [] then (False, v)
         else (case ParseBool val of
             None \<Rightarrow> (False, v_add key (''must be boolean (true/false), got: '' @ val) v)
           | Some b \<Rightarrow> (b, v)))"

definition OptionalBool :: "env \<Rightarrow> string \<Rightarrow> bool \<Rightarrow> Validator \<Rightarrow> bool \<times> Validator" where
  "OptionalBool env key defaultVal v =
     (if env key = [] then (defaultVal, v)
      else (case ParseBool (env key) of
          None \<Rightarrow> (defaultVal, v_add key (''must be boolean (true/false), got: '' @ env key) v)
        | Some b \<Rightarrow> (b, v)))"

definition looks_like_duration :: "string \<Rightarrow> bool" where
  "looks_like_duration val = (has_suffix val ''s'' \<or> has_suffix val ''m'' \<or> has_suffix val ''h'')"

definition RequireDuration :: "env \<Rightarrow> string \<Rightarrow> Validator \<Rightarrow> string \<times> Validator" where
  "RequireDuration env key v =
     (let (val, v) = RequireString env key v
      in if val = [] then ([], v)
         else if \<not> looks_like_duration val
         then ([], v_add key (''must be duration (e.g., 30s, 5m, 1h), got: '' @ val) v)
         else (val, v))"

definition OptionalDuration :: "env \<Rightarrow> string \<Rightarrow> string \<Rightarrow> Validator \<Rightarrow> string \<times> Validator" where
  "OptionalDuration env key defaultVal v =
     (if env key = [] then (defaultVal, v)
      else if \<not> looks_like_duration (env key)
      then (defaultVal, v_add key (''must be duration (e.g., 30s, 5m, 1h), got: '' @ env key) v)
      else (env key, v))"

definition RequireOneOf :: "env \<Rightarrow> string \<Rightarrow> string list \<Rightarrow> Validator \<Rightarrow> string \<times> Validator" where
  "RequireOneOf env key allowed v =
     (let (val, v) = RequireString env key v
      in if val = [] then ([], v)
         else if List.member allowed val then (val, v)
         else ([], v_add key (''must be one of '' @ show_list allowed @ '', got: '' @ val) v))"

definition RequireCSV :: "env \<Rightarrow> string \<Rightarrow> Validator \<Rightarrow> string list \<times> Validator" where
  "RequireCSV env key v =
     (let (val, v) = RequireString env key v
      in if val = [] then ([], v)
         else
           (let result = csv_parts val
            in (result, if result = [] then v_add key ''CSV list cannot be empty'' v else v)))"

definition OptionalCSV :: "env \<Rightarrow> string \<Rightarrow> string list \<Rightarrow> Validator \<Rightarrow> string list \<times> Validator" where
  "OptionalCSV env key defaultVal v =
     (if env key = [] then (defaultVal, v) else (csv_parts (env key), v))"

definition ForbidInProduction :: "env \<Rightarrow> string \<Rightarrow> Validator \<Rightarrow> Validator" where
  "ForbidInProduction env key v =
     (if env ''ENVIRONMENT'' = ''production'' \<and> env key \<noteq> []
      then v_add key ''forbidden in production environment'' v else v)"

definition nl :: string where "nl = [CHR 0x0A]"

definition ErrConfigValidationFailed :: go_error where
  "ErrConfigValidationFailed = PlainError ''configuration validation failed''"

text \<open>The text of an error built with \<open>%w\<close> in the middle of the format.\<close>

definition v_Validate :: "Validator \<Rightarrow> string option" where
  "v_Validate v =
     (if length v = 0 then None
      else Some (error_text ErrConfigValidationFailed @ '':'' @ nl @ ''  - '' @
                 go_join (nl @ ''  - '') (map ve_Error v)))"

definition v_HasErrors :: "Validator \<Rightarrow> bool" where
  "v_HasErrors v \<longleftrightarrow> length v > 0"

subsection \<open>env.go\<close>

datatype env_sentinel =
    ErrEnvRequired | ErrEnvInvalidInt | ErrEnvInvalidBool | ErrEnvInvalidURL
  | ErrEnvValueNotAllowed | ErrEnvSecretTooShort | ErrEnvSecretWeak | ErrEnvAtLeastOne
  | ErrProductionDebug | ErrProductionDBSSL | ErrServiceConfigInvalid | ErrEnvInvalidDuration
  | ErrEnvCSVEmpty

text \<open>An error of this package: the sentinel and the variable it is about.\<close>

type_synonym env_error = "string \<times> env_sentinel"

definition RequireEnv :: "env \<Rightarrow> string \<Rightarrow> env_error + string" where
  "RequireEnv env key = (if env key = [] then Inl (key, ErrEnvRequired) else Inr (env key))"

definition RequireEnvWithDefault :: "env \<Rightarrow> string \<Rightarrow> string \<Rightarrow> string" where
  "RequireEnvWithDefault env key defaultValue = (if env key \<noteq> [] then env key else defaultValue)"

definition RequireEnvInt :: "env \<Rightarrow> string \<Rightarrow> env_error + int" where
  "RequireEnvInt env key = andThen (RequireEnv env key) (\<lambda>val.
     case atoi val of None \<Rightarrow> Inl (key, ErrEnvInvalidInt) | Some i \<Rightarrow> Inr i)"

definition RequireEnvIntWithDefault :: "env \<Rightarrow> string \<Rightarrow> int \<Rightarrow> int" where
  "RequireEnvIntWithDefault env key defaultValue =
     (if env key \<noteq> [] then (case atoi (env key) of Some i \<Rightarrow> i | None \<Rightarrow> defaultValue)
      else defaultValue)"

definition RequireEnvBool :: "env \<Rightarrow> string \<Rightarrow> env_error + bool" where
  "RequireEnvBool env key = andThen (RequireEnv env key) (\<lambda>val.
     case ParseBool val of None \<Rightarrow> Inl (key, ErrEnvInvalidBool) | Some b \<Rightarrow> Inr b)"

definition RequireEnvBoolWithDefault :: "env \<Rightarrow> string \<Rightarrow> bool \<Rightarrow> bool" where
  "RequireEnvBoolWithDefault env key defaultValue =
     (if env key \<noteq> [] then (case ParseBool (env key) of Some b \<Rightarrow> b | None \<Rightarrow> defaultValue)
      else defaultValue)"

definition RequireEnvURL :: "go_parsers \<Rightarrow> env \<Rightarrow> string \<Rightarrow> env_error + string" where
  "RequireEnvURL g env key = andThen (RequireEnv env key) (\<lambda>val.
     if \<not> http_url g val then Inl (key, ErrEnvInvalidURL) else Inr val)"

definition RequireEnvURLWithDefault :: "go_parsers \<Rightarrow> env \<Rightarrow> string \<Rightarrow> string \<Rightarrow> string" where
  "RequireEnvURLWithDefault g env key defaultValue =
     (if env key \<noteq> [] \<and> http_url g (env key) then env key else defaultValue)"

definition RequireEnvOneOf :: "env \<Rightarrow> string \<Rightarrow> string list \<Rightarrow> env_error + string" where
  "RequireEnvOneOf env key allowed = andThen (RequireEnv env key) (\<lambda>val.
     if List.member allowed val then Inr val else Inl (key, ErrEnvValueNotAllowed))"

definition RequireEnvSecret :: "env \<Rightarrow> string \<Rightarrow> int \<Rightarrow> env_error + string" where
  "RequireEnvSecret env key minLength = andThen (RequireEnv env key) (\<lambda>val.
     if int (length val) < minLength then Inl (key, ErrEnvSecretTooShort)
     else if contains (to_lower val) ''change-me'' then Inl (key, ErrEnvSecretWeak)
     else Inr val)"

definition RequireAtLeastOne :: "env \<Rightarrow> string list \<Rightarrow> env_error + unit" where
  "RequireAtLeastOne env keys =
     (if list_ex (\<lambda>key. env key \<noteq> []) keys then Inr () else Inl (show_list keys, ErrEnvAtLeastOne))"

definition ValidateProduction :: "env \<Rightarrow> env_error + unit" where
  "ValidateProduction env =
     (if env ''ENVIRONMENT'' \<noteq> ''production'' then Inr ()
      else if env ''DEBUG'' = ''true'' then Inl ([], ErrProductionDebug)
      else
        (let dbURL = env ''DATABASE_URL'';
             dbURL = (if dbURL = [] then env ''CRDB_DSN'' else dbURL)
         in if dbURL \<noteq> [] \<and> contains dbURL ''sslmode=disable'' then Inl ([], ErrProductionDBSSL)
            else Inr ()))"

definition RequireEnvDuration :: "go_parsers \<Rightarrow> env \<Rightarrow> string \<Rightarrow> env_error + i64" where
  "RequireEnvDuration g env key = andThen (RequireEnv env key) (\<lambda>val.
     case time_ParseDuration g val of None \<Rightarrow> Inl (key, ErrEnvInvalidDuration) | Some d \<Rightarrow> Inr d)"

definition RequireEnvDurationWithDefault :: "go_parsers \<Rightarrow> env \<Rightarrow> string \<Rightarrow> i64 \<Rightarrow> i64" where
  "RequireEnvDurationWithDefault g env key defaultValue =
     (if env key \<noteq> [] then (case time_ParseDuration g (env key) of Some d \<Rightarrow> d | None \<Rightarrow> defaultValue)
      else defaultValue)"

definition RequireEnvCSV :: "env \<Rightarrow> string \<Rightarrow> env_error + string list" where
  "RequireEnvCSV env key = andThen (RequireEnv env key) (\<lambda>val.
     if length (csv_parts val) = 0 then Inl (key, ErrEnvCSVEmpty) else Inr (csv_parts val))"

definition RequireEnvCSVWithDefault :: "env \<Rightarrow> string \<Rightarrow> string list \<Rightarrow> string list" where
  "RequireEnvCSVWithDefault env key defaultValue =
     (if env key \<noteq> [] \<and> length (csv_parts (env key)) > 0 then csv_parts (env key) else defaultValue)"

text \<open>\<open>ServiceConfigValidator\<close> collects the errors of these functions.\<close>

record ServiceConfigValidator =
  scv_serviceName :: string
  scv_errors :: "env_error list"

definition NewServiceConfigValidator :: "string \<Rightarrow> ServiceConfigValidator" where
  "NewServiceConfigValidator serviceName = \<lparr>scv_serviceName = serviceName, scv_errors = []\<rparr>"

definition collect :: "'a \<Rightarrow> env_error + 'a \<Rightarrow> ServiceConfigValidator \<Rightarrow> 'a \<times> ServiceConfigValidator" where
  "collect zero r v =
     (case r of Inl e \<Rightarrow> (zero, v\<lparr>scv_errors := scv_errors v @ [e]\<rparr>) | Inr x \<Rightarrow> (x, v))"

definition scv_Require :: "env \<Rightarrow> string \<Rightarrow> ServiceConfigValidator \<Rightarrow> string \<times> ServiceConfigValidator" where
  "scv_Require env key = collect [] (RequireEnv env key)"

definition scv_RequireInt :: "env \<Rightarrow> string \<Rightarrow> ServiceConfigValidator \<Rightarrow> int \<times> ServiceConfigValidator" where
  "scv_RequireInt env key = collect 0 (RequireEnvInt env key)"

definition scv_RequireURL ::
    "go_parsers \<Rightarrow> env \<Rightarrow> string \<Rightarrow> ServiceConfigValidator \<Rightarrow> string \<times> ServiceConfigValidator" where
  "scv_RequireURL g env key = collect [] (RequireEnvURL g env key)"

definition scv_RequireSecret ::
    "env \<Rightarrow> string \<Rightarrow> int \<Rightarrow> ServiceConfigValidator \<Rightarrow> string \<times> ServiceConfigValidator" where
  "scv_RequireSecret env key minLength = collect [] (RequireEnvSecret env key minLength)"

definition scv_RequireAtLeastOne ::
    "env \<Rightarrow> string list \<Rightarrow> ServiceConfigValidator \<Rightarrow> ServiceConfigValidator" where
  "scv_RequireAtLeastOne env keys v = snd (collect () (RequireAtLeastOne env keys) v)"

definition scv_RequireWithDefault :: "env \<Rightarrow> string \<Rightarrow> string \<Rightarrow> ServiceConfigValidator \<Rightarrow> string \<times> ServiceConfigValidator" where
  "scv_RequireWithDefault env key defaultValue v = (RequireEnvWithDefault env key defaultValue, v)"

definition scv_RequireIntWithDefault :: "env \<Rightarrow> string \<Rightarrow> int \<Rightarrow> ServiceConfigValidator \<Rightarrow> int \<times> ServiceConfigValidator" where
  "scv_RequireIntWithDefault env key defaultValue v = (RequireEnvIntWithDefault env key defaultValue, v)"

definition scv_HasErrors :: "ServiceConfigValidator \<Rightarrow> bool" where
  "scv_HasErrors v = (length (scv_errors v) > 0)"

definition scv_Errors :: "ServiceConfigValidator \<Rightarrow> env_error list" where
  "scv_Errors v = scv_errors v"

definition scv_Validate :: "ServiceConfigValidator \<Rightarrow> (string \<times> env_error list) option" where
  "scv_Validate v =
     (if length (scv_errors v) = 0 then None else Some (scv_serviceName v, scv_errors v))"

subsection \<open>ingester_rate_limit.go\<close>

record IngesterRateLimitConfig =
  ir_RequestsPerMinute :: int
  ir_Burst :: int
  ir_ConfigSource :: string

definition getIngesterRateLimitFromEnv :: "env \<Rightarrow> string \<Rightarrow> string \<Rightarrow> int" where
  "getIngesterRateLimitFromEnv env source rateType =
     (let envKey = ''RATE_LIMIT_INGESTER_'' @ to_upper source @ ''_'' @ rateType
      in if env envKey = [] then 0 else (case atoi (env envKey) of None \<Rightarrow> 0 | Some v \<Rightarrow> v))"

text \<open>
  The configuration of the CRD is the pair of its two accessors, or \<open>None\<close> for nil; the adapter
  of this file gives such a pair.
\<close>

record SourceConfigRateLimitAdapter =
  ObservationsPerMinute :: int
  Adapter_Burst :: int

definition GetRequestsPerMinute :: "SourceConfigRateLimitAdapter \<Rightarrow> int" where
  "GetRequestsPerMinute a = ObservationsPerMinute a"

definition GetBurst :: "SourceConfigRateLimitAdapter \<Rightarrow> int" where
  "GetBurst a = Adapter_Burst a"

definition NewSourceConfigRateLimitAdapter :: "int \<Rightarrow> int \<Rightarrow> int \<times> int" where
  "NewSourceConfigRateLimitAdapter observationsPerMinute burst =
     (let a = \<lparr>ObservationsPerMinute = observationsPerMinute, Adapter_Burst = burst\<rparr> in (GetRequestsPerMinute a, GetBurst a))"

definition LoadIngesterRateLimitConfig ::
    "env \<Rightarrow> string \<Rightarrow> (int \<times> int) option \<Rightarrow> IngesterRateLimitConfig option" where
  "LoadIngesterRateLimitConfig env source crdConfig =
     (let (rpm, burst, configSource) =
            (case crdConfig of
               None \<Rightarrow> (0, 0, [])
             | Some (r, b) \<Rightarrow> (r, b, if r > 0 then ''crd'' else []));
          (rpm, burst, configSource) =
            (if rpm = 0
             then
               (let r = getIngesterRateLimitFromEnv env source ''RPM'';
                    b = getIngesterRateLimitFromEnv env source ''BURST''
                in (r, b, if r > 0 then ''env_per_source'' else configSource))
             else (rpm, burst, configSource));
          (rpm, burst, configSource) =
            (if rpm = 0
             then
               (let r = getIngesterRateLimitFromEnv env ''DEFAULT'' ''RPM'';
                    b = (if burst = 0 then getIngesterRateLimitFromEnv env ''DEFAULT'' ''BURST''
                         else burst)
                in (r, b, if r > 0 then ''env_default'' else configSource))
             else (rpm, burst, configSource))
      in if rpm = 0 then None
         else Some \<lparr>ir_RequestsPerMinute = rpm, ir_Burst = burst, ir_ConfigSource = configSource\<rparr>)"

subsection \<open>The two styles agree\<close>

text \<open>
  The interface of an operation of the validator: its value does not depend on the errors
  collected so far, and it appends at most one error to them.
\<close>

locale validator_op =
  fixes read_op :: "Validator \<Rightarrow> 'a \<times> Validator"
  assumes read_op_shape: "\<exists>x es. length es \<le> 1 \<and> (\<forall>v. read_op v = (x, v @ es))"
begin

lemma value_independent: "fst (read_op v) = fst (read_op w)"
  using read_op_shape by (metis fst_conv)

lemma errors_grow: "\<exists>es. length es \<le> 1 \<and> snd (read_op v) = v @ es"
  using read_op_shape by (metis snd_conv)

lemma keeps_failure: "v_Validate v \<noteq> None \<Longrightarrow> v_Validate (snd (read_op v)) \<noteq> None"
  using errors_grow [of v] by (auto simp: v_Validate_def split: if_splits)

lemma error_once: "length (snd (read_op v)) \<le> Suc (length v)"
  using errors_grow [of v] by auto

end

lemmas validator_defs = RequireString_def OptionalString_def RequireURL_def OptionalURL_def
  RequireInt_def OptionalInt_def RequireBool_def OptionalBool_def RequireDuration_def
  OptionalDuration_def RequireOneOf_def RequireCSV_def OptionalCSV_def v_add_def

interpretation RequireString: validator_op "RequireString env key" for env key
  by unfold_locales (cases "env key = []"; auto simp: validator_defs)

interpretation RequireInt: validator_op "RequireInt env key" for env key
  by unfold_locales (cases "env key = []"; cases "atoi (env key)"; auto simp: validator_defs)

interpretation OptionalInt: validator_op "OptionalInt env key d" for env key d
  by unfold_locales (cases "env key = []"; cases "atoi (env key)"; auto simp: validator_defs)

interpretation OptionalDuration: validator_op "OptionalDuration env key d" for env key d
  by unfold_locales
    (cases "env key = []"; cases "looks_like_duration (env key)"; auto simp: validator_defs)

interpretation RequireBool: validator_op "RequireBool env key" for env key
  by unfold_locales (cases "env key = []"; cases "ParseBool (env key)"; auto simp: validator_defs)

interpretation RequireCSV: validator_op "RequireCSV env key" for env key
  by unfold_locales
    (cases "env key = []"; cases "csv_parts (env key) = []"; auto simp: validator_defs)

text \<open>What a failing and a succeeding lookup of env.go are in the accumulating style.\<close>

definition same_outcome :: "'a \<Rightarrow> env_error + 'a \<Rightarrow> Validator \<Rightarrow> 'a \<times> Validator \<Rightarrow> bool" where
  "same_outcome zero r v q =
     (case r of
        Inr x \<Rightarrow> q = (x, v)
      | Inl (key, e) \<Rightarrow> fst q = zero \<and> (\<exists>msg. snd q = v @ [\<lparr>ve_Field = key, ve_Message = msg\<rparr>]))"

text \<open>
  The single lookups and the validator agree: for strings, integers, booleans, URLs, lists
  and choices, the validator records an error for a variable exactly when the lookup fails,
  under the same name, and both give the same value otherwise.
\<close>

theorem env_styles_agree:
  "same_outcome [] (RequireEnv env key) v (RequireString env key v) \<and>
   same_outcome 0 (RequireEnvInt env key) v (RequireInt env key v) \<and>
   same_outcome False (RequireEnvBool env key) v (RequireBool env key v) \<and>
   same_outcome [] (RequireEnvURL g env key) v (RequireURL g env key v) \<and>
   same_outcome [] (RequireEnvCSV env key) v (RequireCSV env key v) \<and>
   same_outcome [] (RequireEnvOneOf env key allowed) v (RequireOneOf env key allowed v)"
  by (auto simp: same_outcome_def validator_defs RequireEnv_def RequireEnvInt_def RequireEnvBool_def
      RequireEnvURL_def RequireEnvCSV_def RequireEnvOneOf_def split: option.splits)

text \<open>
  They do not agree on durations: the validator looks at the last letter only, so it
  accepts text that no parser accepts, and it rejects nothing that env.go accepts as long as
  the parser requires a unit at the end.
\<close>

theorem duration_styles_differ:
  assumes "time_ParseDuration g ''soons'' = None" and "env key = ''soons''"
  shows "RequireDuration env key v = (''soons'', v) \<and>
    RequireEnvDuration g env key = Inl (key, ErrEnvInvalidDuration) \<and>
    RequireEnvDurationWithDefault g env key d = d"
  using assms by (simp add: RequireDuration_def RequireString_def looks_like_duration_def
      has_suffix_code RequireEnvDuration_def RequireEnv_def RequireEnvDurationWithDefault_def)

theorem duration_styles_differ_witness:
  "RequireDuration (\<lambda>_. ''soons'') ''X'' [] = (''soons'', [])"
  using duration_styles_differ [of "\<lparr>url_Parse = (\<lambda>_. None), time_ParseDuration = (\<lambda>_. None)\<rparr>"
      "\<lambda>_. ''soons''" "''X''" "[]" 0] by simp

text \<open>
  The rate limit of an ingester comes from the first source that sets a rate: the CRD, the
  variables of the source, the default variables. The burst comes from the same place, with
  one exception: a burst set for the source alone is kept with the default rate, while a burst
  of a CRD without a rate is dropped.
\<close>

theorem rate_limit_priority:
  "LoadIngesterRateLimitConfig env source crd =
     (let E = getIngesterRateLimitFromEnv env; named = (\<lambda>r n. if r > 0 then n else []);
          own = E source ''RPM''; dflt = E ''DEFAULT'' ''RPM''
      in if (\<exists>r b. crd = Some (r, b) \<and> r \<noteq> 0)
         then Some \<lparr>ir_RequestsPerMinute = fst (the crd), ir_Burst = snd (the crd),
                ir_ConfigSource = named (fst (the crd)) ''crd''\<rparr>
         else if own \<noteq> 0
         then Some \<lparr>ir_RequestsPerMinute = own, ir_Burst = E source ''BURST'',
                ir_ConfigSource = named own ''env_per_source''\<rparr>
         else if dflt \<noteq> 0
         then Some \<lparr>ir_RequestsPerMinute = dflt,
                ir_Burst = (if E source ''BURST'' = 0 then E ''DEFAULT'' ''BURST'' else E source ''BURST''),
                ir_ConfigSource = named dflt ''env_default''\<rparr>
         else None)"
  by (cases crd) (auto simp: LoadIngesterRateLimitConfig_def Let_def)

end
