(* ===== verification/Controller_Config.thy ===== *)
theory Controller_Config
  imports Env_Config Api_Types
begin

text \<open>
  pkg/config/config.go: the configuration of the controller, its defaults and its loading from
  the environment; the values of the command line that cmd/gc-controller/main.go writes over
  it; and the batch size of a policy (pkg/controller/batch_config.go).
\<close>

definition time_Minute :: i64 where "time_Minute = 60 * 1000000000"

definition DefaultGCInterval :: i64 where "DefaultGCInterval = 1 * time_Minute"
definition DefaultMaxDeletionsPerSecond :: int where "DefaultMaxDeletionsPerSecond = 10"
definition DefaultBatchSize :: int where "DefaultBatchSize = 50"
definition DefaultMaxConcurrentEvaluations :: int where "DefaultMaxConcurrentEvaluations = 5"

record ControllerConfig =
  cc_GCInterval :: i64
  cc_MaxDeletionsPerSecond :: int
  cc_BatchSize :: int
  cc_MaxConcurrentEvaluations :: int

definition NewControllerConfig :: ControllerConfig where
  "NewControllerConfig =
     \<lparr>cc_GCInterval = DefaultGCInterval,
      cc_MaxDeletionsPerSecond = DefaultMaxDeletionsPerSecond,
      cc_BatchSize = DefaultBatchSize,
      cc_MaxConcurrentEvaluations = DefaultMaxConcurrentEvaluations\<rparr>"

definition LoadFromEnv ::
    "go_parsers \<Rightarrow> env \<Rightarrow> ControllerConfig \<Rightarrow> ControllerConfig \<times> string option" where
  "LoadFromEnv g env c =
     (let v = NewValidator;
          (val, v) = OptionalDuration env ''GC_INTERVAL'' [] v;
          c = (if val \<noteq> []
               then (case time_ParseDuration g val of Some d \<Rightarrow> c\<lparr>cc_GCInterval := d\<rparr> | None \<Rightarrow> c)
               else c);
          (n, v) = OptionalInt env ''GC_MAX_DELETIONS_PER_SECOND'' 0 v;
          c = (if n > 0 then c\<lparr>cc_MaxDeletionsPerSecond := n\<rparr> else c);
          (n, v) = OptionalInt env ''GC_BATCH_SIZE'' 0 v;
          c = (if n > 0 then c\<lparr>cc_BatchSize := n\<rparr> else c);
          (n, v) = OptionalInt env ''GC_MAX_CONCURRENT_EVALUATIONS'' 0 v;
          c = (if n > 0 then c\<lparr>cc_MaxConcurrentEvaluations := n\<rparr> else c)
      in (c, v_Validate v))"

definition WithGCInterval :: "i64 \<Rightarrow> ControllerConfig \<Rightarrow> ControllerConfig" where
  "WithGCInterval interval c = c\<lparr>cc_GCInterval := interval\<rparr>"

definition WithMaxDeletionsPerSecond :: "int \<Rightarrow> ControllerConfig \<Rightarrow> ControllerConfig" where
  "WithMaxDeletionsPerSecond rate c = c\<lparr>cc_MaxDeletionsPerSecond := rate\<rparr>"

definition WithBatchSize :: "int \<Rightarrow> ControllerConfig \<Rightarrow> ControllerConfig" where
  "WithBatchSize n c = c\<lparr>cc_BatchSize := n\<rparr>"

definition WithMaxConcurrentEvaluations :: "int \<Rightarrow> ControllerConfig \<Rightarrow> ControllerConfig" where
  "WithMaxConcurrentEvaluations maxConcurrent c = c\<lparr>cc_MaxConcurrentEvaluations := maxConcurrent\<rparr>"

subsection \<open>main.go: the flags\<close>

record config_flags =
  fl_gcInterval :: i64
  fl_maxDeletionsPerSecond :: int
  fl_batchSize :: int
  fl_maxConcurrentEvaluations :: int

definition default_flags :: config_flags where
  "default_flags = \<lparr>fl_gcInterval = 1 * time_Minute, fl_maxDeletionsPerSecond = 10,
     fl_batchSize = DefaultBatchSize, fl_maxConcurrentEvaluations = DefaultMaxConcurrentEvaluations\<rparr>"

text \<open>\<open>Inl\<close> is the error for which the program exits.\<close>

definition main_config :: "go_parsers \<Rightarrow> env \<Rightarrow> config_flags \<Rightarrow> string + ControllerConfig" where
  "main_config g env flags =
     (let (c, err) = LoadFromEnv g env NewControllerConfig
      in case err of
           Some e \<Rightarrow> Inl e
         | None \<Rightarrow>
             Inr (WithMaxConcurrentEvaluations (fl_maxConcurrentEvaluations flags)
                   (WithBatchSize (fl_batchSize flags)
                     (WithMaxDeletionsPerSecond (fl_maxDeletionsPerSecond flags)
                       (WithGCInterval (fl_gcInterval flags) c)))))"

subsection \<open>batch_config.go\<close>

definition resolveBatchSize :: "GarbageCollectionPolicy \<Rightarrow> ControllerConfig option \<Rightarrow> int" where
  "resolveBatchSize policy ctrlCfg =
     (let batchSize = DefaultBatchSize;
          batchSize = (case ctrlCfg of None \<Rightarrow> batchSize | Some c \<Rightarrow> cc_BatchSize c);
          batchSize = (if bh_BatchSize (gs_Behavior (gp_Spec policy)) > 0
                       then bh_BatchSize (gs_Behavior (gp_Spec policy)) else batchSize)
      in batchSize)"

subsection \<open>What loading guarantees\<close>

definition config_positive :: "ControllerConfig \<Rightarrow> bool" where
  "config_positive c \<longleftrightarrow>
     cc_MaxDeletionsPerSecond c > 0 \<and> cc_BatchSize c > 0 \<and> cc_MaxConcurrentEvaluations c > 0"

definition int_var_ok :: "env \<Rightarrow> string \<Rightarrow> bool" where
  "int_var_ok env key \<longleftrightarrow> env key = [] \<or> atoi (env key) \<noteq> None"

definition env_ok :: "env \<Rightarrow> bool" where
  "env_ok env \<longleftrightarrow>
     (env ''GC_INTERVAL'' = [] \<or> looks_like_duration (env ''GC_INTERVAL'')) \<and>
     int_var_ok env ''GC_MAX_DELETIONS_PER_SECOND'' \<and> int_var_ok env ''GC_BATCH_SIZE'' \<and>
     int_var_ok env ''GC_MAX_CONCURRENT_EVALUATIONS''"

text \<open>The errors that one optional reading adds, and the value it gives.\<close>

definition int_errors :: "env \<Rightarrow> string \<Rightarrow> Validator" where
  "int_errors env key = snd (OptionalInt env key 0 [])"

definition int_value :: "env \<Rightarrow> string \<Rightarrow> int" where
  "int_value env key = fst (OptionalInt env key 0 [])"

lemma OptionalInt_split: "OptionalInt env key 0 v = (int_value env key, v @ int_errors env key)"
  by (simp add: OptionalInt_def int_value_def int_errors_def v_add_def split: option.splits)

lemma int_errors_Nil: "int_errors env key = [] \<longleftrightarrow> int_var_ok env key"
  by (auto simp: int_errors_def OptionalInt_def int_var_ok_def v_add_def split: option.splits)

lemma int_value_ok:
  "int_var_ok env key \<Longrightarrow> int_value env key = (if env key = [] then 0 else the (atoi (env key)))"
  by (auto simp: int_value_def OptionalInt_def int_var_ok_def)

definition duration_errors :: "env \<Rightarrow> Validator" where
  "duration_errors env = snd (OptionalDuration env ''GC_INTERVAL'' [] [])"

lemma OptionalDuration_split:
  "OptionalDuration env ''GC_INTERVAL'' [] v =
     (if looks_like_duration (env ''GC_INTERVAL'') then env ''GC_INTERVAL'' else [],
      v @ duration_errors env)"
  by (auto simp: OptionalDuration_def duration_errors_def v_add_def looks_like_duration_def)

lemma duration_errors_Nil:
  "duration_errors env = [] \<longleftrightarrow> env ''GC_INTERVAL'' = [] \<or> looks_like_duration (env ''GC_INTERVAL'')"
  by (auto simp: duration_errors_def OptionalDuration_def v_add_def)

lemmas load_defs = LoadFromEnv_def Let_def OptionalInt_split OptionalDuration_split

lemma snd_LoadFromEnv: "snd (LoadFromEnv g env c) = None \<longleftrightarrow> env_ok env"
  by (auto simp: load_defs v_Validate_def NewValidator_def env_ok_def
      int_errors_Nil duration_errors_Nil split: option.splits)

text \<open>
  C36. Loading keeps the limits positive, and it fails exactly when a variable is malformed: a
  limit is taken over when the variable holds a positive number, a non-positive number is
  ignored without an error, and text that is no number is an error.
\<close>

theorem LoadFromEnv_keeps_positive:
  assumes "config_positive c"
  shows "config_positive (fst (LoadFromEnv g env c)) \<and>
    (snd (LoadFromEnv g env c) = None \<longleftrightarrow> env_ok env) \<and>
    (env_ok env \<longrightarrow> cc_BatchSize (fst (LoadFromEnv g env c)) =
      (case atoi (env ''GC_BATCH_SIZE'') of
         Some n \<Rightarrow> if n > 0 then n else cc_BatchSize c | None \<Rightarrow> cc_BatchSize c))"
proof -
  have "config_positive (fst (LoadFromEnv g env c))"
    using assms by (simp add: load_defs config_positive_def split: option.splits)
  moreover have "cc_BatchSize (fst (LoadFromEnv g env c)) =
      (if int_value env ''GC_BATCH_SIZE'' > 0 then int_value env ''GC_BATCH_SIZE'' else cc_BatchSize c)"
    by (simp add: load_defs split: option.splits)
  moreover have "int_value env ''GC_BATCH_SIZE'' =
      (case atoi (env ''GC_BATCH_SIZE'') of Some n \<Rightarrow> n | None \<Rightarrow> 0)"
    by (auto simp: int_value_def OptionalInt_def split: option.splits)
  ultimately show ?thesis
    by (auto simp: snd_LoadFromEnv split: option.splits)
qed

theorem LoadFromEnv_keeps_positive_witness:
  "config_positive (fst (LoadFromEnv \<lparr>url_Parse = (\<lambda>_. None), time_ParseDuration = (\<lambda>_. None)\<rparr>
    ((\<lambda>_. [])(''GC_BATCH_SIZE'' := ''-5'')) NewControllerConfig))"
  using LoadFromEnv_keeps_positive [of NewControllerConfig
      "\<lparr>url_Parse = (\<lambda>_. None), time_ParseDuration = (\<lambda>_. None)\<rparr>"
      "(\<lambda>_. [])(''GC_BATCH_SIZE'' := ''-5'')"]
  by (simp add: config_positive_def NewControllerConfig_def DefaultMaxDeletionsPerSecond_def
      DefaultBatchSize_def DefaultMaxConcurrentEvaluations_def)

text \<open>
  The variables of the environment have no effect on the running controller: when they are
  well formed, the configuration is that of the flags, whose defaults overwrite what was
  loaded; a batch size of 0 or less given as a flag is passed on unchecked to every policy
  without a batch size of its own.
\<close>

theorem flags_override_environment:
  "(case main_config g env flags of
      Inl e \<Rightarrow> \<not> env_ok env
    | Inr c \<Rightarrow> env_ok env \<and> c = \<lparr>cc_GCInterval = fl_gcInterval flags,
        cc_MaxDeletionsPerSecond = fl_maxDeletionsPerSecond flags,
        cc_BatchSize = fl_batchSize flags,
        cc_MaxConcurrentEvaluations = fl_maxConcurrentEvaluations flags\<rparr>) \<and>
   (case main_config g env flags of
      Inl e \<Rightarrow> True
    | Inr c \<Rightarrow> resolveBatchSize zero_Policy (Some c) = fl_batchSize flags)"
proof -
  obtain c err where load: "LoadFromEnv g env NewControllerConfig = (c, err)"
    by fastforce
  then have "err = None \<longleftrightarrow> env_ok env"
    using snd_LoadFromEnv [of g env NewControllerConfig] by simp
  then show ?thesis
    by (cases c) (auto simp: main_config_def load WithGCInterval_def WithMaxDeletionsPerSecond_def
        WithBatchSize_def WithMaxConcurrentEvaluations_def resolveBatchSize_def zero_defs
        split: option.splits)
qed

text \<open>A batch size is positive when the policy or the configuration gives a positive one.\<close>

lemma resolveBatchSize_pos:
  "(\<And>c. ctrlCfg = Some c \<Longrightarrow> cc_BatchSize c > 0) \<Longrightarrow> resolveBatchSize p ctrlCfg > 0"
  by (auto simp: resolveBatchSize_def DefaultBatchSize_def split: option.splits)

lemma resolveBatchSize_policy:
  "bh_BatchSize (gs_Behavior (gp_Spec p)) > 0 \<Longrightarrow>
    resolveBatchSize p ctrlCfg = bh_BatchSize (gs_Behavior (gp_Spec p))"
  by (simp add: resolveBatchSize_def)

end
