(* ===== verification/Status.thy ===== *)
theory Status
  imports World Controller_Config
begin

text \<open>
  pkg/controller/status_updater.go: the status that an evaluation writes to the policy object.
  The object is the map that the API server returned; writing it is the effect \<open>PutStatus\<close>.
  The text of a time depends on the local time zone, so the formatter is part of the outside.
\<close>

definition PolicyPhaseActive :: string where "PolicyPhaseActive = ''Active''"
definition PolicyPhasePaused :: string where "PolicyPhasePaused = ''Paused''"
definition PolicyPhaseError :: string where "PolicyPhaseError = ''Error''"

lemmas phase_defs = PolicyPhaseActive_def PolicyPhasePaused_def PolicyPhaseError_def

definition PolicyGVR :: GroupVersionResource where
  "PolicyGVR = \<lparr>gvr_Group = ''gc.ops.zen-mesh.io'', gvr_Version = ''v1alpha1'',
     gvr_Resource = ''garbagecollectionpolicies''\<rparr>"

text \<open>A status updater is its configuration; a nil configuration is \<open>None\<close>.\<close>

record StatusUpdater =
  su_config :: "ControllerConfig option"

definition NewStatusUpdater :: StatusUpdater where
  "NewStatusUpdater = \<lparr>su_config = Some NewControllerConfig\<rparr>"

definition NewStatusUpdaterWithConfig :: "ControllerConfig option \<Rightarrow> StatusUpdater" where
  "NewStatusUpdaterWithConfig cfg =
     \<lparr>su_config = Some (case cfg of None \<Rightarrow> NewControllerConfig | Some c \<Rightarrow> c)\<rparr>"

definition policy_error :: "GarbageCollectionPolicy \<Rightarrow> string \<Rightarrow> string \<Rightarrow> go_error \<Rightarrow> go_error" where
  "policy_error policy errType message err =
     ctx_WithContext (ctx_WithContext (err_Wrap err errType message)
       ''policy_namespace'' (gp_Namespace policy)) ''policy_name'' (gp_Name policy)"

definition status_phase :: "GarbageCollectionPolicy \<Rightarrow> string" where
  "status_phase policy =
     (let phase = PolicyPhaseActive;
          phase = (if gs_Paused (gp_Spec policy) then PolicyPhasePaused else phase);
          phase = (if st_Phase (gp_Status policy) = PolicyPhaseError then PolicyPhaseError else phase)
      in phase)"

definition ready_condition :: "string \<Rightarrow> string \<Rightarrow> (string, json) gomap" where
  "ready_condition phase nowStr =
     (let c = [(''type'', JString ''Ready''), (''status'', JString ''True''),
               (''lastTransitionTime'', JString nowStr), (''reason'', JString ''PolicyActive''),
               (''message'', JString ''Policy is active and processing resources'')]
      in if phase = PolicyPhaseError
         then go_put ''message'' (JString ''Policy evaluation encountered errors'')
                (go_put ''reason'' (JString ''PolicyError'') (go_put ''status'' (JString ''False'') c))
         else if phase = PolicyPhasePaused
         then go_put ''message'' (JString ''Policy is paused'')
                (go_put ''reason'' (JString ''PolicyPaused'') (go_put ''status'' (JString ''False'') c))
         else c)"

definition error_condition :: "string \<Rightarrow> (string, json) gomap" where
  "error_condition nowStr =
     [(''type'', JString PolicyPhaseError), (''status'', JString ''True''),
      (''lastTransitionTime'', JString nowStr), (''reason'', JString ''EvaluationFailed''),
      (''message'', JString ''Policy evaluation failed - check logs for details'')]"

definition status_object ::
    "('x) outside_scheme \<Rightarrow> StatusUpdater \<Rightarrow> GarbageCollectionPolicy \<Rightarrow> gotime \<Rightarrow>
      int \<Rightarrow> int \<Rightarrow> int \<Rightarrow> (string, json) gomap" where
  "status_object out su policy now' matched deleted pending =
     (let interval = (case su_config su of None \<Rightarrow> DefaultGCInterval | Some c \<Rightarrow> cc_GCInterval c);
          nextRun = time_Add now' interval;
          nowStr = format_rfc3339 out now';
          phase = status_phase policy;
          conditions = [ready_condition phase nowStr] @
            (if phase = PolicyPhaseError then [error_condition nowStr] else [])
      in [(''resourcesMatched'', JInt matched), (''resourcesDeleted'', JInt deleted),
          (''resourcesPending'', JInt pending), (''lastGCRun'', JString nowStr),
          (''nextGCRun'', JString (format_rfc3339 out nextRun)), (''phase'', JString phase),
          (''conditions'', JArray (map JObject conditions))])"

definition merge_status ::
    "(string, json) gomap \<Rightarrow> (string, json) gomap \<Rightarrow> (string, json) gomap" where
  "merge_status statusObj obj =
     (case map_of obj ''status'' of
        Some (JObject existingStatus) \<Rightarrow>
          go_put ''status'' (JObject (go_put_all statusObj existingStatus)) obj
      | _ \<Rightarrow> go_put ''status'' (JObject statusObj) obj)"

definition UpdateStatus ::
    "('x) outside_scheme \<Rightarrow> StatusUpdater \<Rightarrow> GarbageCollectionPolicy \<Rightarrow> int \<Rightarrow> int \<Rightarrow> int \<Rightarrow>
      world \<Rightarrow> go_error option \<times> world" where
  "UpdateStatus out su policy matched deleted pending w =
     (let got = get_policy_object out (wd_tick w) (gp_Namespace policy) (gp_Name policy); w = tick w
      in case got of
           Inl err \<Rightarrow>
             (Some (policy_error policy ''status_get_failed'' ''failed to get GarbageCollectionPolicy CRD'' err), w)
         | Inr obj \<Rightarrow>
             (let (now', w) = read_clock out w;
                  obj = merge_status (status_object out su policy now' matched deleted pending) obj;
                  err = update_status out (wd_tick w) (gp_Namespace policy) obj;
                  w = emit [PutStatus (gp_Namespace policy) (gp_Name policy) obj] (tick w)
              in case err of
                   Some e \<Rightarrow>
                     (Some (policy_error policy ''status_update_failed''
                        ''failed to update GarbageCollectionPolicy status'' e), w)
                 | None \<Rightarrow> (None, w)))"

subsection \<open>What is written\<close>

definition status_keys :: "string set" where
  "status_keys = {''resourcesMatched'', ''resourcesDeleted'', ''resourcesPending'', ''lastGCRun'',
     ''nextGCRun'', ''phase'', ''conditions''}"

text \<open>The status inside an object, empty when there is none.\<close>

definition status_of :: "(string, json) gomap \<Rightarrow> (string, json) gomap" where
  "status_of obj = (case map_of obj ''status'' of Some (JObject st) \<Rightarrow> st | _ \<Rightarrow> [])"

lemma dom_status_object: "dom (map_of (status_object out su p t m d n)) = status_keys"
  by (auto simp: status_object_def status_keys_def Let_def split: if_splits)

lemma wf_status_object [simp]: "wf_map (status_object out su p t m d n)"
  by (simp add: status_object_def Let_def)

lemma status_of_merge:
  "wf_map statusObj \<Longrightarrow>
    map_of (status_of (merge_status statusObj obj)) = map_of (status_of obj) ++ map_of statusObj"
  by (auto simp: merge_status_def status_of_def map_of_put_all split: option.splits json.splits)

lemma merge_status_other: "k \<noteq> ''status'' \<Longrightarrow> map_of (merge_status statusObj obj) k = map_of obj k"
  by (auto simp: merge_status_def split: option.splits json.splits)

text \<open>
  C30. A status update merges: it writes one object, which is the object read with its status
  replaced key by key. The seven fields of an evaluation have the new values, every other
  field of the status and every other part of the object keeps the value that was read.
\<close>

theorem UpdateStatus_merges:
  assumes "fst (UpdateStatus out su p matched deleted pending w) = None"
  shows "\<exists>obj obj' t. get_policy_object out (wd_tick w) (gp_Namespace p) (gp_Name p) = Inr obj \<and>
    wd_log (snd (UpdateStatus out su p matched deleted pending w)) =
      wd_log w @ [PutStatus (gp_Namespace p) (gp_Name p) obj'] \<and>
    (\<forall>k. k \<noteq> ''status'' \<longrightarrow> map_of obj' k = map_of obj k) \<and>
    (\<forall>k. k \<notin> status_keys \<longrightarrow> map_of (status_of obj') k = map_of (status_of obj) k) \<and>
    (\<forall>k\<in>status_keys. map_of (status_of obj') k = map_of (status_object out su p t matched deleted pending) k)"
proof -
  let ?s = "status_object out su p (now out (Suc (wd_tick w))) matched deleted pending"
  obtain obj where obj: "get_policy_object out (wd_tick w) (gp_Namespace p) (gp_Name p) = Inr obj"
    using assms by (auto simp: UpdateStatus_def Let_def split: sum.splits)
  have "wd_log (snd (UpdateStatus out su p matched deleted pending w)) =
      wd_log w @ [PutStatus (gp_Namespace p) (gp_Name p) (merge_status ?s obj)]"
    using obj by (simp add: UpdateStatus_def Let_def read_clock_def split: option.splits)
  moreover have "map_of (status_of (merge_status ?s obj)) k = map_of ?s k" if "k \<in> status_keys" for k
    using that dom_status_object [of out su p "now out (Suc (wd_tick w))" matched deleted pending]
    by (simp add: status_of_merge map_add_dom_app_simps)
  moreover have "map_of (status_of (merge_status ?s obj)) k = map_of (status_of obj) k" if "k \<notin> status_keys" for k
    using that dom_status_object [of out su p "now out (Suc (wd_tick w))" matched deleted pending]
    by (auto simp: status_of_merge map_add_dom_app_simps domIff)
  ultimately show ?thesis
    using obj merge_status_other by (intro exI conjI) auto
qed

theorem UpdateStatus_merges_witness:
  "\<exists>obj'. wd_log (snd (UpdateStatus (calm_outside\<lparr>get_policy_object :=
        (\<lambda>_ _ _. Inr [(''status'', JObject [(''custom'', JInt 1)])])\<rparr>) NewStatusUpdater zero_Policy 3 2 1 fresh_world)) =
      [PutStatus [] [] obj'] \<and> map_of (status_of obj') ''custom'' = Some (JInt 1)"
  using UpdateStatus_merges [of "calm_outside\<lparr>get_policy_object :=
        (\<lambda>_ _ _. Inr [(''status'', JObject [(''custom'', JInt 1)])])\<rparr>" NewStatusUpdater zero_Policy 3 2 1 fresh_world]
  by (auto simp: UpdateStatus_def calm_outside_def read_clock_def Let_def fresh_world_def zero_defs status_of_def status_keys_def)

text \<open>
  The phase \<open>Error\<close> is never left: a status update of a policy whose phase is \<open>Error\<close> writes
  \<open>Error\<close> again with a failing \<open>Ready\<close> condition, after a successful evaluation too, and no
  update of a policy with another phase ever writes it.
\<close>

theorem error_phase_is_absorbing:
  "map_of (status_object out su p t matched deleted pending) ''phase'' = Some (JString PolicyPhaseError) \<longleftrightarrow>
    st_Phase (gp_Status p) = PolicyPhaseError"
  by (simp add: status_object_def Let_def status_phase_def phase_defs)

end
