(* ===== verification/Rate_Limiter.thy ===== *)
theory Rate_Limiter
  imports Controller_Config
begin

text \<open>
  The rate limiters: internal/ratelimiter/ratelimiter.go over the token bucket of
  golang.org/x/time/rate, whose constructor and setters are the record \<open>rate_pkg\<close>; the lookup
  of pkg/controller/shared.go with its two lock phases; the provider of
  pkg/controller/infrastructure.go; and the cleanup of pkg/controller/reconciler.go. Limiters
  are shared by pointer, so the state has a heap: a pointer is an index into the list of
  limiters, and the map of limiters sends a policy UID to a pointer, \<open>None\<close> being nil.
\<close>

record 'l rate_pkg =
  NewLimiter :: "int \<Rightarrow> int \<Rightarrow> 'l"
  SetLimit :: "'l \<Rightarrow> int \<Rightarrow> 'l"
  SetBurst :: "'l \<Rightarrow> int \<Rightarrow> 'l"
  Limit :: "'l \<Rightarrow> int"

text \<open>The documented behaviour of that package that the limit depends on.\<close>

definition rate_pkg_lawful :: "'l rate_pkg \<Rightarrow> bool" where
  "rate_pkg_lawful rp \<longleftrightarrow>
     (\<forall>r b. Limit rp (NewLimiter rp r b) = r) \<and> (\<forall>l r. Limit rp (SetLimit rp l r) = r) \<and>
     (\<forall>l b. Limit rp (SetBurst rp l b) = Limit rp l)"

subsection \<open>internal/ratelimiter\<close>

definition DefaultMaxPerSecond :: int where "DefaultMaxPerSecond = 10"

definition effective_rate :: "int \<Rightarrow> int" where
  "effective_rate maxPerSecond = (if maxPerSecond \<le> 0 then DefaultMaxPerSecond else maxPerSecond)"

definition NewRateLimiter :: "'l rate_pkg \<Rightarrow> int \<Rightarrow> 'l" where
  "NewRateLimiter rp maxPerSecond =
     (let maxPerSecond = effective_rate maxPerSecond in NewLimiter rp maxPerSecond maxPerSecond)"

definition SetRate :: "'l rate_pkg \<Rightarrow> int \<Rightarrow> 'l \<Rightarrow> 'l" where
  "SetRate rp maxPerSecond rl =
     (let maxPerSecond = effective_rate maxPerSecond
      in SetBurst rp (SetLimit rp rl maxPerSecond) maxPerSecond)"

definition GetRate :: "'l rate_pkg \<Rightarrow> 'l \<Rightarrow> int" where
  "GetRate rp rl = Limit rp rl"

subsection \<open>getOrCreateRateLimiterShared\<close>

type_synonym uid = string

record 'l rl_state =
  rs_limiters :: "(uid, nat option) gomap"
  rs_heap :: "'l list"
  rs_count_metric :: int

definition policy_rate :: "GarbageCollectionPolicy \<Rightarrow> int" where
  "policy_rate policy =
     (if bh_MaxDeletionsPerSecond (gs_Behavior (gp_Spec policy)) > 0
      then bh_MaxDeletionsPerSecond (gs_Behavior (gp_Spec policy))
      else DefaultMaxDeletionsPerSecond)"

definition set_rate_at :: "'l rate_pkg \<Rightarrow> int \<Rightarrow> nat \<Rightarrow> 'l rl_state \<Rightarrow> 'l rl_state" where
  "set_rate_at rp n a st = st\<lparr>rs_heap := (rs_heap st)[a := SetRate rp n (rs_heap st ! a)]\<rparr>"

text \<open>The phase under the read lock: the limiter that is there, or \<open>None\<close> to go on.\<close>

definition rl_read_phase ::
    "'l rate_pkg \<Rightarrow> GarbageCollectionPolicy \<Rightarrow> 'l rl_state \<Rightarrow> nat option \<times> 'l rl_state" where
  "rl_read_phase rp policy st =
     (case map_of (rs_limiters st) (gp_UID policy) of
        Some (Some a) \<Rightarrow> (Some a, set_rate_at rp (policy_rate policy) a st)
      | Some None \<Rightarrow> (None, st)
      | None \<Rightarrow> (None, st))"

text \<open>The phase under the write lock. \<open>SetRate\<close> on a nil limiter reads its field.\<close>

definition rl_write_phase ::
    "'l rate_pkg \<Rightarrow> GarbageCollectionPolicy \<Rightarrow> 'l rl_state \<Rightarrow> panic + nat \<times> 'l rl_state" where
  "rl_write_phase rp policy st =
     (case map_of (rs_limiters st) (gp_UID policy) of
        Some None \<Rightarrow> Inl NilDereference
      | Some (Some a) \<Rightarrow> Inr (a, set_rate_at rp (policy_rate policy) a st)
      | None \<Rightarrow>
          (let a = length (rs_heap st);
               m = go_put (gp_UID policy) (Some a) (rs_limiters st)
           in Inr (a, st\<lparr>rs_limiters := m,
                rs_heap := rs_heap st @ [NewRateLimiter rp (policy_rate policy)],
                rs_count_metric := int (length m)\<rparr>)))"

definition getOrCreateRateLimiterShared ::
    "'l rate_pkg \<Rightarrow> GarbageCollectionPolicy \<Rightarrow> 'l rl_state \<Rightarrow> panic + nat \<times> 'l rl_state" where
  "getOrCreateRateLimiterShared rp policy st =
     (case rl_read_phase rp policy st of
        (Some a, st') \<Rightarrow> Inr (a, st')
      | (None, st') \<Rightarrow> rl_write_phase rp policy st')"

subsection \<open>DefaultRateLimiterProvider\<close>

definition provider_rate :: "ControllerConfig option \<Rightarrow> GarbageCollectionPolicy \<Rightarrow> int" where
  "provider_rate cfg policy =
     (let n = 10;
          n = (case cfg of None \<Rightarrow> n | Some c \<Rightarrow>
                 if cc_MaxDeletionsPerSecond c > 0 then cc_MaxDeletionsPerSecond c else n);
          n = (if bh_MaxDeletionsPerSecond (gs_Behavior (gp_Spec policy)) > 0
               then bh_MaxDeletionsPerSecond (gs_Behavior (gp_Spec policy)) else n)
      in n)"

definition NewDefaultRateLimiterProvider :: "'l rl_state" where
  "NewDefaultRateLimiterProvider = \<lparr>rs_limiters = [], rs_heap = [], rs_count_metric = 0\<rparr>"

definition GetOrCreateRateLimiter ::
    "'l rate_pkg \<Rightarrow> ControllerConfig option \<Rightarrow> GarbageCollectionPolicy \<Rightarrow> 'l rl_state \<Rightarrow>
      nat option \<times> 'l rl_state" where
  "GetOrCreateRateLimiter rp cfg policy st =
     (case map_of (rs_limiters st) (gp_UID policy) of
        Some limiter \<Rightarrow> (limiter, st)
      | None \<Rightarrow>
          (let a = length (rs_heap st)
           in (Some a, st\<lparr>rs_limiters := go_put (gp_UID policy) (Some a) (rs_limiters st),
                rs_heap := rs_heap st @ [NewRateLimiter rp (provider_rate cfg policy)]\<rparr>)))"

subsection \<open>Cleanup\<close>

definition cleanupRateLimiter :: "uid \<Rightarrow> 'l rl_state \<Rightarrow> 'l rl_state" where
  "cleanupRateLimiter policyUID st =
     (let m = (if map_of (rs_limiters st) policyUID \<noteq> None
               then go_del policyUID (rs_limiters st) else rs_limiters st)
      in st\<lparr>rs_limiters := m, rs_count_metric := int (length m)\<rparr>)"

subsection \<open>Well-formed states\<close>

definition rl_wf :: "'l rl_state \<Rightarrow> bool" where
  "rl_wf st \<longleftrightarrow> wf_map (rs_limiters st) \<and>
     (\<forall>u e. map_of (rs_limiters st) u = Some e \<longrightarrow> (\<exists>a. e = Some a \<and> a < length (rs_heap st))) \<and>
     (\<forall>u u' a. map_of (rs_limiters st) u = Some (Some a) \<and>
        map_of (rs_limiters st) u' = Some (Some a) \<longrightarrow> u = u')"

text \<open>The limiter that a policy UID stands for.\<close>

definition limiter_of :: "'l rl_state \<Rightarrow> uid \<Rightarrow> nat option" where
  "limiter_of st u = (case map_of (rs_limiters st) u of Some (Some a) \<Rightarrow> Some a | _ \<Rightarrow> None)"

lemma rl_wf_empty [simp]: "rl_wf NewDefaultRateLimiterProvider"
  by (simp add: rl_wf_def NewDefaultRateLimiterProvider_def)

lemma rl_wf_cases:
  assumes "rl_wf st"
  obtains "map_of (rs_limiters st) u = None"
    | a where "map_of (rs_limiters st) u = Some (Some a)" "a < length (rs_heap st)"
  using assms unfolding rl_wf_def
  by (cases "map_of (rs_limiters st) u") (auto simp del: map_of_eq_Some_iff)

lemma set_rate_at_limiters [simp]: "rs_limiters (set_rate_at rp n a st) = rs_limiters st"
  by (simp add: set_rate_at_def)

lemma length_set_rate_at [simp]: "length (rs_heap (set_rate_at rp n a st)) = length (rs_heap st)"
  by (simp add: set_rate_at_def)

lemma rl_wf_set_rate_at [simp]: "rl_wf (set_rate_at rp n a st) = rl_wf st"
  by (simp add: rl_wf_def)

lemma rl_wf_alloc:
  assumes "rl_wf st" and "map_of (rs_limiters st) u = None"
    and "rs_limiters st' = go_put u (Some (length (rs_heap st))) (rs_limiters st)"
    and "length (rs_heap st') = Suc (length (rs_heap st))"
  shows "rl_wf st'"
  using assms unfolding rl_wf_def
  by (auto simp: less_Suc_eq simp del: map_of_eq_Some_iff split: if_splits)

lemma rl_wf_cleanup [simp]: "rl_wf st \<Longrightarrow> rl_wf (cleanupRateLimiter u st)"
  unfolding rl_wf_def cleanupRateLimiter_def
  by (auto simp: Let_def simp del: map_of_eq_Some_iff split: if_splits)

text \<open>
  What the two phases do on a well-formed state: the limiter is the one in the map, or a new
  one at the end of the heap.
\<close>

lemma shared_hit:
  "map_of (rs_limiters st) (gp_UID p) = Some (Some a) \<Longrightarrow>
    getOrCreateRateLimiterShared rp p st = Inr (a, set_rate_at rp (policy_rate p) a st)"
  by (simp add: getOrCreateRateLimiterShared_def rl_read_phase_def)

lemma shared_miss:
  "map_of (rs_limiters st) (gp_UID p) = None \<Longrightarrow>
    getOrCreateRateLimiterShared rp p st = rl_write_phase rp p st"
  by (simp add: getOrCreateRateLimiterShared_def rl_read_phase_def)

lemma policy_rate_pos: "policy_rate p > 0"
  by (simp add: policy_rate_def DefaultMaxDeletionsPerSecond_def)

lemma effective_policy_rate [simp]: "effective_rate (policy_rate p) = policy_rate p"
  using policy_rate_pos [of p] by (simp add: effective_rate_def)

lemma GetRate_SetRate: "rate_pkg_lawful rp \<Longrightarrow> GetRate rp (SetRate rp n l) = effective_rate n"
  by (simp add: rate_pkg_lawful_def GetRate_def SetRate_def Let_def)

lemma GetRate_New: "rate_pkg_lawful rp \<Longrightarrow> GetRate rp (NewRateLimiter rp n) = effective_rate n"
  by (simp add: rate_pkg_lawful_def GetRate_def NewRateLimiter_def Let_def)

subsection \<open>The interface of a store of limiters\<close>

text \<open>
  What the deletion code may rely on when it asks a store for the limiter of a policy: a
  well-formed store answers, stays well formed, remembers the answer, and leaves the limiters
  of other policies alone.
\<close>

locale limiter_store =
  fixes get :: "GarbageCollectionPolicy \<Rightarrow> 'l rl_state \<Rightarrow> nat \<times> 'l rl_state"
  assumes get_wf: "rl_wf st \<Longrightarrow> rl_wf (snd (get p st))"
    and get_remembers: "rl_wf st \<Longrightarrow> limiter_of (snd (get p st)) (gp_UID p) = Some (fst (get p st))"
    and get_keeps: "rl_wf st \<Longrightarrow> limiter_of st u = Some a \<Longrightarrow>
      limiter_of (snd (get p st)) u = Some a \<and> a < length (rs_heap (snd (get p st)))"
    and get_frame: "rl_wf st \<Longrightarrow> limiter_of st u = Some a \<Longrightarrow> u \<noteq> gp_UID p \<Longrightarrow>
      rs_heap (snd (get p st)) ! a = rs_heap st ! a"
begin

lemma get_again:
  assumes "rl_wf st" and "gp_UID q = gp_UID p"
  shows "fst (get q (snd (get p st))) = fst (get p st)"
proof -
  have "limiter_of (snd (get p st)) (gp_UID q) = Some (fst (get p st))"
    using get_remembers [OF assms(1), of p] assms(2) by simp
  then have "limiter_of (snd (get q (snd (get p st)))) (gp_UID q) = Some (fst (get p st))"
    using get_keeps [OF get_wf [OF assms(1)]] by blast
  then show ?thesis
    using get_remembers [OF get_wf [OF assms(1)], of q p] by simp
qed

text \<open>A sequence of requests, with the answers.\<close>

primrec run_gets :: "GarbageCollectionPolicy list \<Rightarrow> 'l rl_state \<Rightarrow> 'l rl_state" where
  "run_gets [] st = st"
| "run_gets (p # ps) st = run_gets ps (snd (get p st))"

lemma run_gets_wf: "rl_wf st \<Longrightarrow> rl_wf (run_gets ps st)"
  by (induction ps arbitrary: st) (simp_all add: get_wf)

lemma run_gets_keeps: "rl_wf st \<Longrightarrow> limiter_of st u = Some a \<Longrightarrow> limiter_of (run_gets ps st) u = Some a"
  by (induction ps arbitrary: st) (simp_all add: get_wf get_keeps)

lemma same_limiter_later:
  assumes "rl_wf st"
  shows "fst (get p (run_gets ps (snd (get p st)))) = fst (get p st)"
proof -
  let ?st = "run_gets ps (snd (get p st))"
  have wf: "rl_wf ?st" by (simp add: assms get_wf run_gets_wf)
  have "limiter_of ?st (gp_UID p) = Some (fst (get p st))"
    using run_gets_keeps [OF get_wf [OF assms] get_remembers [OF assms]] .
  then have "limiter_of (snd (get p ?st)) (gp_UID p) = Some (fst (get p st))"
    using get_keeps [OF wf] by blast
  then show ?thesis
    using get_remembers [OF wf, of p] by simp
qed

end

text \<open>A store that also applies the rate of the policy whenever it is asked.\<close>

locale refreshing_store = limiter_store get for get :: "GarbageCollectionPolicy \<Rightarrow> 'l rl_state \<Rightarrow> nat \<times> 'l rl_state" +
  fixes rp :: "'l rate_pkg"
  assumes get_rate: "rl_wf st \<Longrightarrow>
    (\<exists>l. rs_heap (snd (get p st)) ! fst (get p st) = SetRate rp (policy_rate p) l) \<or>
    rs_heap (snd (get p st)) ! fst (get p st) = NewRateLimiter rp (policy_rate p)"
begin

lemma get_current_rate:
  "rate_pkg_lawful rp \<Longrightarrow> rl_wf st \<Longrightarrow>
    GetRate rp (rs_heap (snd (get p st)) ! fst (get p st)) = policy_rate p"
  using get_rate [of st p] by (auto simp: GetRate_SetRate GetRate_New)

end

text \<open>On a well-formed state neither store panics or answers nil.\<close>

definition shared_get :: "'l rate_pkg \<Rightarrow> GarbageCollectionPolicy \<Rightarrow> 'l rl_state \<Rightarrow> nat \<times> 'l rl_state" where
  "shared_get rp p st = (case getOrCreateRateLimiterShared rp p st of Inr r \<Rightarrow> r | Inl e \<Rightarrow> (0, st))"

definition provider_get ::
    "'l rate_pkg \<Rightarrow> ControllerConfig option \<Rightarrow> GarbageCollectionPolicy \<Rightarrow> 'l rl_state \<Rightarrow> nat \<times> 'l rl_state" where
  "provider_get rp cfg p st =
     (case GetOrCreateRateLimiter rp cfg p st of (Some a, st') \<Rightarrow> (a, st') | (None, st') \<Rightarrow> (0, st'))"

lemma shared_get_eq: "rl_wf st \<Longrightarrow> getOrCreateRateLimiterShared rp p st = Inr (shared_get rp p st)"
  by (rule rl_wf_cases [of st "gp_UID p"])
    (auto simp: shared_get_def shared_hit shared_miss rl_write_phase_def Let_def)

lemma provider_get_eq:
  "rl_wf st \<Longrightarrow> GetOrCreateRateLimiter rp cfg p st = (Some (fst (provider_get rp cfg p st)), snd (provider_get rp cfg p st))"
  by (rule rl_wf_cases [of st "gp_UID p"])
    (auto simp: provider_get_def GetOrCreateRateLimiter_def Let_def)

lemma limiter_of_Some:
  "limiter_of st u = Some a \<longleftrightarrow> map_of (rs_limiters st) u = Some (Some a)"
  by (auto simp: limiter_of_def split: option.splits)

lemma shared_get_cases:
  assumes "rl_wf st"
  shows "(\<exists>a. limiter_of st (gp_UID p) = Some a \<and> a < length (rs_heap st) \<and>
      shared_get rp p st = (a, set_rate_at rp (policy_rate p) a st)) \<or>
    map_of (rs_limiters st) (gp_UID p) = None \<and> fst (shared_get rp p st) = length (rs_heap st) \<and>
      rs_limiters (snd (shared_get rp p st)) = go_put (gp_UID p) (Some (length (rs_heap st))) (rs_limiters st) \<and>
      rs_heap (snd (shared_get rp p st)) = rs_heap st @ [NewRateLimiter rp (policy_rate p)]"
  using assms by (rule rl_wf_cases [of st "gp_UID p"])
    (auto simp: shared_get_def shared_hit shared_miss rl_write_phase_def Let_def limiter_of_Some
      simp del: map_of_eq_Some_iff)

lemma rl_wf_inj:
  "rl_wf st \<Longrightarrow> limiter_of st u = Some a \<Longrightarrow> limiter_of st u' = Some a \<Longrightarrow> u = u'"
  by (auto simp: rl_wf_def limiter_of_Some simp del: map_of_eq_Some_iff)

lemma rl_wf_heap: "rl_wf st \<Longrightarrow> limiter_of st u = Some a \<Longrightarrow> a < length (rs_heap st)"
  by (auto simp: rl_wf_def limiter_of_Some simp del: map_of_eq_Some_iff)

lemma limiter_of_put:
  "rs_limiters st' = go_put u (Some b) (rs_limiters st) \<Longrightarrow>
    limiter_of st' v = (if v = u then Some b else limiter_of st v)"
  by (simp add: limiter_of_def)

lemma limiter_of_set_rate_at [simp]: "limiter_of (set_rate_at rp n a st) v = limiter_of st v"
  by (simp add: limiter_of_def)

interpretation shared_store: refreshing_store "shared_get rp" rp for rp
proof
  fix st :: "'a rl_state" and p u a
  assume wf: "rl_wf st"
  note cs = shared_get_cases [OF wf, of p rp]
  show "rl_wf (snd (shared_get rp p st))"
    using cs wf rl_wf_alloc [OF wf, of "gp_UID p" "snd (shared_get rp p st)"] by auto
  show "limiter_of (snd (shared_get rp p st)) (gp_UID p) = Some (fst (shared_get rp p st))"
    using cs by (auto simp: limiter_of_put)
  show "(\<exists>l. rs_heap (snd (shared_get rp p st)) ! fst (shared_get rp p st) = SetRate rp (policy_rate p) l) \<or>
      rs_heap (snd (shared_get rp p st)) ! fst (shared_get rp p st) = NewRateLimiter rp (policy_rate p)"
    using cs by (auto simp: set_rate_at_def)
  assume a: "limiter_of st u = Some a"
  show "limiter_of (snd (shared_get rp p st)) u = Some a \<and> a < length (rs_heap (snd (shared_get rp p st)))"
    using cs a rl_wf_heap [OF wf a] by (auto simp: limiter_of_put limiter_of_Some)
  assume "u \<noteq> gp_UID p"
  then show "rs_heap (snd (shared_get rp p st)) ! a = rs_heap st ! a"
    using cs
  proof (elim disjE exE conjE)
    fix b
    assume "limiter_of st (gp_UID p) = Some b" and get: "shared_get rp p st = (b, set_rate_at rp (policy_rate p) b st)"
    then have "a \<noteq> b"
      using \<open>u \<noteq> gp_UID p\<close> rl_wf_inj [OF wf a] by blast
    then show ?thesis
      by (simp add: get set_rate_at_def)
  qed (simp add: nth_append rl_wf_heap [OF wf a])
qed

lemma provider_get_cases:
  assumes "rl_wf st"
  shows "(\<exists>a. limiter_of st (gp_UID p) = Some a \<and> provider_get rp cfg p st = (a, st)) \<or>
    map_of (rs_limiters st) (gp_UID p) = None \<and> fst (provider_get rp cfg p st) = length (rs_heap st) \<and>
      rs_limiters (snd (provider_get rp cfg p st)) = go_put (gp_UID p) (Some (length (rs_heap st))) (rs_limiters st) \<and>
      rs_heap (snd (provider_get rp cfg p st)) = rs_heap st @ [NewRateLimiter rp (provider_rate cfg p)]"
  using assms by (rule rl_wf_cases [of st "gp_UID p"])
    (auto simp: provider_get_def GetOrCreateRateLimiter_def Let_def limiter_of_Some
      simp del: map_of_eq_Some_iff)

interpretation provider_store: limiter_store "provider_get rp cfg" for rp cfg
proof
  fix st :: "'a rl_state" and p u a
  assume wf: "rl_wf st"
  note cs = provider_get_cases [OF wf, of p rp cfg]
  show "rl_wf (snd (provider_get rp cfg p st))"
    using cs wf rl_wf_alloc [OF wf, of "gp_UID p" "snd (provider_get rp cfg p st)"] by auto
  show "limiter_of (snd (provider_get rp cfg p st)) (gp_UID p) = Some (fst (provider_get rp cfg p st))"
    using cs by (auto simp: limiter_of_put)
  assume a: "limiter_of st u = Some a"
  show "limiter_of (snd (provider_get rp cfg p st)) u = Some a \<and> a < length (rs_heap (snd (provider_get rp cfg p st)))"
    using cs a rl_wf_heap [OF wf a] by (auto simp: limiter_of_put limiter_of_Some)
  assume "u \<noteq> gp_UID p"
  then show "rs_heap (snd (provider_get rp cfg p st)) ! a = rs_heap st ! a"
    using cs a rl_wf_heap [OF wf a] by (auto simp: nth_append)
qed

text \<open>
  On a state without nil entries the lookup never panics: it answers a limiter with the
  rate of the policy (10 when the policy sets none), keeps the state well formed, leaves the
  limiters of other policies untouched, and answers the same limiter for the policy after any
  number of further lookups.
\<close>

theorem rate_limiter_lookup:
  assumes "rate_pkg_lawful rp" and "rl_wf st"
  shows "\<exists>a st'. getOrCreateRateLimiterShared rp p st = Inr (a, st') \<and> rl_wf st' \<and>
    GetRate rp (rs_heap st' ! a) = policy_rate p \<and>
    (\<forall>u b. limiter_of st u = Some b \<longrightarrow> u \<noteq> gp_UID p \<longrightarrow>
       limiter_of st' u = Some b \<and> rs_heap st' ! b = rs_heap st ! b) \<and>
    (\<forall>ps. fst (shared_get rp p (shared_store.run_gets rp ps st')) = a)"
  using assms shared_get_eq [OF assms(2), of rp p] shared_store.get_wf [OF assms(2), of rp p]
    shared_store.get_current_rate [OF assms, of p] shared_store.get_keeps [OF assms(2)]
    shared_store.get_frame [OF assms(2)] shared_store.same_limiter_later [OF assms(2), of rp p]
  by (intro exI [of _ "fst (shared_get rp p st)"] exI [of _ "snd (shared_get rp p st)"]) auto

text \<open>A concrete limiter, its limit and its burst, for examples.\<close>

definition pair_limiter :: "(int \<times> int) rate_pkg" where
  "pair_limiter = \<lparr>NewLimiter = (\<lambda>r b. (r, b)), SetLimit = (\<lambda>(r, b) r'. (r', b)),
     SetBurst = (\<lambda>(r, b) b'. (r, b')), Limit = fst\<rparr>"

lemma pair_limiter_lawful: "rate_pkg_lawful pair_limiter"
  by (auto simp: rate_pkg_lawful_def pair_limiter_def)

definition with_rate :: "uid \<Rightarrow> int \<Rightarrow> GarbageCollectionPolicy" where
  "with_rate u n = zero_Policy\<lparr>gp_UID := u, gp_Spec := zero_Spec
     \<lparr>gs_Behavior := zero_BehaviorSpec\<lparr>bh_MaxDeletionsPerSecond := n\<rparr>\<rparr>\<rparr>"

theorem rate_limiter_lookup_witness:
  "\<exists>a st'. getOrCreateRateLimiterShared pair_limiter (with_rate ''u'' 7) NewDefaultRateLimiterProvider =
      Inr (a, st') \<and> GetRate pair_limiter (rs_heap st' ! a) = 7"
  using rate_limiter_lookup [OF pair_limiter_lawful, of NewDefaultRateLimiterProvider "with_rate ''u'' 7"]
  by (auto simp: policy_rate_def with_rate_def)

text \<open>
  A nil entry is not replaced: the first phase falls through to the second as its comment
  says, but the second finds the key present and calls a method on nil, so the lookup panics.
\<close>

theorem nil_entry_panics:
  "map_of (rs_limiters st) (gp_UID p) = Some None \<longleftrightarrow>
    getOrCreateRateLimiterShared rp p st = Inl NilDereference"
  by (auto simp: getOrCreateRateLimiterShared_def rl_read_phase_def rl_write_phase_def Let_def
      simp del: map_of_eq_Some_iff split: option.splits)

text \<open>
  The provider of infrastructure.go keeps the rate a limiter was made with: asked again
  for a policy whose rate has changed, it answers the old limiter and leaves it as it is,
  where the shared lookup sets the new rate.
\<close>

theorem provider_ignores_new_rate:
  assumes "rl_wf st" and "limiter_of st (gp_UID p) = Some a"
  shows "GetOrCreateRateLimiter rp cfg p st = (Some a, st) \<and>
    getOrCreateRateLimiterShared rp p st = Inr (a, set_rate_at rp (policy_rate p) a st)"
  using assms by (simp add: GetOrCreateRateLimiter_def limiter_of_Some shared_hit
      del: map_of_eq_Some_iff)

theorem provider_ignores_new_rate_witness:
  "fst (GetOrCreateRateLimiter pair_limiter None (with_rate ''u'' 9)
      \<lparr>rs_limiters = [(''u'', Some 0)], rs_heap = [(5, 5)], rs_count_metric = 1\<rparr>) = Some 0"
  using provider_ignores_new_rate [of "\<lparr>rs_limiters = [(''u'', Some 0)], rs_heap = [(5, 5)],
      rs_count_metric = 1\<rparr>" "with_rate ''u'' 9" 0 pair_limiter None]
  by (simp add: rl_wf_def limiter_of_def with_rate_def)

subsection \<open>Concurrent lookups\<close>

text \<open>
  Reconciliations of several policies, or of one policy twice, may look limiters up at the
  same time. The two phases are atomic, anything may happen between them.
\<close>

datatype rl_thread =
    Ready GarbageCollectionPolicy
  | Missed GarbageCollectionPolicy
  | Got GarbageCollectionPolicy nat
  | Panicked panic

inductive rl_step ::
    "'l rate_pkg \<Rightarrow> 'l rl_state \<times> rl_thread list \<Rightarrow> 'l rl_state \<times> rl_thread list \<Rightarrow> bool"
  for rp where
  rl_hit: "i < length ts \<Longrightarrow> ts ! i = Ready p \<Longrightarrow> rl_read_phase rp p st = (Some a, st') \<Longrightarrow>
    rl_step rp (st, ts) (st', ts[i := Got p a])"
| rl_miss: "i < length ts \<Longrightarrow> ts ! i = Ready p \<Longrightarrow> rl_read_phase rp p st = (None, st') \<Longrightarrow>
    rl_step rp (st, ts) (st', ts[i := Missed p])"
| rl_write: "i < length ts \<Longrightarrow> ts ! i = Missed p \<Longrightarrow> rl_write_phase rp p st = Inr (a, st') \<Longrightarrow>
    rl_step rp (st, ts) (st', ts[i := Got p a])"
| rl_panic: "i < length ts \<Longrightarrow> ts ! i = Missed p \<Longrightarrow> rl_write_phase rp p st = Inl e \<Longrightarrow>
    rl_step rp (st, ts) (st, ts[i := Panicked e])"

inductive_cases rl_stepE: "rl_step rp (st, ts) c"

definition rl_reach :: "'l rate_pkg \<Rightarrow> 'l rl_state \<times> rl_thread list \<Rightarrow> 'l rl_state \<times> rl_thread list \<Rightarrow> bool" where
  "rl_reach rp = (rl_step rp)\<^sup>*\<^sup>*"

fun thread_ok :: "'l rl_state \<Rightarrow> rl_thread \<Rightarrow> bool" where
  "thread_ok st (Got p a) = (limiter_of st (gp_UID p) = Some a)"
| "thread_ok st (Panicked e) = False"
| "thread_ok st _ = True"

definition rl_inv :: "'l rl_state \<times> rl_thread list \<Rightarrow> bool" where
  "rl_inv c \<longleftrightarrow> rl_wf (fst c) \<and> list_all (thread_ok (fst c)) (snd c)"

text \<open>Both phases only add limiters, and answer what the map holds afterwards.\<close>

lemma read_phase_ok:
  "rl_wf st \<Longrightarrow> rl_read_phase rp p st = (r, st') \<Longrightarrow>
    rl_wf st' \<and> (\<forall>a. r = Some a \<longrightarrow> limiter_of st' (gp_UID p) = Some a) \<and>
    (\<forall>u. limiter_of st' u = limiter_of st u)"
  by (auto simp: rl_read_phase_def limiter_of_Some simp del: map_of_eq_Some_iff
      split: option.splits)

lemma write_phase_ok:
  assumes wf: "rl_wf st"
  shows "case rl_write_phase rp p st of Inl e \<Rightarrow> False
    | Inr (a, st') \<Rightarrow> rl_wf st' \<and> limiter_of st' (gp_UID p) = Some a \<and>
        (\<forall>u b. limiter_of st u = Some b \<longrightarrow> limiter_of st' u = Some b)"
proof (rule rl_wf_cases [OF wf, of "gp_UID p"])
  assume none: "map_of (rs_limiters st) (gp_UID p) = None"
  then show ?thesis
    by (auto simp: rl_write_phase_def Let_def limiter_of_Some intro!: rl_wf_alloc [OF wf none]
        simp del: map_of_eq_Some_iff)
qed (simp add: rl_write_phase_def wf limiter_of_Some del: map_of_eq_Some_iff)

lemma thread_ok_mono:
  "(\<And>u b. limiter_of st u = Some b \<Longrightarrow> limiter_of st' u = Some b) \<Longrightarrow> thread_ok st t \<Longrightarrow> thread_ok st' t"
  by (cases t) auto

lemma rl_inv_update:
  assumes "rl_inv (st, ts)" and "rl_wf st'" and "thread_ok st' t"
    and "\<And>u b. limiter_of st u = Some b \<Longrightarrow> limiter_of st' u = Some b"
  shows "rl_inv (st', ts[i := t])"
  using assms thread_ok_mono [of st st']
  by (auto simp: rl_inv_def list_all_iff dest!: set_update_subset_insert [THEN subsetD])

lemma rl_inv_wf: "rl_inv (st, ts) \<Longrightarrow> rl_wf st"
  by (simp add: rl_inv_def)

lemma rl_step_inv: "rl_step rp c c' \<Longrightarrow> rl_inv c \<Longrightarrow> rl_inv c'"
proof (induction rule: rl_step.induct)
  case (rl_hit i ts p st a st')
  show ?case
    by (rule rl_inv_update [OF rl_hit(4)])
      (use read_phase_ok [OF rl_inv_wf [OF rl_hit(4)] rl_hit(3)] in auto)
next
  case (rl_miss i ts p st st')
  show ?case
    by (rule rl_inv_update [OF rl_miss(4)])
      (use read_phase_ok [OF rl_inv_wf [OF rl_miss(4)] rl_miss(3)] in auto)
next
  case (rl_write i ts p st a st')
  show ?case
    by (rule rl_inv_update [OF rl_write(4)])
      (use write_phase_ok [OF rl_inv_wf [OF rl_write(4)], of p rp] rl_write(3) in auto)
next
  case (rl_panic i ts p st e)
  then show ?case
    using write_phase_ok [OF rl_inv_wf, of st ts p rp] by simp
qed

lemma rl_reach_inv: "rl_reach rp c c' \<Longrightarrow> rl_inv c \<Longrightarrow> rl_inv c'"
  unfolding rl_reach_def by (induction rule: rtranclp_induct) (auto intro: rl_step_inv)

text \<open>
  C20. Concurrent lookups agree: however the phases of any number of lookups interleave, none
  panics, and all lookups for one policy answer the same limiter, the one in the map.
\<close>

theorem concurrent_lookups_agree:
  assumes "rl_wf st" and "rl_reach rp (st, map Ready ps) (st', ts)"
  shows "rl_wf st' \<and> (\<forall>e. Panicked e \<notin> set ts) \<and>
    (\<forall>p a. Got p a \<in> set ts \<longrightarrow> limiter_of st' (gp_UID p) = Some a)"
proof -
  have "rl_inv (st, map Ready ps)"
    using assms(1) by (simp add: rl_inv_def list_all_iff)
  then have "rl_inv (st', ts)"
    using rl_reach_inv [OF assms(2)] by blast
  then show ?thesis
    by (auto simp: rl_inv_def list_all_iff)
qed

text \<open>Two lookups that both miss before either writes.\<close>

theorem concurrent_lookups_agree_witness:
  "\<exists>st' a. rl_reach pair_limiter
      (NewDefaultRateLimiterProvider, map Ready [with_rate ''u'' 5, with_rate ''u'' 5])
      (st', [Got (with_rate ''u'' 5) a, Got (with_rate ''u'' 5) a]) \<and>
    limiter_of st' ''u'' = Some a"
proof -
  let ?p = "with_rate ''u'' 5" and ?s = "NewDefaultRateLimiterProvider :: (int \<times> int) rl_state"
  let ?s1 = "\<lparr>rs_limiters = [(''u'', Some 0)], rs_heap = [(5, 5)], rs_count_metric = 1\<rparr>"
  have uid: "gp_UID ?p = ''u''" "policy_rate ?p = 5"
    by (simp_all add: with_rate_def policy_rate_def)
  have "rl_step pair_limiter (?s, [Ready ?p, Ready ?p]) (?s, [Missed ?p, Ready ?p])"
    using rl_miss [of 0 "[Ready ?p, Ready ?p]" ?p pair_limiter ?s ?s]
    by (simp add: rl_read_phase_def NewDefaultRateLimiterProvider_def)
  moreover have "rl_step pair_limiter (?s, [Missed ?p, Ready ?p]) (?s, [Missed ?p, Missed ?p])"
    using rl_miss [of 1 "[Missed ?p, Ready ?p]" ?p pair_limiter ?s ?s]
    by (simp add: rl_read_phase_def NewDefaultRateLimiterProvider_def)
  moreover have "rl_step pair_limiter (?s, [Missed ?p, Missed ?p]) (?s1, [Got ?p 0, Missed ?p])"
    using rl_write [of 0 "[Missed ?p, Missed ?p]" ?p pair_limiter ?s 0 ?s1]
    by (simp add: rl_write_phase_def NewDefaultRateLimiterProvider_def uid NewRateLimiter_def
        effective_rate_def pair_limiter_def)
  moreover have "rl_step pair_limiter (?s1, [Got ?p 0, Missed ?p]) (?s1, [Got ?p 0, Got ?p 0])"
    using rl_write [of 1 "[Got ?p 0, Missed ?p]" ?p pair_limiter ?s1 0 ?s1]
    by (simp add: rl_write_phase_def set_rate_at_def uid SetRate_def effective_rate_def pair_limiter_def)
  ultimately have "rl_reach pair_limiter (?s, map Ready [?p, ?p]) (?s1, [Got ?p 0, Got ?p 0])"
    unfolding rl_reach_def by (simp add: converse_rtranclp_into_rtranclp)
  then show ?thesis
    using concurrent_lookups_agree [of ?s pair_limiter "[?p, ?p]" ?s1 "[Got ?p 0, Got ?p 0]"] uid by auto
qed

end
