(* ===== verification/Evaluation.thy ===== *)
theory Evaluation
  imports Decision Selectors Deletion Status Rate_Limiter
begin

text \<open>
  One evaluation of a policy, in its two versions: \<open>PolicyEvaluationService\<close>
  (evaluate_policy_refactored.go), which lists resources and uses injected dependencies, and
  the direct path over an informer (evaluate_policy_shared.go). The dependencies of the
  service are the shared functions, as adapters.go wires them; the theory Services has the
  service with any dependencies, and the wiring. Every deletion decision reads the clock twice.
\<close>

subsection \<open>Listing\<close>

text \<open>An item of an informer store is an unstructured object or something else (\<open>None\<close>).\<close>

definition store_ListResources :: "resource option list \<Rightarrow> string \<Rightarrow> resource list" where
  "store_ListResources items namespace =
     concat (map (\<lambda>obj. case obj of
       None \<Rightarrow> []
     | Some r \<Rightarrow>
         if namespace \<noteq> [] \<and> namespace \<noteq> ''*'' \<and> res_Namespace r \<noteq> namespace then [] else [r]) items)"

subsection \<open>Collecting what to delete\<close>

record PolicyEvaluationResult =
  er_MatchedCount :: int
  er_DeletedCount :: int
  er_PendingCount :: int
  er_ResourcesToDelete :: "resource list"
  er_Reasons :: "(string, string) gomap"

definition empty_result :: PolicyEvaluationResult where
  "empty_result = \<lparr>er_MatchedCount = 0, er_DeletedCount = 0, er_PendingCount = 0,
     er_ResourcesToDelete = [], er_Reasons = []\<rparr>"

definition read_clock_twice :: "('x) outside_scheme \<Rightarrow> world \<Rightarrow> (gotime \<times> gotime) \<times> world" where
  "read_clock_twice out w = (let (t1, w) = read_clock out w; (t2, w) = read_clock out w in ((t1, t2), w))"

definition matched_metric :: "GarbageCollectionPolicy \<Rightarrow> effect list" where
  "matched_metric policy = recordResourceMatched (gp_Namespace policy) (gp_Name policy)
     (tr_APIVersion (gs_TargetResource (gp_Spec policy))) (tr_Kind (gs_TargetResource (gp_Spec policy)))"

definition add_pending :: "PolicyEvaluationResult \<Rightarrow> PolicyEvaluationResult" where
  "add_pending res = res\<lparr>er_PendingCount := er_PendingCount res + 1\<rparr>"

definition add_to_delete :: "resource \<Rightarrow> string \<Rightarrow> PolicyEvaluationResult \<Rightarrow> PolicyEvaluationResult" where
  "add_to_delete resource reason res =
     res\<lparr>er_ResourcesToDelete := er_ResourcesToDelete res @ [resource],
         er_Reasons := go_put (res_UID resource) reason (er_Reasons res)\<rparr>"

text \<open>The body of the loop of \<open>evaluateResources\<close> after the check of the context.\<close>

definition service_item ::
    "as_selector \<Rightarrow> ('x) outside_scheme \<Rightarrow> GarbageCollectionPolicy \<Rightarrow> resource \<Rightarrow>
      PolicyEvaluationResult \<Rightarrow> world \<Rightarrow> PolicyEvaluationResult \<times> world" where
  "service_item as_sel out policy resource res w =
     (if \<not> matchesSelectorsShared as_sel resource (gs_TargetResource (gp_Spec policy)) then (res, w)
      else
        (let res = res\<lparr>er_MatchedCount := er_MatchedCount res + 1\<rparr>;
             w = emit (matched_metric policy) w
         in if (case gs_Conditions (gp_Spec policy) of
                  None \<Rightarrow> False | Some conditions \<Rightarrow> \<not> meetsConditionsShared resource conditions)
            then (add_pending res, w)
            else
              (let ((t1, t2), w) = read_clock_twice out w;
                   (shouldDelete, reason) = service_shouldDelete t1 t2 resource policy
               in if \<not> shouldDelete then (add_pending res, w)
                  else (add_to_delete resource reason res, w))))"

text \<open>The body of the loop of \<open>evaluatePolicyResourcesShared\<close>.\<close>

definition shared_item ::
    "as_selector \<Rightarrow> ('x) outside_scheme \<Rightarrow> GarbageCollectionPolicy \<Rightarrow> resource option \<Rightarrow>
      PolicyEvaluationResult \<Rightarrow> world \<Rightarrow> PolicyEvaluationResult \<times> world" where
  "shared_item as_sel out policy obj res w =
     (case obj of
        None \<Rightarrow> (res, w)
      | Some resource \<Rightarrow>
          if \<not> matchesSelectorsShared as_sel resource (gs_TargetResource (gp_Spec policy)) then (res, w)
          else
            (let res = res\<lparr>er_MatchedCount := er_MatchedCount res + 1\<rparr>;
                 w = emit (matched_metric policy) w;
                 ((t1, t2), w) = read_clock_twice out w;
                 (shouldDelete, reason) = reconciler_shouldDelete t1 t2 resource policy
             in if \<not> shouldDelete then (add_pending res, w)
                else (add_to_delete resource reason res, w)))"

text \<open>Both loops check the context before every hundredth item.\<close>

fun checked_loop ::
    "('x) outside_scheme \<Rightarrow> ('a \<Rightarrow> 's \<Rightarrow> world \<Rightarrow> 's \<times> world) \<Rightarrow> nat \<Rightarrow> 'a list \<Rightarrow> 's \<Rightarrow> world \<Rightarrow>
      's \<times> world" where
  "checked_loop out body i [] res w = (res, w)"
| "checked_loop out body i (x # xs) res w =
     (let (done, w) = (if i mod 100 = 0 then check_ctx out w else (False, w))
      in if done then (res, w)
         else (let (res, w) = body x res w in checked_loop out body (Suc i) xs res w))"

definition evaluateResources ::
    "as_selector \<Rightarrow> ('x) outside_scheme \<Rightarrow> GarbageCollectionPolicy \<Rightarrow> resource list \<Rightarrow> world \<Rightarrow>
      PolicyEvaluationResult \<times> world" where
  "evaluateResources as_sel out policy resources w =
     (let (done, w) = check_ctx out w
      in if done then (empty_result, w)
         else checked_loop out (service_item as_sel out policy) 0 resources empty_result w)"

definition evaluatePolicyResourcesShared ::
    "as_selector \<Rightarrow> ('x) outside_scheme \<Rightarrow> GarbageCollectionPolicy \<Rightarrow> resource option list \<Rightarrow> world \<Rightarrow>
      PolicyEvaluationResult \<times> world" where
  "evaluatePolicyResourcesShared as_sel out policy items w =
     checked_loop out (shared_item as_sel out policy) 0 items empty_result w"

subsection \<open>Deleting in batches\<close>

text \<open>
  The loop over the batches. Its bound is \<open>i += batchSize\<close>, so it is a partial function:
  \<open>None\<close> means that it does not return. The slice \<open>resourcesToDelete[i:end]\<close> panics when the
  bounds are not ordered. \<open>delete\<close> deletes one batch.
\<close>

type_synonym batch_deleter = "resource list \<Rightarrow> world \<Rightarrow> (int \<times> go_error list) \<times> world"

definition batch_bookkeeping ::
    "EventRecorder \<Rightarrow> GarbageCollectionPolicy \<Rightarrow> go_error list \<Rightarrow> effect list" where
  "batch_bookkeeping er policy batchErrors =
     (if length batchErrors > 0
      then recordError (gp_Namespace policy) (gp_Name policy) ''deletion_failed'' else []) @
     concat (map (\<lambda>err. if er \<noteq> None then RecordEvaluationFailed er policy err else []) batchErrors)"

definition batch_end :: "int \<Rightarrow> int \<Rightarrow> resource list \<Rightarrow> int" where
  "batch_end batchSize i resources =
     (let e = i + batchSize in if e > int (length resources) then int (length resources) else e)"

definition batch_slice :: "int \<Rightarrow> int \<Rightarrow> resource list \<Rightarrow> resource list" where
  "batch_slice i e resources = take (nat (e - i)) (drop (nat i) resources)"

partial_function (option) batches_loop ::
    "('x) outside_scheme \<Rightarrow> batch_deleter \<Rightarrow> EventRecorder \<Rightarrow> GarbageCollectionPolicy \<Rightarrow> int \<Rightarrow>
      resource list \<Rightarrow> int \<Rightarrow> int \<Rightarrow> world \<Rightarrow> ((panic + int) \<times> world) option" where
  "batches_loop out delete er policy batchSize resources i deletedCount w =
     (if \<not> i < int (length resources) then Some (Inr deletedCount, w)
      else if ctx_done out (wd_tick w) then Some (Inr deletedCount, tick w)
      else if \<not> (0 \<le> i \<and> i \<le> batch_end batchSize i resources) then Some (Inl SliceBounds, tick w)
      else
        batches_loop out delete er policy batchSize resources (i + batchSize)
          (deletedCount +
             fst (fst (delete (batch_slice i (batch_end batchSize i resources) resources) (tick w))))
          (emit (batch_bookkeeping er policy
             (snd (fst (delete (batch_slice i (batch_end batchSize i resources) resources) (tick w)))))
             (snd (delete (batch_slice i (batch_end batchSize i resources) resources) (tick w)))))"

text \<open>
  \<open>deleteResourcesInBatches\<close> of the service and \<open>deleteResourcesInBatchesShared\<close>, with the
  lookup of the limiter. The state of the limiters is threaded through; the lookup may panic.
  Both evaluators have a configuration, a recorder and a status updater.
\<close>

record PolicyEvaluator =
  ev_config :: "ControllerConfig option"
  ev_recorder :: EventRecorder
  ev_status :: "StatusUpdater option"

record 'l eval_env = PolicyEvaluator +
  ev_rate_pkg :: "'l rate_pkg"
  ev_as_selector :: as_selector

definition run_batches ::
    "('y) PolicyEvaluator_scheme \<Rightarrow> ('x) outside_scheme \<Rightarrow> GarbageCollectionPolicy \<Rightarrow> resource list \<Rightarrow>
      (string, string) gomap \<Rightarrow> nat \<Rightarrow> world \<Rightarrow> ((panic + int) \<times> world) option" where
  "run_batches ev out policy resources reasons limiter w =
     batches_loop out (\<lambda>batch. deleteBatch out (ev_recorder ev) batch policy limiter reasons)
       (ev_recorder ev) policy (resolveBatchSize policy (ev_config ev)) resources 0 0 w"

definition deleteResourcesInBatches ::
    "('l, 'y) eval_env_scheme \<Rightarrow> ('x) outside_scheme \<Rightarrow> GarbageCollectionPolicy \<Rightarrow> resource list \<Rightarrow>
      (string, string) gomap \<Rightarrow> 'l rl_state \<Rightarrow> world \<Rightarrow> ((panic + int) \<times> 'l rl_state \<times> world) option" where
  "deleteResourcesInBatches ev out policy resources reasons rl w =
     (let (done, w) = check_ctx out w
      in if done then Some (Inr 0, rl, w)
         else
           (case getOrCreateRateLimiterShared (ev_rate_pkg ev) policy rl of
              Inl p \<Rightarrow> Some (Inl p, rl, w)
            | Inr (limiter, rl) \<Rightarrow>
                map_option (\<lambda>(r, w). (r, rl, w)) (run_batches ev out policy resources reasons limiter w)))"

definition deleteResourcesInBatchesShared ::
    "('l, 'y) eval_env_scheme \<Rightarrow> ('x) outside_scheme \<Rightarrow> GarbageCollectionPolicy \<Rightarrow> resource list \<Rightarrow>
      (string, string) gomap \<Rightarrow> 'l rl_state \<Rightarrow> world \<Rightarrow> ((panic + int) \<times> 'l rl_state \<times> world) option" where
  "deleteResourcesInBatchesShared ev out policy resources reasons rl w =
     (if length resources = 0 then Some (Inr 0, rl, w)
      else
        (case getOrCreateRateLimiterShared (ev_rate_pkg ev) policy rl of
           Inl p \<Rightarrow> Some (Inl p, rl, w)
         | Inr (limiter, rl) \<Rightarrow>
             map_option (\<lambda>(r, w). (r, rl, w)) (run_batches ev out policy resources reasons limiter w)))"

subsection \<open>Status and the whole evaluation\<close>

text \<open>\<open>updatePolicyStatus\<close> and \<open>updatePolicyStatusShared\<close> have the same body.\<close>

definition updatePolicyStatus ::
    "('y) PolicyEvaluator_scheme \<Rightarrow> ('x) outside_scheme \<Rightarrow> GarbageCollectionPolicy \<Rightarrow> int \<Rightarrow> int \<Rightarrow> int \<Rightarrow>
      world \<Rightarrow> go_error option \<times> world" where
  "updatePolicyStatus ev out policy matched deleted pending w =
     (case ev_status ev of
        None \<Rightarrow> (None, w)
      | Some su \<Rightarrow>
          (case UpdateStatus out su policy matched deleted pending w of
             (None, w) \<Rightarrow> (None, w)
           | (Some err, w) \<Rightarrow>
               (let cancelled = status_ctx_done out (wd_tick w); w = tick w
                in if cancelled then (None, w)
                   else
                     (let gcErr = policy_error policy ''status_update_failed'' ''failed to update policy status'' err;
                          w = emit (recordError (gp_Namespace policy) (gp_Name policy) ''status_update_failed'') w;
                          w = emit (if ev_recorder ev \<noteq> None
                                    then RecordStatusUpdateFailed (ev_recorder ev) policy gcErr else []) w
                      in (Some gcErr, w)))))"

text \<open>What both paths do once the deletions are counted.\<close>

definition finish_evaluation ::
    "('y) PolicyEvaluator_scheme \<Rightarrow> ('x) outside_scheme \<Rightarrow> GarbageCollectionPolicy \<Rightarrow> int \<Rightarrow> int \<Rightarrow> int \<Rightarrow>
      world \<Rightarrow> go_error option \<times> world" where
  "finish_evaluation ev out policy matched deleted pending w =
     (let w = emit (if pending > 0
                    then recordResourcesPending (gp_Namespace policy) (gp_Name policy)
                      (tr_APIVersion (gs_TargetResource (gp_Spec policy)))
                      (tr_Kind (gs_TargetResource (gp_Spec policy))) pending
                    else []) w
      in case updatePolicyStatus ev out policy matched deleted pending w of
           (Some err, w) \<Rightarrow> (Some err, w)
         | (None, w) \<Rightarrow>
             (None, emit (if ev_recorder ev \<noteq> None
                          then RecordPolicyEvaluated (ev_recorder ev) policy matched deleted pending else []) w))"

text \<open>
  The errors of \<open>ParseGVR\<close> as Go errors. The text of the error that the API machinery gives is
  not known, it is left empty.
\<close>

fun gvr_go_error :: "gvr_error \<Rightarrow> go_error" where
  "gvr_go_error ErrAPIVersionEmpty = PlainError ''apiVersion cannot be empty''"
| "gvr_go_error ErrKindEmpty = PlainError ''kind cannot be empty''"
| "gvr_go_error ErrInvalidAPIVersionFormat =
     PlainError (''apiVersion must be in format '' @ [CHR 0x27] @ ''v1'' @ [CHR 0x27] @ '' (core API) or '' @
       [CHR 0x27] @ ''group/v1'' @ [CHR 0x27] @ '' (grouped API)'')"
| "gvr_go_error ErrAPIVersionMultipleSeparators =
     PlainError (''apiVersion must have exactly one '' @ [CHR 0x27] @ ''/'' @ [CHR 0x27] @ '' separator'')"
| "gvr_go_error ErrAPIVersionGroupEmpty = PlainError ''apiVersion group cannot be empty''"
| "gvr_go_error ErrAPIVersionVersionEmpty = PlainError ''apiVersion version cannot be empty''"
| "gvr_go_error ErrAPIVersionMissingVersion =
     PlainError (''apiVersion must include a version (e.g., '' @ [CHR 0x27] @ ''v1'' @ [CHR 0x27] @ '' or '' @
       [CHR 0x27] @ ''apps/v1'' @ [CHR 0x27] @ '')'')"
| "gvr_go_error ErrParseGroupVersion = WrapError ''failed to parse API version'' (PlainError [])"

text \<open>
  \<open>PolicyEvaluationService.EvaluatePolicy\<close>: the parser of group and version and the lister
  are arguments. The deferred function records the duration on every way out.
\<close>

type_synonym lister = "GroupVersionResource \<Rightarrow> string \<Rightarrow> nat \<Rightarrow> go_error + resource list"

definition record_duration :: "('x) outside_scheme \<Rightarrow> GarbageCollectionPolicy \<Rightarrow> gotime \<Rightarrow> world \<Rightarrow> world" where
  "record_duration out policy startTime w =
     (let (t, w) = read_clock out w
      in emit (recordEvaluationDuration (gp_Namespace policy) (gp_Name policy) (t - startTime)) w)"

definition evaluate_listed ::
    "('l, 'y) eval_env_scheme \<Rightarrow> ('x) outside_scheme \<Rightarrow> GarbageCollectionPolicy \<Rightarrow> resource list \<Rightarrow>
      'l rl_state \<Rightarrow> world \<Rightarrow> ((panic + go_error option) \<times> 'l rl_state \<times> world) option" where
  "evaluate_listed ev out policy resources rl w =
     (let (res, w) = evaluateResources (ev_as_selector ev) out policy resources w
      in case (if length (er_ResourcesToDelete res) > 0
               then deleteResourcesInBatches ev out policy (er_ResourcesToDelete res) (er_Reasons res) rl w
               else Some (Inr 0, rl, w)) of
           None \<Rightarrow> None
         | Some (Inl p, rl, w) \<Rightarrow> Some (Inl p, rl, w)
         | Some (Inr deleted, rl, w) \<Rightarrow>
             (let (err, w) = finish_evaluation ev out policy (er_MatchedCount res) deleted (er_PendingCount res) w
              in Some (Inr err, rl, w)))"

definition EvaluatePolicy ::
    "('l, 'y) eval_env_scheme \<Rightarrow> ('x) outside_scheme \<Rightarrow> (string \<Rightarrow> (string \<times> string) option) \<Rightarrow> lister \<Rightarrow>
      GarbageCollectionPolicy \<Rightarrow> 'l rl_state \<Rightarrow> world \<Rightarrow>
      ((panic + go_error option) \<times> 'l rl_state \<times> world) option" where
  "EvaluatePolicy ev out parse_gv list_resources policy rl w =
     (let (startTime, w) = read_clock out w;
          target = gs_TargetResource (gp_Spec policy)
      in map_option (\<lambda>(r, rl, w). (r, rl, record_duration out policy startTime w))
           (case ParseGVR parse_gv (tr_APIVersion target) (tr_Kind target) of
              Inl e \<Rightarrow>
                Some (Inr (Some (policy_error policy ''invalid_gvr'' ''failed to parse GVR'' (gvr_go_error e))), rl,
                  emit (recordError (gp_Namespace policy) (gp_Name policy) ''invalid_gvr'') w)
            | Inr gvr \<Rightarrow>
                (let namespace = (if tr_Namespace target = [] then ''*'' else tr_Namespace target);
                     listed = list_resources gvr namespace (wd_tick w); w = tick w
                 in case listed of
                      Inl e \<Rightarrow>
                        Some (Inr (Some (policy_error policy ''list_resources_failed'' ''failed to list resources'' e)), rl,
                          emit (recordError (gp_Namespace policy) (gp_Name policy) ''list_resources_failed'') w)
                    | Inr resources \<Rightarrow> evaluate_listed ev out policy resources rl w)))"

subsection \<open>What is collected\<close>

text \<open>A resource may be deleted when it matches, its conditions hold and its TTL was over at a reading of the clock.\<close>

definition deletable :: "as_selector \<Rightarrow> ('x) outside_scheme \<Rightarrow> GarbageCollectionPolicy \<Rightarrow> resource \<Rightarrow> bool" where
  "deletable as_sel out p r \<longleftrightarrow>
     matchesSelectorsShared as_sel r (gs_TargetResource (gp_Spec p)) \<and> policy_conditions_met r p \<and>
     (\<exists>t. ttl_over (now out t) (now out (Suc t)) r p)"

definition result_ok ::
    "as_selector \<Rightarrow> ('x) outside_scheme \<Rightarrow> GarbageCollectionPolicy \<Rightarrow> resource set \<Rightarrow> PolicyEvaluationResult \<Rightarrow> bool" where
  "result_ok as_sel out p rs res \<longleftrightarrow>
     er_MatchedCount res = er_PendingCount res + int (length (er_ResourcesToDelete res)) \<and>
     0 \<le> er_PendingCount res \<and> set (er_ResourcesToDelete res) \<subseteq> rs \<and>
     (\<forall>r\<in>set (er_ResourcesToDelete res). deletable as_sel out p r \<and>
        map_of (er_Reasons res) (res_UID r) = Some ReasonTTLExpired)"

lemma checked_loop_Cons:
  "checked_loop out body i (x # xs) res w =
     (if i mod 100 = 0 \<and> ctx_done out (wd_tick w) then (res, tick w)
      else
        (let q = body x res (if i mod 100 = 0 then tick w else w)
         in checked_loop out body (Suc i) xs (fst q) (snd q)))"
  by (auto simp: check_ctx_def Let_def split: prod.splits)

declare checked_loop.simps(2) [simp del]

lemma checked_loop_result:
  "(\<And>x res w. x \<in> set xs \<Longrightarrow> J res \<Longrightarrow> J (fst (body x res w))) \<Longrightarrow> J res \<Longrightarrow>
    J (fst (checked_loop out body i xs res w))"
  by (induction xs arbitrary: i res w) (auto simp: checked_loop_Cons Let_def)

lemma checked_loop_count:
  "(\<And>x res w. x \<in> set xs \<Longrightarrow> er_MatchedCount (fst (body x res w)) \<le> er_MatchedCount res + 1) \<Longrightarrow>
    er_MatchedCount (fst (checked_loop out body i xs res w)) \<le> er_MatchedCount res + int (length xs)"
proof (induction xs arbitrary: i res w)
  case (Cons x xs)
  have step: "er_MatchedCount (fst (body x res w')) \<le> er_MatchedCount res + 1" for w'
    using Cons.prems by simp
  have "er_MatchedCount (fst (checked_loop out body (Suc i) xs (fst (body x res w')) (snd (body x res w'))))
      \<le> er_MatchedCount (fst (body x res w')) + int (length xs)" for w'
    using Cons.prems by (intro Cons.IH) simp
  note this [of w] this [of "tick w"] step [of w] step [of "tick w"]
  then show ?case
    by (simp add: checked_loop_Cons Let_def)
qed simp

lemma checked_loop_log:
  "(\<And>x res w. appends P w (snd (body x res w))) \<Longrightarrow> appends P w (snd (checked_loop out body i xs res w))"
proof (induction xs arbitrary: i res w)
  case (Cons x xs)
  have "appends P w' (snd (checked_loop out body (Suc i) xs (fst (body x res w')) (snd (body x res w'))))" for w'
    using appends_trans [OF Cons.prems Cons.IH [OF Cons.prems]] .
  note this [of w] this [of "tick w"]
  then show ?case
    by (simp add: checked_loop_Cons Let_def)
qed simp

lemma read_clock_twice_eq:
  "read_clock_twice out w = ((now out (wd_tick w), now out (Suc (wd_tick w))), tick (tick w))"
  by (simp add: read_clock_twice_def read_clock_def Let_def)

lemma service_shouldDelete_cases:
  "ttl_over t1 t2 r p \<Longrightarrow> service_shouldDelete t1 t2 r p = (True, ReasonTTLExpired)"
  "\<not> ttl_over t1 t2 r p \<Longrightarrow> \<not> fst (service_shouldDelete t1 t2 r p)"
  using service_shouldDelete_fst [of t1 t2 r p] shouldDelete_reason [of t1 t2 r p]
  by (metis prod.collapse, simp)

lemma reconciler_shouldDelete_eq:
  "reconciler_shouldDelete now1 now2 r p =
     (if policy_conditions_met r p then service_shouldDelete now1 now2 r p
      else (False, ReasonConditionNotMet))"
  by (auto simp: reconciler_shouldDelete_def service_shouldDelete_def policy_conditions_met_def
      split: option.splits)

text \<open>Both loop bodies do the same to the result, at the readings of the clock they take.\<close>

definition item_result ::
    "as_selector \<Rightarrow> GarbageCollectionPolicy \<Rightarrow> gotime \<Rightarrow> gotime \<Rightarrow> resource \<Rightarrow> PolicyEvaluationResult \<Rightarrow>
      PolicyEvaluationResult" where
  "item_result as_sel p t1 t2 r res =
     (if \<not> matchesSelectorsShared as_sel r (gs_TargetResource (gp_Spec p)) then res
      else if policy_conditions_met r p \<and> ttl_over t1 t2 r p
      then add_to_delete r ReasonTTLExpired (res\<lparr>er_MatchedCount := er_MatchedCount res + 1\<rparr>)
      else add_pending (res\<lparr>er_MatchedCount := er_MatchedCount res + 1\<rparr>))"

lemma service_item_eq:
  "fst (service_item as_sel out p r res w) =
     item_result as_sel p (now out (wd_tick w)) (now out (Suc (wd_tick w))) r res"
  using service_shouldDelete_cases [of "now out (wd_tick w)" "now out (Suc (wd_tick w))" r p]
  by (cases "ttl_over (now out (wd_tick w)) (now out (Suc (wd_tick w))) r p")
    (auto simp: service_item_def item_result_def read_clock_twice_eq Let_def policy_conditions_met_def
      split: option.splits prod.splits)

lemma shared_item_eq:
  "fst (shared_item as_sel out p (Some r) res w) =
     item_result as_sel p (now out (wd_tick w)) (now out (Suc (wd_tick w))) r res"
  using service_shouldDelete_cases [of "now out (wd_tick w)" "now out (Suc (wd_tick w))" r p]
  by (cases "ttl_over (now out (wd_tick w)) (now out (Suc (wd_tick w))) r p")
    (auto simp: shared_item_def item_result_def read_clock_twice_eq Let_def reconciler_shouldDelete_eq
      split: option.splits prod.splits)

lemma item_log:
  "wd_log (snd (service_item as_sel out p r res w)) = wd_log w @
     (if matchesSelectorsShared as_sel r (gs_TargetResource (gp_Spec p)) then matched_metric p else [])"
  "wd_log (snd (shared_item as_sel out p (Some r) res w)) = wd_log w @
     (if matchesSelectorsShared as_sel r (gs_TargetResource (gp_Spec p)) then matched_metric p else [])"
  by (auto simp: service_item_def shared_item_def read_clock_twice_eq Let_def split: option.splits prod.splits)

lemma shared_item_None [simp]: "shared_item as_sel out p None res w = (res, w)"
  by (simp add: shared_item_def)

lemma item_result_ok:
  assumes "r \<in> rs" and "result_ok as_sel out p rs res"
  shows "result_ok as_sel out p rs (item_result as_sel p (now out t) (now out (Suc t)) r res)"
  using assms by (auto simp: result_ok_def item_result_def add_to_delete_def add_pending_def deletable_def)

lemma empty_result_ok [simp]: "result_ok as_sel out p rs empty_result"
  by (simp add: result_ok_def empty_result_def)

lemma item_result_matched: "er_MatchedCount (item_result as_sel p t1 t2 r res) \<le> er_MatchedCount res + 1"
  by (simp add: item_result_def add_to_delete_def add_pending_def)

lemma evaluateResources_ok:
  "result_ok as_sel out p (set rs) (fst (evaluateResources as_sel out p rs w))"
proof -
  have "result_ok as_sel out p (set rs) (fst (checked_loop out (service_item as_sel out p) 0 rs empty_result (tick w)))"
    by (rule checked_loop_result) (simp_all add: service_item_eq item_result_ok)
  then show ?thesis
    by (simp add: evaluateResources_def check_ctx_def)
qed

lemma evaluateShared_ok:
  "result_ok as_sel out p {r. Some r \<in> set items} (fst (evaluatePolicyResourcesShared as_sel out p items w))"
  unfolding evaluatePolicyResourcesShared_def
proof (rule checked_loop_result)
  fix x res w
  assume x: "x \<in> set items" and ok: "result_ok as_sel out p {r. Some r \<in> set items} res"
  show "result_ok as_sel out p {r. Some r \<in> set items} (fst (shared_item as_sel out p x res w))"
  proof (cases x)
    case (Some r)
    with x have "r \<in> {r. Some r \<in> set items}" by simp
    from item_result_ok [OF this ok] Some show ?thesis
      by (simp only: shared_item_eq)
  qed (simp add: ok)
qed simp

text \<open>
  What an evaluation collects: every resource on the list to delete was listed, matches
  the selectors, meets the conditions, and its TTL was over at a reading of the clock, which
  is also the reason noted for it. The counts add up: every matched resource is either
  pending or on the list, and no more are matched than were listed. This holds of both paths.
\<close>

theorem evaluation_collects_only_expired:
  "result_ok as_sel out p (set rs) (fst (evaluateResources as_sel out p rs w)) \<and>
   er_MatchedCount (fst (evaluateResources as_sel out p rs w)) \<le> int (length rs) \<and>
   result_ok as_sel out p {r. Some r \<in> set items} (fst (evaluatePolicyResourcesShared as_sel out p items w)) \<and>
   er_MatchedCount (fst (evaluatePolicyResourcesShared as_sel out p items w)) \<le> int (length items)"
proof -
  have "er_MatchedCount (fst (shared_item as_sel out p x res w)) \<le> er_MatchedCount res + 1" for x res w
    by (cases x) (auto simp: shared_item_eq item_result_matched)
  then have "er_MatchedCount (fst (evaluatePolicyResourcesShared as_sel out p items w)) \<le> int (length items)"
    using checked_loop_count [of items "shared_item as_sel out p" out 0 empty_result w]
    by (simp add: evaluatePolicyResourcesShared_def empty_result_def)
  moreover have "er_MatchedCount (fst (evaluateResources as_sel out p rs w)) \<le> int (length rs)"
    using checked_loop_count [of rs "service_item as_sel out p" out 0 empty_result "tick w"]
    by (simp add: evaluateResources_def check_ctx_def service_item_eq item_result_matched empty_result_def)
  ultimately show ?thesis
    using evaluateResources_ok evaluateShared_ok by blast
qed

subsection \<open>The batches\<close>

lemma batch_slice_bounds:
  "0 < n \<Longrightarrow> 0 \<le> i \<Longrightarrow> i < int (length rs) \<Longrightarrow>
    i < batch_end n i rs \<and> batch_end n i rs \<le> int (length rs) \<and>
    int (length (batch_slice i (batch_end n i rs) rs)) = batch_end n i rs - i"
  by (auto simp: batch_end_def batch_slice_def Let_def min_def)

lemma set_batch_slice: "set (batch_slice i e rs) \<subseteq> set rs"
  unfolding batch_slice_def by (meson order_trans set_drop_subset set_take_subset)

definition counts_right :: "batch_deleter \<Rightarrow> bool" where
  "counts_right delete \<longleftrightarrow>
     (\<forall>batch w. 0 \<le> fst (fst (delete batch w)) \<and> fst (fst (delete batch w)) \<le> int (length batch))"

lemma counts_right_deleteBatch: "counts_right (\<lambda>batch. deleteBatch out er batch p l reasons)"
  unfolding counts_right_def
proof (intro allI)
  fix batch w
  show "0 \<le> fst (fst (deleteBatch out er batch p l reasons w)) \<and>
      fst (fst (deleteBatch out er batch p l reasons w)) \<le> int (length batch)"
    using deleteBatch_loop_result [of out "\<lambda>r. DeleteResourceWithBackoff out r p l" er p l reasons 0 batch 0 "[]" w]
    by (auto simp: deleteBatch_def deleteBatchShared_def)
qed

lemma batches_loop_total:
  assumes "counts_right delete" and "0 < n"
  shows "0 \<le> i \<Longrightarrow> \<exists>m w'. batches_loop out delete er p n rs i d w = Some (Inr m, w') \<and>
    d \<le> m \<and> m \<le> d + max 0 (int (length rs) - i)"
proof (induction "nat (int (length rs) - i)" arbitrary: i d w rule: less_induct)
  case less
  show ?case
  proof (cases "i < int (length rs) \<and> \<not> ctx_done out (wd_tick w)")
    case False
    with less.prems show ?thesis
      by (subst batches_loop.simps) auto
  next
    case True
    define e where "e = batch_end n i rs"
    define q where "q = delete (batch_slice i e rs) (tick w)"
    have b: "i < e" "e \<le> int (length rs)" "int (length (batch_slice i e rs)) = e - i"
      using batch_slice_bounds [OF assms(2) less.prems, of rs] True by (simp_all add: e_def)
    have q: "0 \<le> fst (fst q)" "fst (fst q) \<le> e - i"
      using assms(1) b(3) unfolding counts_right_def q_def by metis+
    have e: "e = i + n \<or> e = int (length rs) \<and> i + n > int (length rs)"
      by (auto simp: e_def batch_end_def Let_def)
    obtain m w' where "batches_loop out delete er p n rs (i + n) (d + fst (fst q))
        (emit (batch_bookkeeping er p (snd (fst q))) (snd q)) = Some (Inr m, w')"
      "d + fst (fst q) \<le> m" "m \<le> d + fst (fst q) + max 0 (int (length rs) - (i + n))"
      using less.hyps [of "i + n"] True assms(2) less.prems by fastforce
    with True b q e less.prems show ?thesis
      by (subst batches_loop.simps) (auto simp: e_def [symmetric] q_def [symmetric])
  qed
qed

text \<open>Without progress the loop does not return, and with a negative step it panics.\<close>

lemma batches_loop_diverges:
  "batches_loop out delete er p n rs i d w = Some r \<Longrightarrow>
    \<not> (n = 0 \<and> 0 \<le> i \<and> i < int (length rs) \<and> (\<forall>t. \<not> ctx_done out t))"
proof (erule batches_loop.raw_induct [where P="\<lambda>out delete er p n rs i d w r.
    \<not> (n = 0 \<and> 0 \<le> i \<and> i < int (length rs) \<and> (\<forall>t. \<not> ctx_done out t))", rotated])
qed (auto simp: batch_end_def Let_def split: if_splits)

lemma batches_loop_negative:
  "n < 0 \<Longrightarrow> rs \<noteq> [] \<Longrightarrow> \<not> ctx_done out (wd_tick w) \<Longrightarrow>
    batches_loop out delete er p n rs 0 d w = Some (Inl SliceBounds, tick w)"
  by (subst batches_loop.simps) (auto simp: batch_end_def Let_def)

lemma batch_bookkeeping_ok: "list_all bookkeeping (batch_bookkeeping er p errs)"
  by (auto simp: batch_bookkeeping_def intro!: bookkeeping_concat)

context world_relation
begin

lemma batches_loop_rel:
  assumes "batches_loop out delete er p n rs i d w = Some (r, w')"
    and "\<And>i e w. R w (snd (delete (batch_slice i e rs) w))"
    and "\<And>es w. list_all bookkeeping es \<Longrightarrow> R w (emit es w)"
  shows "R w w'"
proof -
  have "(\<forall>i e w. R w (snd (delete (batch_slice i e rs) w))) \<longrightarrow> R w (snd (r, w'))"
  proof (rule batches_loop.raw_induct [OF _ assms(1), where P="\<lambda>out delete er p n rs i d w y.
      (\<forall>i e w. R w (snd (delete (batch_slice i e rs) w))) \<longrightarrow> R w (snd y)"], intro impI)
    fix loop out delete er p n rs i d w y
    assume ih: "\<And>out delete er p n rs i d w y. loop out delete er p n rs i d w = Some y \<Longrightarrow>
        (\<forall>i e w. R w (snd (delete (batch_slice i e rs) w))) \<longrightarrow> R w (snd y)"
      and body: "(if \<not> i < int (length rs) then Some (Inr d, w)
        else if ctx_done out (wd_tick w) then Some (Inr d, tick w)
        else if \<not> (0 \<le> i \<and> i \<le> batch_end n i rs) then Some (Inl SliceBounds, tick w)
        else loop out delete er p n rs (i + n)
          (d + fst (fst (delete (batch_slice i (batch_end n i rs) rs) (tick w))))
          (emit (batch_bookkeeping er p (snd (fst (delete (batch_slice i (batch_end n i rs) rs) (tick w)))))
            (snd (delete (batch_slice i (batch_end n i rs) rs) (tick w))))) = Some y"
      and del: "\<forall>i e w. R w (snd (delete (batch_slice i e rs) w))"
    have step: "R w (emit (batch_bookkeeping er p errs) (snd (delete (batch_slice i e rs) (tick w))))" for errs e
      using R_trans [OF R_trans [OF R_tick del [rule_format]] assms(3)] batch_bookkeeping_ok by blast
    have "R w (snd y)" if "loop out delete er p n rs i' d'
        (emit (batch_bookkeeping er p errs) (snd (delete (batch_slice i e rs) (tick w)))) = Some y" for i' d' errs e
      using R_trans [OF step ih [OF that, rule_format, OF del [rule_format]]] .
    with body show "R w (snd y)"
      by (auto simp: R_refl R_tick simp del: split_paired_All split: if_splits)
  qed
  then show ?thesis
    using assms(2) by simp
qed

end

text \<open>
  C9. With a positive batch size the deletion in batches returns, panics nowhere, and reports
  between 0 and all of the resources as deleted. A batch size of 0 (which the flag of the
  controller lets through) makes the loop repeat an empty batch for ever, and a negative one
  makes the first slice panic.
\<close>

theorem batch_size_decides_termination:
  assumes "rl_wf rl" and "\<forall>t. \<not> ctx_done out t" and "rs \<noteq> []"
  shows "(resolveBatchSize p (ev_config ev) > 0 \<longrightarrow>
      (\<exists>n rl' w'. deleteResourcesInBatches ev out p rs reasons rl w = Some (Inr n, rl', w') \<and>
         0 \<le> n \<and> n \<le> int (length rs))) \<and>
    (resolveBatchSize p (ev_config ev) = 0 \<longrightarrow>
      deleteResourcesInBatches ev out p rs reasons rl w = None) \<and>
    (resolveBatchSize p (ev_config ev) < 0 \<longrightarrow>
      (\<exists>rl' w'. deleteResourcesInBatches ev out p rs reasons rl w = Some (Inl SliceBounds, rl', w')))"
proof -
  obtain l rl' where get: "getOrCreateRateLimiterShared (ev_rate_pkg ev) p rl = Inr (l, rl')"
    using shared_get_eq [OF assms(1)] by (metis prod.collapse)
  have run: "deleteResourcesInBatches ev out p rs reasons rl w =
      map_option (\<lambda>(r, w). (r, rl', w)) (run_batches ev out p rs reasons l (tick w))"
    using assms(2) by (simp add: deleteResourcesInBatches_def check_ctx_def get)
  show ?thesis
  proof (intro conjI impI)
    assume "resolveBatchSize p (ev_config ev) > 0"
    from batches_loop_total [OF counts_right_deleteBatch this, of 0]
    show "\<exists>n rl' w'. deleteResourcesInBatches ev out p rs reasons rl w = Some (Inr n, rl', w') \<and>
        0 \<le> n \<and> n \<le> int (length rs)"
      unfolding run run_batches_def by fastforce
  next
    assume "resolveBatchSize p (ev_config ev) = 0"
    then show "deleteResourcesInBatches ev out p rs reasons rl w = None"
      using batches_loop_diverges [where i=0 and rs=rs and n=0] assms(2,3)
      unfolding run run_batches_def by fastforce
  next
    assume "resolveBatchSize p (ev_config ev) < 0"
    then show "\<exists>rl' w'. deleteResourcesInBatches ev out p rs reasons rl w = Some (Inl SliceBounds, rl', w')"
      using batches_loop_negative [where rs=rs and w="tick w" and out=out] assms(2,3)
      unfolding run run_batches_def by simp
  qed
qed

definition eval_env_example :: "int \<Rightarrow> (int \<times> int) eval_env" where
  "eval_env_example n = \<lparr>ev_config = Some (NewControllerConfig\<lparr>cc_BatchSize := n\<rparr>), ev_recorder = None, ev_status = None,
     ev_rate_pkg = pair_limiter, ev_as_selector = (\<lambda>_. None)\<rparr>"

theorem batch_size_decides_termination_witness:
  "deleteResourcesInBatches (eval_env_example 0) calm_outside zero_Policy [plain_resource ''ns'' ''a'' 0] []
    NewDefaultRateLimiterProvider fresh_world = None"
  using batch_size_decides_termination [of NewDefaultRateLimiterProvider calm_outside "[plain_resource ''ns'' ''a'' 0]"
      zero_Policy "eval_env_example 0" "[]" fresh_world]
  by (simp add: calm_outside_def eval_env_example_def resolveBatchSize_def zero_defs)

subsection \<open>The whole evaluation\<close>

definition eval_effect ::
    "(GroupVersionKind \<Rightarrow> GroupVersionResource set) \<Rightarrow> as_selector \<Rightarrow> ('x) outside_scheme \<Rightarrow> GarbageCollectionPolicy \<Rightarrow> resource set \<Rightarrow> effect \<Rightarrow> bool" where
  "eval_effect N as_sel out p rs e \<longleftrightarrow> well_labelled e \<and>
     (\<forall>req. e = DeleteCall req \<longrightarrow> \<not> bh_DryRun (gs_Behavior (gp_Spec p)) \<and>
        (\<exists>r\<in>rs. deletable as_sel out p r \<and> request_for N r p req))"

lemma batch_effect_eval_effect:
  assumes "batch_effect N p l batch e" and "\<forall>r\<in>set batch. r \<in> rs \<and> deletable as_sel out p r"
  shows "eval_effect N as_sel out p rs e"
  using assms bookkeeping_labelled [of e] by (cases e) (auto simp: eval_effect_def batch_effect_def)

text \<open>
  A relation between the worlds before and after that the deletion of a batch of allowed
  resources respects, and every effect that is no call to the API for a resource: then a whole
  evaluation respects it, whose deletions are of allowed resources only.
\<close>

fun quiet :: "effect \<Rightarrow> bool" where
  "quiet (PutStatus ns n obj) = True"
| "quiet e = bookkeeping e"

lemma bookkeeping_quiet: "bookkeeping e \<Longrightarrow> quiet e"
  by (cases e) auto

lemma bookkeeping_all_quiet: "list_all bookkeeping es \<Longrightarrow> list_all quiet es"
  by (auto simp: list_all_iff bookkeeping_quiet)

locale evaluation_relation = world_relation R for R :: "world \<Rightarrow> world \<Rightarrow> bool" +
  fixes out :: "'x outside_scheme" and er :: EventRecorder and p :: GarbageCollectionPolicy
    and allowed :: "resource \<Rightarrow> bool"
  assumes R_quiet: "list_all quiet es \<Longrightarrow> R w (emit es w)"
    and R_batch: "\<forall>r\<in>set batch. allowed r \<Longrightarrow> R w (snd (deleteBatch out er batch p l reasons w))"
begin

lemma R_emit: "list_all quiet es \<Longrightarrow> R w w' \<Longrightarrow> R w (emit es w')"
  using R_trans R_quiet by blast

lemma R_book: "list_all bookkeeping es \<Longrightarrow> R w w' \<Longrightarrow> R w (emit es w')"
  by (rule R_emit) (auto simp: list_all_iff bookkeeping_quiet)

lemma R_ticks: "R w w' \<Longrightarrow> R w (tick w')"
  using R_trans R_tick by blast

lemmas R_intros = R_refl R_tick R_ticks R_book

lemma items_rel:
  "R w (snd (service_item as_sel out p r res w))" "R w (snd (shared_item as_sel out p x res w))"
  by (auto simp: service_item_def shared_item_def read_clock_twice_eq matched_metric_def Let_def intro!: R_intros
      split: option.splits prod.splits)

lemma checked_loop_rel:
  "(\<And>x res w. R w (snd (body x res w))) \<Longrightarrow> R w (snd (checked_loop out body i xs res w))"
proof (induction xs arbitrary: i res w)
  case (Cons x xs)
  have "R w' (snd (checked_loop out body (Suc i) xs (fst (body x res w')) (snd (body x res w'))))" for w'
    using R_trans [OF Cons.prems Cons.IH [OF Cons.prems]] .
  note this [of w] R_trans [OF R_tick this [of "tick w"]]
  then show ?case
    by (simp add: checked_loop_Cons Let_def R_tick)
qed (simp add: R_refl)

lemma evaluateResources_rel:
  "R w (snd (evaluateResources as_sel out p rs w))"
  "R w (snd (evaluatePolicyResourcesShared as_sel out p items w))"
  using R_trans [OF R_tick checked_loop_rel [where body="service_item as_sel out p", OF items_rel(1)]]
    checked_loop_rel [where body="shared_item as_sel out p", OF items_rel(2)]
  by (simp_all add: evaluateResources_def evaluatePolicyResourcesShared_def check_ctx_def R_tick)

lemma run_batches_rel:
  assumes "run_batches ev out p batch reasons l w = Some (r, w')" and "ev_recorder ev = er"
    and "\<forall>r\<in>set batch. allowed r"
  shows "R w w'"
proof (rule batches_loop_rel [OF assms(1) [unfolded run_batches_def]])
  fix i e w
  have "\<forall>r\<in>set (batch_slice i e batch). allowed r"
    using assms(3) set_batch_slice by blast
  then show "R w (snd (deleteBatch out (ev_recorder ev) (batch_slice i e batch) p l reasons w))"
    unfolding assms(2) by (rule R_batch)
qed (rule R_book [OF _ R_refl])

lemma deleteResourcesInBatches_rel:
  assumes "ev_recorder ev = er" and "\<forall>r\<in>set batch. allowed r"
  shows "deleteResourcesInBatches ev out p batch reasons rl w = Some (r, rl', w') \<Longrightarrow> R w w'"
    and "deleteResourcesInBatchesShared ev out p batch reasons rl w = Some (r, rl', w') \<Longrightarrow> R w w'"
  using run_batches_rel [OF _ assms] R_trans [OF R_tick]
  by (auto simp: deleteResourcesInBatches_def deleteResourcesInBatchesShared_def check_ctx_def R_refl R_tick
      split: if_splits sum.splits)

lemma updatePolicyStatus_rel: "R w (snd (updatePolicyStatus ev out p m d n w))"
proof (cases "ev_status ev")
  case (Some su)
  obtain e w1 where upd: "UpdateStatus out su p m d n w = (e, w1)" by fastforce
  have "R w (snd (UpdateStatus out su p m d n w))"
    by (auto simp: UpdateStatus_def Let_def read_clock_def intro!: R_refl R_tick R_ticks R_emit split: sum.splits option.splits)
  with upd Some show ?thesis
    by (cases e) (auto simp: updatePolicyStatus_def Let_def intro!: R_intros)
qed (simp add: updatePolicyStatus_def R_refl)

lemma finish_evaluation_rel: "R w (snd (finish_evaluation ev out p m d n w))"
proof -
  define w2 where "w2 = emit (if n > 0 then recordResourcesPending (gp_Namespace p) (gp_Name p)
      (tr_APIVersion (gs_TargetResource (gp_Spec p))) (tr_Kind (gs_TargetResource (gp_Spec p))) n else []) w"
  have "R w w2"
    by (auto simp: w2_def intro!: R_intros)
  then have "R w (snd (updatePolicyStatus ev out p m d n w2))"
    using R_trans updatePolicyStatus_rel by blast
  then show ?thesis
    unfolding finish_evaluation_def Let_def w2_def [symmetric]
    by (auto simp: intro!: R_intros split: prod.splits option.splits)
qed

lemma record_duration_rel: "R w w1 \<Longrightarrow> R w (record_duration out p t w1)"
  by (auto simp: record_duration_def read_clock_def Let_def intro!: R_intros)

lemma evaluate_listed_rel:
  assumes "evaluate_listed ev out p rs rl w = Some (r, rl', w')" and "ev_recorder ev = er"
    and "\<And>r. r \<in> set rs \<Longrightarrow> deletable (ev_as_selector ev) out p r \<Longrightarrow> allowed r"
  shows "R w w'"
proof -
  define res where "res = fst (evaluateResources (ev_as_selector ev) out p rs w)"
  define w1 where "w1 = snd (evaluateResources (ev_as_selector ev) out p rs w)"
  have del: "\<forall>r\<in>set (er_ResourcesToDelete res). allowed r"
    using evaluateResources_ok [of "ev_as_selector ev" out p rs w] assms(3)
    by (auto simp: res_def result_ok_def)
  have log1: "R w w1"
    unfolding w1_def by (rule evaluateResources_rel)
  obtain x rl2 w2 where step: "(if length (er_ResourcesToDelete res) > 0
      then deleteResourcesInBatches ev out p (er_ResourcesToDelete res) (er_Reasons res) rl w1
      else Some (Inr 0, rl, w1)) = Some (x, rl2, w2)"
    using assms(1) unfolding evaluate_listed_def Let_def case_prod_beta res_def [symmetric] w1_def [symmetric]
    by (cases "if length (er_ResourcesToDelete res) > 0
      then deleteResourcesInBatches ev out p (er_ResourcesToDelete res) (er_Reasons res) rl w1
      else Some (Inr 0, rl, w1)") auto
  have "R w1 w2"
    using step deleteResourcesInBatches_rel(1) [OF assms(2) del] by (auto simp: R_refl split: if_splits)
  with log1 have log2: "R w w2"
    using R_trans by blast
  have "w' = w2 \<or> (\<exists>d. w' = snd (finish_evaluation ev out p (er_MatchedCount res) d (er_PendingCount res) w2))"
    using assms(1) unfolding evaluate_listed_def Let_def case_prod_beta res_def [symmetric] w1_def [symmetric] step
    by (auto split: sum.splits)
  with log2 show ?thesis
    using R_trans finish_evaluation_rel by blast
qed

lemma EvaluatePolicy_rel:
  assumes "EvaluatePolicy ev out parse_gv list_resources p rl w = Some (r, rl', w')" and "ev_recorder ev = er"
    and "\<And>g ns t rs r. list_resources g ns t = Inr rs \<Longrightarrow> r \<in> set rs \<Longrightarrow>
      deletable (ev_as_selector ev) out p r \<Longrightarrow> allowed r"
  shows "R w w'"
proof -
  define t where "t = now out (wd_tick w)"
  define body where "body = (case ParseGVR parse_gv (tr_APIVersion (gs_TargetResource (gp_Spec p)))
      (tr_Kind (gs_TargetResource (gp_Spec p))) of
      Inl e \<Rightarrow>
        Some (Inr (Some (policy_error p ''invalid_gvr'' ''failed to parse GVR'' (gvr_go_error e))), rl,
          emit (recordError (gp_Namespace p) (gp_Name p) ''invalid_gvr'') (tick w))
    | Inr gvr \<Rightarrow>
        (let namespace = (if tr_Namespace (gs_TargetResource (gp_Spec p)) = [] then ''*''
               else tr_Namespace (gs_TargetResource (gp_Spec p)));
             listed = list_resources gvr namespace (wd_tick (tick w)); w = tick (tick w)
         in case listed of
              Inl e \<Rightarrow>
                Some (Inr (Some (policy_error p ''list_resources_failed'' ''failed to list resources'' e)), rl,
                  emit (recordError (gp_Namespace p) (gp_Name p) ''list_resources_failed'') w)
            | Inr resources \<Rightarrow> evaluate_listed ev out p resources rl w))"
  obtain w1 where w1: "body = Some (r, rl', w1)" "w' = record_duration out p t w1"
    using assms(1) unfolding EvaluatePolicy_def read_clock_def t_def [symmetric] Let_def prod.case body_def by auto
  have listed: "R (tick (tick w)) w1" if "list_resources g ns n = Inr rs"
      "evaluate_listed ev out p rs rl (tick (tick w)) = Some (r, rl', w1)" for g ns n rs
    using evaluate_listed_rel [OF that(2) assms(2) assms(3) [OF that(1)]] by blast
  have "R w w1"
    using w1(1) R_trans [OF R_ticks [OF R_tick] listed]
    by (auto simp: body_def Let_def intro!: R_intros split: sum.splits)
  then show ?thesis
    unfolding w1(2) by (rule record_duration_rel)
qed

end

text \<open>The deletions that an evaluation may request, and what it may do to the cache of names.\<close>

interpretation eval_log: evaluation_relation "logs out (\<lambda>N. eval_effect N as_sel out p A)" out er p
    "\<lambda>r. r \<in> A \<and> deletable as_sel out p r" for as_sel out p A er
proof unfold_locales
  fix es w
  assume "list_all quiet es"
  moreover have "quiet e \<Longrightarrow> eval_effect N as_sel out p A e" for N e
    using bookkeeping_labelled [of e] by (cases e) (auto simp: eval_effect_def)
  ultimately show "logs out (\<lambda>N. eval_effect N as_sel out p A) w (emit es w)"
    by (auto simp: list_all_iff intro!: logs_emit)
next
  fix batch w l reasons
  assume "\<forall>r\<in>set batch. r \<in> A \<and> deletable as_sel out p r"
  then show "logs out (\<lambda>N. eval_effect N as_sel out p A) w (snd (deleteBatch out er batch p l reasons w))"
    using logs_mono [OF deleteBatch_logs] batch_effect_eval_effect by metis
qed

interpretation eval_cache: evaluation_relation "cache_step out" out er p "\<lambda>r. True" for out p er
  by unfold_locales (auto simp: cache_relation.R_refl intro: deleteBatch_cache_step)

text \<open>Time passes in an evaluation.\<close>

interpretation time_items: evaluation_relation later out er p "\<lambda>r. True" for out p er
  by unfold_locales (auto intro: deleteBatch_later)

text \<open>The deletions of one evaluation: it returns, without a panic.\<close>

lemma deleteResourcesInBatches_total:
  assumes "rl_wf rl" and "resolveBatchSize p (ev_config ev) > 0"
  shows "\<exists>n rl' w'. deleteResourcesInBatches ev out p batch reasons rl w = Some (Inr n, rl', w') \<and> rl_wf rl'"
    and "\<exists>n rl' w'. deleteResourcesInBatchesShared ev out p batch reasons rl w = Some (Inr n, rl', w') \<and> rl_wf rl'"
proof -
  define l where "l = fst (shared_get (ev_rate_pkg ev) p rl)"
  define rl' where "rl' = snd (shared_get (ev_rate_pkg ev) p rl)"
  have get: "getOrCreateRateLimiterShared (ev_rate_pkg ev) p rl = Inr (l, rl')" and wf: "rl_wf rl'"
    using shared_get_eq [OF assms(1)] shared_store.get_wf [OF assms(1)] by (simp_all add: l_def rl'_def)
  have run: "\<exists>n w'. run_batches ev out p batch reasons l w = Some (Inr n, w')" for w
    using batches_loop_total [OF counts_right_deleteBatch assms(2), of 0] unfolding run_batches_def by fastforce
  show "\<exists>n rl' w'. deleteResourcesInBatches ev out p batch reasons rl w = Some (Inr n, rl', w') \<and> rl_wf rl'"
    using assms(1) wf run [of "tick w"] by (auto simp: deleteResourcesInBatches_def check_ctx_def get)
  show "\<exists>n rl' w'. deleteResourcesInBatchesShared ev out p batch reasons rl w = Some (Inr n, rl', w') \<and> rl_wf rl'"
    using assms(1) wf run [of w] by (auto simp: deleteResourcesInBatchesShared_def get)
qed

lemma evaluate_listed_total:
  assumes "rl_wf rl" and "resolveBatchSize p (ev_config ev) > 0"
  shows "\<exists>err rl' w'. evaluate_listed ev out p rs rl w = Some (Inr err, rl', w') \<and> rl_wf rl'"
proof -
  define res where "res = fst (evaluateResources (ev_as_selector ev) out p rs w)"
  define w1 where "w1 = snd (evaluateResources (ev_as_selector ev) out p rs w)"
  obtain n rl' w2 where "(if length (er_ResourcesToDelete res) > 0
      then deleteResourcesInBatches ev out p (er_ResourcesToDelete res) (er_Reasons res) rl w1
      else Some (Inr 0, rl, w1)) = Some (Inr n, rl', w2)" and wf: "rl_wf rl'"
    using deleteResourcesInBatches_total(1) [OF assms, of out "er_ResourcesToDelete res" "er_Reasons res" w1] assms(1)
    by (cases "er_ResourcesToDelete res = []") auto
  note step = this(1)
  show ?thesis
    unfolding evaluate_listed_def Let_def case_prod_beta res_def [symmetric] w1_def [symmetric] step
    using wf by simp
qed

lemma EvaluatePolicy_total:
  assumes "rl_wf rl" and "resolveBatchSize p (ev_config ev) > 0"
  shows "\<exists>err rl' w'. EvaluatePolicy ev out parse_gv list_resources p rl w = Some (Inr err, rl', w') \<and> rl_wf rl'"
  using assms(1) evaluate_listed_total [OF assms]
  by (fastforce simp: EvaluatePolicy_def read_clock_def Let_def split: sum.splits)

text \<open>
  The evaluation of a policy is total and safe. With a positive batch size and no nil
  limiter it returns, with an error or without, and does not panic. Whatever the API server,
  discovery, the limiters, the clock and the cancellation do meanwhile, every deletion that it
  requests is of a resource that the lister gave, that matches the selectors, meets the
  conditions and whose TTL was over at a reading of the clock; it goes to a name of the kind
  of that resource, it carries the delete options of the policy, and in a dry run there is none.
\<close>

theorem EvaluatePolicy_deletes_only_expired:
  assumes "rl_wf rl" and "resolveBatchSize p (ev_config ev) > 0"
  shows "\<exists>err rl' w' es. EvaluatePolicy ev out parse_gv list_resources p rl w = Some (Inr err, rl', w') \<and>
    rl_wf rl' \<and> wd_log w' = wd_log w @ es \<and>
    (\<forall>req. DeleteCall req \<in> set es \<longrightarrow> \<not> bh_DryRun (gs_Behavior (gp_Spec p)) \<and>
       (\<exists>g ns t rs r. list_resources g ns t = Inr rs \<and> r \<in> set rs \<and>
          deletable (ev_as_selector ev) out p r \<and> request_for (names_of out w) r p req))"
proof -
  obtain err rl' w' where ev: "EvaluatePolicy ev out parse_gv list_resources p rl w = Some (Inr err, rl', w')" "rl_wf rl'"
    using EvaluatePolicy_total [OF assms] by blast
  have "logs out (\<lambda>N. eval_effect N (ev_as_selector ev) out p
      {r. \<exists>g ns t rs. list_resources g ns t = Inr rs \<and> r \<in> set rs}) w w'"
    by (rule eval_log.EvaluatePolicy_rel [OF ev(1) refl]) blast
  from logs_appends [OF this] have "appends (eval_effect (names_of out w) (ev_as_selector ev) out p
      {r. \<exists>g ns t rs. list_resources g ns t = Inr rs \<and> r \<in> set rs}) w w'" .
  with ev show ?thesis
    unfolding appends_def by (fastforce simp: list_all_iff eval_effect_def)
qed

theorem EvaluatePolicy_deletes_only_expired_witness:
  "\<exists>err rl' w'. EvaluatePolicy (eval_env_example 50) calm_outside split_gv
      (\<lambda>g ns t. Inr [plain_resource ''ns'' ''a'' 0]) (fixed_policy 60) NewDefaultRateLimiterProvider fresh_world =
    Some (Inr err, rl', w')"
  using EvaluatePolicy_deletes_only_expired [of NewDefaultRateLimiterProvider "fixed_policy 60" "eval_env_example 50"
      calm_outside split_gv "\<lambda>g ns t. Inr [plain_resource ''ns'' ''a'' 0]" fresh_world]
  by (simp add: eval_env_example_def resolveBatchSize_def fixed_policy_def zero_defs) blast

subsection \<open>The two paths\<close>

text \<open>
  When from \<open>T\<close> on the context lives and no deadline passes, both loops are one fold: every
  reading of the clock gives the verdict of the times \<open>t1\<close> and \<open>t2\<close>.
\<close>

definition steady ::
    "('x) outside_scheme \<Rightarrow> nat \<Rightarrow> GarbageCollectionPolicy \<Rightarrow> resource set \<Rightarrow> gotime \<Rightarrow> gotime \<Rightarrow> bool" where
  "steady out T p A t1 t2 \<longleftrightarrow>
     (\<forall>n\<ge>T. \<not> ctx_done out n \<and> (\<forall>r\<in>A. ttl_over (now out n) (now out (Suc n)) r p = ttl_over t1 t2 r p))"

lemma steady_mono: "steady out T p A t1 t2 \<Longrightarrow> B \<subseteq> A \<Longrightarrow> steady out T p B t1 t2"
  unfolding steady_def by blast

text \<open>A resource that the policy wants deleted, at these times.\<close>

definition due :: "as_selector \<Rightarrow> GarbageCollectionPolicy \<Rightarrow> gotime \<Rightarrow> gotime \<Rightarrow> resource \<Rightarrow> bool" where
  "due as_sel p t1 t2 r \<longleftrightarrow> matchesSelectorsShared as_sel r (gs_TargetResource (gp_Spec p)) \<and>
     policy_conditions_met r p \<and> ttl_over t1 t2 r p"

definition matching :: "as_selector \<Rightarrow> GarbageCollectionPolicy \<Rightarrow> resource list \<Rightarrow> resource list" where
  "matching as_sel p rs = filter (\<lambda>r. matchesSelectorsShared as_sel r (gs_TargetResource (gp_Spec p))) rs"

definition fold_items ::
    "as_selector \<Rightarrow> GarbageCollectionPolicy \<Rightarrow> gotime \<Rightarrow> gotime \<Rightarrow> resource list \<Rightarrow> PolicyEvaluationResult \<Rightarrow>
      PolicyEvaluationResult" where
  "fold_items as_sel p t1 t2 = fold (item_result as_sel p t1 t2)"

lemma steady_item:
  "steady out T p A t1 t2 \<Longrightarrow> r \<in> A \<Longrightarrow> T \<le> n \<Longrightarrow>
    item_result as_sel p (now out n) (now out (Suc n)) r res = item_result as_sel p t1 t2 r res"
  by (simp add: steady_def item_result_def)

lemma steady_service:
  assumes "steady out T p (set rs) t1 t2" and "T \<le> wd_tick w"
  shows "fst (checked_loop out (service_item as_sel out p) i rs res w) = fold_items as_sel p t1 t2 rs res"
  using assms
proof (induction rs arbitrary: i res w)
  case (Cons r rs)
  have "steady out T p (set rs) t1 t2" "\<not> ctx_done out (wd_tick w)"
    using Cons.prems steady_mono [OF Cons.prems(1)] by (auto simp: steady_def)
  moreover have "T \<le> wd_tick (snd (service_item as_sel out p r res w'))" if "T \<le> wd_tick w'" for w'
    using time_items.items_rel(1) [of w' as_sel out p r res] that by (simp add: later_def)
  ultimately show ?case
    using Cons.IH steady_item [OF Cons.prems(1), of r] Cons.prems(2)
    by (simp add: checked_loop_Cons Let_def fold_items_def service_item_eq)
qed (simp add: fold_items_def)

definition stored :: "resource option list \<Rightarrow> resource list" where
  "stored items = concat (map (\<lambda>x. case x of None \<Rightarrow> [] | Some r \<Rightarrow> [r]) items)"

lemma stored_simps [simp]: "stored [] = []" "stored (None # items) = stored items" "stored (Some r # items) = r # stored items"
  by (simp_all add: stored_def)

lemma set_stored: "set (stored items) = {r. Some r \<in> set items}"
  by (induction items) (auto simp: stored_def split: option.splits)

lemma steady_shared:
  assumes "steady out T p (set (stored items)) t1 t2" and "T \<le> wd_tick w"
  shows "fst (checked_loop out (shared_item as_sel out p) i items res w) = fold_items as_sel p t1 t2 (stored items) res"
  using assms
proof (induction items arbitrary: i res w)
  case (Cons x items)
  have alive: "\<not> ctx_done out (wd_tick w)"
    using Cons.prems by (simp add: steady_def)
  have time: "T \<le> wd_tick (snd (shared_item as_sel out p x res w'))" if "T \<le> wd_tick w'" for w'
    using time_items.items_rel(2) [of w' as_sel out p x res] that by (simp add: later_def)
  show ?case
  proof (cases x)
    case None
    with Cons alive show ?thesis
      by (simp add: checked_loop_Cons Let_def)
  next
    case (Some r)
    then have "steady out T p (set (stored items)) t1 t2"
      using steady_mono [OF Cons.prems(1)] by auto
    with Some Cons.IH alive steady_item [OF Cons.prems(1), of r] Cons.prems(2) time show ?thesis
      by (simp add: checked_loop_Cons Let_def fold_items_def shared_item_eq)
  qed
qed (simp add: fold_items_def)

text \<open>Leaving out what the namespace excludes changes neither the fold nor what is due.\<close>

definition listed_namespace :: "GarbageCollectionPolicy \<Rightarrow> string" where
  "listed_namespace p =
     (if tr_Namespace (gs_TargetResource (gp_Spec p)) = [] then ''*'' else tr_Namespace (gs_TargetResource (gp_Spec p)))"

lemma listed_matches:
  assumes "matchesSelectorsShared as_sel r (gs_TargetResource (gp_Spec p))"
  shows "listed_namespace p = [] \<or> listed_namespace p = ''*'' \<or> res_Namespace r = listed_namespace p"
  using matchesSelectorsShared_namespace [OF assms]
  by (auto simp: listed_namespace_def in_namespace_def)

lemma listed_eq_filter:
  "store_ListResources items ns = filter (\<lambda>r. ns = [] \<or> ns = ''*'' \<or> res_Namespace r = ns) (stored items)"
  by (induction items) (auto simp: store_ListResources_def stored_def split: option.splits)

lemma fold_items_filter:
  "fold_items as_sel p t1 t2 (store_ListResources items (listed_namespace p)) res =
    fold_items as_sel p t1 t2 (stored items) res"
proof -
  define N where "N = (\<lambda>r :: resource. listed_namespace p = [] \<or> listed_namespace p = ''*'' \<or> res_Namespace r = listed_namespace p)"
  have skip: "item_result as_sel p t1 t2 r res = res" if "\<not> N r" for r res
    using that listed_matches [of as_sel r p] by (auto simp: item_result_def N_def)
  have "fold_items as_sel p t1 t2 (filter N rs) res = fold_items as_sel p t1 t2 rs res" for rs
    by (induction rs arbitrary: res) (auto simp: fold_items_def skip)
  then show ?thesis
    unfolding listed_eq_filter N_def .
qed

lemma due_listed:
  "filter (due as_sel p t1 t2) (store_ListResources items (listed_namespace p)) =
    filter (due as_sel p t1 t2) (stored items)"
  "matching as_sel p (store_ListResources items (listed_namespace p)) = matching as_sel p (stored items)"
  unfolding listed_eq_filter filter_filter matching_def
  by (intro filter_cong; use listed_matches due_def in blast)+

lemma fold_items_lists:
  "er_ResourcesToDelete (fold_items as_sel p t1 t2 rs res) = er_ResourcesToDelete res @ filter (due as_sel p t1 t2) rs \<and>
   er_MatchedCount (fold_items as_sel p t1 t2 rs res) = er_MatchedCount res + int (length (matching as_sel p rs)) \<and>
   er_PendingCount (fold_items as_sel p t1 t2 rs res) = er_PendingCount res +
     int (length (matching as_sel p rs)) - int (length (filter (due as_sel p t1 t2) rs))"
  by (induction rs arbitrary: res)
    (auto simp: fold_items_def item_result_def add_to_delete_def add_pending_def matching_def due_def)

lemma evaluateResources_steady:
  assumes "steady out T p (set rs) t1 t2" and "T \<le> wd_tick w"
  shows "fst (evaluateResources as_sel out p rs w) = fold_items as_sel p t1 t2 rs empty_result"
  using assms steady_service [OF assms(1)] by (auto simp: evaluateResources_def check_ctx_def steady_def)

text \<open>
  C8. The two paths of an evaluation agree: over the same store, when from some time on no
  deadline passes and the context lives, and both start after that time, the service with its lister and the direct path over the
  informer collect the same result, at whatever times they read the clock, and the list to
  delete is exactly the sublist of the resources that match, meet the conditions and are over
  their TTL.
\<close>

theorem evaluation_paths_agree:
  assumes "steady out T p {r. Some r \<in> set items} t1 t2" and "T \<le> wd_tick w" and "T \<le> wd_tick w'"
  shows "let rs = store_ListResources items (listed_namespace p)
    in fst (evaluatePolicyResourcesShared as_sel out p items w) = fst (evaluateResources as_sel out p rs w') \<and>
      er_ResourcesToDelete (fst (evaluateResources as_sel out p rs w')) = filter (due as_sel p t1 t2) rs"
proof -
  have steady: "steady out T p (set (stored items)) t1 t2"
    "steady out T p (set (store_ListResources items (listed_namespace p))) t1 t2"
    using assms(1) by (auto simp: set_stored listed_eq_filter intro: steady_mono)
  show ?thesis
    unfolding Let_def evaluatePolicyResourcesShared_def steady_shared [OF steady(1) assms(2)]
      evaluateResources_steady [OF steady(2) assms(3)]
      fold_items_filter
    by (simp add: fold_items_lists empty_result_def due_listed)
qed

theorem evaluation_paths_agree_witness:
  "fst (evaluatePolicyResourcesShared (\<lambda>_. None) calm_outside (fixed_policy 60)
        [Some (plain_resource ''ns'' ''a'' 0), None] fresh_world) =
      fst (evaluateResources (\<lambda>_. None) calm_outside (fixed_policy 60)
        (store_ListResources [Some (plain_resource ''ns'' ''a'' 0), None] (listed_namespace (fixed_policy 60))) fresh_world)"
  using evaluation_paths_agree [where out=calm_outside and T=0 and p="fixed_policy 60"
      and items="[Some (plain_resource ''ns'' ''a'' 0), None]" and w=fresh_world and w'=fresh_world and as_sel="\<lambda>_. None"
      and ?t1.0=0 and ?t2.0=0]
  by (simp add: Let_def steady_def calm_outside_def)

end
