(* ===== verification/Reconciler.thy ===== *)
theory Reconciler
  imports Evaluation
begin

text \<open>
  pkg/controller/reconciler.go and the handlers of reconciler_helpers.go: the state of the
  reconciler, one call of \<open>Reconcile\<close> with everything it does, and the bookkeeping per policy.
  The manager of the library controller-runtime calls \<open>Reconcile\<close> for one policy at a time, so
  the locks are not modelled here, and the second lookup under a write lock answers like the
  first. Log lines are left out. Informers are made by the library client-go: the model keeps
  what they were asked to watch, and the outside says whether they sync and what they hold.
\<close>

subsection \<open>State\<close>

type_synonym NamespacedName = "string \<times> string"

text \<open>
  An informer has an identity, the resource and the namespace it watches, and its resync
  interval. The factory that made it has the same namespace and interval; its filter of list
  options is always nil.
\<close>

record informer =
  inf_id :: nat
  inf_GVR :: GroupVersionResource
  inf_Namespace :: string
  inf_Resync :: duration

record factory =
  fa_Resync :: duration
  fa_Namespace :: string

text \<open>
  A \<open>PolicyEvaluationService\<close> as \<open>getOrCreateEvaluationService\<close> makes it: a lister over the
  store of an informer, the status updater, the recorder and the configuration. Its other
  dependencies are adapters that call the reconciler back.
\<close>

record evaluation_service =
  sv_informer :: informer
  sv_status :: "StatusUpdater option"
  sv_recorder :: EventRecorder
  sv_config :: "ControllerConfig option"

record 'l reconciler =
  rc_config :: "ControllerConfig option"
  rc_informers :: "(string, informer) gomap"
  rc_factories :: "(string, factory) gomap"
  rc_limiters :: "'l rl_state"
  rc_policyUIDs :: "(NamespacedName, uid) gomap"
  rc_policySpecs :: "(uid, GarbageCollectionPolicySpec) gomap"
  rc_status :: "StatusUpdater option"
  rc_recorder :: EventRecorder
  rc_services :: "(string, evaluation_service option) gomap"
  rc_created :: nat

text \<open>What the reconciler sees of the outside beyond the answers of the record \<open>outside\<close>.\<close>

datatype sync = Synced | SyncTimedOut go_error | SyncFailed

record rc_outside = outside +
  get_policy :: "nat \<Rightarrow> NamespacedName \<Rightarrow> go_error + GarbageCollectionPolicy"
  list_policies :: "nat \<Rightarrow> go_error + GarbageCollectionPolicy list"
  object_GVK :: "string \<Rightarrow> string \<Rightarrow> GroupVersionKind"
  cache_sync :: "nat \<Rightarrow> informer \<Rightarrow> sync"
  store_nil :: "nat \<Rightarrow> informer \<Rightarrow> bool"
  store_List :: "nat \<Rightarrow> informer \<Rightarrow> resource option list"

text \<open>The parts of other packages that an evaluation calls.\<close>

record 'l rc_env =
  re_rate_pkg :: "'l rate_pkg"
  re_as_selector :: as_selector
  re_parse_gv :: "string \<Rightarrow> (string \<times> string) option"

record Result =
  RequeueAfter :: duration

subsection \<open>Constructors\<close>

text \<open>
  The constructors also decide the resolver of the world: \<open>NewGCPolicyReconcilerWithLeaderCheck\<close>
  leaves it nil, the others make one with an empty cache.
\<close>

definition new_reconciler ::
    "ControllerConfig option \<Rightarrow> StatusUpdater option \<Rightarrow> EventRecorder \<Rightarrow> 'l reconciler" where
  "new_reconciler cfg su er =
     \<lparr>rc_config = Some (case cfg of None \<Rightarrow> NewControllerConfig | Some c \<Rightarrow> c),
      rc_informers = [], rc_factories = [], rc_limiters = NewDefaultRateLimiterProvider,
      rc_policyUIDs = [], rc_policySpecs = [], rc_status = su, rc_recorder = er,
      rc_services = [], rc_created = 0\<rparr>"

definition NewGCPolicyReconcilerWithRESTMapper ::
    "ControllerConfig option \<Rightarrow> StatusUpdater option \<Rightarrow> EventRecorder \<Rightarrow> world \<Rightarrow> 'l reconciler \<times> world" where
  "NewGCPolicyReconcilerWithRESTMapper cfg su er w =
     (new_reconciler cfg su er, w\<lparr>wd_gvr_cache := Some []\<rparr>)"

definition NewGCPolicyReconcilerWithLeaderCheck ::
    "ControllerConfig option \<Rightarrow> StatusUpdater option \<Rightarrow> EventRecorder \<Rightarrow> world \<Rightarrow> 'l reconciler \<times> world" where
  "NewGCPolicyReconcilerWithLeaderCheck cfg su er w =
     (new_reconciler cfg su er, w\<lparr>wd_gvr_cache := None\<rparr>)"

subsection \<open>Intervals and keys\<close>

definition getRequeueInterval :: "'l reconciler \<Rightarrow> duration" where
  "getRequeueInterval rc =
     (case rc_config rc of None \<Rightarrow> DefaultGCInterval | Some c \<Rightarrow> cc_GCInterval c)"

definition getRequeueIntervalForPolicy :: "'l reconciler \<Rightarrow> GarbageCollectionPolicy \<Rightarrow> duration" where
  "getRequeueIntervalForPolicy rc policy =
     (case gs_EvaluationInterval (gp_Spec policy) of
        Some d \<Rightarrow>
          if i64_pos d then d
          else (case rc_config rc of None \<Rightarrow> DefaultGCInterval | Some c \<Rightarrow> cc_GCInterval c)
      | None \<Rightarrow> (case rc_config rc of None \<Rightarrow> DefaultGCInterval | Some c \<Rightarrow> cc_GCInterval c))"

definition evaluationServiceKey :: "GarbageCollectionPolicy \<Rightarrow> string" where
  "evaluationServiceKey policy =
     tr_APIVersion (gs_TargetResource (gp_Spec policy)) @ ''/'' @
     tr_Kind (gs_TargetResource (gp_Spec policy)) @ ''/'' @
     tr_Namespace (gs_TargetResource (gp_Spec policy))"

subsection \<open>Informers and services\<close>

text \<open>
  The results of the functions that may fail: \<open>Inl\<close> a panic, \<open>Inr (Inl e)\<close> the error, and
  \<open>Inr (Inr x)\<close> the value.
\<close>

type_synonym ('a, 'l) rc_step = "(panic + (go_error + 'a)) \<times> 'l reconciler \<times> world"

definition ErrResourceInformerCacheSyncFailed :: go_error where
  "ErrResourceInformerCacheSyncFailed = PlainError ''failed to sync resource informer cache''"

definition forget_informer :: "string \<Rightarrow> 'l reconciler \<Rightarrow> 'l reconciler" where
  "forget_informer key rc =
     rc\<lparr>rc_informers := go_del key (rc_informers rc), rc_factories := go_del key (rc_factories rc)\<rparr>"

definition create_informer ::
    "('x) rc_outside_scheme \<Rightarrow> GarbageCollectionPolicy \<Rightarrow> (GroupVersionKind, GroupVersionResource) gomap \<Rightarrow>
      'l reconciler \<Rightarrow> world \<Rightarrow> (informer, 'l) rc_step" where
  "create_informer out policy cache rc w =
     (let key = evaluationServiceKey policy;
          target = gs_TargetResource (gp_Spec policy);
          (gvr, w) = ResolveGVR out (object_GVK out (tr_APIVersion target) (tr_Kind target)) cache w;
          namespace = normalizeNamespace (tr_Namespace target);
          interval = getRequeueInterval rc;
          created = \<lparr>inf_id = rc_created rc, inf_GVR = gvr, inf_Namespace = namespace, inf_Resync = interval\<rparr>;
          rc = rc\<lparr>rc_informers := go_put key created (rc_informers rc),
                  rc_factories := go_put key \<lparr>fa_Resync = interval, fa_Namespace = namespace\<rparr> (rc_factories rc),
                  rc_created := Suc (rc_created rc)\<rparr>;
          w = emit (recordInformerCount (int (length (rc_informers rc)))) w;
          synced = cache_sync out (wd_tick w) created;
          w = tick w
      in case synced of
           Synced \<Rightarrow> (Inr (Inr created), rc, w)
         | SyncTimedOut e \<Rightarrow>
             (Inr (Inl (WrapError ''resource informer cache sync timed out'' e)), forget_informer key rc, w)
         | SyncFailed \<Rightarrow> (Inr (Inl ErrResourceInformerCacheSyncFailed), forget_informer key rc, w))"

text \<open>\<open>ResolveGVR\<close> on a nil resolver panics: the method takes the lock of its receiver.\<close>

definition getOrCreateResourceInformer ::
    "('x) rc_outside_scheme \<Rightarrow> GarbageCollectionPolicy \<Rightarrow> 'l reconciler \<Rightarrow> world \<Rightarrow> (informer, 'l) rc_step" where
  "getOrCreateResourceInformer out policy rc w =
     (case map_of (rc_informers rc) (evaluationServiceKey policy) of
        Some informer \<Rightarrow> (Inr (Inr informer), rc, w)
      | None \<Rightarrow>
          (case wd_gvr_cache w of
             None \<Rightarrow> (Inl NilDereference, rc, w)
           | Some cache \<Rightarrow> create_informer out policy cache rc w))"

text \<open>The lister of adapters.go is the informer whose store it lists.\<close>

definition GetResourceListerForPolicy ::
    "('x) rc_outside_scheme \<Rightarrow> GarbageCollectionPolicy \<Rightarrow> 'l reconciler \<Rightarrow> world \<Rightarrow> (informer, 'l) rc_step" where
  "GetResourceListerForPolicy out policy rc w =
     (case getOrCreateResourceInformer out policy rc w of
        (Inl p, rc, w) \<Rightarrow> (Inl p, rc, w)
      | (Inr (Inl e), rc, w) \<Rightarrow> (Inr (Inl (WrapError ''failed to get resource informer'' e)), rc, w)
      | (Inr (Inr informer), rc, w) \<Rightarrow>
          if store_nil out (wd_tick w) informer
          then (Inr (Inl (PlainError (''informer store is nil for policy '' @ gp_Namespace policy @ ''/'' @
                  gp_Name policy))), rc, tick w)
          else (Inr (Inr informer), rc, tick w))"

definition getOrCreateEvaluationService ::
    "('x) rc_outside_scheme \<Rightarrow> GarbageCollectionPolicy \<Rightarrow> 'l reconciler \<Rightarrow> world \<Rightarrow>
      (evaluation_service option, 'l) rc_step" where
  "getOrCreateEvaluationService out policy rc w =
     (let key = evaluationServiceKey policy
      in case map_of (rc_services rc) key of
           Some svc \<Rightarrow> (Inr (Inr svc), rc, w)
         | None \<Rightarrow>
             (case GetResourceListerForPolicy out policy rc w of
                (Inl p, rc, w) \<Rightarrow> (Inl p, rc, w)
              | (Inr (Inl e), rc, w) \<Rightarrow> (Inr (Inl (WrapError ''failed to create resource lister'' e)), rc, w)
              | (Inr (Inr informer), rc, w) \<Rightarrow>
                  (let svc = Some \<lparr>sv_informer = informer, sv_status = rc_status rc,
                         sv_recorder = rc_recorder rc, sv_config = rc_config rc\<rparr>
                   in (Inr (Inr svc), rc\<lparr>rc_services := go_put key svc (rc_services rc)\<rparr>, w))))"

subsection \<open>One evaluation\<close>

type_synonym 'l rc_run = "((panic + go_error option) \<times> 'l reconciler \<times> world) option"

definition service_env :: "'l rc_env \<Rightarrow> evaluation_service \<Rightarrow> 'l eval_env" where
  "service_env env sv =
     \<lparr>ev_config = sv_config sv, ev_recorder = sv_recorder sv, ev_status = sv_status sv,
      ev_rate_pkg = re_rate_pkg env, ev_as_selector = re_as_selector env\<rparr>"

definition direct_env :: "'l rc_env \<Rightarrow> 'l reconciler \<Rightarrow> 'l eval_env" where
  "direct_env env rc =
     \<lparr>ev_config = rc_config rc, ev_recorder = rc_recorder rc, ev_status = rc_status rc,
      ev_rate_pkg = re_rate_pkg env, ev_as_selector = re_as_selector env\<rparr>"

text \<open>
  The call of the service. On a nil service the first line that reads a field panics, after
  the deferred function was registered.
\<close>

definition service_EvaluatePolicy ::
    "'l rc_env \<Rightarrow> ('x) rc_outside_scheme \<Rightarrow> evaluation_service option \<Rightarrow> GarbageCollectionPolicy \<Rightarrow>
      'l reconciler \<Rightarrow> world \<Rightarrow> 'l rc_run" where
  "service_EvaluatePolicy env out svc policy rc w =
     (case svc of
        None \<Rightarrow>
          (let (startTime, w) = read_clock out w
           in Some (Inl NilDereference, rc, record_duration out policy startTime w))
      | Some sv \<Rightarrow>
          map_option (\<lambda>(r, rl, w). (r, rc\<lparr>rc_limiters := rl\<rparr>, w))
            (EvaluatePolicy (service_env env sv) out (re_parse_gv env)
               (\<lambda>gvr namespace t. Inr (store_ListResources (store_List out t (sv_informer sv)) namespace))
               policy (rc_limiters rc) w))"

text \<open>The direct path over the informer, for when no service could be made.\<close>

definition evaluate_items ::
    "('l, 'y) eval_env_scheme \<Rightarrow> ('x) outside_scheme \<Rightarrow> GarbageCollectionPolicy \<Rightarrow> resource option list \<Rightarrow>
      'l rl_state \<Rightarrow> world \<Rightarrow> ((panic + go_error option) \<times> 'l rl_state \<times> world) option" where
  "evaluate_items ev out policy items rl w =
     (let (res, w) = evaluatePolicyResourcesShared (ev_as_selector ev) out policy items w
      in case deleteResourcesInBatchesShared ev out policy (er_ResourcesToDelete res) (er_Reasons res) rl w of
           None \<Rightarrow> None
         | Some (Inl p, rl, w) \<Rightarrow> Some (Inl p, rl, w)
         | Some (Inr deleted, rl, w) \<Rightarrow>
             (let (err, w) = finish_evaluation ev out policy (er_MatchedCount res) deleted (er_PendingCount res) w
              in Some (Inr err, rl, w)))"

definition evaluate_direct ::
    "'l rc_env \<Rightarrow> ('x) rc_outside_scheme \<Rightarrow> GarbageCollectionPolicy \<Rightarrow> 'l reconciler \<Rightarrow> world \<Rightarrow> 'l rc_run" where
  "evaluate_direct env out policy rc w =
     (let (startTime, w) = read_clock out w
      in map_option (\<lambda>(r, rc, w). (r, rc, record_duration out policy startTime w))
           (case getOrCreateResourceInformer out policy rc w of
              (Inl p, rc, w) \<Rightarrow> Some (Inl p, rc, w)
            | (Inr (Inl e), rc, w) \<Rightarrow>
                Some (Inr (Some (policy_error policy ''informer_creation_failed'' ''failed to get resource informer'' e)),
                  rc, emit (recordError (gp_Namespace policy) (gp_Name policy) ''informer_creation_failed'') w)
            | (Inr (Inr informer), rc, w) \<Rightarrow>
                if store_nil out (wd_tick w) informer then Some (Inl NilDereference, rc, tick w)
                else
                  map_option (\<lambda>(r, rl, w). (r, rc\<lparr>rc_limiters := rl\<rparr>, w))
                    (evaluate_items (direct_env env rc) out policy (store_List out (wd_tick w) informer)
                       (rc_limiters rc) (tick w))))"

definition evaluatePolicy ::
    "'l rc_env \<Rightarrow> ('x) rc_outside_scheme \<Rightarrow> GarbageCollectionPolicy \<Rightarrow> 'l reconciler \<Rightarrow> world \<Rightarrow> 'l rc_run" where
  "evaluatePolicy env out policy rc w =
     (case getOrCreateEvaluationService out policy rc w of
        (Inl p, rc, w) \<Rightarrow> Some (Inl p, rc, w)
      | (Inr (Inr svc), rc, w) \<Rightarrow> service_EvaluatePolicy env out svc policy rc w
      | (Inr (Inl e), rc, w) \<Rightarrow> evaluate_direct env out policy rc w)"

text \<open>\<open>EvaluatePolicyForTesting\<close>: what the map gives for an absent key is nil.\<close>

definition EvaluatePolicyForTesting ::
    "'l rc_env \<Rightarrow> ('x) rc_outside_scheme \<Rightarrow> GarbageCollectionPolicy \<Rightarrow> evaluation_service option \<Rightarrow>
      'l reconciler \<Rightarrow> world \<Rightarrow> 'l rc_run" where
  "EvaluatePolicyForTesting env out policy svc rc w =
     (let key = evaluationServiceKey policy;
          oldService = go_index None (rc_services rc) key;
          rc = rc\<lparr>rc_services := go_put key svc (rc_services rc)\<rparr>
      in map_option (\<lambda>(r, rc, w). case r of
             Inl p \<Rightarrow> (Inl p, rc, w)
           | Inr err \<Rightarrow> (Inr err, rc\<lparr>rc_services := go_put key oldService (rc_services rc)\<rparr>, w))
           (evaluatePolicy env out policy rc w))"

subsection \<open>Bookkeeping per policy\<close>

definition trackPolicyUID :: "NamespacedName \<Rightarrow> uid \<Rightarrow> 'l reconciler \<Rightarrow> 'l reconciler" where
  "trackPolicyUID nn u rc = rc\<lparr>rc_policyUIDs := go_put nn u (rc_policyUIDs rc)\<rparr>"

definition trackPolicySpec :: "uid \<Rightarrow> GarbageCollectionPolicySpec \<Rightarrow> 'l reconciler \<Rightarrow> 'l reconciler" where
  "trackPolicySpec u spec rc = rc\<lparr>rc_policySpecs := go_put u spec (rc_policySpecs rc)\<rparr>"

definition shouldRecreateInformer :: "GarbageCollectionPolicy \<Rightarrow> 'l reconciler \<Rightarrow> bool" where
  "shouldRecreateInformer policy rc =
     (case map_of (rc_policySpecs rc) (gp_UID policy) of
        None \<Rightarrow> False
      | Some oldSpec \<Rightarrow>
          (let newTarget = gs_TargetResource (gp_Spec policy);
               oldTarget = gs_TargetResource oldSpec
           in if tr_APIVersion oldTarget \<noteq> tr_APIVersion newTarget \<or> tr_Kind oldTarget \<noteq> tr_Kind newTarget \<or>
                 tr_Namespace oldTarget \<noteq> tr_Namespace newTarget \<or>
                 \<not> labelSelectorsEqual (tr_LabelSelector oldTarget) (tr_LabelSelector newTarget)
              then True else False))"

definition cleanupResourceInformer :: "uid \<Rightarrow> 'l reconciler \<Rightarrow> 'l reconciler" where
  "cleanupResourceInformer policyUID rc = rc"

definition handleInformerRecreation :: "GarbageCollectionPolicy \<Rightarrow> 'l reconciler \<Rightarrow> 'l reconciler" where
  "handleInformerRecreation policy rc =
     (if \<not> shouldRecreateInformer policy rc then rc
      else
        (let rc = cleanupResourceInformer (gp_UID policy) rc
         in rc\<lparr>rc_policySpecs := go_del (gp_UID policy) (rc_policySpecs rc)\<rparr>))"

definition cleanupPolicyResources :: "NamespacedName \<Rightarrow> 'l reconciler \<Rightarrow> world \<Rightarrow> 'l reconciler \<times> world" where
  "cleanupPolicyResources nn rc w =
     (case map_of (rc_policyUIDs rc) nn of
        None \<Rightarrow> (rc, w)
      | Some u \<Rightarrow>
          (let rc = rc\<lparr>rc_policyUIDs := go_del nn (rc_policyUIDs rc)\<rparr>;
               rc = cleanupResourceInformer u rc;
               rc = rc\<lparr>rc_limiters := cleanupRateLimiter u (rc_limiters rc)\<rparr>;
               w = emit (recordRateLimiterCount (int (length (rs_limiters (rc_limiters rc))))) w
           in (rc\<lparr>rc_policySpecs := go_del u (rc_policySpecs rc)\<rparr>, w)))"

text \<open>The phases of all policies as metrics; the order of the counts is one order of the map.\<close>

definition phase_of :: "GarbageCollectionPolicy \<Rightarrow> string" where
  "phase_of policy =
     (if st_Phase (gp_Status policy) = []
      then (if gs_Paused (gp_Spec policy) then PolicyPhasePaused else PolicyPhaseActive)
      else st_Phase (gp_Status policy))"

fun phase_counts :: "GarbageCollectionPolicy list \<Rightarrow> (string, int) gomap \<Rightarrow> (string, int) gomap" where
  "phase_counts [] counts = counts"
| "phase_counts (policy # rest) counts =
     phase_counts rest (go_put (phase_of policy) (go_index 0 counts (phase_of policy) + 1) counts)"

definition recordPolicyPhaseMetrics :: "('x) rc_outside_scheme \<Rightarrow> world \<Rightarrow> world" where
  "recordPolicyPhaseMetrics out w =
     (case list_policies out (wd_tick w) of
        Inl e \<Rightarrow> tick w
      | Inr policies \<Rightarrow>
          (let phaseCounts = phase_counts policies [];
               knownPhases = [PolicyPhaseActive, PolicyPhasePaused, PolicyPhaseError]
           in emit (concat (map (\<lambda>(phase, count). recordPolicyPhase phase count) phaseCounts) @
                concat (map (\<lambda>phase. if map_of phaseCounts phase = None then recordPolicyPhase phase 0 else [])
                  knownPhases)) (tick w)))"

subsection \<open>Reconcile\<close>

type_synonym 'l reconciled = "((panic + (Result \<times> go_error option)) \<times> 'l reconciler \<times> world) option"

definition handlePolicyDeletion :: "NamespacedName \<Rightarrow> 'l reconciler \<Rightarrow> world \<Rightarrow> 'l reconciled" where
  "handlePolicyDeletion req rc w =
     (let (rc, w) = cleanupPolicyResources req rc w in Some (Inr (\<lparr>RequeueAfter = 0\<rparr>, None), rc, w))"

definition handlePolicyFetchError :: "go_error \<Rightarrow> Result \<times> go_error option" where
  "handlePolicyFetchError err = (\<lparr>RequeueAfter = 0\<rparr>, Some err)"

definition handlePausedPolicy :: "'l reconciler \<Rightarrow> Result \<times> go_error option" where
  "handlePausedPolicy rc = (\<lparr>RequeueAfter = getRequeueInterval rc\<rparr>, None)"

text \<open>The error of an evaluation is logged with its policy and type, and not returned.\<close>

definition evaluation_log_error :: "go_error \<Rightarrow> GarbageCollectionPolicy \<Rightarrow> go_error" where
  "evaluation_log_error err policy =
     (let gcErr = WithPolicy err (gp_Namespace policy) (gp_Name policy)
      in if error_Type gcErr = [] then set_error_Type ''evaluation_failed'' gcErr else gcErr)"

definition handleEvaluationError :: "Result \<times> go_error option" where
  "handleEvaluationError = (\<lparr>RequeueAfter = 30 * time_Second\<rparr>, None)"

definition Reconcile ::
    "'l rc_env \<Rightarrow> ('x) rc_outside_scheme \<Rightarrow> NamespacedName \<Rightarrow> 'l reconciler \<Rightarrow> world \<Rightarrow> 'l reconciled" where
  "Reconcile env out req rc w =
     (let got = get_policy out (wd_tick w) req; w = tick w
      in case got of
           Inl err \<Rightarrow>
             if IsNotFound out err then handlePolicyDeletion req rc w
             else Some (Inr (handlePolicyFetchError err), rc, w)
         | Inr policy \<Rightarrow>
             (let rc = trackPolicyUID req (gp_UID policy) rc;
                  rc = handleInformerRecreation policy rc;
                  rc = trackPolicySpec (gp_UID policy) (gp_Spec policy) rc
              in if gs_Paused (gp_Spec policy) then Some (Inr (handlePausedPolicy rc), rc, w)
                 else
                   (case evaluatePolicy env out policy rc w of
                      None \<Rightarrow> None
                    | Some (Inl p, rc, w) \<Rightarrow> Some (Inl p, rc, w)
                    | Some (Inr (Some err), rc, w) \<Rightarrow> Some (Inr handleEvaluationError, rc, w)
                    | Some (Inr None, rc, w) \<Rightarrow>
                        (let w = recordPolicyPhaseMetrics out w
                         in Some (Inr (\<lparr>RequeueAfter = getRequeueIntervalForPolicy rc policy\<rparr>, None), rc, w)))))"

declare map_of_eq_Some_iff [simp del]

subsection \<open>The invariant of the state\<close>

text \<open>
  The maps are maps, the limiters are in order, every informer has its factory and its own
  identity, and every cached service works on the informer of its key with the configuration,
  the recorder and the status updater of the reconciler.
\<close>

definition service_ok :: "'l reconciler \<Rightarrow> string \<Rightarrow> evaluation_service option \<Rightarrow> bool" where
  "service_ok rc k svc \<longleftrightarrow> (\<exists>sv. svc = Some sv \<and> map_of (rc_informers rc) k = Some (sv_informer sv) \<and>
     sv_config sv = rc_config rc \<and> sv_recorder sv = rc_recorder rc \<and> sv_status sv = rc_status rc)"

definition rc_ok :: "'l reconciler \<Rightarrow> bool" where
  "rc_ok rc \<longleftrightarrow> rl_wf (rc_limiters rc) \<and>
     wf_map (rc_informers rc) \<and> wf_map (rc_factories rc) \<and> wf_map (rc_policyUIDs rc) \<and>
     wf_map (rc_policySpecs rc) \<and> wf_map (rc_services rc) \<and>
     (\<forall>k. map_of (rc_informers rc) k = None \<longleftrightarrow> map_of (rc_factories rc) k = None) \<and>
     (\<forall>k i. map_of (rc_informers rc) k = Some i \<longrightarrow> inf_id i < rc_created rc) \<and>
     (\<forall>k k' i. map_of (rc_informers rc) k = Some i \<and> map_of (rc_informers rc) k' = Some i \<longrightarrow> k = k') \<and>
     (\<forall>k svc. map_of (rc_services rc) k = Some svc \<longrightarrow> service_ok rc k svc)"

lemma rc_ok_new [simp]: "rc_ok (new_reconciler cfg su er)"
  by (simp add: rc_ok_def new_reconciler_def)

text \<open>What a step leaves alone: the parts that belong to policies and to the configuration.\<close>

definition same_policies :: "'l reconciler \<Rightarrow> 'l reconciler \<Rightarrow> bool" where
  "same_policies rc rc' \<longleftrightarrow> rc_config rc' = rc_config rc \<and> rc_recorder rc' = rc_recorder rc \<and>
     rc_status rc' = rc_status rc \<and> rc_limiters rc' = rc_limiters rc \<and>
     rc_policyUIDs rc' = rc_policyUIDs rc \<and> rc_policySpecs rc' = rc_policySpecs rc"

definition informers_grow :: "'l reconciler \<Rightarrow> 'l reconciler \<Rightarrow> bool" where
  "informers_grow rc rc' \<longleftrightarrow> map_of (rc_informers rc) \<subseteq>\<^sub>m map_of (rc_informers rc')"

lemma rc_ok_policies:
  "rc_ok rc \<Longrightarrow> wf_map m \<Longrightarrow> rc_ok (rc\<lparr>rc_policyUIDs := m\<rparr>)"
  "rc_ok rc \<Longrightarrow> wf_map m' \<Longrightarrow> rc_ok (rc\<lparr>rc_policySpecs := m'\<rparr>)"
  "rc_ok rc \<Longrightarrow> rl_wf rl \<Longrightarrow> rc_ok (rc\<lparr>rc_limiters := rl\<rparr>)"
  by (simp_all add: rc_ok_def service_ok_def)

lemma rc_ok_maps:
  assumes "rc_ok rc"
  shows "wf_map (rc_informers rc)" "wf_map (rc_factories rc)" "wf_map (rc_policyUIDs rc)"
    "wf_map (rc_policySpecs rc)" "wf_map (rc_services rc)" "rl_wf (rc_limiters rc)"
  using assms by (simp_all add: rc_ok_def)

lemma rc_okI:
  assumes "rl_wf (rc_limiters rc)" and "wf_map (rc_informers rc)" and "wf_map (rc_factories rc)"
    and "wf_map (rc_policyUIDs rc)" and "wf_map (rc_policySpecs rc)" and "wf_map (rc_services rc)"
    and "\<And>k. map_of (rc_informers rc) k = None \<longleftrightarrow> map_of (rc_factories rc) k = None"
    and "\<And>k i. map_of (rc_informers rc) k = Some i \<Longrightarrow> inf_id i < rc_created rc"
    and "\<And>k k' i. map_of (rc_informers rc) k = Some i \<Longrightarrow> map_of (rc_informers rc) k' = Some i \<Longrightarrow> k = k'"
    and "\<And>k svc. map_of (rc_services rc) k = Some svc \<Longrightarrow> service_ok rc k svc"
  shows "rc_ok rc"
  unfolding rc_ok_def using assms by blast

lemma rc_ok_no_service: "rc_ok rc \<Longrightarrow> map_of (rc_informers rc) k = None \<Longrightarrow> map_of (rc_services rc) k = None"
  unfolding rc_ok_def service_ok_def by (metis not_None_eq)

lemma rc_ok_add_informer:
  assumes "rc_ok rc" and "map_of (rc_informers rc) k = None" and "inf_id i = rc_created rc"
  shows "rc_ok (rc\<lparr>rc_informers := go_put k i (rc_informers rc), rc_factories := go_put k f (rc_factories rc),
    rc_created := Suc (rc_created rc)\<rparr>)"
proof -
  have id: "inf_id j < rc_created rc" if "map_of (rc_informers rc) k' = Some j" for k' j
    using assms(1) that unfolding rc_ok_def by blast
  then have new: "map_of (rc_informers rc) k' \<noteq> Some i" for k'
    using assms(3) by fastforce
  have uniq: "k1 = k2" if "map_of (rc_informers rc) k1 = Some j" "map_of (rc_informers rc) k2 = Some j" for k1 k2 j
    using assms(1) that unfolding rc_ok_def by blast
  have id': "inf_id j < Suc (rc_created rc)" if "map_of (go_put k i (rc_informers rc)) k' = Some j" for k' j
    using that id [of k' j] assms(3) by (cases "k' = k") auto
  have uniq': "k1 = k2" if "map_of (go_put k i (rc_informers rc)) k1 = Some j"
      "map_of (go_put k i (rc_informers rc)) k2 = Some j" for k1 k2 j
    using that uniq [of k1 j k2] new [of k1] new [of k2] by (cases "k1 = k"; cases "k2 = k") auto
  have srv: "service_ok (rc\<lparr>rc_informers := go_put k i (rc_informers rc), rc_factories := go_put k f (rc_factories rc),
      rc_created := Suc (rc_created rc)\<rparr>) k' svc" if "map_of (rc_services rc) k' = Some svc" for k' svc
    using assms(1) that rc_ok_no_service [OF assms(1,2)] unfolding rc_ok_def service_ok_def
    by (cases "k' = k") auto
  have dom: "map_of (go_put k i (rc_informers rc)) k' = None \<longleftrightarrow> map_of (go_put k f (rc_factories rc)) k' = None" for k'
    using assms(1) unfolding rc_ok_def by simp
  show ?thesis
    by (rule rc_okI) (use rc_ok_maps [OF assms(1)] dom id' uniq' srv in \<open>simp_all del: map_of_go_put\<close>)
qed

lemma rc_ok_forget_new:
  assumes "rc_ok rc" and "map_of (rc_informers rc) k = None"
  shows "rc_ok (forget_informer k (rc\<lparr>rc_informers := go_put k i (rc_informers rc),
    rc_factories := go_put k f (rc_factories rc), rc_created := Suc (rc_created rc)\<rparr>))"
  using assms(1) rc_ok_no_service [OF assms] unfolding rc_ok_def service_ok_def
  by (auto simp: forget_informer_def less_Suc_eq)

lemma rc_ok_add_service:
  assumes "rc_ok rc" and "service_ok rc k svc"
  shows "rc_ok (rc\<lparr>rc_services := go_put k svc (rc_services rc)\<rparr>)"
  using assms unfolding rc_ok_def service_ok_def by (auto)

subsection \<open>Creating informers and services\<close>

text \<open>
  How such a step may end: with a value or an error but no panic, the state in order, the
  policies untouched, no informer lost, and nothing done but metrics and lookups of names.
\<close>

definition step_fine :: "('x) outside_scheme \<Rightarrow> 'l reconciler \<Rightarrow> world \<Rightarrow> ('a, 'l) rc_step \<Rightarrow> bool" where
  "step_fine out rc w q \<longleftrightarrow> (\<exists>x. fst q = Inr x) \<and> rc_ok (fst (snd q)) \<and> same_policies rc (fst (snd q)) \<and>
     informers_grow rc (fst (snd q)) \<and> appends bookkeeping w (snd (snd q)) \<and> cache_step out w (snd (snd q))"

lemma appends_ResolveGVR [simp]: "appends P w (snd (ResolveGVR out gvk cache w))"
  by (simp add: appends_def)

lemma create_informer_fine:
  assumes "rc_ok rc" and "map_of (rc_informers rc) (evaluationServiceKey p) = None"
    and "wd_gvr_cache w = Some cache"
  shows "step_fine out rc w (create_informer out p cache rc w) \<and>
    (\<forall>i rc' w'. create_informer out p cache rc w = (Inr (Inr i), rc', w') \<longrightarrow>
       map_of (rc_informers rc') (evaluationServiceKey p) = Some i \<and>
       inf_Namespace i = normalizeNamespace (tr_Namespace (gs_TargetResource (gp_Spec p))))"
proof -
  define k where "k = evaluationServiceKey p"
  define gvk where "gvk = object_GVK out (tr_APIVersion (gs_TargetResource (gp_Spec p)))
    (tr_Kind (gs_TargetResource (gp_Spec p)))"
  define ns where "ns = normalizeNamespace (tr_Namespace (gs_TargetResource (gp_Spec p)))"
  obtain gvr w1 where w1: "ResolveGVR out gvk cache w = (gvr, w1)" by fastforce
  define i where "i = \<lparr>inf_id = rc_created rc, inf_GVR = gvr, inf_Namespace = ns, inf_Resync = getRequeueInterval rc\<rparr>"
  define f where "f = \<lparr>fa_Resync = getRequeueInterval rc, fa_Namespace = ns\<rparr>"
  define rc1 where "rc1 = rc\<lparr>rc_informers := go_put k i (rc_informers rc),
    rc_factories := go_put k f (rc_factories rc), rc_created := Suc (rc_created rc)\<rparr>"
  define w2 where "w2 = emit (recordInformerCount (int (length (rc_informers rc1)))) w1"
  have eq: "create_informer out p cache rc w = (case cache_sync out (wd_tick w2) i of
      Synced \<Rightarrow> (Inr (Inr i), rc1, tick w2)
    | SyncTimedOut e \<Rightarrow> (Inr (Inl (WrapError ''resource informer cache sync timed out'' e)),
        forget_informer k rc1, tick w2)
    | SyncFailed \<Rightarrow> (Inr (Inl ErrResourceInformerCacheSyncFailed), forget_informer k rc1, tick w2))"
    unfolding create_informer_def Let_def k_def [symmetric] gvk_def [symmetric] ns_def [symmetric] w1 prod.case
      i_def [symmetric] f_def [symmetric] rc1_def [symmetric] w2_def [symmetric] by (rule refl)
  have k: "map_of (rc_informers rc) k = None"
    using assms(2) by (simp add: k_def)
  have ok: "rc_ok rc1"
    unfolding rc1_def by (rule rc_ok_add_informer [OF assms(1) k]) (simp add: i_def)
  have ok': "rc_ok (forget_informer k rc1)"
    unfolding rc1_def by (rule rc_ok_forget_new [OF assms(1) k])
  have same: "same_policies rc rc1" "same_policies rc (forget_informer k rc1)"
    by (simp_all add: same_policies_def rc1_def forget_informer_def)
  have grow: "informers_grow rc rc1" "informers_grow rc (forget_informer k rc1)"
    using k by (auto simp: informers_grow_def map_le_def rc1_def forget_informer_def)
  have "appends bookkeeping w w1" "cache_step out w w1"
    using appends_ResolveGVR [of bookkeeping w out gvk cache] ResolveGVR_name(2) [OF assms(3), of out gvk]
    by (simp_all add: w1)
  then have log: "appends bookkeeping w (tick w2)" "cache_step out w (tick w2)"
    by (auto simp: w2_def intro: appends_emit)
  from ok ok' same grow log show ?thesis
    unfolding eq by (auto simp: step_fine_def rc1_def i_def ns_def k_def split: sync.splits)
qed

lemma informer_fine:
  assumes "rc_ok rc" and "wd_gvr_cache w \<noteq> None"
  shows "step_fine out rc w (getOrCreateResourceInformer out p rc w) \<and>
    (\<forall>i rc' w'. getOrCreateResourceInformer out p rc w = (Inr (Inr i), rc', w') \<longrightarrow>
       map_of (rc_informers rc') (evaluationServiceKey p) = Some i)"
proof (cases "map_of (rc_informers rc) (evaluationServiceKey p)")
  case None
  obtain cache where cache: "wd_gvr_cache w = Some cache"
    using assms(2) by blast
  with create_informer_fine [OF assms(1) None cache, of out] None show ?thesis
    by (simp add: getOrCreateResourceInformer_def)
next
  case (Some i)
  with assms(1) show ?thesis
    by (simp add: getOrCreateResourceInformer_def step_fine_def same_policies_def informers_grow_def
        cache_relation.R_refl)
qed

lemma service_fine:
  assumes "rc_ok rc" and "wd_gvr_cache w \<noteq> None"
  shows "step_fine out rc w (getOrCreateEvaluationService out p rc w) \<and>
    (\<forall>svc rc' w'. getOrCreateEvaluationService out p rc w = (Inr (Inr svc), rc', w') \<longrightarrow>
       service_ok rc' (evaluationServiceKey p) svc)"
proof (cases "map_of (rc_services rc) (evaluationServiceKey p)")
  case (Some svc)
  with assms(1) show ?thesis
    by (auto simp: getOrCreateEvaluationService_def step_fine_def same_policies_def informers_grow_def
        cache_relation.R_refl rc_ok_def Let_def)
next
  case None
  obtain x rc1 w1 where inf: "getOrCreateResourceInformer out p rc w = (x, rc1, w1)"
    by (metis prod.exhaust)
  have fine: "step_fine out rc w (x, rc1, w1)"
    and key: "x = Inr (Inr i) \<Longrightarrow> map_of (rc_informers rc1) (evaluationServiceKey p) = Some i" for i
    using informer_fine [OF assms, of out p] inf by auto
  have srv: "service_ok rc1 (evaluationServiceKey p) (Some \<lparr>sv_informer = i, sv_status = rc_status rc1,
      sv_recorder = rc_recorder rc1, sv_config = rc_config rc1\<rparr>)" if "x = Inr (Inr i)" for i
    using key [OF that] by (simp add: service_ok_def)
  obtain y where y: "x = Inr y"
    using fine by (auto simp: step_fine_def)
  show ?thesis
  proof (cases y)
    case (Inl e)
    with fine None y show ?thesis
      by (simp add: getOrCreateEvaluationService_def GetResourceListerForPolicy_def inf Let_def step_fine_def)
  next
    case (Inr i)
    with fine None y srv [of i] show ?thesis
      by (auto simp: getOrCreateEvaluationService_def GetResourceListerForPolicy_def inf Let_def step_fine_def
          same_policies_def informers_grow_def service_ok_def intro!: rc_ok_add_service)
  qed
qed

end
