(* ===== verification/Health.thy ===== *)
theory Health
  imports Reconciler
begin

text \<open>
  The health checks: internal/health/health.go (informers, activity, composition), the checker
  of the controller (pkg/controller/health.go), the leadership of a replica
  (pkg/controller/leadership.go) and the handlers that cmd/gc-controller/main.go serves. A
  check is a function of what it observes; \<open>None\<close> is health.
\<close>

datatype health_error =
    NotInitialized string
  | StillSyncing nat
  | NoActivity duration duration

type_synonym 'w check = "'w \<Rightarrow> health_error option"

record 'w checker =
  ReadinessCheck :: "'w check"
  LivenessCheck :: "'w check"
  StartupCheck :: "'w check"

text \<open>
  What every checker promises to the probes: a component that is ready is alive and started,
  so readiness is the strictest probe.
\<close>

locale checker_contract =
  fixes ready live started :: "'w check"
  assumes live_ready: "live w \<noteq> None \<Longrightarrow> ready w \<noteq> None"
    and started_ready: "started w \<noteq> None \<Longrightarrow> ready w \<noteq> None"
begin

lemma ready_is_strictest: "ready w = None \<Longrightarrow> live w = None \<and> started w = None"
  using live_ready started_ready by blast

end

subsection \<open>Informers\<close>

text \<open>
  The getter is nil or gives a map of names to functions, each nil or the answer of
  \<open>HasSynced\<close>.
\<close>

type_synonym 'w getter = "('w \<Rightarrow> (string, bool option) gomap) option"

definition is_unsynced :: "bool option \<Rightarrow> bool" where
  "is_unsynced hasSynced = (hasSynced = Some False)"

definition informer_Readiness :: "'w getter \<Rightarrow> 'w check" where
  "informer_Readiness getInformers w =
     (case getInformers of
        None \<Rightarrow> Some (NotInitialized ''informer getter not set'')
      | Some get \<Rightarrow>
          (let informers = get w
           in if length informers = 0 then None
              else
                (let unsyncedCount = length (filter (\<lambda>(name, hasSynced). is_unsynced hasSynced) informers)
                 in if unsyncedCount > 0 then Some (StillSyncing unsyncedCount) else None)))"

definition informer_Liveness :: "'w getter \<Rightarrow> 'w check" where
  "informer_Liveness getInformers w =
     (case getInformers of
        None \<Rightarrow> Some (NotInitialized ''informer getter not set'')
      | Some get \<Rightarrow>
          (let informers = get w
           in if length informers = 0 then None
              else
                (let allSynced = \<not> list_ex (\<lambda>(name, hasSynced). is_unsynced hasSynced) informers
                 in if \<not> allSynced then None else None)))"

definition informer_Startup :: "'w getter \<Rightarrow> 'w check" where
  "informer_Startup getInformers w =
     (if getInformers = None then Some (NotInitialized ''informer getter not set'') else None)"

definition InformerSyncChecker :: "'w getter \<Rightarrow> 'w checker" where
  "InformerSyncChecker g = \<lparr>ReadinessCheck = informer_Readiness g, LivenessCheck = informer_Liveness g,
     StartupCheck = informer_Startup g\<rparr>"

interpretation informer_checker: checker_contract "informer_Readiness g" "informer_Liveness g" "informer_Startup g"
  for g :: "'w getter"
  by unfold_locales (auto simp: informer_Readiness_def informer_Liveness_def informer_Startup_def Let_def
      split: option.splits if_splits)

subsection \<open>Activity\<close>

text \<open>The getter is nil or the last activity; the clock is read after it.\<close>

definition activity_Readiness :: "('w \<Rightarrow> gotime) \<Rightarrow> ('w \<Rightarrow> gotime) option \<Rightarrow> duration \<Rightarrow> 'w check" where
  "activity_Readiness clock getLast maxTime w =
     (case getLast of
        None \<Rightarrow> Some (NotInitialized ''activity getter not set'')
      | Some get \<Rightarrow>
          (let lastActivity = get w
           in if time_IsZero lastActivity then None
              else
                (let timeSinceActivity = time_Since (clock w) lastActivity
                 in if sint timeSinceActivity > sint maxTime then Some (NoActivity timeSinceActivity maxTime) else None)))"

definition activity_Liveness :: "('w \<Rightarrow> gotime) \<Rightarrow> ('w \<Rightarrow> gotime) option \<Rightarrow> duration \<Rightarrow> 'w check" where
  "activity_Liveness clock getLast maxTime w =
     (case getLast of
        None \<Rightarrow> Some (NotInitialized ''activity getter not set'')
      | Some get \<Rightarrow>
          (let lastActivity = get w
           in if time_IsZero lastActivity then None
              else
                (let timeSinceActivity = time_Since (clock w) lastActivity
                 in if sint timeSinceActivity > sint maxTime then Some (NoActivity timeSinceActivity maxTime) else None)))"

definition activity_Startup :: "('w \<Rightarrow> gotime) option \<Rightarrow> 'w check" where
  "activity_Startup getLast w =
     (if getLast = None then Some (NotInitialized ''activity getter not set'') else None)"

definition ActivityChecker :: "('w \<Rightarrow> gotime) \<Rightarrow> ('w \<Rightarrow> gotime) option \<Rightarrow> duration \<Rightarrow> 'w checker" where
  "ActivityChecker clock getLast maxTime =
     \<lparr>ReadinessCheck = activity_Readiness clock getLast maxTime, LivenessCheck = activity_Liveness clock getLast maxTime,
      StartupCheck = activity_Startup getLast\<rparr>"

interpretation activity_checker: checker_contract "activity_Readiness clock g m" "activity_Liveness clock g m"
    "activity_Startup g" for clock :: "'w \<Rightarrow> gotime" and g m
  by unfold_locales (auto simp: activity_Readiness_def activity_Liveness_def activity_Startup_def split: option.splits)

subsection \<open>Composition\<close>

fun first_error :: "'w check list \<Rightarrow> 'w check" where
  "first_error [] w = None"
| "first_error (c # cs) w = (case c w of Some err \<Rightarrow> Some err | None \<Rightarrow> first_error cs w)"

definition composite_Readiness :: "'w checker list \<Rightarrow> 'w check" where
  "composite_Readiness checkers = first_error (map ReadinessCheck checkers)"

definition composite_Liveness :: "'w checker list \<Rightarrow> 'w check" where
  "composite_Liveness checkers = first_error (map LivenessCheck checkers)"

definition composite_Startup :: "'w checker list \<Rightarrow> 'w check" where
  "composite_Startup checkers = first_error (map StartupCheck checkers)"

definition CompositeChecker :: "'w checker list \<Rightarrow> 'w checker" where
  "CompositeChecker checkers = \<lparr>ReadinessCheck = composite_Readiness checkers,
     LivenessCheck = composite_Liveness checkers, StartupCheck = composite_Startup checkers\<rparr>"

definition AddChecker :: "'w checker \<Rightarrow> 'w checker list \<Rightarrow> 'w checker list" where
  "AddChecker checker checkers = checkers @ [checker]"

abbreviation contract :: "'w checker \<Rightarrow> bool" where
  "contract c \<equiv> checker_contract (ReadinessCheck c) (LivenessCheck c) (StartupCheck c)"

lemma first_error_None: "first_error cs w = None \<longleftrightarrow> (\<forall>c\<in>set cs. c w = None)"
  by (induction cs) (auto split: option.splits)

lemma first_error_Some:
  "first_error cs w = Some e \<longleftrightarrow> (\<exists>n<length cs. (cs ! n) w = Some e \<and> (\<forall>m<n. (cs ! m) w = None))"
proof (induction cs)
  case (Cons c cs)
  show ?case
  proof (cases "c w")
    case None
    then have "(\<exists>n<length (c # cs). ((c # cs) ! n) w = Some e \<and> (\<forall>m<n. ((c # cs) ! m) w = None)) \<longleftrightarrow>
        (\<exists>n<length cs. (cs ! n) w = Some e \<and> (\<forall>m<n. (cs ! m) w = None))"
      by (auto simp: Ex_less_Suc2 All_less_Suc2)
    with Cons None show ?thesis by simp
  next
    case (Some e')
    then show ?thesis
      by (auto simp: Ex_less_Suc2 All_less_Suc2)
  qed
qed simp

lemma composite_contract:
  assumes "\<forall>c\<in>set checkers. contract c"
  shows "contract (CompositeChecker checkers)"
proof unfold_locales
  fix w
  have c: "LivenessCheck c w = None \<and> StartupCheck c w = None" if "c \<in> set checkers" "ReadinessCheck c w = None" for c
    using assms that checker_contract.ready_is_strictest [of "ReadinessCheck c" "LivenessCheck c" "StartupCheck c" w] by blast
  have "LivenessCheck (CompositeChecker checkers) w = None \<and> StartupCheck (CompositeChecker checkers) w = None"
    if "ReadinessCheck (CompositeChecker checkers) w = None"
    using that c unfolding CompositeChecker_def composite_Readiness_def composite_Liveness_def composite_Startup_def
    by (simp add: first_error_None)
  then show "LivenessCheck (CompositeChecker checkers) w \<noteq> None \<Longrightarrow> ReadinessCheck (CompositeChecker checkers) w \<noteq> None"
    "StartupCheck (CompositeChecker checkers) w \<noteq> None \<Longrightarrow> ReadinessCheck (CompositeChecker checkers) w \<noteq> None"
    by - (erule contrapos_nn, simp)+
qed

text \<open>
  A composition is the conjunction of its parts: it is ready exactly when each of its
  checkers is, a failure is that of the first checker that fails, adding a checker adds one
  conjunct, and a ready composition of the checkers of the library is alive and started.
\<close>

theorem composite_is_conjunction:
  "(ReadinessCheck (CompositeChecker cs) w = None \<longleftrightarrow> (\<forall>c\<in>set cs. ReadinessCheck c w = None)) \<and>
   (ReadinessCheck (CompositeChecker cs) w = Some e \<longleftrightarrow>
      (\<exists>n<length cs. ReadinessCheck (cs ! n) w = Some e \<and> (\<forall>m<n. ReadinessCheck (cs ! m) w = None))) \<and>
   (ReadinessCheck (CompositeChecker (AddChecker c cs)) w = None \<longleftrightarrow>
      ReadinessCheck (CompositeChecker cs) w = None \<and> ReadinessCheck c w = None) \<and>
   (set cs \<subseteq> range InformerSyncChecker \<union> range (\<lambda>(clock, g, m). ActivityChecker clock g m) \<longrightarrow>
      ReadinessCheck (CompositeChecker cs) w = None \<longrightarrow>
      LivenessCheck (CompositeChecker cs) w = None \<and> StartupCheck (CompositeChecker cs) w = None)"
proof (intro conjI impI)
  assume parts: "set cs \<subseteq> range InformerSyncChecker \<union> range (\<lambda>(clock, g, m). ActivityChecker clock g m)"
    and ready: "ReadinessCheck (CompositeChecker cs) w = None"
  have "contract (InformerSyncChecker g)" "contract (ActivityChecker clock g' m)" for g :: "'a getter" and clock g' m
    by (simp_all add: InformerSyncChecker_def ActivityChecker_def informer_checker.checker_contract_axioms
        activity_checker.checker_contract_axioms)
  with parts have "\<forall>c\<in>set cs. contract c" by fastforce
  from checker_contract.ready_is_strictest [OF composite_contract [OF this] ready]
  show "LivenessCheck (CompositeChecker cs) w = None" "StartupCheck (CompositeChecker cs) w = None" by auto
qed (auto simp: CompositeChecker_def composite_Readiness_def AddChecker_def first_error_None first_error_Some)

theorem composite_is_conjunction_witness:
  "ReadinessCheck (CompositeChecker [InformerSyncChecker (Some (\<lambda>_::unit. [(''a'', Some True), (''b'', None)])),
      InformerSyncChecker None]) () = Some (NotInitialized ''informer getter not set'') \<and>
   LivenessCheck (CompositeChecker [InformerSyncChecker (Some (\<lambda>_::unit. [(''a'', Some True)]))]) () = None"
proof -
  have "ReadinessCheck (CompositeChecker [InformerSyncChecker (Some (\<lambda>_::unit. [(''a'', Some True)]))]) () = None"
    by (simp add: CompositeChecker_def composite_Readiness_def InformerSyncChecker_def informer_Readiness_def is_unsynced_def)
  then have "LivenessCheck (CompositeChecker [InformerSyncChecker (Some (\<lambda>_::unit. [(''a'', Some True)]))]) () = None"
    using composite_is_conjunction [of "[InformerSyncChecker (Some (\<lambda>_::unit. [(''a'', Some True)]))]" "()"] by auto
  then show ?thesis
    by (simp add: CompositeChecker_def composite_Readiness_def InformerSyncChecker_def informer_Readiness_def is_unsynced_def)
qed

subsection \<open>Leadership and the checker of the controller\<close>

record LeaderState =
  ls_leading :: bool
  ls_startedAt :: gotime
  ls_startupGrace :: duration

definition NewLeaderState :: "duration \<Rightarrow> gotime \<Rightarrow> LeaderState" where
  "NewLeaderState startupGrace now' = \<lparr>ls_leading = False, ls_startedAt = now', ls_startupGrace = startupGrace\<rparr>"

definition SetLeading :: "bool \<Rightarrow> LeaderState \<Rightarrow> LeaderState" where
  "SetLeading v l = l\<lparr>ls_leading := v\<rparr>"

definition IsLeading :: "LeaderState \<Rightarrow> bool" where
  "IsLeading l = ls_leading l"

definition LeaderzCheck :: "LeaderState option \<Rightarrow> int \<times> string" where
  "LeaderzCheck leader =
     (case leader of
        None \<Rightarrow> (200, ''unknown'')
      | Some l \<Rightarrow> (200, if IsLeading l then ''leader'' else ''standby''))"

text \<open>
  What a check of the controller sees at its moment: the informers of the reconciler, whether
  each has synced (an answer of client-go), the leadership, the last evaluation and the clock.
\<close>

record probe =
  pb_informers :: "(string, informer) gomap"
  pb_HasSynced :: "informer \<Rightarrow> bool"
  pb_leader :: "LeaderState option"
  pb_lastEvaluation :: gotime
  pb_maxTime :: duration
  pb_now :: gotime

definition controller_getter :: "probe \<Rightarrow> (string, bool option) gomap" where
  "controller_getter w = map (\<lambda>(name, i). (name, Some (pb_HasSynced w i))) (pb_informers w)"

definition is_standby :: "probe \<Rightarrow> bool" where
  "is_standby w = (case pb_leader w of None \<Rightarrow> False | Some l \<Rightarrow> \<not> IsLeading l)"

definition controller_Readiness :: "probe check" where
  "controller_Readiness w = (if is_standby w then None else informer_Readiness (Some controller_getter) w)"

definition controller_Liveness :: "probe check" where
  "controller_Liveness w =
     (if is_standby w then None
      else
        (case informer_Liveness (Some controller_getter) w of
           Some err \<Rightarrow> Some err
         | None \<Rightarrow>
             (let hasPolicies = (length (pb_informers w) > 0)
              in if \<not> hasPolicies then None
                 else
                   (let lastActivity = pb_lastEvaluation w
                    in if \<not> time_IsZero lastActivity
                       then (let timeSinceActivity = time_Since (pb_now w) lastActivity
                             in if sint timeSinceActivity > sint (pb_maxTime w) then None else None)
                       else None))))"

definition controller_Startup :: "probe check" where
  "controller_Startup w = informer_Startup (Some controller_getter) w"

text \<open>The checker of a reconciler when it is made, and its setters.\<close>

definition NewHealthChecker :: "'l reconciler \<Rightarrow> (informer \<Rightarrow> bool) \<Rightarrow> gotime \<Rightarrow> probe" where
  "NewHealthChecker rc synced now' = \<lparr>pb_informers = rc_informers rc, pb_HasSynced = synced, pb_leader = None,
     pb_lastEvaluation = 0, pb_maxTime = 5 * time_Minute, pb_now = now'\<rparr>"

definition SetLeaderState :: "LeaderState option \<Rightarrow> probe \<Rightarrow> probe" where
  "SetLeaderState leader w = w\<lparr>pb_leader := leader\<rparr>"

definition SetMaxTimeSinceLastEvaluation :: "duration \<Rightarrow> probe \<Rightarrow> probe" where
  "SetMaxTimeSinceLastEvaluation d w = w\<lparr>pb_maxTime := d\<rparr>"

definition UpdateLastEvaluationTime :: "gotime \<Rightarrow> probe \<Rightarrow> probe" where
  "UpdateLastEvaluationTime now' w = w\<lparr>pb_lastEvaluation := now'\<rparr>"

lemma controller_Liveness_None [simp]: "controller_Liveness w = None"
  by (simp add: controller_Liveness_def informer_Liveness_def Let_def)

interpretation controller_checker: checker_contract controller_Readiness controller_Liveness controller_Startup
  by unfold_locales (simp_all add: controller_Startup_def informer_Startup_def)

text \<open>The handlers of the standalone server; the text of an error is kept as the error.\<close>

datatype probe_body = EmptyBody | HealthErrorBody health_error | TextBody string

definition health_handler :: "probe check \<Rightarrow> probe \<Rightarrow> int \<times> probe_body" where
  "health_handler chk w = (case chk w of Some err \<Rightarrow> (503, HealthErrorBody err) | None \<Rightarrow> (200, EmptyBody))"

definition health_routes :: "string \<Rightarrow> probe \<Rightarrow> (int \<times> probe_body) option" where
  "health_routes path w =
     (if path = ''/healthz'' then Some (health_handler controller_Liveness w)
      else if path = ''/readyz'' then Some (health_handler controller_Readiness w)
      else if path = ''/startup'' then Some (health_handler controller_Startup w)
      else if path = ''/leaderz'' then (case LeaderzCheck (pb_leader w) of (code, body) \<Rightarrow> Some (code, TextBody body))
      else None)"

lemma controller_unsynced:
  "length (filter (\<lambda>(name, hasSynced). is_unsynced hasSynced) (controller_getter w)) =
     length (filter (\<lambda>(name, i). \<not> pb_HasSynced w i) (pb_informers w))"
  by (simp add: controller_getter_def filter_map comp_def is_unsynced_def case_prod_unfold)

text \<open>
  The readiness probe of the controller: a standby answers 200 whatever its informers do; a
  leader, or a replica without leadership tracking, answers 200 exactly when all informers have
  synced, and otherwise 503 with the number of those that have not.
\<close>

theorem readyz_exact:
  "let n = length (filter (\<lambda>(name, i). \<not> pb_HasSynced w i) (pb_informers w))
   in health_routes ''/readyz'' w = Some
     (if is_standby w \<or> (\<forall>(name, i)\<in>set (pb_informers w). pb_HasSynced w i) then (200, EmptyBody)
      else (503, HealthErrorBody (StillSyncing n))) \<and>
     ((\<forall>(name, i)\<in>set (pb_informers w). pb_HasSynced w i) \<longleftrightarrow> n = 0)"
proof -
  have "(\<forall>(name, i)\<in>set (pb_informers w). pb_HasSynced w i) \<longleftrightarrow>
      length (filter (\<lambda>(name, i). \<not> pb_HasSynced w i) (pb_informers w)) = 0"
    by (auto simp: filter_empty_conv)
  moreover have "length (controller_getter w) = length (pb_informers w)"
    by (simp add: controller_getter_def)
  ultimately show ?thesis
    by (auto simp: health_routes_def health_handler_def controller_Readiness_def informer_Readiness_def
        controller_unsynced Let_def)
qed

theorem readyz_exact_witness:
  "\<exists>n. health_routes ''/readyz'' \<lparr>pb_informers = [], pb_HasSynced = (\<lambda>_. False), pb_leader = None,
      pb_lastEvaluation = 0, pb_maxTime = 0, pb_now = 0\<rparr> = Some (200, EmptyBody) \<and> n = (0::nat)"
  using readyz_exact [of "\<lparr>pb_informers = [], pb_HasSynced = (\<lambda>_. False), pb_leader = None,
      pb_lastEvaluation = 0, pb_maxTime = 0, pb_now = 0\<rparr>"]
  by (simp add: Let_def)

text \<open>
  The liveness and the startup probe of the controller never fail: whatever the informers
  do, however long ago the last evaluation was, leader or standby, they answer 200.
\<close>

theorem liveness_never_fails:
  "health_routes ''/healthz'' w = Some (200, EmptyBody) \<and> health_routes ''/startup'' w = Some (200, EmptyBody)"
  by (simp add: health_routes_def health_handler_def controller_Startup_def informer_Startup_def)

end
