(* ===== verification/Election.thy ===== *)
theory Election
  imports Health
begin

text \<open>
  internal/election/election.go: the configuration of the leader election, its defaults, and
  \<open>RunWithLeaderElection\<close>. The elector of client-go is a parameter: it gets the configuration of
  the lease and calls the callbacks. It calls them asynchronously: each runs in a goroutine of its
  own, except for the deferred \<open>OnStoppedLeading\<close>, so the elector gives the callbacks together with
  a schedule that says whose step is next. What the program does then is a list of actions: the
  call of \<open>RunOrDie\<close>, the start of the run function, and the changes of the leadership.
\<close>

record ElectionConfig =
  el_ElectionID :: string
  el_Namespace :: string
  el_LeaseName :: string
  el_LeaseDuration :: duration
  el_RenewDeadline :: duration
  el_RetryPeriod :: duration
  el_Enable :: bool
  el_GetIdentity :: "string option"
  el_OnLeadingChange :: bool

definition zero_ElectionConfig :: ElectionConfig where
  "zero_ElectionConfig = \<lparr>el_ElectionID = [], el_Namespace = [], el_LeaseName = [], el_LeaseDuration = 0,
     el_RenewDeadline = 0, el_RetryPeriod = 0, el_Enable = False, el_GetIdentity = None, el_OnLeadingChange = False\<rparr>"

definition DefaultElectionID :: string where "DefaultElectionID = ''zen-gc-leader-election''"

definition ApplyDefaults :: "ElectionConfig option \<Rightarrow> ElectionConfig" where
  "ApplyDefaults cfg =
     (let c = (case cfg of None \<Rightarrow> zero_ElectionConfig | Some c \<Rightarrow> c);
          c = (if el_Namespace c = [] then c\<lparr>el_Namespace := ''default''\<rparr> else c);
          c = (if el_ElectionID c = [] then c\<lparr>el_ElectionID := DefaultElectionID\<rparr> else c);
          c = (if el_LeaseName c = [] then c\<lparr>el_LeaseName := el_ElectionID c\<rparr> else c);
          c = (if el_LeaseDuration c = 0 then c\<lparr>el_LeaseDuration := 15 * time_Second\<rparr> else c);
          c = (if el_RenewDeadline c = 0 then c\<lparr>el_RenewDeadline := 10 * time_Second\<rparr> else c);
          c = (if el_RetryPeriod c = 0 then c\<lparr>el_RetryPeriod := 5 * time_Second\<rparr> else c)
      in c)"

definition getPodName :: "string option \<Rightarrow> string" where
  "getPodName hostname = (case hostname of Some h \<Rightarrow> h | None \<Rightarrow> ''unknown'')"

record lease_config =
  lc_LeaseName :: string
  lc_Namespace :: string
  lc_Identity :: string
  lc_LeaseDuration :: duration
  lc_RenewDeadline :: duration
  lc_RetryPeriod :: duration
  lc_Name :: string

definition el_identity :: "string option \<Rightarrow> ElectionConfig \<Rightarrow> string" where
  "el_identity hostname cfg = (case el_GetIdentity cfg of Some i \<Rightarrow> i | None \<Rightarrow> getPodName hostname)"

definition newLeaseLock :: "string option \<Rightarrow> ElectionConfig \<Rightarrow> string \<times> string \<times> string" where
  "newLeaseLock hostname cfg = (el_LeaseName cfg, el_Namespace cfg, el_identity hostname cfg)"

definition lease_of :: "string option \<Rightarrow> ElectionConfig \<Rightarrow> lease_config" where
  "lease_of hostname cfg =
     (let (name, ns, identity) = newLeaseLock hostname cfg
      in \<lparr>lc_LeaseName = name, lc_Namespace = ns, lc_Identity = identity, lc_LeaseDuration = el_LeaseDuration cfg,
          lc_RenewDeadline = el_RenewDeadline cfg, lc_RetryPeriod = el_RetryPeriod cfg, lc_Name = el_ElectionID cfg\<rparr>)"

datatype callback = OnStartedLeading | OnStoppedLeading | OnNewLeader string

datatype action = RunOrDie lease_config | RunFn | LeadingChange bool

fun on_callback :: "ElectionConfig \<Rightarrow> callback \<Rightarrow> action list" where
  "on_callback cfg OnStartedLeading = (if el_OnLeadingChange cfg then [LeadingChange True] else []) @ [RunFn]"
| "on_callback cfg OnStoppedLeading = (if el_OnLeadingChange cfg then [LeadingChange False] else [])"
| "on_callback cfg (OnNewLeader i) = []"

text \<open>
  The goroutines of the callbacks under a schedule: the number is that of the goroutine that
  takes its next step, if it has one left. A goroutine may be cut off, when the program ends.
\<close>

fun run_threads :: "'a list list \<Rightarrow> nat list \<Rightarrow> 'a list" where
  "run_threads ts [] = []"
| "run_threads ts (i # schedule) =
     (if i < length ts then
        (case ts ! i of
           [] \<Rightarrow> run_threads ts schedule
         | a # rest \<Rightarrow> a # run_threads (ts[i := rest]) schedule)
      else run_threads ts schedule)"

type_synonym elector = "lease_config \<Rightarrow> callback list \<times> nat list"

definition RunWithLeaderElection ::
    "elector \<Rightarrow> string option \<Rightarrow> ElectionConfig option \<Rightarrow> action list" where
  "RunWithLeaderElection run_or_die hostname config =
     (let cfg = (case config of None \<Rightarrow> zero_ElectionConfig\<lparr>el_Enable := True\<rparr> | Some c \<Rightarrow> c)
      in if \<not> el_Enable cfg then [RunFn]
         else
           (let cfg = ApplyDefaults (Some cfg); lease = lease_of hostname cfg
            in RunOrDie lease #
                 run_threads (map (on_callback cfg) (fst (run_or_die lease))) (snd (run_or_die lease))))"

text \<open>The other entry point: an elector with empty callbacks, and a runner around it.\<close>

definition NewLeaderElector :: "(lease_config \<Rightarrow> bool) \<Rightarrow> string option \<Rightarrow> ElectionConfig \<Rightarrow> lease_config option" where
  "NewLeaderElector valid hostname cfg =
     (let lease = lease_of hostname cfg in if valid lease then Some lease else None)"

text \<open>The elector behind its interface is the lease it runs for.\<close>

definition leaderElectorAdapter_Run :: "lease_config \<Rightarrow> action list" where
  "leaderElectorAdapter_Run le = [RunOrDie le]"

record 'c Runner =
  rn_Elector :: "lease_config option"
  rn_OnStartedLeading :: 'c
  rn_OnStoppedLeading :: 'c
  rn_OnNewLeader :: "string \<Rightarrow> 'c"
  rn_ElectionID :: string

definition NewRunner :: "lease_config option \<Rightarrow> 'c \<Rightarrow> 'c \<Rightarrow> (string \<Rightarrow> 'c) \<Rightarrow> string \<Rightarrow> 'c Runner" where
  "NewRunner elector onStartedLeading onStoppedLeading onNewLeader electionID =
     \<lparr>rn_Elector = elector, rn_OnStartedLeading = onStartedLeading, rn_OnStoppedLeading = onStoppedLeading,
      rn_OnNewLeader = onNewLeader, rn_ElectionID = electionID\<rparr>"

definition Runner_Run :: "'c Runner \<Rightarrow> action list" where
  "Runner_Run r = (case rn_Elector r of None \<Rightarrow> [] | Some elector \<Rightarrow> leaderElectorAdapter_Run elector)"

text \<open>The leadership that the actions leave behind, with \<open>SetLeading\<close> as the callback.\<close>

fun leading_after :: "action list \<Rightarrow> LeaderState \<Rightarrow> LeaderState" where
  "leading_after [] l = l"
| "leading_after (LeadingChange v # rest) l = leading_after rest (SetLeading v l)"
| "leading_after (_ # rest) l = leading_after rest l"

lemma leading_after_append: "leading_after (xs @ ys) l = leading_after ys (leading_after xs l)"
  by (induction xs l rule: leading_after.induct) auto

subsection \<open>Defaults\<close>

text \<open>The timing that client-go requires, or else \<open>RunOrDie\<close> panics (the jitter factor is 1.2).\<close>

definition timing_valid :: "ElectionConfig \<Rightarrow> bool" where
  "timing_valid c \<longleftrightarrow> sint (el_LeaseDuration c) > sint (el_RenewDeadline c) \<and>
     10 * sint (el_RenewDeadline c) > 12 * sint (el_RetryPeriod c)"

lemma seconds_values: "sint (15 * time_Second) = 15000000000" "sint (10 * time_Second) = 10000000000"
  "sint (5 * time_Second) = 5000000000"
  by (simp_all add: time_Second_def)

text \<open>Filling in one field, as one update.\<close>

lemma fill_in:
  "(if el_Namespace c = [] then c\<lparr>el_Namespace := x_el_Namespace\<rparr> else c) = c\<lparr>el_Namespace := (if el_Namespace c = [] then x_el_Namespace else el_Namespace c)\<rparr>"
  "(if el_ElectionID c = [] then c\<lparr>el_ElectionID := x_el_ElectionID\<rparr> else c) = c\<lparr>el_ElectionID := (if el_ElectionID c = [] then x_el_ElectionID else el_ElectionID c)\<rparr>"
  "(if el_LeaseName c = [] then c\<lparr>el_LeaseName := x_el_LeaseName\<rparr> else c) = c\<lparr>el_LeaseName := (if el_LeaseName c = [] then x_el_LeaseName else el_LeaseName c)\<rparr>"
  "(if el_LeaseDuration c = 0 then c\<lparr>el_LeaseDuration := x_el_LeaseDuration\<rparr> else c) = c\<lparr>el_LeaseDuration := (if el_LeaseDuration c = 0 then x_el_LeaseDuration else el_LeaseDuration c)\<rparr>"
  "(if el_RenewDeadline c = 0 then c\<lparr>el_RenewDeadline := x_el_RenewDeadline\<rparr> else c) = c\<lparr>el_RenewDeadline := (if el_RenewDeadline c = 0 then x_el_RenewDeadline else el_RenewDeadline c)\<rparr>"
  "(if el_RetryPeriod c = 0 then c\<lparr>el_RetryPeriod := x_el_RetryPeriod\<rparr> else c) = c\<lparr>el_RetryPeriod := (if el_RetryPeriod c = 0 then x_el_RetryPeriod else el_RetryPeriod c)\<rparr>"
  by simp_all

lemma ApplyDefaults_eq:
  "ApplyDefaults (Some c) = c\<lparr>el_Namespace := (if el_Namespace c = [] then ''default'' else el_Namespace c),
     el_ElectionID := (if el_ElectionID c = [] then DefaultElectionID else el_ElectionID c),
     el_LeaseName := (if el_LeaseName c = [] then (if el_ElectionID c = [] then DefaultElectionID else el_ElectionID c)
       else el_LeaseName c),
     el_LeaseDuration := (if el_LeaseDuration c = 0 then 15 * time_Second else el_LeaseDuration c),
     el_RenewDeadline := (if el_RenewDeadline c = 0 then 10 * time_Second else el_RenewDeadline c),
     el_RetryPeriod := (if el_RetryPeriod c = 0 then 5 * time_Second else el_RetryPeriod c)\<rparr>"
  unfolding ApplyDefaults_def Let_def option.case fill_in by (simp cong: if_cong split del: if_split)

lemma ApplyDefaults_fields:
  "el_Namespace (ApplyDefaults (Some c)) = (if el_Namespace c = [] then ''default'' else el_Namespace c)"
  "el_ElectionID (ApplyDefaults (Some c)) = (if el_ElectionID c = [] then DefaultElectionID else el_ElectionID c)"
  "el_LeaseName (ApplyDefaults (Some c)) =
     (if el_LeaseName c = [] then el_ElectionID (ApplyDefaults (Some c)) else el_LeaseName c)"
  "el_LeaseDuration (ApplyDefaults (Some c)) = (if el_LeaseDuration c = 0 then 15 * time_Second else el_LeaseDuration c)"
  "el_RenewDeadline (ApplyDefaults (Some c)) = (if el_RenewDeadline c = 0 then 10 * time_Second else el_RenewDeadline c)"
  "el_RetryPeriod (ApplyDefaults (Some c)) = (if el_RetryPeriod c = 0 then 5 * time_Second else el_RetryPeriod c)"
  "el_Enable (ApplyDefaults (Some c)) = el_Enable c" "el_OnLeadingChange (ApplyDefaults (Some c)) = el_OnLeadingChange c"
  "el_GetIdentity (ApplyDefaults (Some c)) = el_GetIdentity c"
  by (simp_all add: ApplyDefaults_eq)

text \<open>
  The defaults of the election are sound: a configuration that leaves the times open gets
  times that the elector accepts, filling in twice changes nothing, no field that is set is
  touched, and the lease gets the name of the election. A configuration that sets only the
  renewal deadline, above the default lease, is filled in to one that the elector refuses.
\<close>

theorem election_defaults_sound:
  "(el_LeaseDuration c = 0 \<and> el_RenewDeadline c = 0 \<and> el_RetryPeriod c = 0 \<longrightarrow> timing_valid (ApplyDefaults (Some c))) \<and>
   ApplyDefaults (Some (ApplyDefaults (Some c))) = ApplyDefaults (Some c) \<and>
   (el_LeaseName c = [] \<longrightarrow> el_LeaseName (ApplyDefaults (Some c)) = el_ElectionID (ApplyDefaults (Some c))) \<and>
   (el_Namespace c \<noteq> [] \<and> el_ElectionID c \<noteq> [] \<and> el_LeaseName c \<noteq> [] \<and> el_LeaseDuration c \<noteq> 0 \<and>
      el_RenewDeadline c \<noteq> 0 \<and> el_RetryPeriod c \<noteq> 0 \<longrightarrow> ApplyDefaults (Some c) = c) \<and>
   (el_LeaseDuration c = 0 \<and> sint (el_RenewDeadline c) \<ge> 15000000000 \<longrightarrow> \<not> timing_valid (ApplyDefaults (Some c)))"
proof -
  have "15 * time_Second \<noteq> 0" "10 * time_Second \<noteq> 0" "5 * time_Second \<noteq> 0"
    by (simp_all add: time_Second_def)
  then have "ApplyDefaults (Some (ApplyDefaults (Some c))) = ApplyDefaults (Some c)"
    unfolding ApplyDefaults_eq by (simp add: DefaultElectionID_def)
  moreover have "el_RenewDeadline c \<noteq> 0" if "sint (el_RenewDeadline c) \<ge> 15000000000"
    using that by auto
  moreover have "el_Namespace c \<noteq> [] \<Longrightarrow> el_ElectionID c \<noteq> [] \<Longrightarrow> el_LeaseName c \<noteq> [] \<Longrightarrow> el_LeaseDuration c \<noteq> 0 \<Longrightarrow>
      el_RenewDeadline c \<noteq> 0 \<Longrightarrow> el_RetryPeriod c \<noteq> 0 \<Longrightarrow> ApplyDefaults (Some c) = c"
    unfolding ApplyDefaults_eq by simp
  ultimately show ?thesis
    by (auto simp: timing_valid_def ApplyDefaults_fields seconds_values)
qed

theorem election_defaults_sound_witness:
  "timing_valid (ApplyDefaults (Some zero_ElectionConfig)) \<and>
   \<not> timing_valid (ApplyDefaults (Some (zero_ElectionConfig\<lparr>el_RenewDeadline := 20 * time_Second\<rparr>)))"
proof -
  have "sint (20 * time_Second) = 20000000000"
    by (simp add: time_Second_def)
  then show ?thesis
    using election_defaults_sound [of zero_ElectionConfig]
      election_defaults_sound [of "zero_ElectionConfig\<lparr>el_RenewDeadline := 20 * time_Second\<rparr>"]
    by (simp add: zero_ElectionConfig_def)
qed

subsection \<open>Interleavings\<close>

text \<open>The steps of two goroutines come as an interleaving of what each of them got to do.\<close>

lemma run_threads_two:
  assumes "i < length ts" "j < length ts" "i \<noteq> j" "\<forall>k<length ts. k \<noteq> i \<and> k \<noteq> j \<longrightarrow> ts ! k = []"
  shows "\<exists>xs ys. prefix xs (ts ! i) \<and> prefix ys (ts ! j) \<and> run_threads ts schedule \<in> shuffles xs ys"
  using assms
proof (induction schedule arbitrary: ts)
  case Nil
  then show ?case by (intro exI [of _ "[]"]) simp
next
  case (Cons k schedule)
  show ?case
  proof (cases "k < length ts \<and> ts ! k \<noteq> []")
    case True
    then obtain a rest where t: "ts ! k = a # rest" "k = i \<or> k = j"
      using Cons.prems(4) by (cases "ts ! k") auto
    have "\<exists>xs ys. prefix xs (ts[k := rest] ! i) \<and> prefix ys (ts[k := rest] ! j) \<and>
        run_threads (ts[k := rest]) schedule \<in> shuffles xs ys"
      using Cons.prems t(2) by (intro Cons.IH) (auto simp: nth_list_update)
    then obtain xs ys where ih: "prefix xs (ts[k := rest] ! i)" "prefix ys (ts[k := rest] ! j)"
      "run_threads (ts[k := rest]) schedule \<in> shuffles xs ys" by blast
    have run: "run_threads ts (k # schedule) = a # run_threads (ts[k := rest]) schedule"
      using True t(1) by simp
    from t(2) show ?thesis
    proof
      assume k: "k = i"
      with ih t(1) Cons.prems(1,3) show ?thesis
        unfolding run by (intro exI [of _ "a # xs"] exI [of _ ys]) (simp add: Cons_in_shuffles_leftI)
    next
      assume k: "k = j"
      with ih t(1) Cons.prems(2,3) show ?thesis
        unfolding run by (intro exI [of _ xs] exI [of _ "a # ys"]) (simp add: Cons_in_shuffles_rightI)
    qed
  next
    case False
    then have "run_threads ts (k # schedule) = run_threads ts schedule"
      by (auto split: list.splits)
    with Cons show ?thesis by metis
  qed
qed

text \<open>The run function starts only after some change to leading.\<close>

fun armed :: "bool \<Rightarrow> action list \<Rightarrow> bool" where
  "armed b [] = True"
| "armed b (RunFn # rest) = (b \<and> armed b rest)"
| "armed b (LeadingChange v # rest) = armed (b \<or> v) rest"
| "armed b (RunOrDie lease # rest) = armed b rest"

lemma armed_True [simp]: "armed True acts"
  by (induction True acts rule: armed.induct) auto

lemma armed_threads: "\<forall>t\<in>set ts. armed b t \<Longrightarrow> armed b (run_threads ts schedule)"
proof (induction ts schedule arbitrary: b rule: run_threads.induct)
  case (2 ts i schedule)
  show ?case
  proof (cases "i < length ts \<and> ts ! i \<noteq> []")
    case True
    then obtain a rest where t: "ts ! i = a # rest"
      by (cases "ts ! i") auto
    with True 2(4) have head: "armed b (a # rest)"
      by (metis nth_mem)
    have others: "\<forall>t\<in>set (ts[i := rest]). armed b' t" if "b \<longrightarrow> b'" "armed b' rest" for b'
      using 2(4) that by (cases b') (auto dest!: set_update_subset_insert [THEN subsetD])
    show ?thesis
      using True t head others 2(2) [OF _ t] by (cases a) auto
  next
    case False
    then show ?thesis
      using 2 by (auto split: list.splits)
  qed
qed simp

lemma armed_callback: "el_OnLeadingChange cfg \<Longrightarrow> armed b (on_callback cfg cb)"
  by (cases cb) simp_all

subsection \<open>Leadership\<close>

text \<open>When the callbacks run one after the other, every start of the run function directly follows
  a change to leading.\<close>

definition one_by_one :: "ElectionConfig \<Rightarrow> callback list \<times> nat list \<Rightarrow> bool" where
  "one_by_one cfg e \<longleftrightarrow>
     run_threads (map (on_callback cfg) (fst e)) (snd e) = concat (map (on_callback cfg) (fst e))"

fun led :: "bool \<Rightarrow> action list \<Rightarrow> bool" where
  "led b [] = True"
| "led b (RunFn # rest) = (b \<and> led False rest)"
| "led b (LeadingChange v # rest) = led v rest"
| "led b (RunOrDie lease # rest) = led False rest"

lemma led_callbacks:
  assumes "el_OnLeadingChange cfg"
  shows "led b (concat (map (on_callback cfg) xs))"
proof (induction xs arbitrary: b)
  case (Cons cb xs)
  with assms show ?case by (cases cb) simp_all
qed simp

text \<open>
  What the documentation of client-go says of one term of a leader: the elector calls
  \<open>OnStartedLeading\<close> and \<open>OnStoppedLeading\<close> once each, besides reports of new leaders.
\<close>

fun reports_leader :: "callback \<Rightarrow> bool" where
  "reports_leader (OnNewLeader i) = True"
| "reports_leader _ = False"

definition one_term :: "callback list \<Rightarrow> bool" where
  "one_term cbs \<longleftrightarrow> filter (\<lambda>cb. \<not> reports_leader cb) cbs = [OnStartedLeading, OnStoppedLeading]"

lemma one_term_threads:
  assumes "one_term cbs" and "el_OnLeadingChange cfg"
  shows "\<exists>xs ys. prefix xs [LeadingChange True, RunFn] \<and> prefix ys [LeadingChange False] \<and>
    run_threads (map (on_callback cfg) cbs) schedule \<in> shuffles xs ys"
proof -
  have "filter (\<lambda>cb. \<not> reports_leader cb) cbs = [OnStartedLeading, OnStoppedLeading]"
    using assms(1) by (simp add: one_term_def)
  from filter_eq_ConsD [OF this] obtain us rest where us: "cbs = us @ OnStartedLeading # rest"
    "\<forall>cb\<in>set us. reports_leader cb" "filter (\<lambda>cb. \<not> reports_leader cb) rest = [OnStoppedLeading]"
    by auto
  from filter_eq_ConsD [OF us(3)] obtain vs ws where vs: "rest = vs @ OnStoppedLeading # ws"
    "\<forall>cb\<in>set vs. reports_leader cb" "filter (\<lambda>cb. \<not> reports_leader cb) ws = []"
    by auto
  have cbs: "cbs = us @ OnStartedLeading # vs @ OnStoppedLeading # ws"
    and quiet: "\<forall>cb\<in>set us \<union> set vs \<union> set ws. reports_leader cb"
    using us vs by (auto simp: filter_empty_conv)
  have none: "on_callback cfg cb = []" if "reports_leader cb" for cb
    using that by (cases cb) simp_all
  define ts where "ts = map (on_callback cfg) cbs"
  define i where "i = length us"
  define j where "j = length us + Suc (length vs)"
  have at: "ts ! i = [LeadingChange True, RunFn]" "ts ! j = [LeadingChange False]" "i < length ts" "j < length ts" "i \<noteq> j"
    using assms(2) by (simp_all add: ts_def cbs i_def j_def nth_append)
  have "ts ! k = []" if "k < length ts" "k \<noteq> i" "k \<noteq> j" for k
  proof -
    have "cbs ! k \<in> set us \<union> set vs \<union> set ws"
      using that by (auto simp: ts_def cbs i_def j_def nth_append nth_Cons' split: if_splits)
    with quiet none that(1) show ?thesis by (simp add: ts_def)
  qed
  with run_threads_two [OF at(3-5)] show ?thesis
    unfolding ts_def [symmetric] at by blast
qed

text \<open>
  C34. The leadership after one term, under every schedule of the callbacks. The elector runs
  the start (set the leadership, then the run function) in a goroutine, and the stop when it
  ends; when it has returned, the actions were one of six sequences. The replica ends as standby
  unless the goroutine sets the leadership after the stop: in that race a replica that has lost
  the lease counts as the leader for good. And the run function may start on a standby, when
  the stop comes between the two steps of the goroutine. Callbacks that run one after the other
  leave a standby, and the run function was started.
\<close>

theorem leadership_after_a_term:
  assumes "el_Enable c" and "el_OnLeadingChange c"
    and "run_or_die (lease_of hostname (ApplyDefaults (Some c))) = (cbs, schedule)" and "one_term cbs"
    and "RunWithLeaderElection run_or_die hostname (Some c) = RunOrDie lease # acts"
    and "LeadingChange False \<in> set acts"
  shows "acts \<in> {[LeadingChange True, RunFn, LeadingChange False], [LeadingChange True, LeadingChange False, RunFn],
      [LeadingChange True, LeadingChange False], [LeadingChange False, LeadingChange True, RunFn],
      [LeadingChange False, LeadingChange True], [LeadingChange False]} \<and>
    (IsLeading (leading_after acts l) \<longleftrightarrow>
      acts \<in> {[LeadingChange False, LeadingChange True, RunFn], [LeadingChange False, LeadingChange True]}) \<and>
    (one_by_one (ApplyDefaults (Some c)) (cbs, schedule) \<longrightarrow> acts = [LeadingChange True, RunFn, LeadingChange False])"
proof -
  define cfg where "cfg = ApplyDefaults (Some c)"
  have on: "el_OnLeadingChange cfg"
    using assms(2) by (simp add: cfg_def ApplyDefaults_fields)
  have acts: "acts = run_threads (map (on_callback cfg) cbs) schedule"
    using assms(1,3,5) by (simp add: RunWithLeaderElection_def cfg_def Let_def)
  obtain xs ys where "prefix xs [LeadingChange True, RunFn]" "prefix ys [LeadingChange False]" "acts \<in> shuffles xs ys"
    using one_term_threads [OF assms(4) on] acts by blast
  moreover have "acts = [LeadingChange True, RunFn, LeadingChange False]" if "one_by_one cfg (cbs, schedule)"
  proof -
    have "concat (map (on_callback cfg) cbs) = concat (map (on_callback cfg) (filter (\<lambda>cb. \<not> reports_leader cb) cbs))"
      for cbs
    proof (induction cbs)
      case (Cons cb cbs)
      then show ?case by (cases cb) simp_all
    qed simp
    from this [of cbs] that assms(4) on show ?thesis
      by (simp add: one_by_one_def acts one_term_def)
  qed
  ultimately show ?thesis
    using assms(6) unfolding cfg_def by (auto simp: prefix_Cons IsLeading_def SetLeading_def)
qed

text \<open>The race: the goroutine of the start comes last.\<close>

theorem leadership_after_a_term_witness:
  "IsLeading (leading_after (tl (RunWithLeaderElection (\<lambda>_. ([OnNewLeader ''a'', OnStartedLeading, OnStoppedLeading], [2, 1, 1])) None
      (Some (zero_ElectionConfig\<lparr>el_Enable := True, el_OnLeadingChange := True\<rparr>)))) (NewLeaderState 0 0)) \<and>
   \<not> IsLeading (leading_after (tl (RunWithLeaderElection (\<lambda>_. ([OnNewLeader ''a'', OnStartedLeading, OnStoppedLeading], [1, 1, 2])) None
      (Some (zero_ElectionConfig\<lparr>el_Enable := True, el_OnLeadingChange := True\<rparr>)))) (NewLeaderState 0 0))"
proof -
  define c where "c = zero_ElectionConfig\<lparr>el_Enable := True, el_OnLeadingChange := True\<rparr>"
  define cbs where "cbs = [OnNewLeader ''a'', OnStartedLeading, OnStoppedLeading]"
  have c: "el_Enable c" "el_OnLeadingChange c" "one_term cbs"
    by (simp_all add: c_def cbs_def one_term_def)
  have race: "RunWithLeaderElection (\<lambda>_. (cbs, [2, 1, 1])) None (Some c) =
      RunOrDie (lease_of None (ApplyDefaults (Some c))) # [LeadingChange False, LeadingChange True, RunFn]"
    "RunWithLeaderElection (\<lambda>_. (cbs, [1, 1, 2])) None (Some c) =
      RunOrDie (lease_of None (ApplyDefaults (Some c))) # [LeadingChange True, RunFn, LeadingChange False]"
    using c(1,2) by (simp_all add: RunWithLeaderElection_def cbs_def Let_def ApplyDefaults_fields)
  show ?thesis
    using leadership_after_a_term [OF c(1,2) refl c(3) race(1), of "NewLeaderState 0 0"]
      leadership_after_a_term [OF c(1,2) refl c(3) race(2), of "NewLeaderState 0 0"]
    unfolding c_def [symmetric] cbs_def [symmetric] race by simp
qed

text \<open>
  Without leader election the active replica counts as a standby: the run function starts,
  the leadership is never set, and so the readiness probe answers 200 however many informers
  have not synced, and the leadership probe says standby.
\<close>

theorem disabled_election_is_standby:
  assumes "\<not> el_Enable c"
  shows "let acts = RunWithLeaderElection run_or_die hostname (Some c); l = leading_after acts (NewLeaderState grace t)
    in acts = [RunFn] \<and> health_routes ''/readyz'' (SetLeaderState (Some l) w) = Some (200, EmptyBody) \<and>
      health_routes ''/leaderz'' (SetLeaderState (Some l) w) = Some (200, TextBody ''standby'')"
  using assms by (simp add: RunWithLeaderElection_def Let_def health_routes_def health_handler_def controller_Readiness_def
      is_standby_def SetLeaderState_def NewLeaderState_def IsLeading_def LeaderzCheck_def)

theorem disabled_election_is_standby_witness:
  "RunWithLeaderElection (\<lambda>_. ([], [])) None (Some zero_ElectionConfig) = [RunFn]"
  using disabled_election_is_standby [of zero_ElectionConfig "\<lambda>_. ([], [])" None]
  by (simp add: zero_ElectionConfig_def Let_def)

end
