(* ===== verification/Validation.thy ===== *)
theory Validation
  imports Api_Types GVR "HOL-Library.Multiset"
begin

text \<open>
  pkg/validation/validator.go: the admission checks on a policy. The syntax checks of the
  Kubernetes API machinery (DNS names, label keys, label values) are parameters, collected in
  a record of predicates that answer whether the text is accepted. An error is its sentinel
  together with the contexts that the callers wrapped around it, outermost first.
\<close>

record k8s_syntax =
  IsDNS1123Subdomain :: "string \<Rightarrow> bool"
  IsDNS1123Label :: "string \<Rightarrow> bool"
  IsQualifiedName :: "string \<Rightarrow> bool"
  IsValidLabelValue :: "string \<Rightarrow> bool"

datatype validation_sentinel =
    ErrAPIVersionRequired
  | ErrKindRequired
  | ErrNoTTLOptionSpecified
  | ErrInvalidTTLMapping string
  | ErrMaxDeletionsPerSecondNegative
  | ErrBatchSizeNegative
  | ErrInvalidPropagationPolicy string
  | ErrGracePeriodSecondsNegative
  | ErrInvalidNamespace
  | ErrInvalidAPIVersion
  | ErrInvalidKind
  | ErrInvalidLabelKey string
  | ErrInvalidLabelValue string
  | ErrInvalidLabelExpressionKey nat
  | ErrLabelExpressionOperatorRequired nat
  | ErrInvalidLabelExpressionOperator nat
  | ErrLabelExpressionValuesRequired nat
  | ErrInvalidLabelExpressionValue nat nat

type_synonym validation_error = "string list \<times> validation_sentinel"

definition fail :: "validation_sentinel \<Rightarrow> validation_error + 'a" where
  "fail e = Inl ([], e)"

text \<open>\<open>fmt.Errorf("context: %w", err)\<close> on the error of a result.\<close>

definition wrap :: "string \<Rightarrow> validation_error + 'a \<Rightarrow> validation_error + 'a" where
  "wrap ctx = map_err (\<lambda>(cs, e). (ctx # cs, e))"

lemma is_ok_wrap [simp]: "is_ok (wrap ctx r) = is_ok r"
  by (simp add: wrap_def)

lemma is_ok_fail [simp]: "\<not> is_ok (fail e)"
  by (simp add: fail_def)

subsection \<open>The target resource\<close>

definition isValidVersion :: "string \<Rightarrow> bool" where
  "isValidVersion version =
     (if version = [] then False
      else if version ! 0 = CHR ''v'' \<and> length version > 1 then True
      else list_all is_digit version)"

definition validateNamespace :: "k8s_syntax \<Rightarrow> string \<Rightarrow> validation_error + unit" where
  "validateNamespace k8s namespace =
     (if namespace = [] then Inr ()
      else if namespace = ''*'' then Inr ()
      else if namespace \<noteq> [] \<and> is_digit (namespace ! 0) then fail ErrInvalidNamespace
      else if \<not> IsDNS1123Label k8s namespace then fail ErrInvalidNamespace
      else Inr ())"

definition validateMatchLabels ::
    "k8s_syntax \<Rightarrow> (string, string) gomap \<Rightarrow> validation_error + unit" where
  "validateMatchLabels k8s matchLabels = check_all (\<lambda>(key, val).
     if \<not> IsQualifiedName k8s key then fail (ErrInvalidLabelKey key)
     else if \<not> IsValidLabelValue k8s val then fail (ErrInvalidLabelValue val)
     else Inr ()) matchLabels"

fun validateValues ::
    "k8s_syntax \<Rightarrow> nat \<Rightarrow> nat \<Rightarrow> string list \<Rightarrow> validation_error + unit" where
  "validateValues k8s index j [] = Inr ()"
| "validateValues k8s index j (val # rest) =
     (if \<not> IsValidLabelValue k8s val then fail (ErrInvalidLabelExpressionValue index j)
      else validateValues k8s index (Suc j) rest)"

definition validateLabelExpression ::
    "k8s_syntax \<Rightarrow> LabelSelectorRequirement \<Rightarrow> nat \<Rightarrow> validation_error + unit" where
  "validateLabelExpression k8s expr index =
     (if \<not> IsQualifiedName k8s (req_Key expr) then fail (ErrInvalidLabelExpressionKey index)
      else if req_Operator expr = [] then fail (ErrLabelExpressionOperatorRequired index)
      else if req_Operator expr \<notin> {''In'', ''NotIn'', ''Exists'', ''DoesNotExist''}
      then fail (ErrInvalidLabelExpressionOperator index)
      else if (req_Operator expr = ''In'' \<or> req_Operator expr = ''NotIn'') \<and> req_Values expr = []
      then fail (ErrLabelExpressionValuesRequired index)
      else validateValues k8s index 0 (req_Values expr))"

fun validateMatchExpressions ::
    "k8s_syntax \<Rightarrow> nat \<Rightarrow> LabelSelectorRequirement list \<Rightarrow> validation_error + unit" where
  "validateMatchExpressions k8s i [] = Inr ()"
| "validateMatchExpressions k8s i (expr # rest) =
     andThen (validateLabelExpression k8s expr i) (\<lambda>_. validateMatchExpressions k8s (Suc i) rest)"

definition validateLabelSelector ::
    "k8s_syntax \<Rightarrow> LabelSelector option \<Rightarrow> validation_error + unit" where
  "validateLabelSelector k8s sel = (case sel of
     None \<Rightarrow> Inr ()
   | Some s \<Rightarrow> andThen (validateMatchLabels k8s (ls_MatchLabels s))
                 (\<lambda>_. validateMatchExpressions k8s 0 (ls_MatchExpressions s)))"

definition validateTargetResource ::
    "k8s_syntax \<Rightarrow> TargetResourceSpec \<Rightarrow> validation_error + unit" where
  "validateTargetResource k8s target =
     (if tr_APIVersion target = [] then fail ErrAPIVersionRequired
      else if trim_space (tr_APIVersion target) \<noteq> tr_APIVersion target
      then fail ErrInvalidAPIVersion
      else if \<not> contains (tr_APIVersion target) ''/'' \<and> \<not> isValidVersion (tr_APIVersion target) \<and>
              \<not> IsDNS1123Subdomain k8s (tr_APIVersion target)
      then fail ErrInvalidAPIVersion
      else if tr_Kind target = [] then fail ErrKindRequired
      else if trim_space (tr_Kind target) \<noteq> tr_Kind target then fail ErrInvalidKind
      else if tr_Kind target = [] then fail ErrKindRequired
      else andThen (wrap ''invalid namespace'' (validateNamespace k8s (tr_Namespace target)))
        (\<lambda>_. if tr_LabelSelector target \<noteq> None
             then wrap ''invalid labelSelector'' (validateLabelSelector k8s (tr_LabelSelector target))
             else Inr ()))"

subsection \<open>TTL and behavior\<close>

definition validateTTL :: "TTLSpec \<Rightarrow> validation_error + unit" where
  "validateTTL ttl =
     (let hasTTL = (case ttl_SecondsAfterCreation ttl of None \<Rightarrow> False | Some s \<Rightarrow> i64_pos s);
          hasTTL = (if ttl_FieldPath ttl \<noteq> [] then True else hasTTL);
          hasTTL = (if ttl_RelativeTo ttl \<noteq> [] \<and>
                       (case ttl_SecondsAfter ttl of None \<Rightarrow> False | Some s \<Rightarrow> i64_pos s)
                    then True else hasTTL)
      in if \<not> hasTTL then fail ErrNoTTLOptionSpecified
         else if ttl_FieldPath ttl \<noteq> [] \<and> ttl_Mappings ttl \<noteq> [] then
           check_all (\<lambda>(key, val). if \<not> i64_pos val then fail (ErrInvalidTTLMapping key) else Inr ())
             (ttl_Mappings ttl)
         else Inr ())"

definition validateBehavior :: "BehaviorSpec \<Rightarrow> validation_error + unit" where
  "validateBehavior behavior =
     (if bh_MaxDeletionsPerSecond behavior < 0 then fail ErrMaxDeletionsPerSecondNegative
      else if bh_BatchSize behavior < 0 then fail ErrBatchSizeNegative
      else if bh_PropagationPolicy behavior \<noteq> [] \<and>
              bh_PropagationPolicy behavior \<notin> {''Foreground'', ''Background'', ''Orphan''}
      then fail (ErrInvalidPropagationPolicy (bh_PropagationPolicy behavior))
      else if (case bh_GracePeriodSeconds behavior of None \<Rightarrow> False | Some s \<Rightarrow> i64_neg s)
      then fail ErrGracePeriodSecondsNegative
      else Inr ())"

definition ValidatePolicy ::
    "k8s_syntax \<Rightarrow> GarbageCollectionPolicy \<Rightarrow> validation_error + unit" where
  "ValidatePolicy k8s policy =
     andThen (wrap ''invalid targetResource''
         (validateTargetResource k8s (gs_TargetResource (gp_Spec policy)))) (\<lambda>_.
     andThen (wrap ''invalid ttl'' (validateTTL (gs_TTL (gp_Spec policy)))) (\<lambda>_.
     wrap ''invalid behavior'' (validateBehavior (gs_Behavior (gp_Spec policy)))))"

subsection \<open>What is accepted\<close>

definition api_version_ok :: "k8s_syntax \<Rightarrow> string \<Rightarrow> bool" where
  "api_version_ok k8s v \<longleftrightarrow> v \<noteq> [] \<and> trim_space v = v \<and>
     (CHR ''/'' \<in> set v \<or> isValidVersion v \<or> IsDNS1123Subdomain k8s v)"

definition namespace_ok :: "k8s_syntax \<Rightarrow> string \<Rightarrow> bool" where
  "namespace_ok k8s ns \<longleftrightarrow> ns = [] \<or> ns = ''*'' \<or> (\<not> is_digit (ns ! 0) \<and> IsDNS1123Label k8s ns)"

definition requirement_ok :: "k8s_syntax \<Rightarrow> LabelSelectorRequirement \<Rightarrow> bool" where
  "requirement_ok k8s e \<longleftrightarrow> IsQualifiedName k8s (req_Key e) \<and>
     req_Operator e \<in> {''In'', ''NotIn'', ''Exists'', ''DoesNotExist''} \<and>
     (req_Operator e \<in> {''In'', ''NotIn''} \<longrightarrow> req_Values e \<noteq> []) \<and>
     list_all (IsValidLabelValue k8s) (req_Values e)"

definition selector_ok :: "k8s_syntax \<Rightarrow> LabelSelector option \<Rightarrow> bool" where
  "selector_ok k8s sel = (case sel of None \<Rightarrow> True | Some s \<Rightarrow>
     list_all (\<lambda>(k, v). IsQualifiedName k8s k \<and> IsValidLabelValue k8s v) (ls_MatchLabels s) \<and>
     list_all (requirement_ok k8s) (ls_MatchExpressions s))"

definition target_ok :: "k8s_syntax \<Rightarrow> TargetResourceSpec \<Rightarrow> bool" where
  "target_ok k8s t \<longleftrightarrow> api_version_ok k8s (tr_APIVersion t) \<and>
     tr_Kind t \<noteq> [] \<and> trim_space (tr_Kind t) = tr_Kind t \<and>
     namespace_ok k8s (tr_Namespace t) \<and> selector_ok k8s (tr_LabelSelector t)"

definition ttl_ok :: "TTLSpec \<Rightarrow> bool" where
  "ttl_ok t \<longleftrightarrow>
     ((\<exists>s. ttl_SecondsAfterCreation t = Some s \<and> i64_pos s) \<or> ttl_FieldPath t \<noteq> [] \<or>
      ttl_RelativeTo t \<noteq> [] \<and> (\<exists>s. ttl_SecondsAfter t = Some s \<and> i64_pos s)) \<and>
     (ttl_FieldPath t \<noteq> [] \<longrightarrow> list_all (\<lambda>(k, v). i64_pos v) (ttl_Mappings t))"

definition behavior_ok :: "BehaviorSpec \<Rightarrow> bool" where
  "behavior_ok b \<longleftrightarrow> 0 \<le> bh_MaxDeletionsPerSecond b \<and> 0 \<le> bh_BatchSize b \<and>
     bh_PropagationPolicy b \<in> {[], ''Foreground'', ''Background'', ''Orphan''} \<and>
     (\<forall>s. bh_GracePeriodSeconds b = Some s \<longrightarrow> 0 \<le> sint s)"

lemma validateNamespace_ok: "is_ok (validateNamespace k8s ns) = namespace_ok k8s ns"
  by (simp add: validateNamespace_def namespace_ok_def)

lemma validateValues_ok:
  "is_ok (validateValues k8s i j vs) = list_all (IsValidLabelValue k8s) vs"
  by (induction k8s i j vs rule: validateValues.induct) auto

lemma validateLabelExpression_ok:
  "is_ok (validateLabelExpression k8s e i) = requirement_ok k8s e"
  by (auto simp: validateLabelExpression_def requirement_ok_def validateValues_ok)

lemma validateMatchExpressions_ok:
  "is_ok (validateMatchExpressions k8s i es) = list_all (requirement_ok k8s) es"
  by (induction k8s i es rule: validateMatchExpressions.induct)
    (simp_all flip: is_ok_unit add: validateLabelExpression_ok)

lemma validateMatchLabels_ok:
  "is_ok (validateMatchLabels k8s m) =
     list_all (\<lambda>(k, v). IsQualifiedName k8s k \<and> IsValidLabelValue k8s v) m"
  by (auto simp: validateMatchLabels_def list_all_iff split: prod.splits if_splits)

lemma validateLabelSelector_ok: "is_ok (validateLabelSelector k8s sel) = selector_ok k8s sel"
  by (cases sel) (simp_all add: validateLabelSelector_def selector_ok_def
      validateMatchExpressions_ok flip: is_ok_unit validateMatchLabels_ok)

lemma validateTargetResource_ok: "is_ok (validateTargetResource k8s t) = target_ok k8s t"
  by (simp add: validateTargetResource_def target_ok_def api_version_ok_def contains_char
      validateLabelSelector_ok validateNamespace_ok selector_ok_def flip: is_ok_unit)

lemma validateTTL_ok: "is_ok (validateTTL t) = ttl_ok t"
  by (auto simp: validateTTL_def ttl_ok_def list_all_iff Let_def split: option.splits if_splits)

lemma validateBehavior_ok: "is_ok (validateBehavior b) = behavior_ok b"
  by (auto simp: validateBehavior_def behavior_ok_def i64_neg_def split: option.splits)

text \<open>A syntax oracle that accepts everything, and a policy on ConfigMaps, for examples.\<close>

definition lenient_syntax :: k8s_syntax where
  "lenient_syntax = \<lparr>IsDNS1123Subdomain = (\<lambda>_. True), IsDNS1123Label = (\<lambda>_. True),
     IsQualifiedName = (\<lambda>_. True), IsValidLabelValue = (\<lambda>_. True)\<rparr>"

definition configmap_policy :: "string \<Rightarrow> TTLSpec \<Rightarrow> GarbageCollectionPolicy" where
  "configmap_policy apiVersion ttl = zero_Policy\<lparr>gp_Spec := zero_Spec
     \<lparr>gs_TargetResource := zero_TargetResourceSpec\<lparr>tr_APIVersion := apiVersion, tr_Kind := ''ConfigMap''\<rparr>,
      gs_TTL := ttl\<rparr>\<rparr>"

lemma trim_space_examples [simp]:
  "trim_space ''ConfigMap'' = ''ConfigMap''" "trim_space ''apps'' = ''apps''"
  "trim_space ''v1'' = ''v1''" "trim_space ''a/b/c'' = ''a/b/c''"
  by code_simp+

lemma ValidatePolicy_ok:
  "is_ok (ValidatePolicy k8s p) \<longleftrightarrow>
     target_ok k8s (gs_TargetResource (gp_Spec p)) \<and> ttl_ok (gs_TTL (gp_Spec p)) \<and>
     behavior_ok (gs_Behavior (gp_Spec p))"
proof -
  have "is_ok (ValidatePolicy k8s p) \<longleftrightarrow>
      is_ok (validateTargetResource k8s (gs_TargetResource (gp_Spec p))) \<and>
      is_ok (validateTTL (gs_TTL (gp_Spec p))) \<and>
      is_ok (validateBehavior (gs_Behavior (gp_Spec p)))"
    by (simp add: ValidatePolicy_def flip: is_ok_unit)
  then show ?thesis
    by (simp add: validateTargetResource_ok validateTTL_ok validateBehavior_ok)
qed

text \<open>
  C25. The validator accepts a policy exactly when the target, the TTL and the behavior pass
  the conditions above, whatever syntax checks it is given. Acceptance does not depend on the
  order in which Go visits the maps of labels and of TTL mappings. Two of the conditions differ
  from the API reference: a batch size and a rate of 0 pass, since 0 stands for a member that is
  not set, and a namespace that starts with a digit is refused, although it may be a DNS label.
\<close>

theorem ValidatePolicy_accepts:
  "(is_ok (ValidatePolicy k8s p) \<longleftrightarrow>
     target_ok k8s (gs_TargetResource (gp_Spec p)) \<and> ttl_ok (gs_TTL (gp_Spec p)) \<and>
     behavior_ok (gs_Behavior (gp_Spec p))) \<and>
   (set ms' = set (ttl_Mappings t) \<longrightarrow>
     is_ok (validateTTL (t\<lparr>ttl_Mappings := ms'\<rparr>)) = is_ok (validateTTL t)) \<and>
   (set ls' = set ls \<longrightarrow>
     is_ok (validateMatchLabels k8s ls') = is_ok (validateMatchLabels k8s ls))"
  by (auto simp: ValidatePolicy_ok validateTTL_ok validateMatchLabels_ok ttl_ok_def list_all_iff)

theorem ValidatePolicy_accepts_witness:
  "is_ok (validateMatchLabels lenient_syntax [(''b'', ''2''), (''a'', ''1'')]) =
    is_ok (validateMatchLabels lenient_syntax [(''a'', ''1''), (''b'', ''2'')])"
  using ValidatePolicy_accepts [of lenient_syntax zero_Policy "[]" zero_TTLSpec
      "[(''b'', ''2''), (''a'', ''1'')]" "[(''a'', ''1''), (''b'', ''2'')]"]
  by auto

subsection \<open>Which error is reported\<close>

text \<open>
  All the checks on a policy as one list, in the order in which they are made: whether the check
  fails, and the error it then gives, with its contexts. Labels, expressions with their values
  and mappings bring their checks one after the other.
\<close>

definition label_checks :: "k8s_syntax \<Rightarrow> string \<times> string \<Rightarrow> (bool \<times> validation_sentinel) list" where
  "label_checks k8s = (\<lambda>(k, v). [(\<not> IsQualifiedName k8s k, ErrInvalidLabelKey k),
     (\<not> IsValidLabelValue k8s v, ErrInvalidLabelValue v)])"

definition expression_checks :: "k8s_syntax \<Rightarrow> nat \<times> LabelSelectorRequirement \<Rightarrow> (bool \<times> validation_sentinel) list" where
  "expression_checks k8s = (\<lambda>(i, e).
     [(\<not> IsQualifiedName k8s (req_Key e), ErrInvalidLabelExpressionKey i),
      (req_Operator e = [], ErrLabelExpressionOperatorRequired i),
      (req_Operator e \<notin> {''In'', ''NotIn'', ''Exists'', ''DoesNotExist''}, ErrInvalidLabelExpressionOperator i),
      (req_Operator e \<in> {''In'', ''NotIn''} \<and> req_Values e = [], ErrLabelExpressionValuesRequired i)] @
     map (\<lambda>(j, v). (\<not> IsValidLabelValue k8s v, ErrInvalidLabelExpressionValue i j)) (enumerate 0 (req_Values e)))"

definition selector_checks :: "k8s_syntax \<Rightarrow> LabelSelector option \<Rightarrow> (bool \<times> validation_sentinel) list" where
  "selector_checks k8s sel = (case sel of None \<Rightarrow> []
     | Some s \<Rightarrow> concat (map (label_checks k8s) (ls_MatchLabels s)) @
         concat (map (expression_checks k8s) (enumerate 0 (ls_MatchExpressions s))))"

definition target_checks :: "k8s_syntax \<Rightarrow> TargetResourceSpec \<Rightarrow> (bool \<times> validation_error) list" where
  "target_checks k8s t =
     [(tr_APIVersion t = [], [], ErrAPIVersionRequired),
      (trim_space (tr_APIVersion t) \<noteq> tr_APIVersion t, [], ErrInvalidAPIVersion),
      (CHR ''/'' \<notin> set (tr_APIVersion t) \<and> \<not> isValidVersion (tr_APIVersion t) \<and>
         \<not> IsDNS1123Subdomain k8s (tr_APIVersion t), [], ErrInvalidAPIVersion),
      (tr_Kind t = [], [], ErrKindRequired),
      (trim_space (tr_Kind t) \<noteq> tr_Kind t, [], ErrInvalidKind),
      (\<not> namespace_ok k8s (tr_Namespace t), [''invalid namespace''], ErrInvalidNamespace)] @
     map (\<lambda>(bad, e). (bad, [''invalid labelSelector''], e)) (selector_checks k8s (tr_LabelSelector t))"

definition ttl_checks :: "TTLSpec \<Rightarrow> (bool \<times> validation_error) list" where
  "ttl_checks t =
     (ttl_FieldPath t = [] \<and> \<not> (\<exists>s. ttl_SecondsAfterCreation t = Some s \<and> i64_pos s) \<and>
        \<not> (ttl_RelativeTo t \<noteq> [] \<and> (\<exists>s. ttl_SecondsAfter t = Some s \<and> i64_pos s)), [], ErrNoTTLOptionSpecified) #
     (if ttl_FieldPath t = [] then []
      else map (\<lambda>(k, v). (\<not> i64_pos v, [], ErrInvalidTTLMapping k)) (ttl_Mappings t))"

definition behavior_checks :: "BehaviorSpec \<Rightarrow> (bool \<times> validation_error) list" where
  "behavior_checks b =
     [(bh_MaxDeletionsPerSecond b < 0, [], ErrMaxDeletionsPerSecondNegative),
      (bh_BatchSize b < 0, [], ErrBatchSizeNegative),
      (bh_PropagationPolicy b \<notin> {[], ''Foreground'', ''Background'', ''Orphan''}, [],
         ErrInvalidPropagationPolicy (bh_PropagationPolicy b)),
      (\<exists>s. bh_GracePeriodSeconds b = Some s \<and> i64_neg s, [], ErrGracePeriodSecondsNegative)]"

definition in_context :: "string \<Rightarrow> (bool \<times> validation_error) list \<Rightarrow> (bool \<times> validation_error) list" where
  "in_context ctx = map (\<lambda>(bad, cs, e). (bad, ctx # cs, e))"

definition policy_checks :: "k8s_syntax \<Rightarrow> GarbageCollectionPolicy \<Rightarrow> (bool \<times> validation_error) list" where
  "policy_checks k8s p =
     in_context ''invalid targetResource'' (target_checks k8s (gs_TargetResource (gp_Spec p))) @
     in_context ''invalid ttl'' (ttl_checks (gs_TTL (gp_Spec p))) @
     in_context ''invalid behavior'' (behavior_checks (gs_Behavior (gp_Spec p)))"

text \<open>The result of a list of checks: the error of the first that fails.\<close>

fun run_checks :: "(bool \<times> 'e) list \<Rightarrow> 'e + unit" where
  "run_checks [] = Inr ()"
| "run_checks ((bad, e) # rest) = (if bad then Inl e else run_checks rest)"

lemma run_checks_append [simp]: "run_checks (xs @ ys) = andThen (run_checks xs) (\<lambda>_. run_checks ys)"
  by (induction xs rule: run_checks.induct) simp_all

lemma run_checks_map: "run_checks (map (\<lambda>(bad, e). (bad, f e)) xs) = map_err f (run_checks xs)"
  by (induction xs rule: run_checks.induct) simp_all

lemma run_checks_context: "run_checks (in_context ctx xs) = wrap ctx (run_checks xs)"
  by (induction xs rule: run_checks.induct) (auto simp: in_context_def wrap_def split: prod.splits)

lemma run_checks_concat: "run_checks (concat (map f xs)) = check_all (\<lambda>x. run_checks (f x)) xs"
  by (induction xs) simp_all

lemma run_checks_ok: "run_checks xs = Inr () \<longleftrightarrow> list_all (\<lambda>c. \<not> fst c) xs"
  by (induction xs rule: run_checks.induct) simp_all

lemma run_checks_first:
  "run_checks xs = Inl e \<longleftrightarrow> (\<exists>before after. xs = before @ (True, e) # after \<and> list_all (\<lambda>c. \<not> fst c) before)"
proof
  show "run_checks xs = Inl e \<Longrightarrow> \<exists>before after. xs = before @ (True, e) # after \<and> list_all (\<lambda>c. \<not> fst c) before"
  proof (induction xs rule: run_checks.induct)
    case (2 bad e' rest)
    show ?case
    proof (cases bad)
      case True
      with 2 show ?thesis by (intro exI [of _ "[]"] exI [of _ rest]) simp
    next
      case False
      with 2 obtain before after where "rest = before @ (True, e) # after" "list_all (\<lambda>c. \<not> fst c) before"
        by auto
      with False show ?thesis by (intro exI [of _ "(bad, e') # before"] exI [of _ after]) simp
    qed
  qed simp
qed (auto simp flip: run_checks_ok)

lemma map_err_check_all: "map_err f (check_all g xs) = check_all (\<lambda>x. map_err f (g x)) xs"
proof (induction xs)
  case (Cons x xs)
  then show ?case by (cases "g x") simp_all
qed simp

text \<open>The parts of the validator run their checks.\<close>

lemma validateMatchLabels_checks:
  "validateMatchLabels k8s m = map_err (Pair []) (run_checks (concat (map (label_checks k8s) m)))"
  by (auto simp: validateMatchLabels_def run_checks_concat map_err_check_all label_checks_def fail_def fun_eq_iff
      intro!: arg_cong [of _ _ "\<lambda>f. check_all f m"])

lemma validateValues_checks:
  "validateValues k8s i j vs = map_err (Pair [])
     (run_checks (map (\<lambda>(j, v). (\<not> IsValidLabelValue k8s v, ErrInvalidLabelExpressionValue i j)) (enumerate j vs)))"
  by (induction k8s i j vs rule: validateValues.induct) (simp_all add: fail_def)

lemma validateLabelExpression_checks:
  "validateLabelExpression k8s e i = map_err (Pair []) (run_checks (expression_checks k8s (i, e)))"
  by (simp add: validateLabelExpression_def expression_checks_def validateValues_checks fail_def)

lemma validateMatchExpressions_checks:
  "validateMatchExpressions k8s i es =
     map_err (Pair []) (run_checks (concat (map (expression_checks k8s) (enumerate i es))))"
proof (induction k8s i es rule: validateMatchExpressions.induct)
  case (2 k8s i e es)
  then show ?case
    by (cases "run_checks (expression_checks k8s (i, e))") (simp_all add: validateLabelExpression_checks)
qed simp

lemma validateLabelSelector_checks:
  "validateLabelSelector k8s sel = map_err (Pair []) (run_checks (selector_checks k8s sel))"
proof (cases sel)
  case (Some l)
  have "andThen (map_err (Pair []) r) (\<lambda>_. map_err (Pair []) r') = map_err (Pair []) (andThen r (\<lambda>_. r'))"
    for r r' :: "validation_sentinel + unit"
    by (cases r; cases r') simp_all
  with Some show ?thesis
    by (simp add: validateLabelSelector_def selector_checks_def validateMatchLabels_checks validateMatchExpressions_checks)
qed (simp add: validateLabelSelector_def selector_checks_def)

lemma validateTargetResource_checks: "validateTargetResource k8s t = run_checks (target_checks k8s t)"
proof -
  have sel: "run_checks (map (\<lambda>(bad, e). (bad, [c], e)) xs) = wrap c (map_err (Pair []) (run_checks xs))"
    for c and xs :: "(bool \<times> validation_sentinel) list"
    by (induction xs rule: run_checks.induct) (simp_all add: wrap_def)
  have ns: "validateNamespace k8s ns = (if namespace_ok k8s ns then Inr () else fail ErrInvalidNamespace)" for ns
    by (simp add: validateNamespace_def namespace_ok_def)
  have none: "selector_checks k8s None = []"
    by (simp add: selector_checks_def)
  show ?thesis
    by (cases "tr_LabelSelector t")
      (simp_all add: validateTargetResource_def target_checks_def validateLabelSelector_checks
        ns sel none contains_char fail_def, simp_all add: wrap_def)
qed

lemma validateTTL_checks: "validateTTL t = run_checks (ttl_checks t)"
proof -
  have "check_all (\<lambda>(key, val). if \<not> i64_pos val then fail (ErrInvalidTTLMapping key) else Inr ()) ms =
      run_checks (map (\<lambda>(k, v). (\<not> i64_pos v, [], ErrInvalidTTLMapping k)) ms)" for ms
    by (induction ms) (auto simp: fail_def)
  then show ?thesis
    by (auto simp: validateTTL_def ttl_checks_def fail_def Let_def split: option.splits)
qed

lemma validateBehavior_checks: "validateBehavior b = run_checks (behavior_checks b)"
  by (auto simp: validateBehavior_def behavior_checks_def fail_def split: option.splits)

lemma ValidatePolicy_checks: "ValidatePolicy k8s p = run_checks (policy_checks k8s p)"
  by (simp add: ValidatePolicy_def policy_checks_def run_checks_context validateTargetResource_checks
      validateTTL_checks validateBehavior_checks)

text \<open>
  C26. The first failing check decides the error. The checks on a policy are one list: API
  version, kind, namespace, each label, each expression with its values, the TTL and each of its
  mappings, the rate, the batch size, the propagation policy and the grace period. The validator
  answers with an error exactly when a check fails and all checks before it pass, with the
  sentinel of that check and the contexts of its part; and it accepts exactly when all pass.
\<close>

theorem ValidatePolicy_error_order:
  "(ValidatePolicy k8s p = Inl err \<longleftrightarrow>
     (\<exists>before after. policy_checks k8s p = before @ (True, err) # after \<and> list_all (\<lambda>c. \<not> fst c) before)) \<and>
   (ValidatePolicy k8s p = Inr () \<longleftrightarrow> list_all (\<lambda>c. \<not> fst c) (policy_checks k8s p))"
  unfolding ValidatePolicy_checks by (rule conjI [OF run_checks_first run_checks_ok])

theorem ValidatePolicy_error_order_witness:
  "ValidatePolicy lenient_syntax zero_Policy = Inl ([''invalid targetResource''], ErrAPIVersionRequired)"
proof -
  have "policy_checks lenient_syntax zero_Policy =
      [] @ (True, [''invalid targetResource''], ErrAPIVersionRequired) # tl (policy_checks lenient_syntax zero_Policy)"
    by (simp add: policy_checks_def target_checks_def in_context_def zero_defs)
  moreover have "list_all (\<lambda>c. \<not> fst c) ([] :: (bool \<times> validation_error) list)"
    by simp
  ultimately show ?thesis
    using ValidatePolicy_error_order [of lenient_syntax zero_Policy "([''invalid targetResource''], ErrAPIVersionRequired)"]
    by blast
qed

text \<open>
  Admission is laxer than evaluation: an API version with two separators, or a single
  name that the DNS check accepts and that does not start with \<open>v\<close>, is let in by the
  validator and refused by \<open>ParseGVR\<close> in every evaluation of the policy.
\<close>

theorem validator_accepts_what_ParseGVR_refuses:
  assumes "parse_gv_lawful parse_gv" and "ttl_ok ttl"
    and "v = ''a/b/c'' \<or> v = ''apps'' \<and> IsDNS1123Subdomain k8s ''apps''"
  shows "is_ok (ValidatePolicy k8s (configmap_policy v ttl)) \<and>
    \<not> is_ok (ParseGVR parse_gv v ''ConfigMap'')"
proof
  have "api_version_ok k8s v"
    using assms(3) by (auto simp: api_version_ok_def)
  then show "is_ok (ValidatePolicy k8s (configmap_policy v ttl))"
    using assms(2)
    by (simp add: ValidatePolicy_ok configmap_policy_def target_ok_def namespace_ok_def
        selector_ok_def behavior_ok_def zero_defs)
  have "\<not> core_version v"
    using assms(3) by (auto simp: core_version_def)
  moreover have "\<not> grouped_version v g u" for g u
    using assms(3) by (auto simp: grouped_version_split)
  ultimately show "\<not> is_ok (ParseGVR parse_gv v ''ConfigMap'')"
    using ParseGVR_iff [OF assms(1), of v "''ConfigMap''"]
    by (cases "ParseGVR parse_gv v ''ConfigMap''") auto
qed

theorem validator_accepts_what_ParseGVR_refuses_witness:
  "is_ok (ValidatePolicy lenient_syntax (configmap_policy ''apps''
      (zero_TTLSpec\<lparr>ttl_FieldPath := ''spec.ttl''\<rparr>))) \<and>
    \<not> is_ok (ParseGVR split_gv ''apps'' ''ConfigMap'')"
  by (rule validator_accepts_what_ParseGVR_refuses [OF split_gv_lawful])
    (simp_all add: ttl_ok_def zero_defs lenient_syntax_def)

end
