(* ===== verification/Json_Patch.thy ===== *)
theory Json_Patch
  imports World
begin

text \<open>
  What the API server does with the patches of a mutating webhook: the operation \<open>add\<close> of
  RFC 6902 on a JSON document, with the pointers of RFC 6901. It is here to say what the patches
  of pkg/webhook/webhook.go mean, and covers what such a patch may address: members of objects.
  An operation other than \<open>add\<close>, and a pointer whose parent is no object, do not succeed.
\<close>

subsection \<open>Pointers\<close>

fun unescape_token :: "string \<Rightarrow> string" where
  "unescape_token [] = []"
| "unescape_token (c # rest) =
     (if c = CHR ''~'' then
        (case rest of [] \<Rightarrow> [c]
         | d # rest' \<Rightarrow>
             if d = CHR ''0'' then CHR ''~'' # unescape_token rest'
             else if d = CHR ''1'' then CHR ''/'' # unescape_token rest'
             else c # unescape_token rest)
      else c # unescape_token rest)"

definition pointer_tokens :: "string \<Rightarrow> string list option" where
  "pointer_tokens path = (case split_on (CHR ''/'') path of
     [] \<Rightarrow> None
   | first # tokens \<Rightarrow> if first = [] then Some (map unescape_token tokens) else None)"

text \<open>The member of a document at a path.\<close>

fun member :: "string list \<Rightarrow> json \<Rightarrow> json option" where
  "member [] doc = Some doc"
| "member (k # ks) (JObject ms) = (case map_of ms k of None \<Rightarrow> None | Some d \<Rightarrow> member ks d)"
| "member (k # ks) _ = None"

fun add_at :: "string list \<Rightarrow> json \<Rightarrow> json \<Rightarrow> json option" where
  "add_at [] v doc = Some v"
| "add_at [k] v (JObject ms) = Some (JObject (go_put k v ms))"
| "add_at (k # k' # ks) v (JObject ms) =
     (case map_of ms k of
        None \<Rightarrow> None
      | Some d \<Rightarrow> (case add_at (k' # ks) v d of None \<Rightarrow> None | Some d' \<Rightarrow> Some (JObject (go_put k d' ms))))"
| "add_at (k # ks) v _ = None"

subsection \<open>One edit\<close>

lemma member_append: "member (ks @ js) doc = (case member ks doc of None \<Rightarrow> None | Some d \<Rightarrow> member js d)"
  by (induction ks doc rule: member.induct) (auto split: option.splits)

lemma member_parent: "member (ks @ [k]) doc = Some v \<Longrightarrow> \<exists>ms. member ks doc = Some (JObject ms)"
  by (auto simp: member_append split: option.splits elim: member.elims)

lemma add_at_succeeds: "member ks doc = Some (JObject ms) \<Longrightarrow> \<exists>doc'. add_at (ks @ [k]) v doc = Some doc'"
proof (induction ks doc rule: member.induct)
  case (2 j ks ns)
  then obtain d where d: "map_of ns j = Some d" "member ks d = Some (JObject ms)"
    by (auto split: option.splits)
  with 2(1) obtain d' where "add_at (ks @ [k]) v d = Some d'" by blast
  with d(1) show ?case
    by (cases "ks @ [k]") auto
qed simp_all

lemma add_at_same: "add_at ks v doc = Some doc' \<Longrightarrow> member (ks @ js) doc' = member js v"
  by (induction ks v doc arbitrary: doc' rule: add_at.induct) (auto split: option.splits)

lemma parallel_Cons [simp]: "(a # xs) \<parallel> (b # ys) \<longleftrightarrow> a \<noteq> b \<or> xs \<parallel> ys" "\<not> [] \<parallel> ys" "\<not> xs \<parallel> []"
  by (auto simp: parallel_def)

lemma add_at_other:
  "add_at ks v doc = Some doc' \<Longrightarrow> js \<parallel> ks \<Longrightarrow> member js doc' = member js doc"
proof (induction ks v doc arbitrary: doc' js rule: add_at.induct)
  case (2 k v ms)
  then show ?case by (cases js) (auto split: option.splits)
next
  case (3 k k' ks v ms)
  then show ?case
    by (cases js) (auto split: option.splits if_splits)
qed auto

lemma add_at_object:
  "add_at ks v doc = Some doc' \<Longrightarrow> strict_prefix js ks \<Longrightarrow> \<exists>ms. member js doc' = Some (JObject ms)"
proof (induction ks v doc arbitrary: doc' js rule: add_at.induct)
  case (2 k v ms)
  then show ?case by (cases js) auto
next
  case (3 k k' ks v ms)
  then show ?case
    by (cases js) (auto split: option.splits)
qed auto

subsection \<open>Several edits\<close>

fun add_all :: "(string list \<times> json) list \<Rightarrow> json \<Rightarrow> json option" where
  "add_all [] doc = Some doc"
| "add_all ((ks, v) # rest) doc = (case add_at ks v doc of None \<Rightarrow> None | Some d \<Rightarrow> add_all rest d)"

text \<open>
  Edits at places of which none is above another all succeed when their parents are objects;
  then every place holds its value, and what is neither above nor below a place is as it was.
\<close>

lemma parallel_below: "ks \<parallel> js \<Longrightarrow> (ks @ is) \<parallel> js"
  by (rule parallel_append [of ks js "is" "[]", simplified])

lemma add_all_independent:
  assumes "sorted_wrt (\<lambda>x y. fst x \<parallel> fst y) edits"
    and "\<forall>(ks, v)\<in>set edits. \<exists>pre k ms. ks = pre @ [k] \<and> member pre doc = Some (JObject ms)"
  shows "\<exists>doc'. add_all edits doc = Some doc' \<and>
    (\<forall>(ks, v)\<in>set edits. \<forall>js. member (ks @ js) doc' = member js v) \<and>
    (\<forall>js. (\<forall>(ks, v)\<in>set edits. js \<parallel> ks) \<longrightarrow> member js doc' = member js doc)"
  using assms
proof (induction edits arbitrary: doc)
  case (Cons e rest)
  obtain ks v where e: "e = (ks, v)" by fastforce
  from Cons.prems(2) e obtain pre k ms where ks: "ks = pre @ [k]" "member pre doc = Some (JObject ms)"
    by auto
  then obtain d where d: "add_at ks v doc = Some d"
    using add_at_succeeds by blast
  have apart: "ks \<parallel> ks'" if "(ks', v') \<in> set rest" for ks' v'
    using Cons.prems(1) that by (auto simp: e)
  have "\<exists>pre k ms. ks' = pre @ [k] \<and> member pre d = Some (JObject ms)" if r: "(ks', v') \<in> set rest" for ks' v'
  proof -
    from Cons.prems(2) r obtain pre' k' ms' where ks': "ks' = pre' @ [k']" "member pre' doc = Some (JObject ms')"
      by auto
    have below: "\<not> prefix ks pre'"
      using apart [OF r] ks'(1) by (auto dest: prefix_prefix)
    have "\<exists>ms. member pre' d = Some (JObject ms)"
    proof (cases "strict_prefix pre' ks")
      case True
      then show ?thesis by (rule add_at_object [OF d])
    next
      case False
      with below have "pre' \<parallel> ks" by (auto simp: strict_prefix_def)
      with ks'(2) add_at_other [OF d] show ?thesis by simp
    qed
    with ks'(1) show ?thesis by blast
  qed
  then have parents: "\<forall>(ks', v')\<in>set rest. \<exists>pre k ms. ks' = pre @ [k] \<and> member pre d = Some (JObject ms)"
    by blast
  have "sorted_wrt (\<lambda>x y. fst x \<parallel> fst y) rest"
    using Cons.prems(1) by simp
  from Cons.IH [OF this parents] obtain doc' where doc': "add_all rest d = Some doc'"
    "\<forall>(ks', v')\<in>set rest. \<forall>js. member (ks' @ js) doc' = member js v'"
    "\<forall>js. (\<forall>(ks', v')\<in>set rest. js \<parallel> ks') \<longrightarrow> member js doc' = member js d" by blast
  have "member (ks @ js) doc' = member js v" for js
  proof -
    have "\<forall>(ks', v')\<in>set rest. (ks @ js) \<parallel> ks'"
      using parallel_below [OF apart] by blast
    with doc'(3) have "member (ks @ js) doc' = member (ks @ js) d" by blast
    with add_at_same [OF d] show ?thesis by simp
  qed
  moreover have "member js doc' = member js doc" if "\<forall>(ks, v)\<in>set (e # rest). js \<parallel> ks" for js
  proof -
    have "member js doc' = member js d"
      using that doc'(3) by simp
    also have "\<dots> = member js doc"
      using that add_at_other [OF d] by (simp add: e)
    finally show ?thesis .
  qed
  moreover have "add_all (e # rest) doc = Some doc'"
    using d doc'(1) by (simp add: e)
  ultimately show ?case
    using doc'(2) by (intro exI [of _ doc']) (simp add: e)
qed simp

end
