(* ===== verification/Webhook.thy ===== *)
theory Webhook
  imports Validation Reconciler Json_Patch
begin

text \<open>
  pkg/webhook/webhook.go: the admission webhook. The decoders of the Kubernetes API machinery
  (of a review and of the object in it) are parameters. A message that is the text of an error
  is kept as the error. Encoding the response is left to the standard library, and so is
  \<open>json.Marshal\<close>, which does not fail on the patches made here. A handler that dereferences
  nil panics; the server of net/http then drops the connection.
\<close>

record AdmissionRequest =
  ar_UID :: string
  ar_Operation :: string
  ar_Raw :: string

datatype decoded = DecodedPolicy GarbageCollectionPolicy | DecodedOther string

record webhook_codec =
  decode_review :: "string \<Rightarrow> string + AdmissionRequest option"
  decode_object :: "string \<Rightarrow> string + decoded"

datatype webhook_error =
    DecodeFailed string
  | UnexpectedObjectType string
  | ValidationFailed validation_error

datatype message = ErrorMessage webhook_error | MutateFailed webhook_error

record patch =
  pa_op :: string
  pa_path :: string
  pa_value :: json

record AdmissionResponse =
  rs_UID :: string
  rs_Allowed :: bool
  rs_Result :: "(int \<times> message) option"
  rs_Patch :: "patch list option"

datatype http_response = HttpError int string | Review AdmissionResponse

subsection \<open>Validation\<close>

definition webhook_validatePolicy ::
    "webhook_codec \<Rightarrow> k8s_syntax \<Rightarrow> AdmissionRequest \<Rightarrow> webhook_error option" where
  "webhook_validatePolicy cd k8s req =
     (if ar_Operation req \<noteq> ''CREATE'' \<and> ar_Operation req \<noteq> ''UPDATE'' then None
      else
        (case decode_object cd (ar_Raw req) of
           Inl err \<Rightarrow> Some (DecodeFailed err)
         | Inr (DecodedOther typ) \<Rightarrow> Some (UnexpectedObjectType typ)
         | Inr (DecodedPolicy policyObj) \<Rightarrow>
             (case ValidatePolicy k8s policyObj of
                Inl err \<Rightarrow> Some (ValidationFailed err)
              | Inr _ \<Rightarrow> None)))"

definition handleValidate ::
    "webhook_codec \<Rightarrow> k8s_syntax \<Rightarrow> string \<Rightarrow> string \<Rightarrow> panic + http_response" where
  "handleValidate cd k8s httpMethod body =
     (if httpMethod \<noteq> ''POST'' then Inr (HttpError 405 ''Method not allowed'')
      else
        (case decode_review cd body of
           Inl err \<Rightarrow> Inr (HttpError 400 (''Failed to decode request: '' @ err))
         | Inr None \<Rightarrow> Inl NilDereference
         | Inr (Some req) \<Rightarrow>
             (let response = \<lparr>rs_UID = ar_UID req, rs_Allowed = False, rs_Result = None, rs_Patch = None\<rparr>
              in Inr (Review
                   (case webhook_validatePolicy cd k8s req of
                      Some err \<Rightarrow> response\<lparr>rs_Allowed := False, rs_Result := Some (422, ErrorMessage err)\<rparr>
                    | None \<Rightarrow> response\<lparr>rs_Allowed := True\<rparr>)))))"

subsection \<open>Mutation\<close>

definition add_patch :: "string \<Rightarrow> json \<Rightarrow> patch" where
  "add_patch path v = \<lparr>pa_op = ''add'', pa_path = path, pa_value = v\<rparr>"

definition behaviorPath :: string where "behaviorPath = ''/spec/behavior''"

definition hasBehavior :: "BehaviorSpec \<Rightarrow> bool" where
  "hasBehavior b =
     (bh_MaxDeletionsPerSecond b \<noteq> 0 \<or> bh_BatchSize b \<noteq> 0 \<or> bh_DryRun b \<or> bh_Finalizer b \<noteq> [] \<or>
      bh_PropagationPolicy b \<noteq> [] \<or> bh_GracePeriodSeconds b \<noteq> None)"

definition default_patches :: "GarbageCollectionPolicy \<Rightarrow> patch list" where
  "default_patches policyObj =
     (let b = gs_Behavior (gp_Spec policyObj)
      in (if \<not> hasBehavior b
          then [add_patch behaviorPath (JObject [(''maxDeletionsPerSecond'', JInt 10), (''batchSize'', JInt 50),
                  (''propagationPolicy'', JString ''Background'')])]
          else
            (if bh_MaxDeletionsPerSecond b = 0
             then [add_patch (behaviorPath @ ''/maxDeletionsPerSecond'') (JInt 10)] else []) @
            (if bh_BatchSize b = 0 then [add_patch (behaviorPath @ ''/batchSize'') (JInt 50)] else []) @
            (if bh_PropagationPolicy b = []
             then [add_patch (behaviorPath @ ''/propagationPolicy'') (JString ''Background'')] else [])) @
         (if tr_Namespace (gs_TargetResource (gp_Spec policyObj)) = []
          then [add_patch ''/spec/targetResource/namespace'' (JString ''*'')] else []))"

definition mutatePolicy :: "webhook_codec \<Rightarrow> AdmissionRequest \<Rightarrow> webhook_error + patch list" where
  "mutatePolicy cd req =
     (if ar_Operation req \<noteq> ''CREATE'' then Inr []
      else
        (case decode_object cd (ar_Raw req) of
           Inl err \<Rightarrow> Inl (DecodeFailed err)
         | Inr (DecodedOther typ) \<Rightarrow> Inl (UnexpectedObjectType typ)
         | Inr (DecodedPolicy policyObj) \<Rightarrow> Inr (default_patches policyObj)))"

definition handleMutate :: "webhook_codec \<Rightarrow> string \<Rightarrow> string \<Rightarrow> panic + http_response" where
  "handleMutate cd httpMethod body =
     (if httpMethod \<noteq> ''POST'' then Inr (HttpError 405 ''Method not allowed'')
      else
        (case decode_review cd body of
           Inl err \<Rightarrow> Inr (HttpError 400 (''Failed to decode request: '' @ err))
         | Inr None \<Rightarrow> Inl NilDereference
         | Inr (Some req) \<Rightarrow>
             (let response = \<lparr>rs_UID = ar_UID req, rs_Allowed = False, rs_Result = None, rs_Patch = None\<rparr>
              in Inr (Review
                   (case mutatePolicy cd req of
                      Inl err \<Rightarrow> response\<lparr>rs_Allowed := False, rs_Result := Some (500, MutateFailed err)\<rparr>
                    | Inr patches \<Rightarrow>
                        if length patches > 0 then response\<lparr>rs_Allowed := True, rs_Patch := Some patches\<rparr>
                        else response\<lparr>rs_Allowed := True\<rparr>)))))"

text \<open>The routes of \<open>NewWebhookServer\<close>; the multiplexer answers 404 to any other path.\<close>

definition webhook_routes ::
    "webhook_codec \<Rightarrow> k8s_syntax \<Rightarrow> string \<Rightarrow> string \<Rightarrow> string \<Rightarrow> panic + (http_response + int \<times> string)" where
  "webhook_routes cd k8s path httpMethod body =
     (if path = ''/validate-gc-policy''
      then (case handleValidate cd k8s httpMethod body of Inl p \<Rightarrow> Inl p | Inr r \<Rightarrow> Inr (Inl r))
      else if path = ''/mutate-gc-policy''
      then (case handleMutate cd httpMethod body of Inl p \<Rightarrow> Inl p | Inr r \<Rightarrow> Inr (Inl r))
      else if path = ''/healthz'' then Inr (Inr (200, ''OK''))
      else Inr (Inl (HttpError 404 ''404 page not found'')))"

subsection \<open>What the API server makes of the patches\<close>

text \<open>The patches of a response on the document of the request, one after the other.\<close>

definition apply_patch :: "patch \<Rightarrow> json \<Rightarrow> json option" where
  "apply_patch pa doc =
     (if pa_op pa \<noteq> ''add'' then None
      else (case pointer_tokens (pa_path pa) of None \<Rightarrow> None | Some ks \<Rightarrow> add_at ks (pa_value pa) doc))"

fun apply_patches :: "patch list \<Rightarrow> json \<Rightarrow> json option" where
  "apply_patches [] doc = Some doc"
| "apply_patches (pa # rest) doc = (case apply_patch pa doc of None \<Rightarrow> None | Some d \<Rightarrow> apply_patches rest d)"

text \<open>
  How the members of a document are read, by the JSON tags of types.go: all six members of the
  behavior, and the namespace of the target. A member that is missing has the zero value. The
  document represents a policy when it reads as it in these members; and its target is an object.
\<close>

fun json_int :: "json option \<Rightarrow> int" where
  "json_int (Some (JInt n)) = n"
| "json_int _ = 0"

fun json_string :: "json option \<Rightarrow> string" where
  "json_string (Some (JString s)) = s"
| "json_string _ = []"

fun json_bool :: "json option \<Rightarrow> bool" where
  "json_bool (Some (JBool b)) = b"
| "json_bool _ = False"

fun json_int64 :: "json option \<Rightarrow> i64 option" where
  "json_int64 (Some (JInt n)) = Some (word_of_int n)"
| "json_int64 _ = None"

definition read_behavior :: "json \<Rightarrow> BehaviorSpec" where
  "read_behavior doc = (let m = (\<lambda>k. member [''spec'', ''behavior'', k] doc)
     in \<lparr>bh_MaxDeletionsPerSecond = json_int (m ''maxDeletionsPerSecond''), bh_BatchSize = json_int (m ''batchSize''),
         bh_DryRun = json_bool (m ''dryRun''), bh_Finalizer = json_string (m ''finalizer''),
         bh_PropagationPolicy = json_string (m ''propagationPolicy''),
         bh_GracePeriodSeconds = json_int64 (m ''gracePeriodSeconds'')\<rparr>)"

definition read_namespace :: "json \<Rightarrow> string" where
  "read_namespace doc = json_string (member [''spec'', ''targetResource'', ''namespace''] doc)"

definition represents :: "json \<Rightarrow> GarbageCollectionPolicy \<Rightarrow> bool" where
  "represents doc p \<longleftrightarrow> (\<exists>ms. member [''spec'', ''targetResource''] doc = Some (JObject ms)) \<and>
     read_behavior doc = gs_Behavior (gp_Spec p) \<and> read_namespace doc = tr_Namespace (gs_TargetResource (gp_Spec p))"

definition set_behavior :: "(BehaviorSpec \<Rightarrow> BehaviorSpec) \<Rightarrow> GarbageCollectionPolicy \<Rightarrow> GarbageCollectionPolicy" where
  "set_behavior f p = p\<lparr>gp_Spec := (gp_Spec p)\<lparr>gs_Behavior := f (gs_Behavior (gp_Spec p))\<rparr>\<rparr>"

definition set_namespace :: "string \<Rightarrow> GarbageCollectionPolicy \<Rightarrow> GarbageCollectionPolicy" where
  "set_namespace ns p = p\<lparr>gp_Spec := (gp_Spec p)
     \<lparr>gs_TargetResource := (gs_TargetResource (gp_Spec p))\<lparr>tr_Namespace := ns\<rparr>\<rparr>\<rparr>"

text \<open>The policy as it is read again from a document that may differ in these members.\<close>

definition reread :: "json \<Rightarrow> GarbageCollectionPolicy \<Rightarrow> GarbageCollectionPolicy" where
  "reread doc p = set_namespace (read_namespace doc) (set_behavior (\<lambda>_. read_behavior doc) p)"

text \<open>The specification of the defaults, field by field.\<close>

definition behavior_defaults :: "BehaviorSpec \<Rightarrow> BehaviorSpec" where
  "behavior_defaults b = b\<lparr>
     bh_MaxDeletionsPerSecond := (if bh_MaxDeletionsPerSecond b = 0 then 10 else bh_MaxDeletionsPerSecond b),
     bh_BatchSize := (if bh_BatchSize b = 0 then 50 else bh_BatchSize b),
     bh_PropagationPolicy := (if bh_PropagationPolicy b = [] then ''Background'' else bh_PropagationPolicy b)\<rparr>"

definition with_defaults :: "GarbageCollectionPolicy \<Rightarrow> GarbageCollectionPolicy" where
  "with_defaults p = set_namespace
     (if tr_Namespace (gs_TargetResource (gp_Spec p)) = [] then ''*'' else tr_Namespace (gs_TargetResource (gp_Spec p)))
     (set_behavior behavior_defaults p)"

lemma with_defaults_simps [simp]:
  "gs_Behavior (gp_Spec (with_defaults p)) = behavior_defaults (gs_Behavior (gp_Spec p))"
  "gs_TTL (gp_Spec (with_defaults p)) = gs_TTL (gp_Spec p)"
  "tr_APIVersion (gs_TargetResource (gp_Spec (with_defaults p))) = tr_APIVersion (gs_TargetResource (gp_Spec p))"
  "tr_Kind (gs_TargetResource (gp_Spec (with_defaults p))) = tr_Kind (gs_TargetResource (gp_Spec p))"
  "tr_LabelSelector (gs_TargetResource (gp_Spec (with_defaults p))) = tr_LabelSelector (gs_TargetResource (gp_Spec p))"
  "tr_FieldSelector (gs_TargetResource (gp_Spec (with_defaults p))) = tr_FieldSelector (gs_TargetResource (gp_Spec p))"
  "tr_Namespace (gs_TargetResource (gp_Spec (with_defaults p))) =
     (if tr_Namespace (gs_TargetResource (gp_Spec p)) = [] then ''*'' else tr_Namespace (gs_TargetResource (gp_Spec p)))"
  by (simp_all add: with_defaults_def set_namespace_def set_behavior_def)

lemma hasBehavior_zero: "hasBehavior b \<longleftrightarrow> b \<noteq> zero_BehaviorSpec"
  by (cases b) (auto simp: hasBehavior_def zero_BehaviorSpec_def)

text \<open>Where the defaults go: to the whole behavior when nothing of it is set, else member by member.\<close>

definition default_places :: "GarbageCollectionPolicy \<Rightarrow> string list set" where
  "default_places p = (let b = gs_Behavior (gp_Spec p) in
     (if b = zero_BehaviorSpec then {[''spec'', ''behavior'']}
      else {[''spec'', ''behavior'', k] | k.
        k = ''maxDeletionsPerSecond'' \<and> bh_MaxDeletionsPerSecond b = 0 \<or> k = ''batchSize'' \<and> bh_BatchSize b = 0 \<or>
        k = ''propagationPolicy'' \<and> bh_PropagationPolicy b = []}) \<union>
     (if tr_Namespace (gs_TargetResource (gp_Spec p)) = [] then {[''spec'', ''targetResource'', ''namespace'']} else {}))"

text \<open>The patches as edits of the document.\<close>

definition default_edits :: "GarbageCollectionPolicy \<Rightarrow> (string list \<times> json) list" where
  "default_edits p = (let b = gs_Behavior (gp_Spec p) in
     (if b = zero_BehaviorSpec
      then [([''spec'', ''behavior''], JObject [(''maxDeletionsPerSecond'', JInt 10), (''batchSize'', JInt 50),
              (''propagationPolicy'', JString ''Background'')])]
      else (if bh_MaxDeletionsPerSecond b = 0 then [([''spec'', ''behavior'', ''maxDeletionsPerSecond''], JInt 10)] else []) @
        (if bh_BatchSize b = 0 then [([''spec'', ''behavior'', ''batchSize''], JInt 50)] else []) @
        (if bh_PropagationPolicy b = [] then [([''spec'', ''behavior'', ''propagationPolicy''], JString ''Background'')] else [])) @
     (if tr_Namespace (gs_TargetResource (gp_Spec p)) = [] then [([''spec'', ''targetResource'', ''namespace''], JString ''*'')] else []))"

lemma default_paths:
  "pointer_tokens behaviorPath = Some [''spec'', ''behavior'']"
  "pointer_tokens (behaviorPath @ ''/maxDeletionsPerSecond'') = Some [''spec'', ''behavior'', ''maxDeletionsPerSecond'']"
  "pointer_tokens (behaviorPath @ ''/batchSize'') = Some [''spec'', ''behavior'', ''batchSize'']"
  "pointer_tokens (behaviorPath @ ''/propagationPolicy'') = Some [''spec'', ''behavior'', ''propagationPolicy'']"
  "pointer_tokens ''/spec/targetResource/namespace'' = Some [''spec'', ''targetResource'', ''namespace'']"
  by code_simp+

lemma apply_patches_append:
  "apply_patches (xs @ ys) doc = (case apply_patches xs doc of None \<Rightarrow> None | Some d \<Rightarrow> apply_patches ys d)"
  by (induction xs doc rule: apply_patches.induct) (auto split: option.splits)

lemma add_all_append: "add_all (xs @ ys) doc = (case add_all xs doc of None \<Rightarrow> None | Some d \<Rightarrow> add_all ys d)"
  by (induction xs doc rule: add_all.induct) (auto split: option.splits)

lemma apply_default_patches: "apply_patches (default_patches p) doc = add_all (default_edits p) doc"
proof -
  have one: "apply_patches (if c then [add_patch path v] else []) d = add_all (if c then [(ks, v)] else []) d"
    if "pointer_tokens path = Some ks" for c path v ks d
    using that by (simp add: apply_patch_def add_patch_def split: option.splits)
  note ones = default_paths [THEN one]
  have "apply_patches [add_patch behaviorPath v] d = add_all [([''spec'', ''behavior''], v)] d" for v d
    using ones(1) [of True] by simp
  then show ?thesis
    by (cases "gs_Behavior (gp_Spec p) = zero_BehaviorSpec")
      (simp_all only: default_patches_def default_edits_def Let_def hasBehavior_zero not_not if_True if_False
        apply_patches_append add_all_append ones simp_thms)
qed

lemma default_edits_places: "fst ` set (default_edits p) = default_places p"
  by (auto simp: default_edits_def default_places_def Let_def)

text \<open>
  The document after the edits: every place holds its default, and everything neither above nor
  below these places is as before.
\<close>

definition edited :: "GarbageCollectionPolicy \<Rightarrow> json \<Rightarrow> json \<Rightarrow> bool" where
  "edited p doc doc' \<longleftrightarrow>
     (\<forall>(ks, v)\<in>set (default_edits p). \<forall>js. member (ks @ js) doc' = member js v) \<and>
     (\<forall>js. (\<forall>ks\<in>default_places p. js \<parallel> ks) \<longrightarrow> member js doc' = member js doc)"

lemma edited_value: "edited p doc doc' \<Longrightarrow> (ks, v) \<in> set (default_edits p) \<Longrightarrow> member (ks @ js) doc' = member js v"
  unfolding edited_def by blast

lemma edited_same: "edited p doc doc' \<Longrightarrow> (\<And>ks. ks \<in> default_places p \<Longrightarrow> js \<parallel> ks) \<Longrightarrow> member js doc' = member js doc"
  unfolding edited_def by blast

lemma represented_behavior:
  assumes "represents doc p" and "gs_Behavior (gp_Spec p) \<noteq> zero_BehaviorSpec"
  shows "\<exists>ms. member [''spec'', ''behavior''] doc = Some (JObject ms)"
proof (rule ccontr)
  assume "\<not> ?thesis"
  then have "member [''spec'', ''behavior'', k] doc = None" for k
    using member_parent [of "[''spec'', ''behavior'']" k doc] by (cases "member [''spec'', ''behavior'', k] doc") auto
  then have "read_behavior doc = zero_BehaviorSpec"
    by (simp add: read_behavior_def zero_BehaviorSpec_def)
  with assms show False by (simp add: represents_def)
qed

lemma default_edits_apply:
  assumes "represents doc p"
  obtains doc' where "add_all (default_edits p) doc = Some doc'" "edited p doc doc'"
proof -
  obtain ms where target: "member [''spec'', ''targetResource''] doc = Some (JObject ms)"
    using assms by (auto simp: represents_def)
  have spec: "\<exists>ms. member [''spec''] doc = Some (JObject ms)"
    using member_parent [of "[''spec'']" "''targetResource''"] target by simp
  have "\<exists>pre k ms. ks = pre @ [k] \<and> member pre doc = Some (JObject ms)" if "(ks, v) \<in> set (default_edits p)" for ks v
  proof -
    from that consider "ks = [''spec''] @ [''behavior'']"
      | "gs_Behavior (gp_Spec p) \<noteq> zero_BehaviorSpec" "\<exists>k. ks = [''spec'', ''behavior''] @ [k]"
      | "ks = [''spec'', ''targetResource''] @ [''namespace'']"
      by (auto simp: default_edits_def Let_def split: if_splits)
    then show ?thesis
      using spec represented_behavior [OF assms] target by cases blast+
  qed
  then have parents: "\<forall>(ks, v)\<in>set (default_edits p). \<exists>pre k ms. ks = pre @ [k] \<and> member pre doc = Some (JObject ms)"
    by blast
  have "sorted_wrt (\<lambda>x y. fst x \<parallel> fst y) (default_edits p)"
    by (simp add: default_edits_def Let_def)
  from add_all_independent [OF this parents] show ?thesis
    using that by (auto simp: edited_def case_prod_unfold simp flip: default_edits_places)
qed

lemma edited_target:
  assumes "edited p doc doc'" and "represents doc p"
  shows "read_namespace doc' = tr_Namespace (gs_TargetResource (gp_Spec (with_defaults p)))"
    and "\<exists>ms. member [''spec'', ''targetResource''] doc' = Some (JObject ms)"
proof -
  have "read_namespace doc' = tr_Namespace (gs_TargetResource (gp_Spec (with_defaults p))) \<and>
      (\<exists>ms. member [''spec'', ''targetResource''] doc' = Some (JObject ms))"
  proof (cases "tr_Namespace (gs_TargetResource (gp_Spec p)) = []")
    case True
    then have "([''spec'', ''targetResource'', ''namespace''], JString ''*'') \<in> set (default_edits p)"
      by (simp add: default_edits_def Let_def)
    from edited_value [OF assms(1) this, of "[]"] True show ?thesis
      using member_parent [of "[''spec'', ''targetResource'']" "''namespace''" doc'] by (simp add: read_namespace_def)
  next
    case False
    then have "[''spec'', ''targetResource'', ''namespace''] \<parallel> ks" "[''spec'', ''targetResource''] \<parallel> ks"
      if "ks \<in> default_places p" for ks
      using that by (auto simp: default_places_def Let_def split: if_splits)
    with edited_same [OF assms(1) this(1)] edited_same [OF assms(1) this(2)] assms(2) False show ?thesis
      by (simp add: represents_def read_namespace_def)
  qed
  then show "read_namespace doc' = tr_Namespace (gs_TargetResource (gp_Spec (with_defaults p)))"
    and "\<exists>ms. member [''spec'', ''targetResource''] doc' = Some (JObject ms)" by simp_all
qed

text \<open>The members of the behavior: in a new one the defaults only, else those set stay.\<close>

definition default_members :: "(string \<times> json) list" where
  "default_members = [(''maxDeletionsPerSecond'', JInt 10), (''batchSize'', JInt 50),
     (''propagationPolicy'', JString ''Background'')]"

lemma edited_member:
  assumes "edited p doc doc'"
  shows "member [''spec'', ''behavior'', k] doc' =
    (if gs_Behavior (gp_Spec p) = zero_BehaviorSpec \<or> [''spec'', ''behavior'', k] \<in> default_places p
     then map_of default_members k else member [''spec'', ''behavior'', k] doc)"
proof (cases "gs_Behavior (gp_Spec p) = zero_BehaviorSpec")
  case True
  then have "([''spec'', ''behavior''], JObject default_members) \<in> set (default_edits p)"
    by (simp add: default_edits_def default_members_def Let_def)
  from edited_value [OF assms this, of "[k]"] True show ?thesis
    by (simp split: option.splits)
next
  case False
  show ?thesis
  proof (cases "[''spec'', ''behavior'', k] \<in> default_places p")
    case True
    then obtain v where v: "([''spec'', ''behavior'', k], v) \<in> set (default_edits p)"
      unfolding default_edits_places [symmetric] by auto
    then have "map_of default_members k = Some v"
      by (simp add: default_edits_def default_members_def Let_def split: if_splits) auto
    with edited_value [OF assms v, of "[]"] True show ?thesis by simp
  next
    case other: False
    with False have "[''spec'', ''behavior'', k] \<parallel> ks" if "ks \<in> default_places p" for ks
      using that by (auto simp: default_places_def Let_def split: if_splits)
    from edited_same [OF assms this] False other show ?thesis by simp
  qed
qed

lemma edited_behavior:
  assumes "edited p doc doc'" and "represents doc p"
  shows "read_behavior doc' = behavior_defaults (gs_Behavior (gp_Spec p))"
proof (cases "gs_Behavior (gp_Spec p) = zero_BehaviorSpec")
  case True
  then show ?thesis
    by (simp add: read_behavior_def edited_member [OF assms(1)] default_members_def Let_def behavior_defaults_def)
      (simp add: zero_BehaviorSpec_def)
next
  case False
  have "gs_Behavior (gp_Spec p) = read_behavior doc"
    using assms(2) by (simp add: represents_def)
  note fields = this [unfolded read_behavior_def Let_def]
  have places: "[''spec'', ''behavior'', k] \<in> default_places p \<longleftrightarrow>
      k = ''maxDeletionsPerSecond'' \<and> bh_MaxDeletionsPerSecond (gs_Behavior (gp_Spec p)) = 0 \<or>
      k = ''batchSize'' \<and> bh_BatchSize (gs_Behavior (gp_Spec p)) = 0 \<or>
      k = ''propagationPolicy'' \<and> bh_PropagationPolicy (gs_Behavior (gp_Spec p)) = []" for k
    using False by (auto simp: default_places_def Let_def)
  show ?thesis
    using False by (simp add: read_behavior_def edited_member [OF assms(1)] places default_members_def Let_def
        behavior_defaults_def) (simp add: fields)
qed

lemma patched_document:
  assumes "represents doc p"
  obtains doc' where "apply_patches (default_patches p) doc = Some doc'" "edited p doc doc'"
    "reread doc' p = with_defaults p"
proof (rule default_edits_apply [OF assms])
  fix doc'
  assume doc': "add_all (default_edits p) doc = Some doc'" "edited p doc doc'"
  have "reread doc' p = with_defaults p"
    using edited_target(1) [OF doc'(2) assms] edited_behavior [OF doc'(2) assms]
    by (simp add: reread_def with_defaults_def set_behavior_def set_namespace_def)
  with doc' that show ?thesis by (simp add: apply_default_patches)
qed

text \<open>
  C27. The patches implement the defaults: on the document of a CREATE request, which represents
  the decoded policy, the API server can apply them, and the result reads as the policy with
  exactly the specified defaults: rate 10, batches of 50, propagation in the background and all
  namespaces, each where the policy sets nothing. Nothing else of the document changes: what is
  neither above nor below the place of a default is as it was, and a behavior that is made new has
  no further member. A policy that has its defaults gets no patch.
\<close>

theorem mutation_implements_defaults:
  assumes "ar_Operation req = ''CREATE''" and "decode_object cd (ar_Raw req) = Inr (DecodedPolicy p)"
    and "represents doc p"
  shows "\<exists>patches doc'. mutatePolicy cd req = Inr patches \<and> apply_patches patches doc = Some doc' \<and>
    reread doc' p = with_defaults p \<and>
    (\<forall>js. (\<forall>ks\<in>default_places p. js \<parallel> ks) \<longrightarrow> member js doc' = member js doc) \<and>
    (\<forall>k v. gs_Behavior (gp_Spec p) = zero_BehaviorSpec \<and> member [''spec'', ''behavior'', k] doc' = Some v \<longrightarrow>
       k \<in> {''maxDeletionsPerSecond'', ''batchSize'', ''propagationPolicy''}) \<and>
    default_patches (with_defaults p) = []"
proof -
  obtain doc' where doc': "apply_patches (default_patches p) doc = Some doc'" "edited p doc doc'"
    "reread doc' p = with_defaults p"
    by (rule patched_document [OF assms(3)])
  have "mutatePolicy cd req = Inr (default_patches p)"
    using assms(1,2) by (simp add: mutatePolicy_def)
  moreover have "default_patches (with_defaults p) = []"
    by (simp add: default_patches_def Let_def hasBehavior_def behavior_defaults_def)
  moreover have "k \<in> {''maxDeletionsPerSecond'', ''batchSize'', ''propagationPolicy''}"
    if "gs_Behavior (gp_Spec p) = zero_BehaviorSpec" "member [''spec'', ''behavior'', k] doc' = Some v" for k v
    using that edited_member [OF doc'(2), of k] by (auto simp: default_members_def split: if_splits)
  moreover have "\<forall>js. (\<forall>ks\<in>default_places p. js \<parallel> ks) \<longrightarrow> member js doc' = member js doc"
    using doc'(2) by (simp add: edited_def)
  ultimately show ?thesis
    using doc'(1,3) by (intro exI [of _ "default_patches p"] exI [of _ doc']) blast
qed

definition policy_codec :: "GarbageCollectionPolicy \<Rightarrow> webhook_codec" where
  "policy_codec p = \<lparr>decode_review = (\<lambda>body. Inr (if body = [] then None else
       Some \<lparr>ar_UID = ''uid'', ar_Operation = ''CREATE'', ar_Raw = body\<rparr>)),
     decode_object = (\<lambda>_. Inr (DecodedPolicy p))\<rparr>"

definition bare_document :: json where
  "bare_document = JObject [(''kind'', JString ''GarbageCollectionPolicy''),
     (''spec'', JObject [(''targetResource'', JObject [(''kind'', JString ''ConfigMap'')])])]"

lemma bare_represents: "represents bare_document zero_Policy"
  by (simp add: represents_def bare_document_def read_behavior_def read_namespace_def zero_defs Let_def)

theorem mutation_implements_defaults_witness:
  "\<exists>patches doc'. mutatePolicy (policy_codec zero_Policy) \<lparr>ar_UID = ''u'', ar_Operation = ''CREATE'', ar_Raw = ''r''\<rparr> =
     Inr patches \<and> apply_patches patches bare_document = Some doc' \<and> reread doc' zero_Policy = with_defaults zero_Policy \<and>
     member [''spec'', ''targetResource'', ''kind''] doc' = Some (JString ''ConfigMap'')"
proof -
  have "\<forall>ks\<in>default_places zero_Policy. [''spec'', ''targetResource'', ''kind''] \<parallel> ks"
    by (simp add: default_places_def zero_defs Let_def)
  moreover have "member [''spec'', ''targetResource'', ''kind''] bare_document = Some (JString ''ConfigMap'')"
    by (simp add: bare_document_def)
  ultimately show ?thesis
    using mutation_implements_defaults [OF _ _ bare_represents, of "\<lparr>ar_UID = ''u'', ar_Operation = ''CREATE'', ar_Raw = ''r''\<rparr>"
        "policy_codec zero_Policy"] by (fastforce simp: policy_codec_def)
qed

lemma defaults_validity: "ValidatePolicy k8s (with_defaults p) = ValidatePolicy k8s p"
proof -
  have "validateTargetResource k8s (gs_TargetResource (gp_Spec (with_defaults p))) =
      validateTargetResource k8s (gs_TargetResource (gp_Spec p))"
    by (simp add: validateTargetResource_def validateNamespace_def)
  moreover have "validateBehavior (behavior_defaults b) = validateBehavior b" for b
    by (simp add: validateBehavior_def behavior_defaults_def)
  ultimately show ?thesis
    by (simp add: ValidatePolicy_def)
qed

text \<open>
  The defaults neither break nor repair a policy: the validator answers the same, with the
  same error, for a policy and for the policy with its defaults.
\<close>

theorem defaults_keep_validity: "ValidatePolicy k8s (with_defaults p) = ValidatePolicy k8s p"
  by (rule defaults_validity)

lemma with_defaults_meaning:
  "matchesSelectorsShared as_sel r (gs_TargetResource (gp_Spec (with_defaults p))) =
     matchesSelectorsShared as_sel r (gs_TargetResource (gp_Spec p))"
  "reconciler_shouldDelete t1 t2 r (with_defaults p) = reconciler_shouldDelete t1 t2 r p"
  "buildDeleteOptions (with_defaults p) = buildDeleteOptions p" "policy_rate (with_defaults p) = policy_rate p"
  "normalizeNamespace (tr_Namespace (gs_TargetResource (gp_Spec (with_defaults p)))) =
     normalizeNamespace (tr_Namespace (gs_TargetResource (gp_Spec p)))"
proof -
  have "gs_Conditions (gp_Spec (with_defaults p)) = gs_Conditions (gp_Spec p)"
    by (simp add: with_defaults_def set_namespace_def set_behavior_def)
  then show "reconciler_shouldDelete t1 t2 r (with_defaults p) = reconciler_shouldDelete t1 t2 r p"
    by (simp add: reconciler_shouldDelete_def)
qed (auto simp: matchesSelectorsShared_def Let_def buildDeleteOptions_def behavior_defaults_def
    getDeletionPropagationPolicy_def policy_rate_def DefaultMaxDeletionsPerSecond_def normalizeNamespace_def)

text \<open>
  C28. The patches of the webhook do not change what a policy does: the policy that is read from
  the patched document matches the same resources, decides the same, deletes with the same options,
  at the same rate and watches the same namespaces as the policy of the request. In particular
  the namespace \<open>*\<close> that the patches write means the same to the controller as none; only the
  comment at \<open>validateNamespace\<close> expects the namespace of the policy there.
\<close>

theorem defaults_keep_meaning:
  assumes "represents doc p"
  shows "\<exists>doc' q. apply_patches (default_patches p) doc = Some doc' \<and> q = reread doc' p \<and>
    matchesSelectorsShared as_sel r (gs_TargetResource (gp_Spec q)) =
      matchesSelectorsShared as_sel r (gs_TargetResource (gp_Spec p)) \<and>
    reconciler_shouldDelete t1 t2 r q = reconciler_shouldDelete t1 t2 r p \<and>
    buildDeleteOptions q = buildDeleteOptions p \<and> policy_rate q = policy_rate p \<and>
    normalizeNamespace (tr_Namespace (gs_TargetResource (gp_Spec q))) =
      normalizeNamespace (tr_Namespace (gs_TargetResource (gp_Spec p)))"
proof (rule patched_document [OF assms])
  fix doc'
  assume "apply_patches (default_patches p) doc = Some doc'" and "reread doc' p = with_defaults p"
  then show ?thesis
    by (intro exI [of _ doc'] exI [of _ "reread doc' p"]) (simp add: with_defaults_meaning del: with_defaults_simps)
qed

theorem defaults_keep_meaning_witness:
  "\<exists>doc' q. apply_patches (default_patches zero_Policy) bare_document = Some doc' \<and> q = reread doc' zero_Policy \<and>
     policy_rate q = policy_rate zero_Policy"
  using defaults_keep_meaning [OF bare_represents, of "\<lambda>_. None" "plain_resource ''ns'' ''a'' 0" 0 0] by blast

text \<open>
  The default of the batch size overrides the configuration: a policy without a batch size
  of its own would be evaluated with the batch size of the controller, but after the webhook it
  has batches of 50, whatever the controller is configured to.
\<close>

theorem defaults_override_batch_size:
  assumes "bh_BatchSize (gs_Behavior (gp_Spec p)) = 0"
  shows "resolveBatchSize (with_defaults p) cfg = 50 \<and>
    resolveBatchSize p (Some c) = cc_BatchSize c"
  using assms by (simp add: resolveBatchSize_def behavior_defaults_def)

theorem defaults_override_batch_size_witness:
  "resolveBatchSize (with_defaults zero_Policy) (Some (NewControllerConfig\<lparr>cc_BatchSize := 7\<rparr>)) = 50 \<and>
   resolveBatchSize zero_Policy (Some (NewControllerConfig\<lparr>cc_BatchSize := 7\<rparr>)) = 7"
  using defaults_override_batch_size [of zero_Policy "Some (NewControllerConfig\<lparr>cc_BatchSize := 7\<rparr>)"
      "NewControllerConfig\<lparr>cc_BatchSize := 7\<rparr>"]
  by (simp add: zero_defs)

lemma validated_batches:
  assumes "ValidatePolicy k8s (with_defaults p) = Inr ()"
  shows "resolveBatchSize (with_defaults p) cfg > 0"
proof -
  have "behavior_ok (gs_Behavior (gp_Spec (with_defaults p)))"
    using ValidatePolicy_ok [of k8s "with_defaults p"] assms by simp
  then show ?thesis
    by (auto simp: behavior_ok_def behavior_defaults_def resolveBatchSize_def split: if_splits)
qed

text \<open>
  A policy that went through both webhooks terminates: when the validator accepts it, its
  batches are positive for every configuration, so that the deletion in batches returns, also
  with the batch size of the controller set to 0.
\<close>

theorem admitted_policy_terminates:
  assumes "ValidatePolicy k8s (with_defaults p) = Inr ()" and "rl_wf rl"
  shows "resolveBatchSize (with_defaults p) (ev_config ev) > 0 \<and>
    (\<exists>err rl' w'. EvaluatePolicy ev out parse_gv list_resources (with_defaults p) rl w = Some (Inr err, rl', w'))"
proof -
  have "resolveBatchSize (with_defaults p) (ev_config ev) > 0"
    by (rule validated_batches [OF assms(1)])
  with EvaluatePolicy_total [OF assms(2) this] show ?thesis
    by blast
qed

theorem admitted_policy_terminates_witness:
  "\<exists>err rl' w'. EvaluatePolicy (eval_env_example 0) calm_outside split_gv (\<lambda>g ns t. Inr [plain_resource ''ns'' ''a'' 0])
      (with_defaults (configmap_policy ''v1'' (zero_TTLSpec\<lparr>ttl_SecondsAfterCreation := Some 60\<rparr>)))
      NewDefaultRateLimiterProvider fresh_world = Some (Inr err, rl', w')"
proof -
  have "is_ok (ValidatePolicy lenient_syntax (configmap_policy ''v1'' (zero_TTLSpec\<lparr>ttl_SecondsAfterCreation := Some 60\<rparr>)))"
    unfolding ValidatePolicy_ok
    by (simp add: configmap_policy_def zero_defs target_ok_def api_version_ok_def namespace_ok_def selector_ok_def
        ttl_ok_def behavior_ok_def lenient_syntax_def i64_pos_def)
  then have "ValidatePolicy lenient_syntax (with_defaults (configmap_policy ''v1''
      (zero_TTLSpec\<lparr>ttl_SecondsAfterCreation := Some 60\<rparr>))) = Inr ()"
    unfolding is_ok_unit using defaults_validity by simp
  from admitted_policy_terminates [OF this rl_wf_empty] show ?thesis
    by blast
qed

text \<open>
  C29. What the validating webhook answers to a review: it echoes the UID, and allows every
  operation but CREATE and UPDATE, and these exactly when the object decodes to a policy whose
  target, TTL and behavior are in order; a refusal carries code 422 and the error. In order is
  what the validator takes: so a batch size or a rate of 0, which stands for one that is not
  set, is let in, and a namespace that starts with a digit is refused.
\<close>

theorem webhook_admits:
  assumes "decode_review cd body = Inr (Some req)"
  shows "\<exists>resp. handleValidate cd k8s ''POST'' body = Inr (Review resp) \<and> rs_UID resp = ar_UID req \<and>
    rs_Patch resp = None \<and>
    (rs_Allowed resp \<longleftrightarrow> (ar_Operation req \<in> {''CREATE'', ''UPDATE''} \<longrightarrow>
       (\<exists>p. decode_object cd (ar_Raw req) = Inr (DecodedPolicy p) \<and> target_ok k8s (gs_TargetResource (gp_Spec p)) \<and>
          ttl_ok (gs_TTL (gp_Spec p)) \<and> behavior_ok (gs_Behavior (gp_Spec p))))) \<and>
    (rs_Allowed resp \<longleftrightarrow> rs_Result resp = None) \<and>
    (\<forall>c m. rs_Result resp = Some (c, m) \<longrightarrow> c = 422)"
proof -
  have ok: "ValidatePolicy k8s p = Inr u \<longleftrightarrow> target_ok k8s (gs_TargetResource (gp_Spec p)) \<and>
      ttl_ok (gs_TTL (gp_Spec p)) \<and> behavior_ok (gs_Behavior (gp_Spec p))" for p u
    using ValidatePolicy_ok [of k8s p] by (cases "ValidatePolicy k8s p") auto
  then have bad: "ValidatePolicy k8s p = Inl e \<Longrightarrow> \<not> (target_ok k8s (gs_TargetResource (gp_Spec p)) \<and>
      ttl_ok (gs_TTL (gp_Spec p)) \<and> behavior_ok (gs_Behavior (gp_Spec p)))" for p e
    by (metis Inl_Inr_False)
  show ?thesis
    using assms ok bad
    by (auto simp: handleValidate_def webhook_validatePolicy_def Let_def split: sum.splits decoded.splits)
qed

theorem webhook_admits_witness:
  "\<exists>resp. handleValidate (policy_codec zero_Policy) lenient_syntax ''POST'' ''body'' = Inr (Review resp) \<and>
     rs_UID resp = ''uid'' \<and> \<not> rs_Allowed resp"
  using webhook_admits [of "policy_codec zero_Policy" "''body''" "\<lparr>ar_UID = ''uid'', ar_Operation = ''CREATE'', ar_Raw = ''body''\<rparr>"
      lenient_syntax]
  by (auto simp: policy_codec_def target_ok_def api_version_ok_def zero_defs)

text \<open>
  Neither handler checks that a review has a request: a body that decodes to a review
  without one makes them dereference nil.
\<close>

theorem review_without_request_panics:
  assumes "decode_review cd body = Inr None"
  shows "handleValidate cd k8s ''POST'' body = Inl NilDereference \<and> handleMutate cd ''POST'' body = Inl NilDereference"
  using assms by (simp add: handleValidate_def handleMutate_def)

theorem review_without_request_panics_witness:
  "handleValidate (policy_codec zero_Policy) lenient_syntax ''POST'' [] = Inl NilDereference"
  using review_without_request_panics [of "policy_codec zero_Policy" "[]" lenient_syntax] by (simp add: policy_codec_def)

end
