(* ===== verification/Startup.thy ===== *)
theory Startup
  imports Election Webhook
begin

text \<open>
  cmd/gc-controller/main.go: how the program starts. A run is the list of what the program does,
  with how it ends: \<open>os.Exit\<close>, which skips the deferred calls, a return of \<open>runMain\<close>, or neither.
  The answers of the libraries (clients, manager, elector, file system) are the record
  \<open>boot_world\<close>. A goroutine is an event \<open>Spawn\<close>; what it logs later is a definition of its own.
  \<open>RunWithLeaderElection\<close> always returns nil, so the branch for its error is not written out.
\<close>

record main_flags =
  mf_config :: config_flags
  mf_healthProbeAddr :: string
  mf_webhookAddr :: string
  mf_webhookCertFile :: string
  mf_webhookKeyFile :: string
  mf_leaderElection :: bool
  mf_leaderElectionID :: string
  mf_leaderElectionNamespace :: string
  mf_enableWebhook :: bool
  mf_insecureWebhook :: bool

definition default_main_flags :: main_flags where
  "default_main_flags = \<lparr>mf_config = default_flags, mf_healthProbeAddr = '':8081'', mf_webhookAddr = '':9443'',
     mf_webhookCertFile = ''/etc/webhook/certs/tls.crt'', mf_webhookKeyFile = ''/etc/webhook/certs/tls.key'',
     mf_leaderElection = True, mf_leaderElectionID = ''gc-controller-leader-election'',
     mf_leaderElectionNamespace = ''default'', mf_enableWebhook = True, mf_insecureWebhook = False\<rparr>"

record boot_world =
  bw_restConfig :: bool
  bw_dynamicClient :: "string option"
  bw_kubeClient :: "string option"
  bw_addToScheme :: "string option"
  bw_parsers :: go_parsers
  bw_env :: env
  bw_client :: "string option"
  bw_restMapper :: "string option"
  bw_stat :: "string \<Rightarrow> bool"
  bw_hostname :: "string option"
  bw_elector :: elector
  bw_manager :: "string option"
  bw_complete :: "string option"
  bw_addHealthz :: "string option"
  bw_addReadyz :: "string option"
  bw_addStartup :: "string option"
  bw_start :: "string option"

subsection \<open>Servers\<close>

text \<open>What \<open>ListenAndServe\<close> returns; \<open>ErrServerClosed\<close> is the answer after a shutdown.\<close>

datatype serve_result = ErrServerClosed | ServeError string

record WebhookServer = ws_addr :: string

definition NewWebhookServer :: "string \<Rightarrow> string \<Rightarrow> string \<Rightarrow> string + WebhookServer" where
  "NewWebhookServer addr certFile keyFile = Inr \<lparr>ws_addr = addr\<rparr>"

definition webhook_Start :: "serve_result \<Rightarrow> string option" where
  "webhook_Start r = (case r of ErrServerClosed \<Rightarrow> None | ServeError e \<Rightarrow> Some (''webhook server error: '' @ e))"

definition webhook_StartTLS :: "serve_result \<Rightarrow> string option" where
  "webhook_StartTLS r = (case r of ErrServerClosed \<Rightarrow> None | ServeError e \<Rightarrow> Some (''webhook server error: '' @ e))"

datatype thread = HealthThread string | WebhookThread bool string

definition ServeStandalone :: "string \<Rightarrow> string + thread" where
  "ServeStandalone addr = Inr (HealthThread addr)"

text \<open>The error that a server goroutine logs; it never ends the program.\<close>

definition thread_log :: "thread \<Rightarrow> serve_result \<Rightarrow> string option" where
  "thread_log t r =
     (case t of
        HealthThread addr \<Rightarrow> (case r of ErrServerClosed \<Rightarrow> None | ServeError e \<Rightarrow> Some ''standalone health server failed'')
      | WebhookThread tls addr \<Rightarrow>
          (case (if tls then webhook_StartTLS r else webhook_Start r) of
             None \<Rightarrow> None
           | Some e \<Rightarrow> Some ''WEBHOOK_START_ERROR''))"

subsection \<open>Runs\<close>

datatype boot_event =
    Logged string
  | Built ControllerConfig
  | Spawn thread
  | Campaign lease_config
  | Leading bool
  | Rebind
  | ManagerStart
  | StopHealth
  | CancelContext

datatype halt = OsExit int | Return int

type_synonym boot = "boot_event list \<times> halt option"

definition emit :: "boot_event list \<Rightarrow> boot \<Rightarrow> boot" where
  "emit evs m = (evs @ fst m, snd m)"

definition and_then :: "boot \<Rightarrow> boot \<Rightarrow> boot" where
  "and_then m k = (case m of (evs, Some h) \<Rightarrow> (evs, Some h) | (evs, None) \<Rightarrow> emit evs k)"

definition unless_err :: "string option \<Rightarrow> string \<Rightarrow> halt \<Rightarrow> boot \<Rightarrow> boot" where
  "unless_err err code h k = (case err of Some _ \<Rightarrow> ([Logged code], Some h) | None \<Rightarrow> k)"

text \<open>Go's \<open>defer\<close>: not run by \<open>os.Exit\<close>.\<close>

definition deferred :: "boot_event \<Rightarrow> boot \<Rightarrow> boot" where
  "deferred d m = (case m of (evs, Some (OsExit n)) \<Rightarrow> m | (evs, h) \<Rightarrow> (evs @ [d], h))"

subsection \<open>The three functions of main.go\<close>

definition startWebhookServer :: "boot_world \<Rightarrow> main_flags \<Rightarrow> boot" where
  "startWebhookServer w f =
     (if \<not> mf_enableWebhook f then ([], None)
      else
        (case NewWebhookServer (mf_webhookAddr f) (mf_webhookCertFile f) (mf_webhookKeyFile f) of
           Inl err \<Rightarrow> ([Logged ''WEBHOOK_CREATE_ERROR''], Some (OsExit 1))
         | Inr srv \<Rightarrow>
             (let certExists = bw_stat w (mf_webhookCertFile f); keyExists = bw_stat w (mf_webhookKeyFile f)
              in if \<not> certExists \<or> \<not> keyExists
                 then (if \<not> mf_insecureWebhook f then ([Logged ''TLS_CERT_MISSING''], Some (OsExit 1))
                       else ([Spawn (WebhookThread False (ws_addr srv))], None))
                 else ([Spawn (WebhookThread True (ws_addr srv))], None))))"

definition SetupWithManager :: "boot_world \<Rightarrow> string option" where
  "SetupWithManager w = bw_complete w"

definition runController :: "boot_world \<Rightarrow> boot" where
  "runController w =
     unless_err (bw_manager w) ''MANAGER_CREATE_ERROR'' (OsExit 1)
       (emit [Rebind]
         (unless_err (SetupWithManager w) ''RECONCILER_SETUP_ERROR'' (OsExit 1)
           (unless_err (bw_addHealthz w) ''HEALTH_CHECK_ERROR'' (OsExit 1)
             (unless_err (bw_addReadyz w) ''READY_CHECK_ERROR'' (OsExit 1)
               (unless_err (bw_addStartup w) ''STARTUP_CHECK_ERROR'' (OsExit 1)
                 (emit [ManagerStart]
                   (case bw_start w of
                      Some err \<Rightarrow> ([Logged ''MANAGER_START_ERROR''], None)
                    | None \<Rightarrow> ([], None))))))))"

text \<open>
  The election with \<open>runController\<close> as the run function and \<open>SetLeading\<close> as the callback. The
  setup in \<open>runController\<close> is one step of its goroutine.
\<close>

fun perform :: "boot_world \<Rightarrow> action list \<Rightarrow> boot" where
  "perform w [] = ([], None)"
| "perform w (RunOrDie lease # rest) = emit [Campaign lease] (perform w rest)"
| "perform w (LeadingChange v # rest) = emit [Leading v] (perform w rest)"
| "perform w (RunFn # rest) = and_then (runController w) (perform w rest)"

definition leConfig :: "main_flags \<Rightarrow> ElectionConfig" where
  "leConfig f = zero_ElectionConfig\<lparr>el_ElectionID := mf_leaderElectionID f,
     el_Namespace := mf_leaderElectionNamespace f, el_Enable := mf_leaderElection f, el_OnLeadingChange := True\<rparr>"

definition runMain :: "boot_world \<Rightarrow> main_flags \<Rightarrow> boot" where
  "runMain w f =
     (if \<not> bw_restConfig w then ([], Some (OsExit 1))
      else
        unless_err (bw_dynamicClient w) ''CLIENT_ERROR'' (Return 1)
          (unless_err (bw_kubeClient w) ''CLIENT_ERROR'' (Return 1)
            (unless_err (bw_addToScheme w) ''SCHEME_ERROR'' (Return 1)
              (case main_config (bw_parsers w) (bw_env w) (mf_config f) of
                 Inl err \<Rightarrow> ([Logged ''CONFIG_LOAD_ERROR''], Some (Return 1))
               | Inr cfg \<Rightarrow>
                   deferred CancelContext
                     (unless_err (bw_client w) ''CLIENT_ERROR'' (Return 1)
                       (unless_err (bw_restMapper w) ''CLIENT_ERROR'' (Return 1)
                         (emit [Built cfg]
                           (case ServeStandalone (mf_healthProbeAddr f) of
                              Inl err \<Rightarrow> ([Logged ''HEALTH_SERVER_ERROR''], Some (Return 1))
                            | Inr server \<Rightarrow>
                                emit [Spawn server]
                                  (deferred StopHealth
                                    (and_then (startWebhookServer w f)
                                      (and_then
                                        (perform w (RunWithLeaderElection (bw_elector w) (bw_hostname w) (Some (leConfig f))))
                                        ([], Some (Return 0)))))))))))))"

text \<open>\<open>main\<close> passes the result on to \<open>os.Exit\<close>.\<close>

definition exit_code :: "boot \<Rightarrow> int option" where
  "exit_code m = (case snd m of Some (OsExit n) \<Rightarrow> Some n | Some (Return n) \<Rightarrow> Some n | None \<Rightarrow> None)"

subsection \<open>The shape of a run\<close>

lemma emit_simps [simp]: "fst (emit evs m) = evs @ fst m" "snd (emit evs m) = snd m"
  by (simp_all add: emit_def)

lemma and_then_simps [simp]:
  "fst (and_then m k) = fst m @ (if snd m = None then fst k else [])"
  "snd (and_then m k) = (if snd m = None then snd k else snd m)"
  by (auto simp: and_then_def split: prod.splits option.splits)

lemma deferred_simps [simp]:
  "fst (deferred d m) = fst m @ (if \<exists>n. snd m = Some (OsExit n) then [] else [d])"
  "snd (deferred d m) = snd m"
  by (auto simp: deferred_def split: prod.splits option.splits halt.splits)

definition webhook_ok :: "boot_world \<Rightarrow> main_flags \<Rightarrow> bool" where
  "webhook_ok w f \<longleftrightarrow> mf_enableWebhook f \<longrightarrow>
     mf_insecureWebhook f \<or> bw_stat w (mf_webhookCertFile f) \<and> bw_stat w (mf_webhookKeyFile f)"

definition webhook_events :: "boot_world \<Rightarrow> main_flags \<Rightarrow> boot_event list" where
  "webhook_events w f =
     (if mf_enableWebhook f
      then [Spawn (WebhookThread (bw_stat w (mf_webhookCertFile f) \<and> bw_stat w (mf_webhookKeyFile f)) (mf_webhookAddr f))]
      else [])"

lemma startWebhookServer_eq:
  "startWebhookServer w f =
     (if webhook_ok w f then (webhook_events w f, None) else ([Logged ''TLS_CERT_MISSING''], Some (OsExit 1)))"
  by (auto simp: startWebhookServer_def NewWebhookServer_def webhook_ok_def webhook_events_def Let_def)

definition managed :: "boot_world \<Rightarrow> bool" where
  "managed w \<longleftrightarrow> bw_manager w = None \<and> bw_complete w = None \<and> bw_addHealthz w = None \<and>
     bw_addReadyz w = None \<and> bw_addStartup w = None"

lemma runController_managed:
  "managed w \<Longrightarrow> runController w =
     ([Rebind, ManagerStart] @ (if bw_start w = None then [] else [Logged ''MANAGER_START_ERROR'']), None)"
  by (auto simp: managed_def runController_def unless_err_def SetupWithManager_def emit_def split: option.splits)

lemma runController_unmanaged:
  assumes "\<not> managed w"
  shows "snd (runController w) = Some (OsExit 1)" "ManagerStart \<notin> set (fst (runController w))"
  using assms by (auto simp: managed_def runController_def unless_err_def SetupWithManager_def emit_def split: option.splits)

text \<open>The election is harmless when every start of the manager succeeds, or none happens.\<close>

lemma perform_halt:
  "snd (perform w acts) = (if managed w \<or> RunFn \<notin> set acts then None else Some (OsExit 1))"
proof (induction acts)
  case (Cons a acts)
  then show ?case
    by (cases a) (auto simp: runController_managed runController_unmanaged)
qed simp

lemma perform_manager_start: "ManagerStart \<in> set (fst (perform w acts)) \<Longrightarrow> managed w"
  by (induction acts rule: perform.induct) (auto dest: contrapos_pp [OF _ runController_unmanaged(2)] split: if_splits)

lemma runController_events:
  "e \<in> set (fst (runController w)) \<Longrightarrow> (\<exists>code. e = Logged code) \<or> e = Rebind \<or> e = ManagerStart"
  by (auto simp: runController_def unless_err_def SetupWithManager_def emit_def split: option.splits)

lemma runController_logs:
  "Logged code \<in> set (fst (runController w)) \<Longrightarrow>
     code \<in> {''MANAGER_CREATE_ERROR'', ''RECONCILER_SETUP_ERROR'', ''HEALTH_CHECK_ERROR'', ''READY_CHECK_ERROR'',
       ''STARTUP_CHECK_ERROR'', ''MANAGER_START_ERROR''}"
  by (auto simp: runController_def unless_err_def SetupWithManager_def emit_def split: option.splits)

lemma perform_events:
  "e \<in> set (fst (perform w acts)) \<Longrightarrow>
     e \<in> set (fst (runController w)) \<or> (\<exists>lease. e = Campaign lease) \<or> (\<exists>v. e = Leading v)"
  by (induction acts rule: perform.induct) (auto split: if_splits)

definition elected :: "boot_world \<Rightarrow> main_flags \<Rightarrow> action list" where
  "elected w f = RunWithLeaderElection (bw_elector w) (bw_hostname w) (Some (leConfig f))"

definition prepared :: "boot_world \<Rightarrow> main_flags \<Rightarrow> ControllerConfig \<Rightarrow> bool" where
  "prepared w f cfg \<longleftrightarrow> bw_restConfig w \<and> bw_dynamicClient w = None \<and> bw_kubeClient w = None \<and>
     bw_addToScheme w = None \<and> main_config (bw_parsers w) (bw_env w) (mf_config f) = Inr cfg \<and>
     bw_client w = None \<and> bw_restMapper w = None"

lemma runMain_unprepared:
  assumes "\<forall>cfg. \<not> prepared w f cfg"
  shows "exit_code (runMain w f) = Some 1"
    "set (fst (runMain w f)) \<subseteq> {Logged ''CLIENT_ERROR'', Logged ''SCHEME_ERROR'', Logged ''CONFIG_LOAD_ERROR'', CancelContext}"
  using assms
  by (auto simp: prepared_def runMain_def unless_err_def exit_code_def emit_def deferred_def
      split: option.splits sum.splits if_splits)

lemma runMain_prepared:
  assumes "prepared w f cfg"
  shows "runMain w f =
    (if \<not> webhook_ok w f
     then ([Built cfg, Spawn (HealthThread (mf_healthProbeAddr f)), Logged ''TLS_CERT_MISSING''], Some (OsExit 1))
     else
       (let (evs, h) = perform w (elected w f)
        in ([Built cfg, Spawn (HealthThread (mf_healthProbeAddr f))] @ webhook_events w f @ evs @
              (if h = None then [StopHealth, CancelContext] else []),
            if h = None then Some (Return 0) else h)))"
  using assms perform_halt [of w "elected w f"]
  by (auto simp: prepared_def runMain_def unless_err_def ServeStandalone_def startWebhookServer_eq elected_def [symmetric]
      emit_def deferred_def and_then_def Let_def split: prod.splits if_splits)

subsection \<open>Properties\<close>

text \<open>
  C32. The exit code of the program: it is 0 exactly when every preparation succeeded, the webhook
  had its certificates (or is off, or may do without), and the manager could be set up whenever
  the election asked for it; else it is 1. Only with 0 are the deferred calls of the health
  server made. The error of the manager itself does not count: a manager that cannot start
  leaves the exit code as it is.
\<close>

theorem exit_code_exact:
  "exit_code (runMain w f) =
     Some (if (\<exists>cfg. prepared w f cfg) \<and> webhook_ok w f \<and> (managed w \<or> RunFn \<notin> set (elected w f)) then 0 else 1) \<and>
   (StopHealth \<in> set (fst (runMain w f)) \<longleftrightarrow> exit_code (runMain w f) = Some 0) \<and>
   exit_code (runMain (w\<lparr>bw_start := err\<rparr>) f) = exit_code (runMain w f)"
proof -
  have code: "exit_code (runMain v f) =
      Some (if (\<exists>cfg. prepared v f cfg) \<and> webhook_ok v f \<and> (managed v \<or> RunFn \<notin> set (elected v f)) then 0 else 1) \<and>
    (StopHealth \<in> set (fst (runMain v f)) \<longleftrightarrow> exit_code (runMain v f) = Some 0)" for v
  proof (cases "\<exists>cfg. prepared v f cfg")
    case True
    then obtain cfg where p: "prepared v f cfg" by blast
    have "StopHealth \<notin> set (fst (perform v (elected v f)))"
      using perform_events runController_events by blast
    with True show ?thesis
      by (auto simp: runMain_prepared [OF p] exit_code_def perform_halt case_prod_unfold webhook_events_def Let_def)
  next
    case False
    then show ?thesis
      using runMain_unprepared [of v f] by auto
  qed
  have same: "prepared (w\<lparr>bw_start := err\<rparr>) f = prepared w f" "webhook_ok (w\<lparr>bw_start := err\<rparr>) f = webhook_ok w f"
    "managed (w\<lparr>bw_start := err\<rparr>) = managed w" "elected (w\<lparr>bw_start := err\<rparr>) f = elected w f"
    by (auto simp: fun_eq_iff prepared_def webhook_ok_def managed_def elected_def)
  show ?thesis
    using code [of w] code [of "w\<lparr>bw_start := err\<rparr>"] unfolding same by metis
qed

text \<open>The manager starts right after the leadership was set, when the callback sets it.\<close>

lemma perform_led:
  assumes "led b acts" and "fst (perform w acts) = pre @ ManagerStart # post"
  shows "(\<exists>xs. pre = xs @ [Leading True, Rebind]) \<or> b \<and> pre = [Rebind]"
  using assms
proof (induction b acts arbitrary: pre rule: led.induct)
  case (2 b rest)
  have m: "managed w"
    using 2(3) perform_manager_start [of w "RunFn # rest"] by simp
  from 2(2) have rest: "b" "led False rest" by simp_all
  show ?case
  proof (cases "pre = [Rebind]")
    case False
    define log where "log = (if bw_start w = None then [] else [Logged ''MANAGER_START_ERROR''])"
    from 2(3) m have "Rebind # ManagerStart # log @ fst (perform w rest) = pre @ ManagerStart # post"
      by (simp add: runController_managed log_def)
    with False obtain more where "pre = Rebind # ManagerStart # more" "log @ fst (perform w rest) = more @ ManagerStart # post"
      by (auto simp: Cons_eq_append_conv log_def split: if_splits)
    moreover have "ManagerStart \<notin> set log" by (simp add: log_def)
    ultimately obtain pre' where pre: "pre = Rebind # ManagerStart # log @ pre'" "fst (perform w rest) = pre' @ ManagerStart # post"
      using skip_prefix by metis
    from 2(1) [OF rest(2) pre(2)] obtain xs where "pre' = xs @ [Leading True, Rebind]" by blast
    then show ?thesis
      unfolding pre(1) by (intro disjI1 exI [of _ "Rebind # ManagerStart # log @ xs"]) simp
  qed (use rest in simp)
next
  case (3 b v rest)
  then obtain pre' where pre: "pre = Leading v # pre'" "fst (perform w rest) = pre' @ ManagerStart # post"
    by (auto simp: Cons_eq_append_conv)
  from 3(2) have "led v rest" by simp
  from 3(1) [OF this pre(2)] show ?case
  proof (elim disjE exE conjE)
    fix xs assume "pre' = xs @ [Leading True, Rebind]"
    then show ?thesis
      unfolding pre(1) by (intro disjI1 exI [of _ "Leading v # xs"]) simp
  qed (simp add: pre(1))
next
  case (4 b lease rest)
  then obtain pre' where pre: "pre = Campaign lease # pre'" "fst (perform w rest) = pre' @ ManagerStart # post"
    by (auto simp: Cons_eq_append_conv)
  from 4(2) have "led False rest" by simp
  from 4(1) [OF this pre(2)] obtain xs where "pre' = xs @ [Leading True, Rebind]" by blast
  then show ?case
    unfolding pre(1) by (intro disjI1 exI [of _ "Campaign lease # xs"]) simp
qed simp

lemma elected_led:
  assumes "mf_leaderElection f" and "one_by_one (ApplyDefaults (Some (leConfig f)))
    (bw_elector w (lease_of (bw_hostname w) (ApplyDefaults (Some (leConfig f)))))"
  shows "led b (elected w f)"
  using assms by (simp add: elected_def RunWithLeaderElection_def one_by_one_def leConfig_def ApplyDefaults_fields
      led_callbacks Let_def)

lemma elected_armed: "mf_leaderElection f \<Longrightarrow> armed b (elected w f)"
  by (auto simp: elected_def RunWithLeaderElection_def leConfig_def ApplyDefaults_fields Let_def
      intro!: armed_threads armed_callback)

lemma perform_armed:
  "armed b acts \<Longrightarrow> fst (perform w acts) = pre @ ManagerStart # post \<Longrightarrow> b \<or> Leading True \<in> set pre"
proof (induction b acts arbitrary: pre rule: armed.induct)
  case (3 b v rest)
  then show ?case by (cases v) (auto simp: Cons_eq_append_conv)
next
  case (4 b lease rest)
  then show ?case by (auto simp: Cons_eq_append_conv)
qed simp_all

text \<open>
  C31. The order of the start: when the manager starts, the reconciler was built with the
  configuration of the environment and the flags, the health server runs, the webhook runs
  unless it is switched off, every step of the setup has succeeded, and with leader election
  the leadership was set before; it was set right before when the elector runs its callbacks
  one after the other.
\<close>

theorem manager_starts_last:
  assumes "fst (runMain w f) = pre @ ManagerStart # post"
  shows "(\<exists>cfg. main_config (bw_parsers w) (bw_env w) (mf_config f) = Inr cfg \<and> Built cfg \<in> set pre) \<and>
    Spawn (HealthThread (mf_healthProbeAddr f)) \<in> set pre \<and>
    (mf_enableWebhook f \<longrightarrow> (\<exists>tls. Spawn (WebhookThread tls (mf_webhookAddr f)) \<in> set pre)) \<and>
    managed w \<and>
    (mf_leaderElection f \<longrightarrow> Leading True \<in> set pre \<and>
       (one_by_one (ApplyDefaults (Some (leConfig f)))
          (bw_elector w (lease_of (bw_hostname w) (ApplyDefaults (Some (leConfig f))))) \<longrightarrow>
        (\<exists>xs. pre = xs @ [Leading True, Rebind])))"
proof -
  have start: "ManagerStart \<in> set (fst (runMain w f))"
    using assms by simp
  then obtain cfg where p: "prepared w f cfg"
    using runMain_unprepared(2) [of w f] by auto
  define evs where "evs = fst (perform w (elected w f))"
  define front where "front = [Built cfg, Spawn (HealthThread (mf_healthProbeAddr f))] @ webhook_events w f"
  define rear where "rear = (if snd (perform w (elected w f)) = None then [StopHealth, CancelContext] else [])"
  have aside: "ManagerStart \<notin> set front" "ManagerStart \<notin> set rear"
    by (auto simp: front_def rear_def webhook_events_def)
  have "webhook_ok w f"
    using start by (cases "webhook_ok w f") (simp_all add: runMain_prepared [OF p])
  then have "front @ evs @ rear = pre @ ManagerStart # post"
    using assms by (simp add: runMain_prepared [OF p] front_def evs_def rear_def case_prod_unfold Let_def)
  from skip_prefix [OF this aside(1)] obtain pre' where pre: "pre = front @ pre'" "evs @ rear = pre' @ ManagerStart # post"
    by blast
  from skip_suffix [OF this(2) aside(2)] obtain post' where evs: "evs = pre' @ ManagerStart # post'"
    by blast
  have "managed w"
    using evs perform_manager_start [of w "elected w f"] by (simp add: evs_def)
  moreover have "\<exists>xs. pre = xs @ [Leading True, Rebind]" if "mf_leaderElection f"
    "one_by_one (ApplyDefaults (Some (leConfig f)))
      (bw_elector w (lease_of (bw_hostname w) (ApplyDefaults (Some (leConfig f)))))"
    using perform_led [OF elected_led [OF that, of False] evs [unfolded evs_def]] pre(1) by (metis append_assoc)
  moreover have "Leading True \<in> set pre" if "mf_leaderElection f"
    using perform_armed [OF elected_armed [OF that, of False w] evs [unfolded evs_def]] pre(1) by simp
  ultimately show ?thesis
    using p unfolding pre(1) by (auto simp: front_def prepared_def webhook_events_def)
qed

text \<open>A world in which every library call succeeds, with no variable set and a leader elected.\<close>

definition calm_boot :: boot_world where
  "calm_boot = \<lparr>bw_restConfig = True, bw_dynamicClient = None, bw_kubeClient = None, bw_addToScheme = None,
     bw_parsers = \<lparr>url_Parse = (\<lambda>_. None), time_ParseDuration = (\<lambda>_. None)\<rparr>,
     bw_env = (\<lambda>_. []), bw_client = None, bw_restMapper = None, bw_stat = (\<lambda>_. True), bw_hostname = Some ''pod-0'',
     bw_elector = (\<lambda>_. ([OnNewLeader ''pod-0'', OnStartedLeading, OnStoppedLeading], [1, 1, 2])), bw_manager = None,
     bw_complete = None, bw_addHealthz = None, bw_addReadyz = None, bw_addStartup = None, bw_start = None\<rparr>"

lemma calm_run:
  "runMain calm_boot default_main_flags =
     ([Built NewControllerConfig, Spawn (HealthThread '':8081''), Spawn (WebhookThread True '':9443''),
       Campaign (lease_of (Some ''pod-0'') (ApplyDefaults (Some (leConfig default_main_flags)))), Leading True, Rebind,
       ManagerStart, Leading False, StopHealth, CancelContext], Some (Return 0))"
  by code_simp

theorem manager_starts_last_witness:
  "\<exists>pre post xs. fst (runMain calm_boot default_main_flags) = pre @ ManagerStart # post \<and>
     pre = xs @ [Leading True, Rebind] \<and> (\<exists>tls. Spawn (WebhookThread tls '':9443'') \<in> set pre)"
proof -
  define pre where "pre = [Built NewControllerConfig, Spawn (HealthThread '':8081''), Spawn (WebhookThread True '':9443''),
     Campaign (lease_of (Some ''pod-0'') (ApplyDefaults (Some (leConfig default_main_flags)))), Leading True, Rebind]"
  have run: "fst (runMain calm_boot default_main_flags) = pre @ ManagerStart # [Leading False, StopHealth, CancelContext]"
    by (simp add: calm_run pre_def)
  have on: "mf_leaderElection default_main_flags" "mf_enableWebhook default_main_flags"
    "mf_webhookAddr default_main_flags = '':9443''"
    by (simp_all add: default_main_flags_def)
  have "one_by_one (ApplyDefaults (Some (leConfig default_main_flags))) (bw_elector calm_boot
      (lease_of (bw_hostname calm_boot) (ApplyDefaults (Some (leConfig default_main_flags)))))"
    by (simp add: one_by_one_def calm_boot_def leConfig_def ApplyDefaults_fields)
  then show ?thesis
    using manager_starts_last [OF run] run unfolding on(3) by (metis on(1,2))
qed

text \<open>
  C33. TLS of the webhook: it serves without TLS only with the flag for it, and with TLS only when
  both files are there. If a file is missing and the flag is not given, the program ends with
  code 1 before any election, and by \<open>os.Exit\<close>, so that the health server is not shut down.
\<close>

theorem webhook_needs_tls:
  "(Spawn (WebhookThread False addr) \<in> set (fst (runMain w f)) \<longrightarrow> mf_insecureWebhook f) \<and>
   (Spawn (WebhookThread True addr) \<in> set (fst (runMain w f)) \<longrightarrow>
      bw_stat w (mf_webhookCertFile f) \<and> bw_stat w (mf_webhookKeyFile f)) \<and>
   (mf_enableWebhook f \<and> \<not> mf_insecureWebhook f \<and> \<not> (bw_stat w (mf_webhookCertFile f) \<and> bw_stat w (mf_webhookKeyFile f)) \<longrightarrow>
      exit_code (runMain w f) = Some 1 \<and>
      (\<forall>e\<in>set (fst (runMain w f)). e \<noteq> ManagerStart \<and> e \<noteq> StopHealth \<and> (\<forall>lease. e \<noteq> Campaign lease)))"
proof (cases "\<exists>cfg. prepared w f cfg")
  case True
  then obtain cfg where p: "prepared w f cfg" by blast
  have quiet: "Spawn t \<notin> set (fst (perform w acts))" for t acts
    using perform_events [of "Spawn t" w acts] runController_events [of "Spawn t" w] by auto
  show ?thesis
    by (auto simp: runMain_prepared [OF p] quiet webhook_events_def webhook_ok_def exit_code_def case_prod_unfold Let_def
        split: if_splits)
next
  case False
  then show ?thesis
    using runMain_unprepared [of w f] by auto
qed

theorem webhook_needs_tls_witness:
  "exit_code (runMain (calm_boot\<lparr>bw_stat := \<lambda>_. False\<rparr>) default_main_flags) = Some 1 \<and>
   bw_stat calm_boot (mf_webhookCertFile default_main_flags)"
proof -
  have "Spawn (WebhookThread True '':9443'') \<in> set (fst (runMain calm_boot default_main_flags))"
    by (simp add: calm_run)
  then show ?thesis
    using webhook_needs_tls [of "'':9443''" "calm_boot\<lparr>bw_stat := \<lambda>_. False\<rparr>" default_main_flags]
      webhook_needs_tls [of "'':9443''" calm_boot default_main_flags]
    by (simp add: default_main_flags_def)
qed

text \<open>
  Failures of the servers are swallowed: whatever \<open>ListenAndServe\<close> returns, the program does
  not report \<open>HEALTH_SERVER_ERROR\<close> or \<open>WEBHOOK_CREATE_ERROR\<close>, since the errors it checks for
  cannot occur; the goroutine logs a failure, and the run is that of a healthy server.
\<close>

theorem server_failures_are_swallowed:
  "Logged ''HEALTH_SERVER_ERROR'' \<notin> set (fst (runMain w f)) \<and>
   Logged ''WEBHOOK_CREATE_ERROR'' \<notin> set (fst (runMain w f)) \<and>
   thread_log (HealthThread addr) (ServeError e) = Some ''standalone health server failed'' \<and>
   thread_log (WebhookThread tls addr) (ServeError e) = Some ''WEBHOOK_START_ERROR'' \<and>
   (\<exists>server. ServeStandalone addr = Inr server \<and> thread_log server ErrServerClosed = None)"
proof (cases "\<exists>cfg. prepared w f cfg")
  case True
  then obtain cfg where p: "prepared w f cfg" by blast
  have "Logged ''HEALTH_SERVER_ERROR'' \<notin> set (fst (perform w acts))" "Logged ''WEBHOOK_CREATE_ERROR'' \<notin> set (fst (perform w acts))"
    for acts
    using perform_events runController_logs by fastforce+
  then show ?thesis
    by (auto simp: runMain_prepared [OF p] webhook_events_def case_prod_unfold thread_log_def webhook_Start_def
        webhook_StartTLS_def ServeStandalone_def Let_def)
next
  case False
  then show ?thesis
    using runMain_unprepared [of w f]
    by (auto simp: thread_log_def webhook_Start_def webhook_StartTLS_def ServeStandalone_def)
qed

text \<open>What the built reconciler is configured with.\<close>

lemma Built_config:
  "Built cfg \<in> set (fst (runMain w f)) \<Longrightarrow> main_config (bw_parsers w) (bw_env w) (mf_config f) = Inr cfg"
proof (cases "\<exists>cfg. prepared w f cfg")
  case True
  then obtain cfg' where p: "prepared w f cfg'" by blast
  assume "Built cfg \<in> set (fst (runMain w f))"
  moreover have "Built cfg \<notin> set (fst (perform w acts))" for acts
    using perform_events [of "Built cfg" w acts] runController_events [of "Built cfg" w] by auto
  ultimately have "cfg = cfg'"
    by (auto simp: runMain_prepared [OF p] webhook_events_def case_prod_unfold Let_def split: if_splits)
  with p show ?thesis by (simp add: prepared_def)
next
  case False
  assume "Built cfg \<in> set (fst (runMain w f))"
  with False show ?thesis
    using runMain_unprepared(2) [of w f] by auto
qed

theorem exit_code_exact_witness:
  "exit_code (runMain calm_boot default_main_flags) = Some 0 \<and>
   exit_code (runMain (calm_boot\<lparr>bw_start := Some ''port in use''\<rparr>) default_main_flags) = Some 0"
proof -
  have "exit_code (runMain calm_boot default_main_flags) = Some 0"
    by (simp add: calm_run exit_code_def)
  then show ?thesis
    using exit_code_exact [of calm_boot default_main_flags "Some ''port in use''"] by simp
qed

end
