(* ===== verification/Reconciler_Runs.thy ===== *)
theory Reconciler_Runs
  imports Reconciler
begin

text \<open>
  What runs of the reconciler do: an evaluation returns and keeps the invariant of the state,
  \<open>Reconcile\<close> is total and safe, and what it does with the tracked policies.
\<close>

subsection \<open>The direct path\<close>

context evaluation_relation
begin

lemma evaluate_items_rel:
  assumes "evaluate_items ev out p items rl w = Some (r, rl', w')" and "ev_recorder ev = er"
    and "\<And>r. Some r \<in> set items \<Longrightarrow> deletable (ev_as_selector ev) out p r \<Longrightarrow> allowed r"
  shows "R w w'"
proof -
  define res where "res = fst (evaluatePolicyResourcesShared (ev_as_selector ev) out p items w)"
  define w1 where "w1 = snd (evaluatePolicyResourcesShared (ev_as_selector ev) out p items w)"
  have del: "\<forall>r\<in>set (er_ResourcesToDelete res). allowed r"
    using evaluateShared_ok [of "ev_as_selector ev" out p items w] assms(3)
    by (auto simp: res_def result_ok_def)
  have log1: "R w w1"
    unfolding w1_def by (rule evaluateResources_rel)
  note body = assms(1) [unfolded evaluate_items_def Let_def case_prod_beta, folded res_def w1_def]
  obtain x rl2 w2 where step: "deleteResourcesInBatchesShared ev out p (er_ResourcesToDelete res)
      (er_Reasons res) rl w1 = Some (x, rl2, w2)"
    using body by (cases "deleteResourcesInBatchesShared ev out p (er_ResourcesToDelete res) (er_Reasons res) rl w1")
      auto
  have "R w w2"
    using R_trans [OF log1] deleteResourcesInBatches_rel(2) [OF assms(2) del step] by blast
  moreover have "w' = w2 \<or>
      (\<exists>d. w' = snd (finish_evaluation ev out p (er_MatchedCount res) d (er_PendingCount res) w2))"
    using body unfolding step by (auto split: sum.splits)
  ultimately show ?thesis
    using R_trans finish_evaluation_rel by blast
qed

end

lemma evaluate_items_total:
  assumes "rl_wf rl" and "resolveBatchSize p (ev_config ev) > 0"
  shows "\<exists>err rl' w'. evaluate_items ev out p items rl w = Some (Inr err, rl', w') \<and> rl_wf rl'"
proof -
  define res where "res = fst (evaluatePolicyResourcesShared (ev_as_selector ev) out p items w)"
  define w1 where "w1 = snd (evaluatePolicyResourcesShared (ev_as_selector ev) out p items w)"
  obtain n rl' w2 where step: "deleteResourcesInBatchesShared ev out p (er_ResourcesToDelete res)
      (er_Reasons res) rl w1 = Some (Inr n, rl', w2)" and wf: "rl_wf rl'"
    using deleteResourcesInBatches_total(2) [OF assms] by blast
  show ?thesis
    unfolding evaluate_items_def Let_def case_prod_beta res_def [symmetric] w1_def [symmetric] step
    using wf by simp
qed

subsection \<open>One evaluation by the reconciler\<close>

definition same_tracking :: "'l reconciler \<Rightarrow> 'l reconciler \<Rightarrow> bool" where
  "same_tracking rc rc' \<longleftrightarrow> rc_config rc' = rc_config rc \<and> rc_recorder rc' = rc_recorder rc \<and>
     rc_status rc' = rc_status rc \<and> rc_policyUIDs rc' = rc_policyUIDs rc \<and> rc_policySpecs rc' = rc_policySpecs rc"

lemma same_tracking_trans [trans]: "same_tracking a b \<Longrightarrow> same_tracking b c \<Longrightarrow> same_tracking a c"
  by (simp add: same_tracking_def)

lemma same_tracking_limiters [simp]: "same_tracking a (b\<lparr>rc_limiters := rl\<rparr>) = same_tracking a b"
  by (simp add: same_tracking_def)

lemma same_policies_tracking: "same_policies a b \<Longrightarrow> same_tracking a b"
  by (simp add: same_policies_def same_tracking_def)

text \<open>Every resource that some informer holds at some time.\<close>

definition observed :: "('x) rc_outside_scheme \<Rightarrow> resource set" where
  "observed out = {r. \<exists>t i. Some r \<in> set (store_List out t i)}"

definition run_ok ::
    "as_selector \<Rightarrow> ('x) rc_outside_scheme \<Rightarrow> GarbageCollectionPolicy \<Rightarrow> 'l reconciler \<Rightarrow> world \<Rightarrow>
      'l reconciler \<Rightarrow> world \<Rightarrow> bool" where
  "run_ok as_sel out p rc w rc' w' \<longleftrightarrow> rc_ok rc' \<and> same_tracking rc rc' \<and> informers_grow rc rc' \<and>
     logs out (\<lambda>N. eval_effect N as_sel out p (observed out)) w w'"

lemma run_ok_trans:
  "run_ok s out p rc w rc1 w1 \<Longrightarrow> run_ok s out p rc1 w1 rc2 w2 \<Longrightarrow> run_ok s out p rc w rc2 w2"
  unfolding run_ok_def informers_grow_def
  by (meson logs_trans map_le_trans same_tracking_trans)

lemma bookkeeping_eval_effect: "bookkeeping e \<Longrightarrow> eval_effect N s out p A e"
  using bookkeeping_labelled [of e] by (cases e) (auto simp: eval_effect_def)

lemma set_store_ListResources: "r \<in> set (store_ListResources items ns) \<Longrightarrow> Some r \<in> set items"
  by (auto simp: store_ListResources_def split: option.splits if_splits)

lemma step_fine_run_ok:
  "step_fine out rc w (x, rc', w') \<Longrightarrow> run_ok s out p rc w rc' w'"
  unfolding step_fine_def run_ok_def
  by (auto intro!: same_policies_tracking logs_intro intro: appends_mono [OF _ bookkeeping_eval_effect])

lemma run_ok_tick [simp]: "run_ok s out p rc w rc' (tick w') = run_ok s out p rc w rc' w'"
  "run_ok s out p rc (tick w) rc' w' = run_ok s out p rc w rc' w'"
  by (simp_all add: run_ok_def)

lemma run_ok_emit: "list_all quiet es \<Longrightarrow> run_ok s out p rc w rc' w' \<Longrightarrow> run_ok s out p rc w rc' (emit es w')"
  unfolding run_ok_def by (auto intro: eval_log.R_emit)

lemma run_ok_duration: "run_ok s out p rc w rc' w' \<Longrightarrow> run_ok s out p rc w rc' (record_duration out p t w')"
  by (auto simp: record_duration_def read_clock_def Let_def intro!: run_ok_emit bookkeeping_all_quiet)

lemma service_run:
  assumes "rc_ok rc" and "service_ok rc k svc" and "resolveBatchSize p (rc_config rc) > 0"
  shows "\<exists>err rc' w'. service_EvaluatePolicy env out svc p rc w = Some (Inr err, rc', w') \<and>
    run_ok (re_as_selector env) out p rc w rc' w'"
proof -
  obtain sv where sv: "svc = Some sv" "sv_config sv = rc_config rc" "sv_recorder sv = rc_recorder rc"
    using assms(2) by (auto simp: service_ok_def)
  let ?ev = "service_env env sv"
  let ?list = "\<lambda>gvr namespace t. Inr (store_ListResources (store_List out t (sv_informer sv)) namespace)"
  have "resolveBatchSize p (ev_config ?ev) > 0"
    using assms(3) sv by (simp add: service_env_def)
  then obtain err rl w' where run: "EvaluatePolicy ?ev out (re_parse_gv env) ?list p (rc_limiters rc) w =
      Some (Inr err, rl, w')" and wf: "rl_wf rl"
    using EvaluatePolicy_total [OF rc_ok_maps(6) [OF assms(1)]] by blast
  have listed: "r \<in> observed out" if "?list g ns t = Inr rs" "r \<in> set rs" for g ns t rs r
    using that set_store_ListResources unfolding observed_def by fastforce
  have "logs out (\<lambda>N. eval_effect N (re_as_selector env) out p (observed out)) w w'"
    by (rule eval_log.EvaluatePolicy_rel [OF run refl]) (use listed in \<open>auto simp: service_env_def\<close>)
  then have "run_ok (re_as_selector env) out p rc w (rc\<lparr>rc_limiters := rl\<rparr>) w'"
    using rc_ok_policies(3) [OF assms(1) wf] by (simp add: run_ok_def same_tracking_def informers_grow_def)
  with run sv(1) show ?thesis
    by (simp add: service_EvaluatePolicy_def)
qed

lemma items_run:
  assumes "rc_ok rc" and "resolveBatchSize p (rc_config rc) > 0" and "items = store_List out t i"
  shows "\<exists>err rl w'. evaluate_items (direct_env env rc) out p items (rc_limiters rc) w = Some (Inr err, rl, w') \<and>
    run_ok (re_as_selector env) out p rc w (rc\<lparr>rc_limiters := rl\<rparr>) w'"
proof -
  have "resolveBatchSize p (ev_config (direct_env env rc)) > 0"
    using assms(2) by (simp add: direct_env_def)
  then obtain err rl w' where run: "evaluate_items (direct_env env rc) out p items (rc_limiters rc) w =
      Some (Inr err, rl, w')" and wf: "rl_wf rl"
    using evaluate_items_total [OF rc_ok_maps(6) [OF assms(1)]] by blast
  have "logs out (\<lambda>N. eval_effect N (re_as_selector env) out p (observed out)) w w'"
    by (rule eval_log.evaluate_items_rel [OF run refl]) (auto simp: direct_env_def observed_def assms(3))
  then show ?thesis
    using run rc_ok_policies(3) [OF assms(1) wf] by (auto simp: run_ok_def same_tracking_def informers_grow_def)
qed

lemma direct_run:
  assumes "rc_ok rc" and "wd_gvr_cache w \<noteq> None" and "\<And>t i. \<not> store_nil out t i"
    and "resolveBatchSize p (rc_config rc) > 0"
  shows "\<exists>err rc' w'. evaluate_direct env out p rc w = Some (Inr err, rc', w') \<and>
    run_ok (re_as_selector env) out p rc w rc' w'"
proof -
  obtain x rc1 w1 where inf: "getOrCreateResourceInformer out p rc (tick w) = (x, rc1, w1)"
    by (metis prod.exhaust)
  have "wd_gvr_cache (tick w) \<noteq> None" using assms(2) by simp
  note fine = informer_fine [OF assms(1) this, of out p, unfolded inf, THEN conjunct1]
  have ok1: "run_ok (re_as_selector env) out p rc w rc1 w1"
    using step_fine_run_ok [OF fine, of "re_as_selector env" p] by simp
  obtain y where y: "x = Inr y"
    using fine by (auto simp: step_fine_def)
  show ?thesis
  proof (cases y)
    case (Inl e)
    then show ?thesis
      using ok1 y by (auto simp: evaluate_direct_def read_clock_def inf Let_def
          intro!: run_ok_duration run_ok_emit bookkeeping_all_quiet)
  next
    case (Inr i)
    have "rc_ok rc1" "rc_config rc1 = rc_config rc"
      using ok1 by (simp_all add: run_ok_def same_tracking_def)
    then obtain err rl w2 where items: "evaluate_items (direct_env env rc1) out p (store_List out (wd_tick w1) i)
        (rc_limiters rc1) (tick w1) = Some (Inr err, rl, w2)"
      and "run_ok (re_as_selector env) out p rc1 (tick w1) (rc1\<lparr>rc_limiters := rl\<rparr>) w2"
      using items_run [OF _ _ refl, where rc=rc1 and p=p and out=out and env=env and t="wd_tick w1" and i=i and w="tick w1"]
        assms(4) by auto
    then have "run_ok (re_as_selector env) out p rc w (rc1\<lparr>rc_limiters := rl\<rparr>) w2"
      using run_ok_trans [OF ok1] by simp
    with items Inr y assms(3) show ?thesis
      by (simp add: evaluate_direct_def read_clock_def inf Let_def run_ok_duration)
  qed
qed

lemma evaluatePolicy_run:
  assumes "rc_ok rc" and "wd_gvr_cache w \<noteq> None" and "\<And>t i. \<not> store_nil out t i"
    and "resolveBatchSize p (rc_config rc) > 0"
  shows "\<exists>err rc' w'. evaluatePolicy env out p rc w = Some (Inr err, rc', w') \<and>
    run_ok (re_as_selector env) out p rc w rc' w'"
proof -
  obtain x rc1 w1 where srv: "getOrCreateEvaluationService out p rc w = (x, rc1, w1)"
    by (metis prod.exhaust)
  have fine: "step_fine out rc w (x, rc1, w1)"
    and ok: "x = Inr (Inr svc) \<Longrightarrow> service_ok rc1 (evaluationServiceKey p) svc" for svc
    using service_fine [OF assms(1,2), of out p] srv by auto
  have ok1: "run_ok (re_as_selector env) out p rc w rc1 w1"
    using step_fine_run_ok [OF fine] .
  then have rc1: "rc_ok rc1" "resolveBatchSize p (rc_config rc1) > 0" "wd_gvr_cache w1 \<noteq> None"
    using assms(2,4) by (auto simp: run_ok_def same_tracking_def logs_def cache_step_def)
  obtain y where y: "x = Inr y"
    using fine by (auto simp: step_fine_def)
  show ?thesis
  proof (cases y)
    case (Inl e)
    with direct_run [OF rc1(1,3) assms(3) rc1(2), of env] y srv show ?thesis
      unfolding evaluatePolicy_def using run_ok_trans [OF ok1] by fastforce
  next
    case (Inr svc)
    with service_run [OF rc1(1) ok rc1(2), of svc env out w1] y srv show ?thesis
      unfolding evaluatePolicy_def using run_ok_trans [OF ok1] by fastforce
  qed
qed

subsection \<open>Reconcile\<close>

lemma tracking_ok:
  assumes "rc_ok rc"
  shows "rc_ok (trackPolicyUID nn u rc)" "rc_ok (handleInformerRecreation p rc)" "rc_ok (trackPolicySpec u spec rc)"
  using assms rc_ok_policies(1) [OF assms, of "go_put nn u (rc_policyUIDs rc)"]
    rc_ok_policies(2) [OF assms, of "go_del (gp_UID p) (rc_policySpecs rc)"]
    rc_ok_policies(2) [OF assms, of "go_put u spec (rc_policySpecs rc)"] rc_ok_maps [OF assms]
  by (simp_all add: trackPolicyUID_def handleInformerRecreation_def trackPolicySpec_def
      cleanupResourceInformer_def)

lemma cleanup_keeps:
  assumes "rc_ok rc"
  shows "rc_ok (fst (cleanupPolicyResources nn rc w))"
    "rc_informers (fst (cleanupPolicyResources nn rc w)) = rc_informers rc"
    "rc_services (fst (cleanupPolicyResources nn rc w)) = rc_services rc"
    "rc_config (fst (cleanupPolicyResources nn rc w)) = rc_config rc"
    "appends bookkeeping w (snd (cleanupPolicyResources nn rc w))"
    "wd_gvr_cache (snd (cleanupPolicyResources nn rc w)) = wd_gvr_cache w"
proof -
  have "rc_ok (rc\<lparr>rc_policyUIDs := go_del nn (rc_policyUIDs rc), rc_limiters := cleanupRateLimiter u (rc_limiters rc),
      rc_policySpecs := go_del u (rc_policySpecs rc)\<rparr>)" for u
    using rc_ok_maps [OF assms] assms
    by (intro rc_okI) (auto simp: rc_ok_def service_ok_def)
  then show "rc_ok (fst (cleanupPolicyResources nn rc w))"
    "rc_informers (fst (cleanupPolicyResources nn rc w)) = rc_informers rc"
    "rc_services (fst (cleanupPolicyResources nn rc w)) = rc_services rc"
    "rc_config (fst (cleanupPolicyResources nn rc w)) = rc_config rc"
    "appends bookkeeping w (snd (cleanupPolicyResources nn rc w))"
    "wd_gvr_cache (snd (cleanupPolicyResources nn rc w)) = wd_gvr_cache w"
    using assms by (auto simp: cleanupPolicyResources_def cleanupResourceInformer_def Let_def intro: appends_emit
        split: option.splits)
qed

text \<open>What one call of \<open>Reconcile\<close> guarantees; the batch sizes must be positive.\<close>

definition batches_positive :: "('x) rc_outside_scheme \<Rightarrow> ControllerConfig option \<Rightarrow> bool" where
  "batches_positive out cfg \<longleftrightarrow>
     (\<forall>t nn p. get_policy out t nn = Inr p \<longrightarrow> resolveBatchSize p cfg > 0)"

definition stores_exist :: "('x) rc_outside_scheme \<Rightarrow> bool" where
  "stores_exist out \<longleftrightarrow> (\<forall>t i. \<not> store_nil out t i)"

definition allowed_call ::
    "(GroupVersionKind \<Rightarrow> GroupVersionResource set) \<Rightarrow> as_selector \<Rightarrow> ('x) rc_outside_scheme \<Rightarrow> (go_error + GarbageCollectionPolicy) \<Rightarrow> effect \<Rightarrow> bool" where
  "allowed_call N s out got e \<longleftrightarrow> well_labelled e \<and> (\<forall>dr. e = DeleteCall dr \<longrightarrow>
     (\<exists>p r. got = Inr p \<and> \<not> gs_Paused (gp_Spec p) \<and> \<not> bh_DryRun (gs_Behavior (gp_Spec p)) \<and>
        r \<in> observed out \<and> deletable s out p r \<and> request_for N r p dr))"

lemma quiet_allowed_call: "quiet e \<Longrightarrow> allowed_call N s out got e"
  using bookkeeping_labelled [of e] by (cases e) (auto simp: allowed_call_def)

lemma phase_metrics_eq: "\<exists>es. list_all bookkeeping es \<and> recordPolicyPhaseMetrics out w = emit es (tick w)"
proof (cases "list_policies out (wd_tick w)")
  case (Inl e)
  then show ?thesis
    by (intro exI [of _ "[]"]) (simp add: recordPolicyPhaseMetrics_def emit_def tick_def)
next
  case (Inr ps)
  then show ?thesis
    unfolding recordPolicyPhaseMetrics_def Let_def sum.case
    by (intro exI conjI refl) (auto simp del: map_eq_conv intro!: bookkeeping_concat)
qed

definition reconcile_fine ::
    "'l rc_env \<Rightarrow> ('x) rc_outside_scheme \<Rightarrow> NamespacedName \<Rightarrow> 'l reconciler \<Rightarrow> world \<Rightarrow> 'l reconciler \<Rightarrow> world \<Rightarrow> bool" where
  "reconcile_fine env out req rc w rc' w' \<longleftrightarrow> rc_ok rc' \<and> rc_config rc' = rc_config rc \<and>
     informers_grow rc rc' \<and>
     logs out (\<lambda>N. allowed_call N (re_as_selector env) out (get_policy out (wd_tick w) req)) w w'"

lemma run_ok_fine:
  assumes "run_ok (re_as_selector env) out p rc1 (tick w) rc' w'" and "get_policy out (wd_tick w) req = Inr p"
    and "\<not> gs_Paused (gp_Spec p)" and "rc_config rc1 = rc_config rc" and "rc_informers rc1 = rc_informers rc"
  shows "reconcile_fine env out req rc w rc' w'"
proof -
  have "eval_effect N (re_as_selector env) out p (observed out) e \<Longrightarrow>
      allowed_call N (re_as_selector env) out (Inr p) e" for N e
    using assms(3) unfolding eval_effect_def allowed_call_def by blast
  with assms show ?thesis
    by (auto simp: reconcile_fine_def run_ok_def same_tracking_def informers_grow_def intro: logs_mono)
qed

lemma reconcile_fine_bookkeeping:
  assumes "reconcile_fine env out req rc w rc' w'" and "list_all bookkeeping es"
  shows "reconcile_fine env out req rc w rc' (emit es w')"
  using assms unfolding reconcile_fine_def
  by (auto simp: list_all_iff intro!: logs_relation.R_trans [OF _ logs_emit] quiet_allowed_call bookkeeping_quiet)

lemma reconcile_fine_tick [simp]: "reconcile_fine env out req rc w rc' (tick w') = reconcile_fine env out req rc w rc' w'"
  by (simp add: reconcile_fine_def)

lemma Reconcile_total:
  assumes "rc_ok rc" and "wd_gvr_cache w \<noteq> None" and "stores_exist out" and "batches_positive out (rc_config rc)"
  shows "\<exists>res err rc' w'. Reconcile env out req rc w = Some (Inr (res, err), rc', w') \<and>
    reconcile_fine env out req rc w rc' w'"
proof (cases "get_policy out (wd_tick w) req")
  case (Inl e)
  have "reconcile_fine env out req rc w (fst (cleanupPolicyResources req rc (tick w))) (snd (cleanupPolicyResources req rc (tick w)))"
    using cleanup_keeps [OF assms(1), where nn=req and w="tick w"]
    by (auto simp: reconcile_fine_def informers_grow_def cache_step_def cached_def
        intro!: logs_intro intro: appends_mono quiet_allowed_call bookkeeping_quiet)
  moreover have "reconcile_fine env out req rc w rc (tick w)"
    using assms(1) by (simp add: reconcile_fine_def informers_grow_def logs_refl)
  ultimately show ?thesis
    using Inl by (cases "cleanupPolicyResources req rc (tick w)")
      (auto simp: Reconcile_def handlePolicyDeletion_def handlePolicyFetchError_def Let_def)
next
  case (Inr p)
  define rc1 where "rc1 = trackPolicySpec (gp_UID p) (gp_Spec p) (handleInformerRecreation p (trackPolicyUID req (gp_UID p) rc))"
  have ok: "rc_ok rc1"
    using assms(1) by (simp add: rc1_def tracking_ok)
  have same: "rc_config rc1 = rc_config rc" "rc_informers rc1 = rc_informers rc"
    by (simp_all add: rc1_def trackPolicySpec_def handleInformerRecreation_def trackPolicyUID_def
        cleanupResourceInformer_def)
  show ?thesis
  proof (cases "gs_Paused (gp_Spec p)")
    case True
    with Inr ok same show ?thesis
      by (simp add: Reconcile_def rc1_def [symmetric] handlePausedPolicy_def reconcile_fine_def informers_grow_def
          logs_refl)
  next
    case False
    have "resolveBatchSize p (rc_config rc1) > 0"
      using assms(4) Inr same(1) unfolding batches_positive_def by metis
    then obtain err rc2 w2 where run: "evaluatePolicy env out p rc1 (tick w) = Some (Inr err, rc2, w2)"
      and ok2: "run_ok (re_as_selector env) out p rc1 (tick w) rc2 w2"
      using evaluatePolicy_run [OF ok, of "tick w" out p env] assms(2,3) by (auto simp: stores_exist_def)
    have fine: "reconcile_fine env out req rc w rc2 w2"
      by (rule run_ok_fine [OF ok2 Inr False same])
    obtain es where es: "list_all bookkeeping es" "recordPolicyPhaseMetrics out w2 = emit es (tick w2)"
      using phase_metrics_eq by blast
    have fine': "reconcile_fine env out req rc w rc2 (emit es (tick w2))"
      by (rule reconcile_fine_bookkeeping [OF _ es(1)]) (simp add: fine)
    show ?thesis
      using Inr False run fine fine' es(2) by (cases err) (auto simp: Reconcile_def rc1_def [symmetric] handleEvaluationError_def)
  qed
qed

lemma reconcile_fine_deletes:
  assumes "reconcile_fine env out req rc w rc' w'"
  obtains es where "wd_log w' = wd_log w @ es" "\<And>dr. DeleteCall dr \<in> set es \<Longrightarrow>
      (\<exists>p r t i. get_policy out (wd_tick w) req = Inr p \<and> \<not> gs_Paused (gp_Spec p) \<and>
          \<not> bh_DryRun (gs_Behavior (gp_Spec p)) \<and> Some r \<in> set (store_List out t i) \<and>
          deletable (re_as_selector env) out p r \<and> request_for (names_of out w) r p dr)"
proof -
  obtain es where es: "wd_log w' = wd_log w @ es"
    "list_all (allowed_call (names_of out w) (re_as_selector env) out (get_policy out (wd_tick w) req)) es"
    using assms by (auto simp: reconcile_fine_def appends_def dest!: logs_appends)
  have "\<exists>p r t i. get_policy out (wd_tick w) req = Inr p \<and> \<not> gs_Paused (gp_Spec p) \<and>
      \<not> bh_DryRun (gs_Behavior (gp_Spec p)) \<and> Some r \<in> set (store_List out t i) \<and>
      deletable (re_as_selector env) out p r \<and> request_for (names_of out w) r p dr" if "DeleteCall dr \<in> set es" for dr
    using es(2) that unfolding list_all_iff allowed_call_def observed_def by blast
  with es(1) show ?thesis by (rule that)
qed

text \<open>
  C3. One call of \<open>Reconcile\<close> is total and safe. On a state in order, with a resolver, positive
  batch sizes and informers that have a store, it returns and does not panic, whatever the API
  server, discovery, the clock and the limiters do; the state stays in order, no informer is
  lost or replaced, and every deletion it requests is for the policy that was fetched, which is
  neither paused nor a dry run, and of a resource that an informer held, that matches the
  policy and whose TTL was over. The request goes to a name of the kind of that resource: one
  that discovery answers for it, the cached one, or a plural of the kind.
\<close>

theorem Reconcile_deletes_only_expired:
  assumes "rc_ok rc" and "wd_gvr_cache w \<noteq> None" and "stores_exist out" and "batches_positive out (rc_config rc)"
  shows "\<exists>res err rc' w' es. Reconcile env out req rc w = Some (Inr (res, err), rc', w') \<and>
    rc_ok rc' \<and> map_of (rc_informers rc) \<subseteq>\<^sub>m map_of (rc_informers rc') \<and> wd_log w' = wd_log w @ es \<and>
    (\<forall>dr. DeleteCall dr \<in> set es \<longrightarrow>
       (\<exists>p r t i. get_policy out (wd_tick w) req = Inr p \<and> \<not> gs_Paused (gp_Spec p) \<and>
          \<not> bh_DryRun (gs_Behavior (gp_Spec p)) \<and> Some r \<in> set (store_List out t i) \<and>
          deletable (re_as_selector env) out p r \<and> request_for (names_of out w) r p dr))"
proof -
  obtain res err rc' w' where run: "Reconcile env out req rc w = Some (Inr (res, err), rc', w')"
    and fine: "reconcile_fine env out req rc w rc' w'"
    using Reconcile_total [OF assms] by blast
  obtain es where es: "wd_log w' = wd_log w @ es" "\<And>dr. DeleteCall dr \<in> set es \<Longrightarrow>
      (\<exists>p r t i. get_policy out (wd_tick w) req = Inr p \<and> \<not> gs_Paused (gp_Spec p) \<and>
          \<not> bh_DryRun (gs_Behavior (gp_Spec p)) \<and> Some r \<in> set (store_List out t i) \<and>
          deletable (re_as_selector env) out p r \<and> request_for (names_of out w) r p dr)"
    using reconcile_fine_deletes [OF fine] by blast
  with run fine es show ?thesis
    unfolding reconcile_fine_def informers_grow_def by blast
qed

text \<open>An outside with one policy and one expired resource, and the parts an evaluation calls.\<close>

definition rc_calm :: "GarbageCollectionPolicy \<Rightarrow> rc_outside" where
  "rc_calm p = outside.extend calm_outside
     \<lparr>get_policy = (\<lambda>_ _. Inr p), list_policies = (\<lambda>_. Inr [p]),
      object_GVK = (\<lambda>v k. \<lparr>gvk_Group = [], gvk_Version = v, gvk_Kind = k\<rparr>),
      cache_sync = (\<lambda>_ _. Synced), store_nil = (\<lambda>_ _. False),
      store_List = (\<lambda>_ _. [Some (plain_resource ''ns'' ''a'' 0), None])\<rparr>"

definition rc_env_example :: "(int \<times> int) rc_env" where
  "rc_env_example = \<lparr>re_rate_pkg = pair_limiter, re_as_selector = (\<lambda>_. None), re_parse_gv = split_gv\<rparr>"

lemma rc_calm_simps [simp]:
  "get_policy (rc_calm p) t nn = Inr p" "store_nil (rc_calm p) t i = False" "cache_sync (rc_calm p) t i = Synced"
  by (simp_all add: rc_calm_def outside.extend_def)

lemma rc_calm_fine: "resolveBatchSize p cfg > 0 \<Longrightarrow> stores_exist (rc_calm p) \<and> batches_positive (rc_calm p) cfg"
  by (simp add: stores_exist_def batches_positive_def)

lemma example_batch: "resolveBatchSize (fixed_policy 60) (Some NewControllerConfig) > 0"
  by (simp add: resolveBatchSize_def NewControllerConfig_def fixed_policy_def zero_defs DefaultBatchSize_def)

theorem Reconcile_deletes_only_expired_witness:
  "\<exists>res err rc' w'. Reconcile rc_env_example (rc_calm (fixed_policy 60)) (''ns'', ''p'')
      (new_reconciler None None None) fresh_world = Some (Inr (res, err), rc', w') \<and> rc_ok rc'"
proof -
  have ok: "rc_config (new_reconciler None None None) = Some NewControllerConfig" "wd_gvr_cache fresh_world \<noteq> None"
    by (simp_all add: new_reconciler_def fresh_world_def)
  show ?thesis
    using Reconcile_deletes_only_expired [OF rc_ok_new ok(2), of "rc_calm (fixed_policy 60)" None None None
        rc_env_example "(''ns'', ''p'')"] rc_calm_fine [OF example_batch] unfolding ok(1) by blast
qed

subsection \<open>Runs\<close>

text \<open>
  The states that a reconciler made with a resolver can be in, after any number of calls of
  \<open>Reconcile\<close> for any policies; between the calls other parts may move time on.
\<close>

inductive rc_reach ::
    "'l rc_env \<Rightarrow> ('x) rc_outside_scheme \<Rightarrow> ControllerConfig option \<Rightarrow> 'l reconciler \<Rightarrow> world \<Rightarrow> bool"
  for env out cfg where
  start: "NewGCPolicyReconcilerWithRESTMapper cfg su er w0 = (rc, w) \<Longrightarrow> rc_reach env out cfg rc w"
| reconcile: "rc_reach env out cfg rc w \<Longrightarrow> Reconcile env out req rc w = Some (Inr res, rc', w') \<Longrightarrow>
    rc_reach env out cfg rc' w'"
| later: "rc_reach env out cfg rc w \<Longrightarrow> rc_reach env out cfg rc (tick w)"

definition effective_config :: "ControllerConfig option \<Rightarrow> ControllerConfig" where
  "effective_config cfg = (case cfg of None \<Rightarrow> NewControllerConfig | Some c \<Rightarrow> c)"

lemma rc_reach_ok:
  assumes "rc_reach env out cfg rc w" and "stores_exist out"
    and "batches_positive out (Some (effective_config cfg))"
  shows "rc_ok rc \<and> rc_config rc = Some (effective_config cfg) \<and> wd_gvr_cache w \<noteq> None \<and> cache_confirmed out w"
  using assms(1)
proof (induction rule: rc_reach.induct)
  case (start su er w0 rc w)
  then show ?case
    by (auto simp: NewGCPolicyReconcilerWithRESTMapper_def new_reconciler_def effective_config_def cache_confirmed_def
        rc_ok_new [unfolded new_reconciler_def])
next
  case (reconcile rc w req res rc' w')
  have "reconcile_fine env out req rc w rc' w'"
    using Reconcile_total [of rc w out env req] reconcile assms(2,3) by auto
  moreover from this have "cache_step out w w'"
    by (auto simp: reconcile_fine_def dest: logs_cache)
  ultimately show ?case
    using reconcile cache_step_confirmed [of out w w'] by (auto simp: reconcile_fine_def cache_step_def)
next
  case (later rc w)
  then show ?case by simp
qed

text \<open>
  C5. A reconciler with a resolver neither panics nor hangs under two conditions: the batch size
  that is effective for it is positive for every policy that can be fetched (with the size 0 the
  loop of the batches does not end), and no informer lacks its store. Then in every state it
  reaches, the next \<open>Reconcile\<close>, for whatever policy, returns. In all these states the informers of
  different targets are different, every informer has its factory, every cached service works
  on the informer of its target, and the name cache holds only answers of discovery.
\<close>

theorem reachable_reconciler_is_safe:
  assumes "rc_reach env out cfg rc w" and "stores_exist out"
    and "batches_positive out (Some (effective_config cfg))"
  shows "(\<exists>res rc' w'. Reconcile env out req rc w = Some (Inr res, rc', w')) \<and>
    (\<forall>k k' i. map_of (rc_informers rc) k = Some i \<and> map_of (rc_informers rc) k' = Some i \<longrightarrow> k = k') \<and>
    dom (map_of (rc_informers rc)) = dom (map_of (rc_factories rc)) \<and>
    (\<forall>k svc. map_of (rc_services rc) k = Some svc \<longrightarrow>
       (\<exists>sv. svc = Some sv \<and> map_of (rc_informers rc) k = Some (sv_informer sv))) \<and>
    cache_confirmed out w"
proof -
  have ok: "rc_ok rc" "rc_config rc = Some (effective_config cfg)" "wd_gvr_cache w \<noteq> None" "cache_confirmed out w"
    using rc_reach_ok [OF assms] by auto
  have "dom (map_of (rc_informers rc)) = dom (map_of (rc_factories rc))"
    using ok(1) unfolding rc_ok_def dom_def by simp
  moreover have "\<exists>sv. svc = Some sv \<and> map_of (rc_informers rc) k = Some (sv_informer sv)"
    if "map_of (rc_services rc) k = Some svc" for k svc
    using ok(1) that unfolding rc_ok_def service_ok_def by blast
  moreover have "k = k'" if "map_of (rc_informers rc) k = Some i" "map_of (rc_informers rc) k' = Some i" for k k' i
    using ok(1) that unfolding rc_ok_def by blast
  ultimately show ?thesis
    using Reconcile_total [of rc w out env req] assms(2,3) ok by auto
qed

theorem reachable_reconciler_is_safe_witness:
  "\<exists>res rc' w'. Reconcile rc_env_example (rc_calm (fixed_policy 60)) (''ns'', ''p'')
      (new_reconciler None None None) (fresh_world\<lparr>wd_gvr_cache := Some []\<rparr>) = Some (Inr res, rc', w')"
proof -
  have "rc_reach rc_env_example (rc_calm (fixed_policy 60)) None (new_reconciler None None None)
      (fresh_world\<lparr>wd_gvr_cache := Some []\<rparr>)"
    by (rule rc_reach.start [OF NewGCPolicyReconcilerWithRESTMapper_def])
  from reachable_reconciler_is_safe [OF this] show ?thesis
    using rc_calm_fine [OF example_batch] by (simp add: effective_config_def)
qed

subsection \<open>The tracked policies\<close>

lemma map_of_cleanup: "map_of (rs_limiters (cleanupRateLimiter u rl)) = (map_of (rs_limiters rl))(u := None)"
  by (auto simp: cleanupRateLimiter_def Let_def fun_eq_iff)

text \<open>
  C21. A policy that is gone is forgotten: when the policy is not found, its name, its rate
  limiter and its spec are dropped and nothing else changes. The state that is left differs in
  these three maps alone (and in the count of limiters): the entries of other policies, the
  limiter objects, informers, factories, services and the configuration stay. In the world,
  only the time of the fetch passes and the metric of the count is written: the cache of names
  stays, nothing is requested from the cluster, and there is no requeue.
\<close>

theorem deleted_policy_is_forgotten:
  assumes "get_policy out (wd_tick w) nn = Inl e" and "IsNotFound out e"
    and "map_of (rc_policyUIDs rc) nn = Some u"
  shows "\<exists>rc' w'. Reconcile env out nn rc w = Some (Inr (\<lparr>RequeueAfter = 0\<rparr>, None), rc', w') \<and>
    map_of (rc_policyUIDs rc') = (map_of (rc_policyUIDs rc))(nn := None) \<and>
    map_of (rc_policySpecs rc') = (map_of (rc_policySpecs rc))(u := None) \<and>
    map_of (rs_limiters (rc_limiters rc')) = (map_of (rs_limiters (rc_limiters rc)))(u := None) \<and>
    rc' = rc\<lparr>rc_policyUIDs := rc_policyUIDs rc', rc_policySpecs := rc_policySpecs rc',
      rc_limiters := (rc_limiters rc)\<lparr>rs_limiters := rs_limiters (rc_limiters rc'),
        rs_count_metric := int (length (rs_limiters (rc_limiters rc')))\<rparr>\<rparr> \<and>
    w' = emit (recordRateLimiterCount (int (length (rs_limiters (rc_limiters rc'))))) (tick w)"
  using assms
  by (auto simp: Reconcile_def handlePolicyDeletion_def cleanupPolicyResources_def cleanupResourceInformer_def
      cleanupRateLimiter_def Let_def fun_eq_iff)

definition gone :: rc_outside where
  "gone = (rc_calm zero_Policy)\<lparr>get_policy := \<lambda>_ _. Inl (PlainError ''not found'')\<rparr>"

theorem deleted_policy_is_forgotten_witness:
  "\<exists>rc' w'. Reconcile rc_env_example gone (''ns'', ''p'')
      (trackPolicyUID (''ns'', ''p'') ''u'' (new_reconciler None None None)) fresh_world =
    Some (Inr (\<lparr>RequeueAfter = 0\<rparr>, None), rc', w') \<and> map_of (rc_policyUIDs rc') (''ns'', ''p'') = None"
  using deleted_policy_is_forgotten [where out=gone and w=fresh_world and nn="(''ns'', ''p'')" and u="''u''"
      and e="PlainError ''not found''" and rc="trackPolicyUID (''ns'', ''p'') ''u'' (new_reconciler None None None)"
      and env=rc_env_example]
  by (auto simp: gone_def rc_calm_def outside.extend_def calm_outside_def trackPolicyUID_def new_reconciler_def)

text \<open>
  The recreation of an informer after a change of the spec has no effect: with and without
  it, tracking the new spec leads to the same state. The new target gets an informer of its own
  by its key, and a change of the label selector needs none, as informers are not filtered.
\<close>

theorem informer_recreation_is_void:
  "let rc1 = trackPolicySpec (gp_UID p) (gp_Spec p) (handleInformerRecreation p rc);
       rc2 = trackPolicySpec (gp_UID p) (gp_Spec p) rc
   in map_of (rc_policySpecs rc1) = map_of (rc_policySpecs rc2) \<and>
      rc1\<lparr>rc_policySpecs := []\<rparr> = rc2\<lparr>rc_policySpecs := []\<rparr>"
  by (auto simp: trackPolicySpec_def handleInformerRecreation_def cleanupResourceInformer_def Let_def fun_eq_iff)

text \<open>The policies that Reconcile tracks after it fetched one.\<close>

lemma Reconcile_tracks:
  assumes "rc_ok rc" and "wd_gvr_cache w \<noteq> None" and "stores_exist out" and "batches_positive out (rc_config rc)"
    and "get_policy out (wd_tick w) nn = Inr p" and "Reconcile env out nn rc w = Some (Inr res, rc', w')"
  shows "rc_policyUIDs rc' = go_put nn (gp_UID p) (rc_policyUIDs rc) \<and>
    map_of (rc_policySpecs rc') = (map_of (rc_policySpecs rc))(gp_UID p \<mapsto> gp_Spec p)"
proof -
  define rc1 where "rc1 = trackPolicySpec (gp_UID p) (gp_Spec p) (handleInformerRecreation p (trackPolicyUID nn (gp_UID p) rc))"
  have rc1: "rc_policyUIDs rc1 = go_put nn (gp_UID p) (rc_policyUIDs rc)"
    "map_of (rc_policySpecs rc1) = (map_of (rc_policySpecs rc))(gp_UID p \<mapsto> gp_Spec p)" "rc_config rc1 = rc_config rc"
    by (auto simp: rc1_def trackPolicySpec_def handleInformerRecreation_def trackPolicyUID_def cleanupResourceInformer_def
        Let_def fun_eq_iff)
  have "rc_ok rc1"
    using assms(1) by (simp add: rc1_def tracking_ok)
  moreover have "resolveBatchSize p (rc_config rc1) > 0"
    using assms(4,5) rc1(3) unfolding batches_positive_def by metis
  ultimately obtain err rc2 w2 where run: "evaluatePolicy env out p rc1 (tick w) = Some (Inr err, rc2, w2)"
    and "run_ok (re_as_selector env) out p rc1 (tick w) rc2 w2"
    using evaluatePolicy_run [of rc1 "tick w" out p env] assms(2,3) by (auto simp: stores_exist_def)
  then have "rc_policyUIDs rc2 = rc_policyUIDs rc1" "rc_policySpecs rc2 = rc_policySpecs rc1"
    by (simp_all add: run_ok_def same_tracking_def)
  moreover have "rc' = rc1 \<or> rc' = rc2"
    using assms(5,6) run by (cases err) (auto simp: Reconcile_def Let_def rc1_def [symmetric] split: if_splits)
  ultimately show ?thesis
    using rc1 by auto
qed

text \<open>
  The bookkeeping of a recreated policy leaks: when a policy is deleted and created again
  under its name before the reconciler notices, the UID of the new one takes the place of the
  old one, and after the policy is deleted for good the spec of the old UID is still tracked,
  with no name that leads to it.
\<close>

theorem recreated_policy_leaks:
  assumes "rc_ok rc" and "wd_gvr_cache w \<noteq> None" and "stores_exist out" and "batches_positive out (rc_config rc)"
    and "map_of (rc_policyUIDs rc) nn = Some old" and "map_of (rc_policySpecs rc) old = Some spec"
    and "\<forall>nn'. map_of (rc_policyUIDs rc) nn' = Some old \<longrightarrow> nn' = nn"
    and "get_policy out (wd_tick w) nn = Inr p" and "gp_UID p \<noteq> old"
    and "Reconcile env out nn rc w = Some (Inr res, rc1, w1)"
    and "get_policy out (wd_tick w1) nn = Inl e" and "IsNotFound out e"
  shows "\<exists>res' rc2 w2. Reconcile env out nn rc1 w1 = Some (Inr res', rc2, w2) \<and>
    map_of (rc_policySpecs rc2) old = Some spec \<and> (\<forall>nn'. map_of (rc_policyUIDs rc2) nn' \<noteq> Some old)"
proof -
  have rc1: "rc_policyUIDs rc1 = go_put nn (gp_UID p) (rc_policyUIDs rc)"
    "map_of (rc_policySpecs rc1) = (map_of (rc_policySpecs rc))(gp_UID p \<mapsto> gp_Spec p)"
    using Reconcile_tracks [OF assms(1-4,8,10)] by auto
  have "map_of (go_del nn (rc_policyUIDs rc1)) nn' \<noteq> Some old" for nn'
  proof (cases "nn' = nn")
    case False
    then have "map_of (rc_policyUIDs rc) nn' \<noteq> Some old"
      using assms(7) by blast
    with False show ?thesis
      by (simp add: rc1(1))
  qed simp
  with rc1 assms(6,9,11,12) show ?thesis
    by (auto simp: Reconcile_def handlePolicyDeletion_def cleanupPolicyResources_def cleanupResourceInformer_def Let_def)
qed

text \<open>An outside where a paused policy with a new UID is there for one look and then is gone.\<close>

definition recreated :: rc_outside where
  "recreated = (let p = zero_Policy\<lparr>gp_UID := ''new'', gp_Spec := zero_Spec\<lparr>gs_Paused := True\<rparr>\<rparr>
     in (rc_calm p)\<lparr>get_policy := \<lambda>t _. if t = 0 then Inr p else Inl (PlainError ''not found'')\<rparr>)"

theorem recreated_policy_leaks_witness:
  "\<exists>rc1 w1 res' rc2 w2. Reconcile rc_env_example recreated (''ns'', ''p'')
      (trackPolicySpec ''old'' zero_Spec (trackPolicyUID (''ns'', ''p'') ''old'' (new_reconciler None None None)))
      fresh_world = Some (Inr (\<lparr>RequeueAfter = DefaultGCInterval\<rparr>, None), rc1, w1) \<and>
    Reconcile rc_env_example recreated (''ns'', ''p'') rc1 w1 = Some (Inr res', rc2, w2) \<and>
    map_of (rc_policySpecs rc2) ''old'' = Some zero_Spec"
proof -
  define p where "p = zero_Policy\<lparr>gp_UID := ''new'', gp_Spec := zero_Spec\<lparr>gs_Paused := True\<rparr>\<rparr>"
  define rc where "rc = trackPolicySpec ''old'' zero_Spec
    (trackPolicyUID (''ns'', ''p'') ''old'' (new_reconciler None None None :: (int \<times> int) reconciler))"
  define rc1 where "rc1 = trackPolicySpec ''new'' (gp_Spec p)
    (handleInformerRecreation p (trackPolicyUID (''ns'', ''p'') ''new'' rc))"
  have got: "get_policy recreated t nn = (if t = 0 then Inr p else Inl (PlainError ''not found''))"
    "IsNotFound recreated (PlainError ''not found'')" "stores_exist recreated" for t nn
    by (simp_all add: recreated_def Let_def p_def rc_calm_def outside.extend_def calm_outside_def stores_exist_def)
  have p: "gs_Paused (gp_Spec p)" "gp_UID p = ''new''"
    by (simp_all add: p_def)
  have run: "Reconcile rc_env_example recreated (''ns'', ''p'') rc fresh_world =
      Some (Inr (\<lparr>RequeueAfter = DefaultGCInterval\<rparr>, None), rc1, tick fresh_world)"
    by (simp add: Reconcile_def got p rc1_def Let_def fresh_world_def handlePausedPolicy_def getRequeueInterval_def
        trackPolicySpec_def handleInformerRecreation_def trackPolicyUID_def cleanupResourceInformer_def
        shouldRecreateInformer_def rc_def new_reconciler_def NewControllerConfig_def)
  have rc: "rc_ok rc" "map_of (rc_policyUIDs rc) nn = (if nn = (''ns'', ''p'') then Some ''old'' else None)"
    "map_of (rc_policySpecs rc) ''old'' = Some zero_Spec" "rc_config rc = Some NewControllerConfig" for nn
    by (simp_all add: rc_def tracking_ok) (simp_all add: trackPolicySpec_def trackPolicyUID_def new_reconciler_def)
  have "batches_positive recreated (rc_config rc)"
    by (simp add: batches_positive_def got rc p_def resolveBatchSize_def NewControllerConfig_def DefaultBatchSize_def
        zero_defs)
  note batches = this
  have live: "wd_gvr_cache fresh_world \<noteq> None" "wd_tick fresh_world = 0" "wd_tick (tick fresh_world) = 1"
    by (simp_all add: fresh_world_def)
  have tracked: "map_of (rc_policyUIDs rc) (''ns'', ''p'') = Some ''old''"
    "\<forall>nn'. map_of (rc_policyUIDs rc) nn' = Some ''old'' \<longrightarrow> nn' = (''ns'', ''p'')"
    by (simp_all only: rc(2)) simp_all
  have looks: "get_policy recreated (wd_tick fresh_world) (''ns'', ''p'') = Inr p"
    "get_policy recreated (wd_tick (tick fresh_world)) (''ns'', ''p'') = Inl (PlainError ''not found'')"
    unfolding live(2,3) got(1) by simp_all
  have "gp_UID p \<noteq> ''old''"
    by (simp add: p)
  from recreated_policy_leaks [OF rc(1) live(1) got(3) batches tracked(1) rc(3) tracked(2) looks(1) this run looks(2) got(2)]
  show ?thesis
    using run unfolding rc_def by blast
qed

subsection \<open>Results, keys and metrics\<close>

text \<open>No step of an evaluation touches the configuration.\<close>

lemma informer_config:
  "getOrCreateResourceInformer out p rc w = (x, rc', w') \<Longrightarrow> rc_config rc' = rc_config rc"
  by (auto simp: getOrCreateResourceInformer_def create_informer_def forget_informer_def Let_def
      split: option.splits prod.splits sync.splits if_splits)

lemma service_config:
  "getOrCreateEvaluationService out p rc w = (x, rc', w') \<Longrightarrow> rc_config rc' = rc_config rc"
  by (auto simp: getOrCreateEvaluationService_def GetResourceListerForPolicy_def Let_def
      dest!: informer_config split: option.splits prod.splits sum.splits if_splits)

lemma evaluatePolicy_config:
  "evaluatePolicy env out p rc w = Some (x, rc', w') \<Longrightarrow> rc_config rc' = rc_config rc"
  by (auto simp: evaluatePolicy_def service_EvaluatePolicy_def evaluate_direct_def Let_def
      dest!: service_config informer_config split: option.splits prod.splits sum.splits if_splits)

text \<open>
  C22. What \<open>Reconcile\<close> answers, for each kind of outcome. It returns an error only when the
  fetch failed, and then without a requeue. For a paused policy it is the interval of the
  controller, whatever interval the policy sets. An active policy is evaluated once, in the
  state that tracks it: if that evaluation fails, the next try is after 30 seconds, and if it
  succeeds, the next is after the interval of the policy when that is positive and after the
  interval of the controller otherwise.
\<close>

theorem Reconcile_answers:
  assumes "Reconcile env out nn rc w = Some (Inr (res, err), rc', w')"
  shows "(case get_policy out (wd_tick w) nn of
      Inl e \<Rightarrow> RequeueAfter res = 0 \<and> err = (if IsNotFound out e then None else Some e)
    | Inr p \<Rightarrow> err = None \<and>
        (if gs_Paused (gp_Spec p) then RequeueAfter res = getRequeueInterval rc
         else
           (case evaluatePolicy env out p (trackPolicySpec (gp_UID p) (gp_Spec p)
                (handleInformerRecreation p (trackPolicyUID nn (gp_UID p) rc))) (tick w) of
              Some (Inr (Some failure), _, _) \<Rightarrow> RequeueAfter res = 30 * time_Second
            | Some (Inr None, _, _) \<Rightarrow> RequeueAfter res = (case gs_EvaluationInterval (gp_Spec p) of
                Some d \<Rightarrow> if 0 < sint d then d else getRequeueInterval rc | None \<Rightarrow> getRequeueInterval rc)
            | _ \<Rightarrow> False)))"
proof (cases "get_policy out (wd_tick w) nn")
  case (Inl e)
  with assms show ?thesis
    by (auto simp: Reconcile_def Let_def handlePolicyDeletion_def handlePolicyFetchError_def split: if_splits prod.splits)
next
  case (Inr p)
  define rc1 where "rc1 = trackPolicySpec (gp_UID p) (gp_Spec p) (handleInformerRecreation p (trackPolicyUID nn (gp_UID p) rc))"
  have rc1: "rc_config rc1 = rc_config rc"
    by (simp add: rc1_def trackPolicySpec_def handleInformerRecreation_def trackPolicyUID_def cleanupResourceInformer_def)
  have interval: "getRequeueInterval r = getRequeueInterval rc"
    "getRequeueIntervalForPolicy r p = (case gs_EvaluationInterval (gp_Spec p) of
      Some d \<Rightarrow> if 0 < sint d then d else getRequeueInterval rc | None \<Rightarrow> getRequeueInterval rc)"
    if "rc_config r = rc_config rc" for r :: "'a reconciler"
    using that by (simp_all add: getRequeueIntervalForPolicy_def getRequeueInterval_def i64_pos_def split: option.splits)
  show ?thesis
  proof (cases "gs_Paused (gp_Spec p)")
    case True
    with assms Inr rc1 interval(1) [of rc1] show ?thesis
      by (simp add: Reconcile_def Let_def rc1_def [symmetric] handlePausedPolicy_def) auto
  next
    case False
    from False Inr have run: "Reconcile env out nn rc w = (case evaluatePolicy env out p rc1 (tick w) of
        None \<Rightarrow> None | Some (Inl q, rc, w) \<Rightarrow> Some (Inl q, rc, w)
      | Some (Inr (Some e), rc, w) \<Rightarrow> Some (Inr handleEvaluationError, rc, w)
      | Some (Inr None, rc, w) \<Rightarrow> Some (Inr (\<lparr>RequeueAfter = getRequeueIntervalForPolicy rc p\<rparr>, None), rc,
          recordPolicyPhaseMetrics out w))"
      unfolding Reconcile_def Let_def by (simp add: rc1_def [symmetric])
    obtain o1 rc2 w2 where o1: "evaluatePolicy env out p rc1 (tick w) = Some (Inr o1, rc2, w2)"
      using assms unfolding run by (auto split: option.splits sum.splits prod.splits)
    with rc1 have "rc_config rc2 = rc_config rc"
      using evaluatePolicy_config by metis
    from interval(2) [OF this] show ?thesis
      using assms False Inr unfolding run by (cases o1) (auto simp: handleEvaluationError_def rc1_def [symmetric] o1)
  qed
qed

text \<open>An outside where no informer syncs, so that every evaluation fails.\<close>

definition unsynced :: "GarbageCollectionPolicy \<Rightarrow> rc_outside" where
  "unsynced p = (rc_calm p)\<lparr>cache_sync := \<lambda>_ _. SyncFailed\<rparr>"

lemma unsynced_informer:
  assumes "\<And>t i. cache_sync out t i = SyncFailed" and "rc_informers rc = []" and "wd_gvr_cache w = Some cache"
  shows "\<exists>e rc' w'. getOrCreateResourceInformer out p rc w = (Inr (Inl e), rc', w') \<and> rc_informers rc' = [] \<and>
    wd_gvr_cache w' \<noteq> None"
  using assms
  by (auto simp: getOrCreateResourceInformer_def create_informer_def ResolveGVR_def forget_informer_def Let_def
      split: option.splits)

lemma unsynced_evaluation:
  assumes "\<And>t i. cache_sync out t i = SyncFailed" and "rc_informers rc = []" and "rc_services rc = []"
    and "wd_gvr_cache w \<noteq> None"
  shows "\<exists>e r v. evaluatePolicy env out p rc w = Some (Inr (Some e), r, v)"
proof -
  obtain e rc1 w1 c where first: "getOrCreateResourceInformer out p rc w = (Inr (Inl e), rc1, w1)" "rc_informers rc1 = []"
    "wd_gvr_cache w1 = Some c"
    using unsynced_informer [OF assms(1,2), of w] assms(4) by fastforce
  then have "wd_gvr_cache (tick w1) = Some c"
    by simp
  with unsynced_informer [OF assms(1) first(2)] obtain e2 rc2 w2 where
    "getOrCreateResourceInformer out p rc1 (tick w1) = (Inr (Inl e2), rc2, w2)" by blast
  with first(1) assms(3) show ?thesis
    by (auto simp: evaluatePolicy_def getOrCreateEvaluationService_def GetResourceListerForPolicy_def
        evaluate_direct_def read_clock_def Let_def)
qed

theorem Reconcile_answers_witness:
  "(\<exists>rc' w'. Reconcile rc_env_example (rc_calm (zero_Policy\<lparr>gp_Spec := zero_Spec\<lparr>gs_Paused := True,
        gs_EvaluationInterval := Some 5\<rparr>\<rparr>)) (''ns'', ''p'') (new_reconciler None None None) fresh_world =
      Some (Inr (\<lparr>RequeueAfter = time_Minute\<rparr>, None), rc', w')) \<and>
   (\<exists>res rc' w'. Reconcile rc_env_example (unsynced (fixed_policy 60)) (''ns'', ''p'')
      (new_reconciler None None None) fresh_world = Some (Inr (res, None), rc', w') \<and> RequeueAfter res = 30 * time_Second)"
proof
  define p where "p = zero_Policy\<lparr>gp_Spec := zero_Spec\<lparr>gs_Paused := True, gs_EvaluationInterval := Some 5\<rparr>\<rparr>"
  have "Reconcile rc_env_example (rc_calm p) (''ns'', ''p'') (new_reconciler None None None) fresh_world =
      Some (Inr (\<lparr>RequeueAfter = time_Minute\<rparr>, None), trackPolicySpec [] (gp_Spec p)
        (trackPolicyUID (''ns'', ''p'') [] (new_reconciler None None None)), tick fresh_world)"
    by (simp add: Reconcile_def p_def zero_Policy_def Let_def handlePausedPolicy_def getRequeueInterval_def
        trackPolicySpec_def handleInformerRecreation_def trackPolicyUID_def shouldRecreateInformer_def
        new_reconciler_def NewControllerConfig_def DefaultGCInterval_def)
  then show "\<exists>rc' w'. Reconcile rc_env_example (rc_calm p) (''ns'', ''p'') (new_reconciler None None None) fresh_world =
      Some (Inr (\<lparr>RequeueAfter = time_Minute\<rparr>, None), rc', w')" by blast
next
  define out where "out = unsynced (fixed_policy 60)"
  define rc where "rc = (new_reconciler None None None :: (int \<times> int) reconciler)"
  have out: "get_policy out t nn = Inr (fixed_policy 60)" "stores_exist out" "cache_sync out t i = SyncFailed" for t nn i
    by (simp_all add: out_def unsynced_def stores_exist_def)
  have active: "\<not> gs_Paused (gp_Spec (fixed_policy 60))"
    by (simp add: fixed_policy_def zero_defs)
  define rc1 where "rc1 = trackPolicySpec (gp_UID (fixed_policy 60)) (gp_Spec (fixed_policy 60))
    (handleInformerRecreation (fixed_policy 60) (trackPolicyUID (''ns'', ''p'') (gp_UID (fixed_policy 60)) rc))"
  have rc: "rc_ok rc" "rc_config rc = Some NewControllerConfig" "rc_informers rc1 = []" "rc_services rc1 = []"
    by (simp_all add: rc_def rc1_def rc_ok_new trackPolicySpec_def handleInformerRecreation_def trackPolicyUID_def
        cleanupResourceInformer_def) (simp_all add: new_reconciler_def)
  have "batches_positive out (rc_config rc)"
    using example_batch by (simp add: batches_positive_def out(1) rc(2))
  moreover have "wd_gvr_cache fresh_world \<noteq> None"
    by (simp add: fresh_world_def)
  ultimately obtain res err rc' w' where
    run: "Reconcile rc_env_example out (''ns'', ''p'') rc fresh_world = Some (Inr (res, err), rc', w')"
    using Reconcile_total [OF rc(1) _ out(2)] by blast
  have "\<exists>e r v. evaluatePolicy rc_env_example out (fixed_policy 60) rc1 (tick fresh_world) = Some (Inr (Some e), r, v)"
    using rc(3,4) by (intro unsynced_evaluation) (simp_all add: out(3) fresh_world_def)
  with Reconcile_answers [OF run] active run show "\<exists>res rc' w'. Reconcile rc_env_example out (''ns'', ''p'') rc fresh_world =
      Some (Inr (res, None), rc', w') \<and> RequeueAfter res = 30 * time_Second"
    by (auto simp: out(1) rc1_def [symmetric])
qed

lemma split_last_slash:
  assumes "a @ CHR ''/'' # b = a' @ CHR ''/'' # b'" and "CHR ''/'' \<notin> set b" and "CHR ''/'' \<notin> set b'"
  shows "a = a' \<and> b = b'"
proof -
  have "rev b @ CHR ''/'' # rev a = rev b' @ CHR ''/'' # rev a'"
    using arg_cong [OF assms(1), of rev] by simp
  then have "takeWhile (\<lambda>c. c \<noteq> CHR ''/'') (rev b @ CHR ''/'' # rev a) =
      takeWhile (\<lambda>c. c \<noteq> CHR ''/'') (rev b' @ CHR ''/'' # rev a')" by simp
  moreover have "takeWhile (\<lambda>c. c \<noteq> CHR ''/'') (rev b @ CHR ''/'' # rev a) = rev b"
    "takeWhile (\<lambda>c. c \<noteq> CHR ''/'') (rev b' @ CHR ''/'' # rev a') = rev b'"
    using assms(2,3) by (auto simp: takeWhile_tail takeWhile_append2)
  ultimately have "b = b'" by simp
  with assms(1) show ?thesis by simp
qed

text \<open>
  Policies share an informer exactly when they have the same target: the key of a target
  determines its API version, kind and namespace as soon as kind and namespace have no slash,
  which holds of every object of the cluster.
\<close>

theorem evaluationServiceKey_injective:
  assumes "CHR ''/'' \<notin> set (tr_Kind (gs_TargetResource (gp_Spec p)))"
    and "CHR ''/'' \<notin> set (tr_Kind (gs_TargetResource (gp_Spec q)))"
    and "CHR ''/'' \<notin> set (tr_Namespace (gs_TargetResource (gp_Spec p)))"
    and "CHR ''/'' \<notin> set (tr_Namespace (gs_TargetResource (gp_Spec q)))"
  shows "evaluationServiceKey p = evaluationServiceKey q \<longleftrightarrow>
    tr_APIVersion (gs_TargetResource (gp_Spec p)) = tr_APIVersion (gs_TargetResource (gp_Spec q)) \<and>
    tr_Kind (gs_TargetResource (gp_Spec p)) = tr_Kind (gs_TargetResource (gp_Spec q)) \<and>
    tr_Namespace (gs_TargetResource (gp_Spec p)) = tr_Namespace (gs_TargetResource (gp_Spec q))"
  (is "_ \<longleftrightarrow> ?eq")
proof
  assume "evaluationServiceKey p = evaluationServiceKey q"
  then have "(tr_APIVersion (gs_TargetResource (gp_Spec p)) @ ''/'' @ tr_Kind (gs_TargetResource (gp_Spec p))) @
      CHR ''/'' # tr_Namespace (gs_TargetResource (gp_Spec p)) =
    (tr_APIVersion (gs_TargetResource (gp_Spec q)) @ ''/'' @ tr_Kind (gs_TargetResource (gp_Spec q))) @
      CHR ''/'' # tr_Namespace (gs_TargetResource (gp_Spec q))"
    by (simp add: evaluationServiceKey_def)
  from split_last_slash [OF this assms(3,4)]
  show ?eq
    using split_last_slash [of _ "tr_Kind (gs_TargetResource (gp_Spec p))" _ "tr_Kind (gs_TargetResource (gp_Spec q))"] assms(1,2)
    by simp blast
qed (simp add: evaluationServiceKey_def)

theorem evaluationServiceKey_injective_witness:
  "evaluationServiceKey (zero_Policy\<lparr>gp_Spec := zero_Spec\<lparr>gs_TargetResource := zero_TargetResourceSpec\<lparr>
      tr_APIVersion := ''v1'', tr_Kind := ''Pod''\<rparr>\<rparr>\<rparr>) \<noteq> evaluationServiceKey zero_Policy"
  by (subst evaluationServiceKey_injective) (simp_all add: zero_defs)

lemma phase_counts_count:
  "map_of (phase_counts ps counts) ph =
     (let n = length (filter (\<lambda>p. phase_of p = ph) ps)
      in if n = 0 then map_of counts ph else Some (go_index 0 counts ph + int n))"
  by (induction ps arbitrary: counts) (auto simp: go_index_def Let_def split: option.splits)

lemma wf_phase_counts: "wf_map counts \<Longrightarrow> wf_map (phase_counts ps counts)"
  by (induction ps arbitrary: counts) auto

text \<open>
  The phase metrics are a census: every policy is counted under one phase, a known phase
  without policies is set to 0, and nothing else is written.
\<close>

theorem phase_metrics_census:
  assumes "list_policies out (wd_tick w) = Inr ps"
  shows "\<exists>es. wd_log (recordPolicyPhaseMetrics out w) = wd_log w @ es \<and>
    set es = {GaugeSet ''gc_policies_total'' [ph] (int (length (filter (\<lambda>p. phase_of p = ph) ps))) | ph.
      ph \<in> {PolicyPhaseActive, PolicyPhasePaused, PolicyPhaseError} \<or> (\<exists>p\<in>set ps. phase_of p = ph)}"
proof -
  define m where "m = phase_counts ps []"
  define es where "es = concat (map (\<lambda>(phase, count). recordPolicyPhase phase count) m) @
    concat (map (\<lambda>phase. if map_of m phase = None then recordPolicyPhase phase 0 else [])
      [PolicyPhaseActive, PolicyPhasePaused, PolicyPhaseError])"
  let ?n = "\<lambda>ph. length (filter (\<lambda>p. phase_of p = ph) ps)"
  have m: "map_of m ph = (if ?n ph = 0 then None else Some (int (?n ph)))" for ph
    unfolding m_def phase_counts_count by (simp add: Let_def)
  have "(ph, c) \<in> set m \<longleftrightarrow> ?n ph \<noteq> 0 \<and> c = int (?n ph)" for ph c
    using m [of ph] wf_phase_counts [of "[]" ps] map_of_eq_Some_iff [of m ph c] unfolding m_def [symmetric]
    by (auto split: if_splits)
  moreover have "?n ph = 0 \<longleftrightarrow> (\<forall>p\<in>set ps. phase_of p \<noteq> ph)" for ph
    by (auto simp: filter_empty_conv)
  ultimately have "set es = {GaugeSet ''gc_policies_total'' [ph] (int (?n ph)) | ph.
      ph \<in> {PolicyPhaseActive, PolicyPhasePaused, PolicyPhaseError} \<or> (\<exists>p\<in>set ps. phase_of p = ph)}"
    unfolding es_def m by (auto simp: recordPolicyPhase_def metric_Set_def gcPoliciesTotal_def)
  moreover have "wd_log (recordPolicyPhaseMetrics out w) = wd_log w @ es"
    using assms by (simp add: recordPolicyPhaseMetrics_def Let_def es_def m_def)
  ultimately show ?thesis
    by blast
qed

theorem phase_metrics_census_witness:
  "set (wd_log (recordPolicyPhaseMetrics (rc_calm zero_Policy) fresh_world)) =
    {GaugeSet ''gc_policies_total'' [ph] (if ph = ''Active'' then 1 else 0) | ph. ph \<in> {''Active'', ''Paused'', ''Error''}}"
proof -
  have "list_policies (rc_calm zero_Policy) (wd_tick fresh_world) = Inr [zero_Policy]"
    by (simp add: rc_calm_def outside.extend_def)
  from phase_metrics_census [OF this] show ?thesis
    by (auto simp: fresh_world_def phase_of_def zero_defs phase_defs)
qed

subsection \<open>Where the code does not do what its comments say\<close>

text \<open>
  The constructor with a leader check leaves the resolver nil: the first evaluation of an
  active policy panics, whatever the configuration.
\<close>

theorem leader_check_reconciler_panics:
  assumes "NewGCPolicyReconcilerWithLeaderCheck cfg su er w0 = (rc, w)"
    and "get_policy out (wd_tick w) nn = Inr p" and "\<not> gs_Paused (gp_Spec p)"
  shows "\<exists>rc' w'. Reconcile env out nn rc w = Some (Inl NilDereference, rc', w')"
proof -
  have "wd_gvr_cache w = None" "rc_informers rc = []" "rc_services rc = []"
    using assms(1) by (auto simp: NewGCPolicyReconcilerWithLeaderCheck_def new_reconciler_def)
  with assms(2,3) show ?thesis
    by (simp add: Reconcile_def Let_def evaluatePolicy_def getOrCreateEvaluationService_def GetResourceListerForPolicy_def
        getOrCreateResourceInformer_def trackPolicySpec_def handleInformerRecreation_def trackPolicyUID_def
        cleanupResourceInformer_def)
qed

theorem leader_check_reconciler_panics_witness:
  "\<exists>rc' w'. Reconcile rc_env_example (rc_calm (fixed_policy 60)) (''ns'', ''p'') (new_reconciler None None None)
      (fresh_world\<lparr>wd_gvr_cache := None\<rparr>) = Some (Inl NilDereference, rc', w')"
  by (rule leader_check_reconciler_panics [OF NewGCPolicyReconcilerWithLeaderCheck_def rc_calm_simps(1)])
    (simp add: fixed_policy_def zero_defs)

text \<open>
  The gauge of the informers drifts: when the cache of a new informer does not sync, the
  informer is dropped again, but the gauge was set before and counts it.
\<close>

theorem informer_gauge_drifts:
  assumes "map_of (rc_informers rc) (evaluationServiceKey p) = None" and "wf_map (rc_informers rc)"
    and "wd_gvr_cache w \<noteq> None" and "\<forall>t i. cache_sync out t i \<noteq> Synced"
  shows "\<exists>e rc' w'. getOrCreateResourceInformer out p rc w = (Inr (Inl e), rc', w') \<and>
    map_of (rc_informers rc') = map_of (rc_informers rc) \<and>
    wd_log w' = wd_log w @ recordInformerCount (int (length (rc_informers rc)) + 1)"
proof -
  obtain cache where cache: "wd_gvr_cache w = Some cache"
    using assms(3) by blast
  define gvk where "gvk = object_GVK out (tr_APIVersion (gs_TargetResource (gp_Spec p)))
    (tr_Kind (gs_TargetResource (gp_Spec p)))"
  obtain gvr w1 where w1: "ResolveGVR out gvk cache w = (gvr, w1)" by fastforce
  then have "wd_log w1 = wd_log w"
    using ResolveGVR_log [of out gvk cache w] by simp
  moreover have "length (go_put (evaluationServiceKey p) i (rc_informers rc)) = Suc (length (rc_informers rc))" for i
    using assms(1,2) by (simp add: length_go_put)
  moreover have "map_of (go_del (evaluationServiceKey p) (go_put (evaluationServiceKey p) i (rc_informers rc))) =
      map_of (rc_informers rc)" for i
    using assms(1) by (auto simp: fun_eq_iff)
  ultimately show ?thesis
    using assms(1,4) cache w1 [unfolded gvk_def]
    by (auto simp: getOrCreateResourceInformer_def create_informer_def Let_def forget_informer_def recordInformerCount_def
        metric_Set_def split: sync.splits)
qed

theorem informer_gauge_drifts_witness:
  "\<exists>e rc' w'. getOrCreateResourceInformer ((rc_calm zero_Policy)\<lparr>cache_sync := \<lambda>_ _. SyncFailed\<rparr>) zero_Policy
      (new_reconciler None None None) fresh_world = (Inr (Inl e), rc', w') \<and>
    map_of (rc_informers rc') = Map.empty \<and> wd_log w' = recordInformerCount 1"
  using informer_gauge_drifts [where rc="new_reconciler None None None" and p=zero_Policy and w=fresh_world
      and out="(rc_calm zero_Policy)\<lparr>cache_sync := \<lambda>_ _. SyncFailed\<rparr>"]
  by (auto simp: new_reconciler_def fresh_world_def)

text \<open>
  The injection of a service for a test is not undone: for a target that had no service,
  the entry that is put back is nil, and the next evaluation of the policy panics.
\<close>

theorem testing_injection_breaks_the_target:
  assumes "map_of (rc_services rc) (evaluationServiceKey p) = None"
    and "EvaluatePolicyForTesting env out p svc rc w = Some (Inr err, rc', w')"
  shows "\<exists>rc'' w''. evaluatePolicy env out p rc' w' = Some (Inl NilDereference, rc'', w'')"
proof -
  define rc1 where "rc1 = rc\<lparr>rc_services := go_put (evaluationServiceKey p) svc (rc_services rc)\<rparr>"
  obtain r rc2 w2 where run: "evaluatePolicy env out p rc1 w = Some (r, rc2, w2)"
    using assms(2) by (cases "evaluatePolicy env out p rc1 w") (auto simp: EvaluatePolicyForTesting_def Let_def rc1_def)
  have "rc' = rc2\<lparr>rc_services := go_put (evaluationServiceKey p) None (rc_services rc2)\<rparr>"
    using assms run by (cases r) (auto simp: EvaluatePolicyForTesting_def Let_def rc1_def)
  then have "map_of (rc_services rc') (evaluationServiceKey p) = Some None"
    by simp
  then show ?thesis
    by (simp add: evaluatePolicy_def getOrCreateEvaluationService_def service_EvaluatePolicy_def read_clock_def Let_def)
qed

theorem testing_injection_breaks_the_target_witness:
  "\<exists>err rc' w' rc'' w''. EvaluatePolicyForTesting rc_env_example (rc_calm (fixed_policy 60)) (fixed_policy 60)
      (Some \<lparr>sv_informer = \<lparr>inf_id = 0, inf_GVR = PolicyGVR, inf_Namespace = [], inf_Resync = 0\<rparr>,
        sv_status = None, sv_recorder = None, sv_config = Some NewControllerConfig\<rparr>)
      (new_reconciler None None None) fresh_world = Some (Inr err, rc', w') \<and>
    evaluatePolicy rc_env_example (rc_calm (fixed_policy 60)) (fixed_policy 60) rc' w' =
      Some (Inl NilDereference, rc'', w'')"
proof -
  define i where "i = \<lparr>inf_id = 0, inf_GVR = PolicyGVR, inf_Namespace = [], inf_Resync = 0\<rparr>"
  define svc where "svc = Some \<lparr>sv_informer = i, sv_status = None, sv_recorder = None, sv_config = Some NewControllerConfig\<rparr>"
  let ?p = "fixed_policy 60" and ?out = "rc_calm (fixed_policy 60)"
  let ?k = "evaluationServiceKey ?p"
  let ?rc = "(new_reconciler None None None :: (int \<times> int) reconciler)"
  define rc1 where "rc1 = ?rc\<lparr>rc_informers := [(?k, i)], rc_factories := [(?k, \<lparr>fa_Resync = 0, fa_Namespace = []\<rparr>)],
    rc_created := 1, rc_services := [(?k, svc)]\<rparr>"
  have rc1: "rc_ok rc1" "rc_limiters rc1 = rc_limiters ?rc" "rc_config rc1 = Some NewControllerConfig"
    "service_ok rc1 ?k svc"
    by (auto simp: rc1_def new_reconciler_def service_ok_def svc_def i_def intro!: rc_okI split: if_splits)
  obtain err rl w' where "EvaluatePolicy (service_env rc_env_example (the svc)) ?out (re_parse_gv rc_env_example)
      (\<lambda>gvr namespace t. Inr (store_ListResources (store_List ?out t i) namespace)) ?p (rc_limiters ?rc) fresh_world =
    Some (Inr err, rl, w')"
    using EvaluatePolicy_total [OF rc_ok_maps(6) [OF rc1(1)], of ?p "service_env rc_env_example (the svc)"] example_batch rc1(2)
    by (fastforce simp: service_env_def svc_def)
  then have run: "\<exists>rc' w'. EvaluatePolicyForTesting rc_env_example ?out ?p svc ?rc fresh_world = Some (Inr err, rc', w')"
    by (simp add: EvaluatePolicyForTesting_def Let_def evaluatePolicy_def getOrCreateEvaluationService_def
        service_EvaluatePolicy_def svc_def new_reconciler_def)
  moreover have "map_of (rc_services ?rc) ?k = None"
    by (simp add: new_reconciler_def)
  ultimately show ?thesis
    using testing_injection_breaks_the_target [of ?rc ?p rc_env_example ?out svc fresh_world] unfolding svc_def i_def by blast
qed

end
