(* ===== verification/Collection.thy ===== *)
theory Collection
  imports Reconciler_Runs
begin

text \<open>
  What a reconciliation achieves when nothing is in its way: the calls of the API server are
  exactly those for the resources that are due, in the order of the store, and the status that
  is written holds their numbers. The last section is about the metrics.
\<close>

subsection \<open>Requests\<close>

fun request_of :: "effect \<Rightarrow> DeleteRequest list" where
  "request_of (DeleteCall req) = [req]"
| "request_of _ = []"

definition requests :: "effect list \<Rightarrow> DeleteRequest list" where
  "requests es = concat (map request_of es)"

lemma requests_simps [simp]:
  "requests [] = []" "requests (e # es) = request_of e @ requests es" "requests (es @ fs) = requests es @ requests fs"
  by (simp_all add: requests_def)

lemma requests_quiet: "list_all quiet es \<Longrightarrow> requests es = []"
proof (induction es)
  case (Cons e es)
  then show ?case by (cases e) auto
qed simp

lemmas requests_bookkeeping = requests_quiet [OF bookkeeping_all_quiet]

text \<open>
  A relation between worlds: time passed, the log is continued, and the new part holds these
  requests. The name cache stays confirmed and present.
\<close>

definition calls_made :: "('x) outside_scheme \<Rightarrow> DeleteRequest list \<Rightarrow> world \<Rightarrow> world \<Rightarrow> bool" where
  "calls_made out reqs w w' \<longleftrightarrow> cache_step out w w' \<and> later w w' \<and> (\<exists>es. wd_log w' = wd_log w @ es \<and> requests es = reqs)"

lemma calls_made_refl [simp]: "calls_made out [] w w"
  by (simp add: calls_made_def cache_relation.R_refl)

lemma calls_made_trans: "calls_made out a w w' \<Longrightarrow> calls_made out b w' w'' \<Longrightarrow> calls_made out (a @ b) w w''"
  unfolding calls_made_def by (auto intro: cache_relation.R_trans time_relation.R_trans)

lemma calls_made_tick [simp]: "calls_made out reqs w w' \<Longrightarrow> calls_made out reqs w (tick w')"
  by (auto simp: calls_made_def later_def)

lemma calls_made_from_tick: "calls_made out reqs (tick w) w' \<Longrightarrow> calls_made out reqs w w'"
  by (auto simp: calls_made_def later_def)

lemma calls_made_time: "calls_made out reqs w w' \<Longrightarrow> T \<le> wd_tick w \<Longrightarrow> T \<le> wd_tick w'"
  by (auto simp: calls_made_def later_def)

lemma calls_made_emit: "list_all quiet es \<Longrightarrow> calls_made out reqs w w' \<Longrightarrow> calls_made out reqs w (emit es w')"
  unfolding calls_made_def by (force simp: requests_quiet)

lemmas calls_made_book = calls_made_emit [OF bookkeeping_all_quiet]

lemma calls_made_duration [simp]: "calls_made out reqs w w' \<Longrightarrow> calls_made out reqs w (record_duration out p t w')"
  by (simp add: record_duration_def read_clock_def Let_def calls_made_book)

lemma calls_made_appends:
  "appends bookkeeping w w' \<Longrightarrow> cache_step out w w' \<Longrightarrow> later w w' \<Longrightarrow> calls_made out [] w w'"
  unfolding appends_def calls_made_def by (auto simp: requests_bookkeeping)

text \<open>No call at all is a relation as the loops and evaluations respect it.\<close>

interpretation no_calls: world_relation "calls_made out []" for out
  by unfold_locales (auto dest: calls_made_trans)

subsection \<open>The deletion of a batch\<close>

text \<open>
  Discovery is honest: when it answers, it is with the same name for a kind; and from \<open>T\<close> on it
  answers.
\<close>

definition names_known :: "('x) outside_scheme \<Rightarrow> nat \<Rightarrow> (GroupVersionKind \<Rightarrow> GroupVersionResource) \<Rightarrow> bool" where
  "names_known out T f \<longleftrightarrow> (\<exists>g. rest_mapping out = Some g \<and>
     (\<forall>t gvk. g t gvk \<in> {None, Some (f gvk)}) \<and> (\<forall>t\<ge>T. \<forall>gvk. g t gvk = Some (f gvk)))"

definition resolver_ok :: "('x) outside_scheme \<Rightarrow> world \<Rightarrow> bool" where
  "resolver_ok out w \<longleftrightarrow> wd_gvr_cache w \<noteq> None \<and> cache_confirmed out w"

lemma resolver_ok_step: "resolver_ok out w \<Longrightarrow> cache_step out w w' \<Longrightarrow> resolver_ok out w'"
  using cache_step_confirmed [of out w w'] by (simp add: resolver_ok_def cache_step_def)

lemma resolver_ok_calls: "resolver_ok out w \<Longrightarrow> calls_made out reqs w w' \<Longrightarrow> resolver_ok out w'"
  unfolding calls_made_def using resolver_ok_step by blast

lemma resolver_ok_simps [simp]: "resolver_ok out (tick w) = resolver_ok out w" "resolver_ok out (emit es w) = resolver_ok out w"
  by (simp_all add: resolver_ok_def)

lemma resolve_known:
  assumes "names_known out T f" and "resolver_ok out w" and "T \<le> wd_tick w"
  shows "fst (resolveGVRForDeletion out r w) = f (resource_gvk r)"
proof -
  obtain g where g: "rest_mapping out = Some g" "\<And>t gvk. g t gvk \<in> {None, Some (f gvk)}"
    "\<And>t gvk. T \<le> t \<Longrightarrow> g t gvk = Some (f gvk)"
    using assms(1) unfolding names_known_def by blast
  obtain cache where cache: "wd_gvr_cache w = Some cache"
    using assms(2) by (auto simp: resolver_ok_def)
  have confirmed: "gvr = f gvk" if "map_of cache gvk = Some gvr" for gvk gvr
  proof -
    have "\<exists>h t. rest_mapping out = Some h \<and> h t gvk = Some gvr"
      using assms(2) cache that unfolding resolver_ok_def cache_confirmed_def by blast
    then obtain t where "g t gvk = Some gvr"
      unfolding g(1) by blast
    with g(2) [of t gvk] show ?thesis
      by simp
  qed
  show ?thesis
    using confirmed [of "resource_gvk r"] g(3) [OF assms(3), of "resource_gvk r"]
    by (cases "map_of cache (resource_gvk r)") (simp_all add: cache g(1) resolveGVRForDeletion_def ResolveGVR_def Let_def)
qed

definition delete_request ::
    "(GroupVersionKind \<Rightarrow> GroupVersionResource) \<Rightarrow> GarbageCollectionPolicy \<Rightarrow> resource \<Rightarrow> DeleteRequest" where
  "delete_request f p r = \<lparr>dr_GVR = f (resource_gvk r),
     dr_Namespace = (if res_Namespace r = [] then None else Some (res_Namespace r)),
     dr_Name = res_Name r, dr_Options = buildDeleteOptions p\<rparr>"

definition requests_for ::
    "(GroupVersionKind \<Rightarrow> GroupVersionResource) \<Rightarrow> GarbageCollectionPolicy \<Rightarrow> resource list \<Rightarrow> DeleteRequest list" where
  "requests_for f p rs = (if bh_DryRun (gs_Behavior (gp_Spec p)) then [] else map (delete_request f p) rs)"

lemma requests_for_simps [simp]:
  "requests_for f p [] = []" "requests_for f p (rs @ rs') = requests_for f p rs @ requests_for f p rs'"
  by (simp_all add: requests_for_def)

lemma requests_for_Cons: "requests_for f p (r # rs) = requests_for f p [r] @ requests_for f p rs"
  by (simp add: requests_for_def)

lemma deleteResource_calls:
  assumes "smooth out T l" and "names_known out T f" and "resolver_ok out w" and "T \<le> wd_tick w"
  shows "calls_made out (requests_for f p [r]) w (snd (deleteResource out r p l w))"
proof -
  obtain gvr w2 where w2: "resolveGVRForDeletion out r (emit [LimiterWait l] (tick w)) = (gvr, w2)"
    by fastforce
  then have "wd_log w2 = wd_log w @ [LimiterWait l]" "gvr = f (resource_gvk r)" "T \<le> wd_tick w2"
    using resolveGVRForDeletion_log [of out r "emit [LimiterWait l] (tick w)"]
      resolve_known [OF assms(2), of "emit [LimiterWait l] (tick w)" r] assms(3,4)
      resolve_later [of "emit [LimiterWait l] (tick w)" out r] by (simp_all add: later_def)
  with assms(1,4) w2 deleteResource_cache_step [of out w r p l] deleteResource_later [of w out r p l] show ?thesis
    by (simp add: calls_made_def deleteResource_def limiter_Wait_def smooth_def performResourceDeletion_def Let_def
        requests_for_def delete_request_def)
qed

lemma batch_item_calls:
  assumes "smooth out T l" and "names_known out T f" and "resolver_ok out w" and "T \<le> wd_tick w"
  shows "calls_made out (requests_for f p [r]) w
    (snd (batch_item out (\<lambda>r. DeleteResourceWithBackoff out r p l) er p l reasons r w))"
proof -
  define w1 where "w1 = tick (emit [LimiterWait l] (tick w))"
  have wait: "calls_made out [] w w1"
    by (auto simp: w1_def calls_made_def cache_relation.R_refl later_def)
  have T: "T \<le> wd_tick w1" "T \<le> wd_tick (tick w1)"
    using assms(4) by (simp_all add: w1_def)
  obtain w2 where del: "DeleteResourceWithBackoff out r p l w1 = (None, w2)"
    using backoff_smooth [OF assms(1) T(1), of r p] deleteResource_smooth [OF assms(1) T(2), of r p]
    by (metis prod.collapse)
  have "calls_made out (requests_for f p [r]) (tick w1) w2"
    using deleteResource_calls [OF assms(1,2) _ T(2), of p r] del backoff_smooth [OF assms(1) T(1), of r p]
      resolver_ok_calls [OF assms(3) wait] by simp
  then have calls: "calls_made out (requests_for f p [r]) w w2"
    using calls_made_trans [OF wait calls_made_from_tick] by simp
  have "limiter_Wait out l w = (None, emit [LimiterWait l] (tick w))"
    using assms(1,4) by (simp add: limiter_Wait_def smooth_def)
  with del calls show ?thesis
    by (auto simp: batch_item_def read_clock_def w1_def [symmetric] Let_def intro!: calls_made_book)
qed

lemma deleteBatch_loop_calls:
  assumes "smooth out T l" and "names_known out T f"
  shows "resolver_ok out w \<Longrightarrow> T \<le> wd_tick w \<Longrightarrow>
    calls_made out (requests_for f p rest) w
      (snd (deleteBatch_loop out (\<lambda>r. DeleteResourceWithBackoff out r p l) er p l reasons i rest n errs w))"
proof (induction rest arbitrary: i n errs w)
  case (Cons r rest)
  define w0 where "w0 = (if i mod 50 = 0 then tick w else w)"
  define q where "q = batch_item out (\<lambda>r. DeleteResourceWithBackoff out r p l) er p l reasons r w0"
  have w0: "resolver_ok out w0" "T \<le> wd_tick w0" "calls_made out [] w w0"
    using Cons.prems by (simp_all add: w0_def)
  have q: "calls_made out (requests_for f p [r]) w (snd q)"
    using calls_made_trans [OF w0(3) batch_item_calls [OF assms w0(1,2)]] by (simp add: q_def)
  from Cons.IH [OF resolver_ok_calls [OF Cons.prems(1) q] calls_made_time [OF q Cons.prems(2)]] have
    "calls_made out (requests_for f p (r # rest)) w (snd (deleteBatch_loop out (\<lambda>r. DeleteResourceWithBackoff out r p l)
       er p l reasons (Suc i) rest (n + fst (fst q)) (errs @ snd (fst q)) (snd q)))"
    unfolding requests_for_Cons [of f p r rest] using calls_made_trans [OF q] by blast
  then show ?case
    using assms(1) Cons.prems(2) by (simp add: deleteBatch_loop_Cons w0_def [symmetric] q_def [symmetric] smooth_def Let_def)
qed simp

lemma deleteBatch_calls:
  assumes "smooth out T l" and "names_known out T f" and "resolver_ok out w" and "T \<le> wd_tick w"
  shows "fst (deleteBatch out er batch p l reasons w) = (int (length batch), []) \<and>
    calls_made out (requests_for f p batch) w (snd (deleteBatch out er batch p l reasons w))"
  using smooth_loop [OF assms(1,4), of p er reasons 0 batch 0 "[]"] deleteBatch_loop_calls [OF assms]
  by (simp add: deleteBatch_def deleteBatchShared_def)

subsection \<open>The batches\<close>

lemma slice_then_rest:
  assumes "0 < n" and "0 \<le> i"
  shows "batch_slice i (batch_end n i rs) rs @ drop (nat (i + n)) rs = drop (nat i) rs"
proof -
  have "drop (nat (i + n)) rs = drop (nat n) (drop (nat i) rs)"
    using assms by (simp add: nat_add_distrib add.commute)
  moreover have "batch_slice i (batch_end n i rs) rs = take (nat n) (drop (nat i) rs)"
    using assms by (auto simp: batch_slice_def batch_end_def Let_def)
  ultimately show ?thesis
    by (simp only: append_take_drop_id)
qed

lemma batches_loop_calls:
  assumes "smooth out T l" and "names_known out T f" and "0 < n"
  shows "0 \<le> i \<Longrightarrow> resolver_ok out w \<Longrightarrow> T \<le> wd_tick w \<Longrightarrow>
    \<exists>w'. batches_loop out (\<lambda>batch. deleteBatch out er batch p l reasons) er p n rs i d w =
      Some (Inr (d + max 0 (int (length rs) - i)), w') \<and>
    calls_made out (requests_for f p (drop (nat i) rs)) w w'"
proof (induction "nat (int (length rs) - i)" arbitrary: i d w rule: less_induct)
  case less
  show ?case
  proof (cases "i < int (length rs)")
    case False
    with less.prems show ?thesis
      by (subst batches_loop.simps) simp
  next
    case True
    define batch where "batch = batch_slice i (batch_end n i rs) rs"
    define delete where "delete = (\<lambda>batch. deleteBatch out er batch p l reasons)"
    define q where "q = delete batch (tick w)"
    define w1 where "w1 = emit (batch_bookkeeping er p (snd (fst q))) (snd q)"
    have b: "i < batch_end n i rs" "int (length batch) = batch_end n i rs - i"
      using batch_slice_bounds [OF assms(3) less.prems(1) True] by (simp_all add: batch_def)
    have "calls_made out [] w (tick w)"
      by simp
    then have q: "fst q = (int (length batch), [])" "calls_made out (requests_for f p batch) w (snd q)"
      using deleteBatch_calls [OF assms(1,2), of "tick w" er batch p reasons] less.prems(2,3)
        calls_made_trans [of out "[]" w "tick w"]
      by (simp_all add: q_def delete_def)
    then have w1: "calls_made out (requests_for f p batch) w w1"
      unfolding w1_def by (intro calls_made_book batch_bookkeeping_ok)
    obtain w' where rest: "batches_loop out delete er p n rs (i + n) (d + int (length batch)) w1 =
        Some (Inr (d + int (length batch) + max 0 (int (length rs) - (i + n))), w')"
      "calls_made out (requests_for f p (drop (nat (i + n)) rs)) w1 w'"
      using less.hyps [of "i + n" w1 "d + int (length batch)"] resolver_ok_calls [OF less.prems(2) w1]
        calls_made_time [OF w1 less.prems(3)] True assms(3) less.prems(1)
      unfolding delete_def by fastforce
    have "calls_made out (requests_for f p (drop (nat i) rs)) w w'"
      using calls_made_trans [OF w1 rest(2)] slice_then_rest [OF assms(3) less.prems(1), of rs]
      unfolding batch_def [symmetric] by (metis requests_for_simps(2))
    moreover have "int (length batch) + max 0 (int (length rs) - (i + n)) = int (length rs) - i"
      using b(2) True assms(3) by (auto simp: batch_end_def Let_def)
    moreover have "batches_loop out delete er p n rs i d w =
        batches_loop out delete er p n rs (i + n) (d + int (length batch)) w1"
      using True assms(1) less.prems(1,3) b(1) q(1) unfolding w1_def
      by (subst batches_loop.simps) (simp add: smooth_def batch_def [symmetric] q_def [symmetric])
    ultimately show ?thesis
      using rest(1) True unfolding delete_def [symmetric] by (simp add: add.assoc)
  qed
qed

lemma deleteResourcesInBatches_calls:
  assumes "\<And>l. smooth out T l" and "names_known out T f" and "resolver_ok out w" and "rl_wf rl"
    and "resolveBatchSize p (ev_config ev) > 0" and "T \<le> wd_tick w"
  shows "\<exists>rl' w'. deleteResourcesInBatches ev out p rs reasons rl w = Some (Inr (int (length rs)), rl', w') \<and>
    rl_wf rl' \<and> calls_made out (requests_for f p rs) w w'"
proof -
  define l where "l = fst (shared_get (ev_rate_pkg ev) p rl)"
  define rl' where "rl' = snd (shared_get (ev_rate_pkg ev) p rl)"
  have get: "getOrCreateRateLimiterShared (ev_rate_pkg ev) p rl = Inr (l, rl')" "rl_wf rl'"
    using shared_get_eq [OF assms(4)] shared_store.get_wf [OF assms(4)] by (simp_all add: l_def rl'_def)
  obtain w' where run: "run_batches ev out p rs reasons l (tick w) = Some (Inr (int (length rs)), w')"
    "calls_made out (requests_for f p rs) w w'"
    using batches_loop_calls [OF assms(1,2,5), where i=0 and w="tick w" and l=l and rs=rs and d=0 and p=p and reasons=reasons
      and er="ev_recorder ev"] assms(3,6)
    unfolding run_batches_def by (auto intro: calls_made_from_tick)
  have "\<not> ctx_done out (wd_tick w)"
    using assms(1,6) by (simp add: smooth_def)
  with run get show ?thesis
    by (simp add: deleteResourcesInBatches_def check_ctx_def)
qed

subsection \<open>An evaluation\<close>

interpretation no_calls_eval: evaluation_relation "calls_made out []" out er p "\<lambda>_. False" for out er p
proof
  show "calls_made out [] w (snd (deleteBatch out er batch p l reasons w))"
    if "\<forall>r\<in>set batch. False" for batch l reasons w
    using that by (simp add: deleteBatch_def deleteBatchShared_def)
qed (simp add: calls_made_emit)

text \<open>The status that an evaluation writes, and that some effect of a step is of a kind.\<close>

definition reported :: "GarbageCollectionPolicy \<Rightarrow> nat \<Rightarrow> nat \<Rightarrow> effect \<Rightarrow> bool" where
  "reported p matched deleted e \<longleftrightarrow>
     (\<exists>obj. e = PutStatus (gp_Namespace p) (gp_Name p) obj \<and>
        map_of (status_of obj) ''resourcesMatched'' = Some (JInt (int matched)) \<and>
        map_of (status_of obj) ''resourcesDeleted'' = Some (JInt (int deleted)) \<and>
        map_of (status_of obj) ''resourcesPending'' = Some (JInt (int matched - int deleted)))"

definition logged :: "(effect \<Rightarrow> bool) \<Rightarrow> world \<Rightarrow> world \<Rightarrow> bool" where
  "logged Q w w' \<longleftrightarrow> (\<exists>es. wd_log w' = wd_log w @ es \<and> (\<exists>e\<in>set es. Q e))"

lemma logged_before: "calls_made out reqs w w' \<Longrightarrow> logged Q w' w'' \<Longrightarrow> logged Q w w''"
  unfolding logged_def calls_made_def by force

lemma logged_after: "logged Q w w' \<Longrightarrow> calls_made out reqs w' w'' \<Longrightarrow> logged Q w w''"
  unfolding logged_def calls_made_def by force

text \<open>From a time on the API server reads and writes the status of the policy.\<close>

definition status_served ::
    "('y) PolicyEvaluator_scheme \<Rightarrow> ('x) outside_scheme \<Rightarrow> nat \<Rightarrow> GarbageCollectionPolicy \<Rightarrow> bool" where
  "status_served ev out T p \<longleftrightarrow> ev_status ev \<noteq> None \<and>
     (\<forall>t\<ge>T. \<exists>obj. get_policy_object out t (gp_Namespace p) (gp_Name p) = Inr obj) \<and>
     (\<forall>t\<ge>T. \<forall>obj. update_status out t (gp_Namespace p) obj = None)"

lemma status_served_mono: "status_served ev out T p \<Longrightarrow> T \<le> T' \<Longrightarrow> status_served ev out T' p"
  unfolding status_served_def by force

lemma UpdateStatus_reports:
  assumes "get_policy_object out (wd_tick w) (gp_Namespace p) (gp_Name p) = Inr obj"
    and "\<And>t obj. wd_tick w \<le> t \<Longrightarrow> update_status out t (gp_Namespace p) obj = None"
  shows "fst (UpdateStatus out su p (int m) (int d) (int m - int d) w) = None \<and>
    logged (reported p m d) w (snd (UpdateStatus out su p (int m) (int d) (int m - int d) w))"
proof -
  let ?s = "status_object out su p (now out (Suc (wd_tick w))) (int m) (int d) (int m - int d)"
  have "map_of ?s ''resourcesMatched'' = Some (JInt (int m))" "map_of ?s ''resourcesDeleted'' = Some (JInt (int d))"
    "map_of ?s ''resourcesPending'' = Some (JInt (int m - int d))"
    by (simp_all add: status_object_def Let_def)
  then have "reported p m d (PutStatus (gp_Namespace p) (gp_Name p) (merge_status ?s obj))"
    by (simp add: reported_def status_of_merge map_add_Some_iff)
  then show ?thesis
    using assms by (simp add: UpdateStatus_def read_clock_def logged_def)
qed

lemma finish_evaluation_reports:
  assumes "status_served ev out (wd_tick w) p"
  shows "fst (finish_evaluation ev out p (int m) (int d) (int m - int d) w) = None \<and>
    logged (reported p m d) w (snd (finish_evaluation ev out p (int m) (int d) (int m - int d) w))"
proof -
  obtain su where su: "ev_status ev = Some su"
    using assms by (auto simp: status_served_def)
  define w1 where "w1 = emit (if int m - int d > 0 then recordResourcesPending (gp_Namespace p) (gp_Name p)
      (tr_APIVersion (gs_TargetResource (gp_Spec p))) (tr_Kind (gs_TargetResource (gp_Spec p))) (int m - int d) else []) w"
  have before: "calls_made out [] w w1"
    by (auto simp: w1_def intro!: calls_made_book)
  then have served: "status_served ev out (wd_tick w1) p"
    using status_served_mono [OF assms] calls_made_time [OF before order_refl] by blast
  then obtain obj where "get_policy_object out (wd_tick w1) (gp_Namespace p) (gp_Name p) = Inr obj"
    unfolding status_served_def by blast
  then obtain w2 where w2: "UpdateStatus out su p (int m) (int d) (int m - int d) w1 = (None, w2)"
    "logged (reported p m d) w1 w2"
    using UpdateStatus_reports [of out w1 p obj su m d] served unfolding status_served_def by (metis prod.collapse)
  define es where "es = (if ev_recorder ev \<noteq> None
      then RecordPolicyEvaluated (ev_recorder ev) p (int m) (int d) (int m - int d) else [])"
  have after: "calls_made out [] w2 (emit es w2)"
    by (auto simp: es_def intro!: calls_made_book)
  have "finish_evaluation ev out p (int m) (int d) (int m - int d) w = (None, emit es w2)"
    unfolding finish_evaluation_def Let_def w1_def [symmetric] es_def by (simp add: updatePolicyStatus_def su w2(1))
  then show ?thesis
    using logged_after [OF logged_before [OF before w2(2)] after] by simp
qed

text \<open>
  What an evaluation over these resources achieves: the calls are for the resources that are
  due, and when the status is served there is no error and the status holds the numbers.
\<close>

definition collected ::
    "('l, 'y) eval_env_scheme \<Rightarrow> ('x) outside_scheme \<Rightarrow> (GroupVersionKind \<Rightarrow> GroupVersionResource) \<Rightarrow>
      GarbageCollectionPolicy \<Rightarrow> gotime \<Rightarrow> gotime \<Rightarrow> resource list \<Rightarrow> go_error option \<Rightarrow> world \<Rightarrow> world \<Rightarrow> bool" where
  "collected ev out f p t1 t2 rs err w w' \<longleftrightarrow>
     calls_made out (requests_for f p (filter (due (ev_as_selector ev) p t1 t2) rs)) w w' \<and>
     (status_served ev out (wd_tick w) p \<longrightarrow> err = None \<and>
        logged (reported p (length (matching (ev_as_selector ev) p rs))
          (length (filter (due (ev_as_selector ev) p t1 t2) rs))) w w')"

lemma collected_before:
  assumes "calls_made out [] w w1" and "collected ev out f p t1 t2 rs err w1 w2"
  shows "collected ev out f p t1 t2 rs err w w2"
  using assms calls_made_trans [OF assms(1)] logged_before [OF assms(1)]
    status_served_mono [OF _ calls_made_time [OF assms(1) order_refl]]
  unfolding collected_def by fastforce

lemma collected_after:
  "collected ev out f p t1 t2 rs err w w1 \<Longrightarrow> calls_made out [] w1 w2 \<Longrightarrow> collected ev out f p t1 t2 rs err w w2"
  unfolding collected_def using calls_made_trans [of out _ w w1 "[]"] logged_after by fastforce

lemma collected_duration:
  "collected ev out f p t1 t2 rs err w w1 \<Longrightarrow> collected ev out f p t1 t2 rs err w (record_duration out p t w1)"
  by (erule collected_after) simp

lemma evaluate_listed_exact:
  assumes "\<And>l. smooth out T l" and "names_known out T f" and "resolver_ok out w" and "rl_wf rl"
    and "resolveBatchSize p (ev_config ev) > 0" and "steady out T p (set rs) t1 t2" and "T \<le> wd_tick w"
  defines "chosen \<equiv> filter (due (ev_as_selector ev) p t1 t2) rs"
  shows "\<exists>err rl' w'. evaluate_listed ev out p rs rl w = Some (Inr err, rl', w') \<and> rl_wf rl' \<and>
    collected ev out f p t1 t2 rs err w w'"
proof -
  define m where "m = length (matching (ev_as_selector ev) p rs)"
  define d where "d = length chosen"
  obtain res w1 where ev: "evaluateResources (ev_as_selector ev) out p rs w = (res, w1)"
    by fastforce
  have "res = fold_items (ev_as_selector ev) p t1 t2 rs empty_result"
    using evaluateResources_steady [OF assms(6,7), of "ev_as_selector ev"] ev by simp
  then have res: "er_ResourcesToDelete res = chosen" "er_MatchedCount res = int m" "er_PendingCount res = int m - int d"
    using fold_items_lists [of "ev_as_selector ev" p t1 t2 rs empty_result]
    by (simp_all add: empty_result_def chosen_def m_def d_def)
  have w1: "calls_made out [] w w1"
    using no_calls_eval.evaluateResources_rel(1) [of out w "ev_as_selector ev" p rs] ev by simp
  note ok1 = resolver_ok_calls [OF assms(3) w1]
  obtain rl' w2 where del: "(if length chosen > 0 then deleteResourcesInBatches ev out p chosen (er_Reasons res) rl w1
      else Some (Inr 0, rl, w1)) = Some (Inr (int d), rl', w2)" "rl_wf rl'"
    and w2: "calls_made out (requests_for f p chosen) w1 w2"
    using deleteResourcesInBatches_calls [OF assms(1,2) ok1 assms(4,5) calls_made_time [OF w1 assms(7)],
        of chosen "er_Reasons res"] assms(4)
    by (cases "chosen = []") (auto simp: d_def)
  obtain err w3 where fin: "finish_evaluation ev out p (int m) (int d) (int m - int d) w2 = (err, w3)"
    by fastforce
  have w3: "calls_made out [] w2 w3"
    using no_calls_eval.finish_evaluation_rel [of out w2 ev p "int m" "int d" "int m - int d"] fin by simp
  have run: "evaluate_listed ev out p rs rl w = Some (Inr err, rl', w3)"
    unfolding evaluate_listed_def ev Let_def prod.case res del(1) option.case sum.case fin by (rule refl)
  have upto: "calls_made out (requests_for f p chosen) w w2"
    using calls_made_trans [OF w1 w2] by simp
  have "err = None \<and> logged (reported p m d) w w3" if "status_served ev out (wd_tick w) p"
    using finish_evaluation_reports [OF status_served_mono [OF that calls_made_time [OF upto order_refl]], of m d] fin
      logged_before [OF upto] by simp
  with run del(2) calls_made_trans [OF upto w3] show ?thesis
    unfolding collected_def chosen_def [symmetric] m_def d_def by auto
qed

text \<open>Both ways to hand the resources over: the list of the service and the items of a store.\<close>

definition target_parses ::
    "(string \<Rightarrow> (string \<times> string) option) \<Rightarrow> GarbageCollectionPolicy \<Rightarrow> bool" where
  "target_parses parse_gv p \<longleftrightarrow>
     (\<exists>gvr. ParseGVR parse_gv (tr_APIVersion (gs_TargetResource (gp_Spec p))) (tr_Kind (gs_TargetResource (gp_Spec p))) = Inr gvr)"

lemma collected_listed:
  "collected ev out f p t1 t2 (store_ListResources items (listed_namespace p)) err w w' =
    collected ev out f p t1 t2 (stored items) err w w'"
  by (simp add: collected_def due_listed)

lemma EvaluatePolicy_exact:
  assumes "\<And>l. smooth out T l" and "names_known out T f" and "resolver_ok out w" and "rl_wf rl"
    and "resolveBatchSize p (ev_config ev) > 0" and "target_parses parse_gv p"
    and "\<And>g n t. list_resources g n t = Inr (store_ListResources (items t) n)"
    and "steady out T p (set (stored (items (Suc (wd_tick w))))) t1 t2" and "T \<le> wd_tick w"
  shows "\<exists>err rl' w'. EvaluatePolicy ev out parse_gv list_resources p rl w = Some (Inr err, rl', w') \<and> rl_wf rl' \<and>
    collected ev out f p t1 t2 (stored (items (Suc (wd_tick w)))) err w w'"
proof -
  define rs where "rs = store_ListResources (items (Suc (wd_tick w))) (listed_namespace p)"
  have "steady out T p (set rs) t1 t2"
    using assms(8) by (rule steady_mono) (auto simp: rs_def listed_eq_filter)
  then obtain err rl' w1 where listed: "evaluate_listed ev out p rs rl (tick (tick w)) = Some (Inr err, rl', w1)" "rl_wf rl'"
    and "collected ev out f p t1 t2 rs err (tick (tick w)) w1"
    using evaluate_listed_exact [OF assms(1,2) _ assms(4,5), of "tick (tick w)" rs t1 t2] assms(3,9) by auto
  then have whole: "collected ev out f p t1 t2 (stored (items (Suc (wd_tick w)))) err w w1"
    unfolding rs_def collected_listed by (intro collected_before [of out w "tick (tick w)"]) simp_all
  obtain gvr where "ParseGVR parse_gv (tr_APIVersion (gs_TargetResource (gp_Spec p)))
      (tr_Kind (gs_TargetResource (gp_Spec p))) = Inr gvr"
    using assms(6) by (auto simp: target_parses_def)
  with listed(1) have "EvaluatePolicy ev out parse_gv list_resources p rl w =
      Some (Inr err, rl', record_duration out p (now out (wd_tick w)) w1)"
    unfolding rs_def listed_namespace_def by (simp add: EvaluatePolicy_def read_clock_def Let_def assms(7))
  with listed(2) collected_duration [OF whole] show ?thesis
    by blast
qed

subsection \<open>A reconciliation\<close>

text \<open>
  An outside in which nothing fails any more: from a time on every call is answered and every
  informer syncs. What failed before that time is left open.
\<close>

definition healthy :: "('x) rc_outside_scheme \<Rightarrow> nat \<Rightarrow> (GroupVersionKind \<Rightarrow> GroupVersionResource) \<Rightarrow> bool" where
  "healthy out T f \<longleftrightarrow> (\<forall>l. smooth out T l) \<and> names_known out T f \<and> stores_exist out \<and>
     (\<forall>t\<ge>T. \<forall>i. cache_sync out t i = Synced)"

lemma ResolveGVR_tick: "wd_tick w \<le> wd_tick (snd (ResolveGVR out gvk cache w))"
  by (auto simp: ResolveGVR_def Let_def split: option.splits)

lemma informer_created:
  assumes "healthy out T f" and "resolver_ok out w" and "T \<le> wd_tick w"
  shows "\<exists>i rc' w'. getOrCreateResourceInformer out p rc w = (Inr (Inr i), rc', w') \<and> wd_tick w \<le> wd_tick w'"
  using assms ResolveGVR_tick [of w out] order_trans [OF assms(3) ResolveGVR_tick [of w out]]
  by (auto simp: getOrCreateResourceInformer_def create_informer_def healthy_def resolver_ok_def Let_def case_prod_beta
      le_SucI split: option.splits)

lemma service_created:
  assumes "healthy out T f" and "resolver_ok out w" and "rc_ok rc" and "T \<le> wd_tick w"
  shows "\<exists>sv rc' w'. getOrCreateEvaluationService out p rc w = (Inr (Inr (Some sv)), rc', w') \<and>
    wd_tick w \<le> wd_tick w' \<and> service_ok rc' (evaluationServiceKey p) (Some sv) \<and> rc_ok rc' \<and> same_policies rc rc' \<and>
    calls_made out [] w w'"
proof -
  have alive: "wd_gvr_cache w \<noteq> None"
    using assms(2) by (simp add: resolver_ok_def)
  have "\<exists>sv rc' w'. getOrCreateEvaluationService out p rc w = (Inr (Inr (Some sv)), rc', w') \<and> wd_tick w \<le> wd_tick w'"
    using informer_created [OF assms(1,2,4), of p rc] assms(1) rc_ok_maps [OF assms(3)]
      service_fine [OF assms(3) alive, of out p]
    by (auto simp: getOrCreateEvaluationService_def GetResourceListerForPolicy_def healthy_def stores_exist_def Let_def
        service_ok_def le_SucI split: option.splits)
  then obtain sv rc' w' where srv: "getOrCreateEvaluationService out p rc w = (Inr (Inr (Some sv)), rc', w')"
    "wd_tick w \<le> wd_tick w'"
    by blast
  have "step_fine out rc w (Inr (Inr (Some sv)), rc', w')" "service_ok rc' (evaluationServiceKey p) (Some sv)"
    using service_fine [OF assms(3) alive, of out p] unfolding srv(1) by auto
  then show ?thesis
    using srv by (auto simp: step_fine_def later_def intro: calls_made_appends)
qed

lemma evaluatePolicy_exact:
  assumes "healthy out T f" and "resolver_ok out w" and "rc_ok rc" and "resolveBatchSize p (rc_config rc) > 0"
    and "target_parses (re_parse_gv env) p" and "steady out T p (observed out) t1 t2" and "T \<le> wd_tick w"
  shows "\<exists>err rc' w' t i. evaluatePolicy env out p rc w = Some (Inr err, rc', w') \<and> wd_tick w < t \<and>
    map_of (rc_informers rc') (evaluationServiceKey p) = Some i \<and>
    collected (direct_env env rc) out f p t1 t2 (stored (store_List out t i)) err w w'"
proof -
  obtain sv rc1 w1 where srv: "getOrCreateEvaluationService out p rc w = (Inr (Inr (Some sv)), rc1, w1)"
    "wd_tick w \<le> wd_tick w1" and ok: "service_ok rc1 (evaluationServiceKey p) (Some sv)" "rc_ok rc1"
    and same: "same_policies rc rc1" and calls: "calls_made out [] w w1"
    using service_created [OF assms(1-3,7)] by blast
  define ev where "ev = service_env env sv"
  have ev: "ev = direct_env env rc"
    using ok(1) same by (simp add: ev_def service_env_def direct_env_def service_ok_def same_policies_def)
  let ?t = "Suc (wd_tick w1)" and ?i = "sv_informer sv"
  have "steady out T p (set (stored (store_List out ?t ?i))) t1 t2"
    using assms(6) by (rule steady_mono) (auto simp: set_stored observed_def)
  moreover have "\<And>l. smooth out T l" "names_known out T f"
    using assms(1) by (simp_all add: healthy_def)
  moreover have "resolveBatchSize p (ev_config ev) > 0"
    using assms(4) by (simp add: ev direct_env_def)
  ultimately obtain err rl w2 where run: "EvaluatePolicy ev out (re_parse_gv env)
      (\<lambda>gvr namespace t. Inr (store_ListResources (store_List out t ?i) namespace)) p (rc_limiters rc1) w1 =
      Some (Inr err, rl, w2)"
    and exact: "collected ev out f p t1 t2 (stored (store_List out ?t ?i)) err w1 w2"
    using EvaluatePolicy_exact [OF _ _ resolver_ok_calls [OF assms(2) calls] rc_ok_maps(6) [OF ok(2)] _ assms(5)
          _ _ order_trans [OF assms(7) srv(2)], of f ev "\<lambda>gvr namespace t. Inr (store_ListResources (store_List out t ?i) namespace)" "\<lambda>t. store_List out t ?i"
          t1 t2] by blast
  have "evaluatePolicy env out p rc w = Some (Inr err, rc1\<lparr>rc_limiters := rl\<rparr>, w2)"
    using run unfolding ev_def by (simp add: evaluatePolicy_def srv(1) service_EvaluatePolicy_def)
  moreover have "map_of (rc_informers (rc1\<lparr>rc_limiters := rl\<rparr>)) (evaluationServiceKey p) = Some ?i"
    using ok(1) by (simp add: service_ok_def)
  ultimately show ?thesis
    using collected_before [OF calls exact] srv(2) unfolding ev by (blast intro: le_imp_less_Suc)
qed

text \<open>
  When \<open>Reconcile\<close> comes to an evaluation that can collect: what the outside does from the call
  on, and the state it finds. Every state that is reached is fit, whatever failed on the way.
\<close>

definition settled ::
    "'l rc_env \<Rightarrow> ('x) rc_outside_scheme \<Rightarrow> (GroupVersionKind \<Rightarrow> GroupVersionResource) \<Rightarrow> NamespacedName \<Rightarrow>
      GarbageCollectionPolicy \<Rightarrow> gotime \<Rightarrow> gotime \<Rightarrow> world \<Rightarrow> bool" where
  "settled env out f nn p t1 t2 w \<longleftrightarrow> healthy out (wd_tick w) f \<and> get_policy out (wd_tick w) nn = Inr p \<and>
     \<not> gs_Paused (gp_Spec p) \<and> target_parses (re_parse_gv env) p \<and> steady out (wd_tick w) p (observed out) t1 t2"

definition ready ::
    "'l rc_env \<Rightarrow> ('x) rc_outside_scheme \<Rightarrow> (GroupVersionKind \<Rightarrow> GroupVersionResource) \<Rightarrow> NamespacedName \<Rightarrow>
      GarbageCollectionPolicy \<Rightarrow> gotime \<Rightarrow> gotime \<Rightarrow> 'l reconciler \<Rightarrow> world \<Rightarrow> bool" where
  "ready env out f nn p t1 t2 rc w \<longleftrightarrow> settled env out f nn p t1 t2 w \<and> rc_ok rc \<and> resolver_ok out w \<and>
     resolveBatchSize p (rc_config rc) > 0"

lemma reached_ready:
  assumes "rc_reach env out cfg rc w" and "batches_positive out (Some (effective_config cfg))"
    and "settled env out f nn p t1 t2 w"
  shows "ready env out f nn p t1 t2 rc w"
proof -
  have "stores_exist out"
    using assms(3) by (simp add: settled_def healthy_def)
  from rc_reach_ok [OF assms(1) this assms(2)] assms(3) show ?thesis
    using assms(2) unfolding ready_def settled_def resolver_ok_def batches_positive_def by metis
qed

lemma Reconcile_exact:
  assumes "ready env out f nn p t1 t2 rc w"
  shows "\<exists>err res rc' w' t i. Reconcile env out nn rc w = Some (Inr (res, None), rc', w') \<and> wd_tick w < t \<and>
    map_of (rc_informers rc') (evaluationServiceKey p) = Some i \<and>
    collected (direct_env env rc) out f p t1 t2 (stored (store_List out t i)) err w w' \<and>
    (err = None \<longrightarrow> RequeueAfter res = getRequeueIntervalForPolicy rc' p)"
proof -
  define rc1 where "rc1 = trackPolicySpec (gp_UID p) (gp_Spec p) (handleInformerRecreation p (trackPolicyUID nn (gp_UID p) rc))"
  have rc: "rc_ok rc" "resolver_ok out (tick w)" "healthy out (wd_tick w) f" "get_policy out (wd_tick w) nn = Inr p"
    "\<not> gs_Paused (gp_Spec p)" "resolveBatchSize p (rc_config rc) > 0" "target_parses (re_parse_gv env) p"
    "steady out (wd_tick w) p (observed out) t1 t2"
    using assms by (simp_all add: ready_def settled_def)
  have same: "direct_env env rc1 = direct_env env rc" "rc_config rc1 = rc_config rc" "rc_ok rc1"
    using rc(1) by (simp_all add: rc1_def direct_env_def tracking_ok)
      (simp_all add: trackPolicySpec_def handleInformerRecreation_def trackPolicyUID_def cleanupResourceInformer_def Let_def)
  obtain err rc2 w2 t i where run: "evaluatePolicy env out p rc1 (tick w) = Some (Inr err, rc2, w2)" "Suc (wd_tick w) < t"
    "map_of (rc_informers rc2) (evaluationServiceKey p) = Some i"
    and exact: "collected (direct_env env rc) out f p t1 t2 (stored (store_List out t i)) err (tick w) w2"
    using evaluatePolicy_exact [OF rc(3,2) same(3) _ rc(7,8)] rc(6) same by auto
  obtain es where es: "list_all bookkeeping es" "recordPolicyPhaseMetrics out w2 = emit es (tick w2)"
    using phase_metrics_eq by blast
  define w3 where "w3 = (if err = None then emit es (tick w2) else w2)"
  have after: "calls_made out [] w2 w3"
    using es(1) by (simp add: w3_def calls_made_book)
  have "calls_made out [] w (tick w)"
    by simp
  from collected_after [OF collected_before [OF this exact] after]
  have "collected (direct_env env rc) out f p t1 t2 (stored (store_List out t i)) err w w3" .
  moreover have "Reconcile env out nn rc w = Some (Inr (\<lparr>RequeueAfter = if err = None
      then getRequeueIntervalForPolicy rc2 p else 30 * time_Second\<rparr>, None), rc2, w3)"
    unfolding Reconcile_def Let_def rc(4) sum.case rc1_def [symmetric] run(1)
    by (cases err) (simp_all only: rc(5) option.case prod.case sum.case if_False option.simps if_True simp_thms es(2) w3_def
        handleEvaluationError_def)
  moreover have "wd_tick w < t"
    using run(2) by simp
  ultimately show ?thesis
    using run(3) by (intro exI [of _ err] exI [of _ "\<lparr>RequeueAfter = if err = None
      then getRequeueIntervalForPolicy rc2 p else 30 * time_Second\<rparr>"] exI [of _ rc2] exI [of _ w3] exI [of _ t] exI [of _ i]) simp
qed

text \<open>
  C4. \<open>Reconcile\<close> collects exactly what is due. In every state that is reached, after any number
  of calls with whatever failures, when from now on nothing fails and no deadline passes
  meanwhile, one call for a policy that is not paused requests, one after the other in the
  order of the informer's store and once each, the deletion of precisely the resources in that
  store that match the policy, meet its conditions and are over their TTL, under the resource
  name that discovery gives for their kind and with the options of the policy; in a dry run it
  requests none. The informer is the one of the target, and its store is read during the call.
\<close>

theorem Reconcile_collects_exactly:
  assumes "rc_reach env out cfg rc w" and "batches_positive out (Some (effective_config cfg))"
    and "settled env out f nn p t1 t2 w"
  shows "\<exists>res rc' w' es t i. Reconcile env out nn rc w = Some (Inr (res, None), rc', w') \<and>
    wd_log w' = wd_log w @ es \<and> wd_tick w < t \<and> map_of (rc_informers rc') (evaluationServiceKey p) = Some i \<and>
    requests es = (if bh_DryRun (gs_Behavior (gp_Spec p)) then []
      else map (delete_request f p) (filter (due (re_as_selector env) p t1 t2) (stored (store_List out t i))))"
proof -
  obtain err res rc' w' t i where run: "Reconcile env out nn rc w = Some (Inr (res, None), rc', w')" "wd_tick w < t"
    "map_of (rc_informers rc') (evaluationServiceKey p) = Some i"
    and "collected (direct_env env rc) out f p t1 t2 (stored (store_List out t i)) err w w'"
    using Reconcile_exact [OF reached_ready [OF assms]] by blast
  then obtain es where "wd_log w' = wd_log w @ es"
    "requests es = requests_for f p (filter (due (re_as_selector env) p t1 t2) (stored (store_List out t i)))"
    by (auto simp: collected_def calls_made_def direct_env_def)
  with run show ?thesis
    unfolding requests_for_def by blast
qed

text \<open>An outside with one resource that is over its TTL, one that is not, and one elsewhere.\<close>

definition example_names :: "GroupVersionKind \<Rightarrow> GroupVersionResource" where
  "example_names gvk = \<lparr>gvr_Group = gvk_Group gvk, gvr_Version = gvk_Version gvk, gvr_Resource = ''configmaps''\<rparr>"

definition example_resources :: "resource list" where
  "example_resources = [plain_resource ''ns'' ''a'' (- 100 * 10 ^ 9), plain_resource ''ns'' ''b'' 0,
     plain_resource ''other'' ''c'' (- 100 * 10 ^ 9)]"

definition example_outside :: "GarbageCollectionPolicy \<Rightarrow> rc_outside" where
  "example_outside p = (rc_calm p)\<lparr>rest_mapping := Some (\<lambda>_ gvk. Some (example_names gvk)), now := (\<lambda>_. 1),
     store_List := (\<lambda>_ _. None # map Some example_resources)\<rparr>"

definition example_policy :: GarbageCollectionPolicy where
  "example_policy = (fixed_policy 60)\<lparr>gp_Spec := (gp_Spec (fixed_policy 60))\<lparr>gs_TargetResource := zero_TargetResourceSpec
     \<lparr>tr_APIVersion := ''v1'', tr_Kind := ''ConfigMap'', tr_Namespace := ''ns''\<rparr>\<rparr>\<rparr>"

lemma example_plan: "policy_plan r example_policy = Inr (FromCreation 60)"
  using policy_plan_fixed [of r 60] by (simp add: policy_plan_def example_policy_def)

lemma example_due: "filter (due (\<lambda>_. None) example_policy 1 1) example_resources = [plain_resource ''ns'' ''a'' (- 100 * 10 ^ 9)]"
proof -
  have over: "ttl_over 1 1 (plain_resource ns n c) example_policy \<longleftrightarrow> c + 60 * 10 ^ 9 \<noteq> 0 \<and> c + 60 * 10 ^ 9 < 1" for ns n c
    using plan_time_in_range [of "FromCreation 60" "plain_resource ns n c"]
    by (simp add: ttl_over_def example_plan machine_deadline_def plan_in_range_def plan_deadline_def plain_resource_def Let_def)
  have match: "matchesSelectorsShared (\<lambda>_. None) (plain_resource ns n c) (gs_TargetResource (gp_Spec example_policy)) \<longleftrightarrow>
      ns = ''ns''" "policy_conditions_met (plain_resource ns n c) example_policy" for ns n c
    by (simp_all add: matchesSelectorsShared_def policy_conditions_met_def example_policy_def fixed_policy_def
        plain_resource_def zero_defs)
  show ?thesis
    by (simp add: example_resources_def due_def over match)
qed

text \<open>A first call, at which the API server is away, and the world that it leaves.\<close>

definition example_flaky :: rc_outside where
  "example_flaky = (example_outside example_policy)\<lparr>get_policy :=
     (\<lambda>t _. if t = 0 then Inl (PlainError ''connection refused'') else Inr example_policy)\<rparr>"

lemma example_reached: "rc_reach rc_env_example example_flaky None (new_reconciler None su None) (tick fresh_world)"
proof -
  have "NewGCPolicyReconcilerWithRESTMapper None su None fresh_world = (new_reconciler None su None, fresh_world)"
    by (simp add: NewGCPolicyReconcilerWithRESTMapper_def fresh_world_def)
  note start = rc_reach.start [OF this]
  have "Reconcile rc_env_example example_flaky nn rc fresh_world =
      Some (Inr (handlePolicyFetchError (PlainError ''connection refused'')), rc, tick fresh_world)" for nn rc
    by (simp add: Reconcile_def example_flaky_def fresh_world_def example_outside_def rc_calm_def outside.extend_def
        calm_outside_def)
  then show ?thesis
    using rc_reach.reconcile [OF start] by blast
qed

lemma example_batches: "batches_positive example_flaky (Some (effective_config None))"
  by (simp add: batches_positive_def example_flaky_def effective_config_def resolveBatchSize_def NewControllerConfig_def
      example_policy_def fixed_policy_def zero_defs DefaultBatchSize_def)

lemma example_settled: "settled rc_env_example example_flaky example_names nn example_policy 1 1 (tick fresh_world)"
proof -
  have "smooth example_flaky T l" "names_known example_flaky T example_names" "stores_exist example_flaky"
    "get_policy example_flaky (Suc t) nn' = Inr example_policy" "cache_sync example_flaky t i = Synced"
    "now example_flaky t = 1" "ctx_done example_flaky t = False" for T l t nn' i
    by (simp_all add: example_flaky_def example_outside_def smooth_def names_known_def stores_exist_def rc_calm_def
        outside.extend_def calm_outside_def)
  moreover have "target_parses split_gv example_policy"
    using ParseGVR_iff [OF split_gv_lawful, of "''v1''" "''ConfigMap''"
        "\<lparr>gvr_Group = [], gvr_Version = ''v1'', gvr_Resource = PluralizeKind ''ConfigMap''\<rparr>"]
    by (auto simp: target_parses_def example_policy_def zero_defs core_version_def)
  ultimately show ?thesis
    by (simp add: settled_def healthy_def steady_def rc_env_example_def)
      (simp add: fresh_world_def example_policy_def fixed_policy_def zero_defs)
qed

lemma example_stored: "stored (store_List example_flaky t i) = example_resources"
  by (simp add: example_flaky_def example_outside_def example_resources_def)

lemma example_collects:
  "filter (due (re_as_selector rc_env_example) example_policy 1 1) example_resources =
    [plain_resource ''ns'' ''a'' (- 100 * 10 ^ 9)]"
  "bh_DryRun (gs_Behavior (gp_Spec example_policy)) = False"
  using example_due by (simp_all add: rc_env_example_def) (simp add: example_policy_def fixed_policy_def zero_defs)

lemma example_request: "map (delete_request example_names example_policy) [plain_resource ''ns'' ''a'' c] =
    [\<lparr>dr_GVR = \<lparr>gvr_Group = [], gvr_Version = ''v1'', gvr_Resource = ''configmaps''\<rparr>,
      dr_Namespace = Some ''ns'', dr_Name = ''a'', dr_Options = buildDeleteOptions example_policy\<rparr>]"
  by (simp add: delete_request_def example_names_def plain_resource_def resource_gvk_def)

theorem Reconcile_collects_exactly_witness:
  "\<exists>res rc' w'. Reconcile rc_env_example example_flaky (''ns'', ''p'')
      (new_reconciler None None None) (tick fresh_world) = Some (Inr (res, None), rc', w') \<and>
    requests (wd_log w') = [\<lparr>dr_GVR = \<lparr>gvr_Group = [], gvr_Version = ''v1'', gvr_Resource = ''configmaps''\<rparr>,
      dr_Namespace = Some ''ns'', dr_Name = ''a'', dr_Options = buildDeleteOptions example_policy\<rparr>]"
  using Reconcile_collects_exactly [OF example_reached [of None] example_batches example_settled [of "(''ns'', ''p'')"]]
  unfolding example_stored example_collects example_request by (fastforce simp: fresh_world_def)

text \<open>
  C10. The status tells the numbers. When moreover the API server takes the status, the
  evaluation succeeds, and among the effects of the call is the status of the policy with the
  number of resources in the store that match, the number that are due as deleted, and all the
  others that match as pending: those whose TTL runs, and those too whose TTL is over while the
  conditions of the policy are not met, which the documentation of the field and of the metric
  would not count. It is so in a dry run too, where nothing is deleted. The next call comes
  after the interval of the policy.
\<close>

theorem status_tells_the_numbers:
  assumes "rc_reach env out cfg rc w" and "batches_positive out (Some (effective_config cfg))"
    and "settled env out f nn p t1 t2 w" and "status_served (direct_env env rc) out (wd_tick w) p"
  shows "\<exists>res rc' w' es t i. Reconcile env out nn rc w = Some (Inr (res, None), rc', w') \<and>
    wd_log w' = wd_log w @ es \<and> map_of (rc_informers rc') (evaluationServiceKey p) = Some i \<and>
    (\<exists>e\<in>set es. reported p (length (matching (re_as_selector env) p (stored (store_List out t i))))
       (length (filter (due (re_as_selector env) p t1 t2) (stored (store_List out t i)))) e) \<and>
    RequeueAfter res = getRequeueIntervalForPolicy rc' p"
proof -
  obtain err res rc' w' t i where run: "Reconcile env out nn rc w = Some (Inr (res, None), rc', w')" "wd_tick w < t"
    "map_of (rc_informers rc') (evaluationServiceKey p) = Some i"
    and exact: "collected (direct_env env rc) out f p t1 t2 (stored (store_List out t i)) err w w'"
    and again: "err = None \<longrightarrow> RequeueAfter res = getRequeueIntervalForPolicy rc' p"
    using Reconcile_exact [OF reached_ready [OF assms(1-3)]] by blast
  from exact assms(4) have "err = None" and "logged (reported p (length (matching (re_as_selector env) p (stored (store_List out t i))))
       (length (filter (due (re_as_selector env) p t1 t2) (stored (store_List out t i))))) w w'"
    by (auto simp: collected_def direct_env_def)
  with run again show ?thesis
    unfolding logged_def by blast
qed

lemma example_matching: "length (matching (re_as_selector rc_env_example) example_policy example_resources) = 2"
  by (simp add: matching_def matchesSelectorsShared_def example_resources_def rc_env_example_def example_policy_def
      fixed_policy_def plain_resource_def zero_defs)

theorem status_tells_the_numbers_witness:
  "\<exists>res rc' w'. Reconcile rc_env_example example_flaky (''ns'', ''p'')
      (new_reconciler None (Some NewStatusUpdater) None) (tick fresh_world) = Some (Inr (res, None), rc', w') \<and>
    (\<exists>e\<in>set (wd_log w'). reported example_policy 2 1 e)"
proof -
  have served: "status_served (direct_env rc_env_example (new_reconciler None (Some NewStatusUpdater) None))
      example_flaky (wd_tick (tick fresh_world)) example_policy"
    by (simp add: status_served_def direct_env_def new_reconciler_def example_flaky_def example_outside_def
        rc_calm_def outside.extend_def calm_outside_def)
  show ?thesis
    using status_tells_the_numbers [OF example_reached example_batches example_settled [of "(''ns'', ''p'')"] served]
    unfolding example_stored example_collects example_matching by (fastforce simp: fresh_world_def)
qed

subsection \<open>The metrics\<close>

text \<open>
  C13. The metrics are used as they are declared. No two metrics that the controller serves
  have one name, so that their registration succeeds; and whatever happens outside, every
  metric that a call of \<open>Reconcile\<close> writes in a state that can be reached is one of them, written
  as the kind it is with one value per label, so that no write panics.
\<close>

theorem metrics_as_declared:
  assumes "rc_reach env out cfg rc w" and "stores_exist out"
    and "batches_positive out (Some (effective_config cfg))"
  shows "distinct (map mt_Name served) \<and>
    (\<exists>res rc' w' es. Reconcile env out req rc w = Some (Inr res, rc', w') \<and> wd_log w' = wd_log w @ es \<and>
       (\<forall>e\<in>set es. well_labelled e))"
proof -
  have "rc_ok rc" "rc_config rc = Some (effective_config cfg)" "wd_gvr_cache w \<noteq> None"
    using rc_reach_ok [OF assms] by simp_all
  with assms(2,3) obtain res err rc' w' where run: "Reconcile env out req rc w = Some (Inr (res, err), rc', w')"
    and "reconcile_fine env out req rc w rc' w'"
    using Reconcile_total [of rc w out env req] by auto
  then obtain es where "wd_log w' = wd_log w @ es" "\<forall>e\<in>set es. well_labelled e"
    by (auto simp: reconcile_fine_def appends_def list_all_iff allowed_call_def dest!: logs_appends)
  moreover have "distinct (map mt_Name served)"
    by (simp add: served_def metric_defs)
  ultimately show ?thesis
    using run by blast
qed

theorem metrics_as_declared_witness:
  "\<exists>res rc' w' es. Reconcile rc_env_example (rc_calm (fixed_policy 60)) (''ns'', ''p'')
      (new_reconciler None None None) (fresh_world\<lparr>wd_gvr_cache := Some []\<rparr>) = Some (Inr res, rc', w') \<and>
    wd_log w' = es \<and> (\<forall>e\<in>set es. well_labelled e)"
proof -
  have "rc_reach rc_env_example (rc_calm (fixed_policy 60)) None (new_reconciler None None None)
      (fresh_world\<lparr>wd_gvr_cache := Some []\<rparr>)"
    by (rule rc_reach.start [OF NewGCPolicyReconcilerWithRESTMapper_def])
  from metrics_as_declared [OF this] show ?thesis
    using rc_calm_fine [OF example_batch] by (simp add: effective_config_def fresh_world_def)
qed

end
