(* ===== verification/Services.thy ===== *)
theory Services
  imports Collection
begin

text \<open>
  The wiring of an evaluation: the interfaces of pkg/controller/interfaces.go, the service of
  evaluate_policy_refactored.go with whatever implementations it is given, the adapters of
  adapters.go through which the reconciler hands it its own operations, and the stand-alone
  implementations of infrastructure.go. Evaluation models the service as the reconciler wires
  it; here the wiring is explicit and shown to give that model.
\<close>

subsection \<open>The service with injected dependencies\<close>

text \<open>
  A dependency is its method; \<open>'s\<close> is the state that the provider of the limiters keeps. The
  calculator of the TTL is never used. A provider may answer nil.
\<close>

type_synonym SelectorMatcher = "resource \<Rightarrow> TargetResourceSpec \<Rightarrow> bool"
type_synonym ConditionMatcher = "resource \<Rightarrow> ConditionsSpec \<Rightarrow> bool"
type_synonym 's RateLimiterProvider = "GarbageCollectionPolicy \<Rightarrow> 's \<Rightarrow> panic + (nat option \<times> 's)"
type_synonym BatchDeleterCore =
  "resource list \<Rightarrow> GarbageCollectionPolicy \<Rightarrow> nat \<Rightarrow> (string, string) gomap \<Rightarrow> world \<Rightarrow> (int \<times> go_error list) \<times> world"

record 's PolicyEvaluationService = PolicyEvaluator +
  pe_resourceLister :: lister
  pe_selectorMatcher :: SelectorMatcher
  pe_conditionMatcher :: ConditionMatcher
  pe_rateLimiterProvider :: "'s RateLimiterProvider"
  pe_batchDeleter :: BatchDeleterCore

definition NewPolicyEvaluationService ::
    "lister \<Rightarrow> SelectorMatcher \<Rightarrow> ConditionMatcher \<Rightarrow> 's RateLimiterProvider \<Rightarrow> BatchDeleterCore \<Rightarrow>
      StatusUpdater option \<Rightarrow> EventRecorder \<Rightarrow> ControllerConfig option \<Rightarrow> 's PolicyEvaluationService" where
  "NewPolicyEvaluationService resourceLister selectorMatcher conditionMatcher rateLimiterProvider batchDeleter
       statusUpdater eventRecorder controllerConfig =
     \<lparr>ev_config = controllerConfig, ev_recorder = eventRecorder, ev_status = statusUpdater,
      pe_resourceLister = resourceLister, pe_selectorMatcher = selectorMatcher, pe_conditionMatcher = conditionMatcher,
      pe_rateLimiterProvider = rateLimiterProvider, pe_batchDeleter = batchDeleter\<rparr>"

definition pe_getBatchSize :: "'s PolicyEvaluationService \<Rightarrow> GarbageCollectionPolicy \<Rightarrow> int" where
  "pe_getBatchSize s policy = resolveBatchSize policy (ev_config s)"

definition injected_item ::
    "'s PolicyEvaluationService \<Rightarrow> ('x) outside_scheme \<Rightarrow> GarbageCollectionPolicy \<Rightarrow> resource \<Rightarrow>
      PolicyEvaluationResult \<Rightarrow> world \<Rightarrow> PolicyEvaluationResult \<times> world" where
  "injected_item s out policy resource res w =
     (if \<not> pe_selectorMatcher s resource (gs_TargetResource (gp_Spec policy)) then (res, w)
      else
        (let res = res\<lparr>er_MatchedCount := er_MatchedCount res + 1\<rparr>;
             w = emit (matched_metric policy) w
         in if (case gs_Conditions (gp_Spec policy) of
                  None \<Rightarrow> False | Some conditions \<Rightarrow> \<not> pe_conditionMatcher s resource conditions)
            then (add_pending res, w)
            else
              (let ((t1, t2), w) = read_clock_twice out w;
                   (shouldDelete, reason) = service_shouldDelete t1 t2 resource policy
               in if \<not> shouldDelete then (add_pending res, w)
                  else (add_to_delete resource reason res, w))))"

definition pe_evaluateResources ::
    "'s PolicyEvaluationService \<Rightarrow> ('x) outside_scheme \<Rightarrow> GarbageCollectionPolicy \<Rightarrow> resource list \<Rightarrow> world \<Rightarrow>
      PolicyEvaluationResult \<times> world" where
  "pe_evaluateResources s out policy resources w =
     (let (done, w) = check_ctx out w
      in if done then (empty_result, w)
         else checked_loop out (injected_item s out policy) 0 resources empty_result w)"

definition pe_deleteResourcesInBatches ::
    "'s PolicyEvaluationService \<Rightarrow> ('x) outside_scheme \<Rightarrow> GarbageCollectionPolicy \<Rightarrow> resource list \<Rightarrow>
      (string, string) gomap \<Rightarrow> 's \<Rightarrow> world \<Rightarrow> ((panic + int) \<times> 's \<times> world) option" where
  "pe_deleteResourcesInBatches s out policy resources reasons st w =
     (let (done, w) = check_ctx out w
      in if done then Some (Inr 0, st, w)
         else
           (case pe_rateLimiterProvider s policy st of
              Inl p \<Rightarrow> Some (Inl p, st, w)
            | Inr (None, st) \<Rightarrow> Some (Inr 0, st, w)
            | Inr (Some rateLimiter, st) \<Rightarrow>
                map_option (\<lambda>(r, w). (r, st, w))
                  (batches_loop out (\<lambda>batch. pe_batchDeleter s batch policy rateLimiter reasons) (ev_recorder s) policy
                     (pe_getBatchSize s policy) resources 0 0 w)))"

definition pe_evaluate_listed ::
    "'s PolicyEvaluationService \<Rightarrow> ('x) outside_scheme \<Rightarrow> GarbageCollectionPolicy \<Rightarrow> resource list \<Rightarrow>
      's \<Rightarrow> world \<Rightarrow> ((panic + go_error option) \<times> 's \<times> world) option" where
  "pe_evaluate_listed s out policy resources st w =
     (let (res, w) = pe_evaluateResources s out policy resources w
      in case (if length (er_ResourcesToDelete res) > 0
               then pe_deleteResourcesInBatches s out policy (er_ResourcesToDelete res) (er_Reasons res) st w
               else Some (Inr 0, st, w)) of
           None \<Rightarrow> None
         | Some (Inl p, st, w) \<Rightarrow> Some (Inl p, st, w)
         | Some (Inr deleted, st, w) \<Rightarrow>
             (let (err, w) = finish_evaluation s out policy (er_MatchedCount res) deleted (er_PendingCount res) w
              in Some (Inr err, st, w)))"

definition pe_EvaluatePolicy ::
    "'s PolicyEvaluationService \<Rightarrow> ('x) outside_scheme \<Rightarrow> (string \<Rightarrow> (string \<times> string) option) \<Rightarrow>
      GarbageCollectionPolicy \<Rightarrow> 's \<Rightarrow> world \<Rightarrow> ((panic + go_error option) \<times> 's \<times> world) option" where
  "pe_EvaluatePolicy s out parse_gv policy st w =
     (let (startTime, w) = read_clock out w;
          target = gs_TargetResource (gp_Spec policy)
      in map_option (\<lambda>(r, st, w). (r, st, record_duration out policy startTime w))
           (case ParseGVR parse_gv (tr_APIVersion target) (tr_Kind target) of
              Inl e \<Rightarrow>
                Some (Inr (Some (policy_error policy ''invalid_gvr'' ''failed to parse GVR'' (gvr_go_error e))), st,
                  emit (recordError (gp_Namespace policy) (gp_Name policy) ''invalid_gvr'') w)
            | Inr gvr \<Rightarrow>
                (let namespace = (if tr_Namespace target = [] then ''*'' else tr_Namespace target);
                     listed = pe_resourceLister s gvr namespace (wd_tick w); w = tick w
                 in case listed of
                      Inl e \<Rightarrow>
                        Some (Inr (Some (policy_error policy ''list_resources_failed'' ''failed to list resources'' e)), st,
                          emit (recordError (gp_Namespace policy) (gp_Name policy) ''list_resources_failed'') w)
                    | Inr resources \<Rightarrow> pe_evaluate_listed s out policy resources st w)))"

subsection \<open>The adapters of the reconciler\<close>

text \<open>The operations of the reconciler that are the shared functions, and the adapters around them.\<close>

definition r_matchesSelectors :: "'l rc_env \<Rightarrow> SelectorMatcher" where
  "r_matchesSelectors env = matchesSelectorsShared (re_as_selector env)"

definition r_meetsConditions :: ConditionMatcher where
  "r_meetsConditions = meetsConditionsShared"

definition r_getOrCreateRateLimiter ::
    "'l rc_env \<Rightarrow> GarbageCollectionPolicy \<Rightarrow> 'l reconciler \<Rightarrow> panic + nat \<times> 'l reconciler" where
  "r_getOrCreateRateLimiter env policy rc =
     (case getOrCreateRateLimiterShared (re_rate_pkg env) policy (rc_limiters rc) of
        Inl p \<Rightarrow> Inl p | Inr (l, rl) \<Rightarrow> Inr (l, rc\<lparr>rc_limiters := rl\<rparr>))"

definition r_getBatchSize :: "'l reconciler \<Rightarrow> GarbageCollectionPolicy \<Rightarrow> int" where
  "r_getBatchSize rc policy = resolveBatchSize policy (rc_config rc)"

definition adapter_MatchesSelectors :: "'l rc_env \<Rightarrow> SelectorMatcher" where
  "adapter_MatchesSelectors env resource spec = r_matchesSelectors env resource spec"

definition adapter_MeetsConditions :: ConditionMatcher where
  "adapter_MeetsConditions resource conditions = r_meetsConditions resource conditions"

definition adapter_GetOrCreateRateLimiter :: "'l rc_env \<Rightarrow> 'l reconciler RateLimiterProvider" where
  "adapter_GetOrCreateRateLimiter env policy rc =
     (case r_getOrCreateRateLimiter env policy rc of Inl p \<Rightarrow> Inl p | Inr (l, rc) \<Rightarrow> Inr (Some l, rc))"

definition adapter_DeleteBatch :: "('x) outside_scheme \<Rightarrow> 'l reconciler \<Rightarrow> BatchDeleterCore" where
  "adapter_DeleteBatch out rc batch policy rateLimiter reasons w =
     deleteBatch out (rc_recorder rc) batch policy rateLimiter reasons w"

text \<open>The adapter of the reconciler hands them out.\<close>

definition GetSelectorMatcher :: "'l rc_env \<Rightarrow> SelectorMatcher" where
  "GetSelectorMatcher env = adapter_MatchesSelectors env"

definition GetConditionMatcher :: ConditionMatcher where
  "GetConditionMatcher = adapter_MeetsConditions"

definition GetRateLimiterProvider :: "'l rc_env \<Rightarrow> 'l reconciler RateLimiterProvider" where
  "GetRateLimiterProvider env = adapter_GetOrCreateRateLimiter env"

definition GetBatchDeleter :: "('x) outside_scheme \<Rightarrow> 'l reconciler \<Rightarrow> BatchDeleterCore" where
  "GetBatchDeleter out rc = adapter_DeleteBatch out rc"

definition NewInformerStoreResourceLister :: "('x) rc_outside_scheme \<Rightarrow> informer \<Rightarrow> lister" where
  "NewInformerStoreResourceLister out informer gvr namespace t = Inr (store_ListResources (store_List out t informer) namespace)"

text \<open>Further operations of the reconciler that hand over a field or call one function.\<close>

definition GetEventRecorder :: "'l reconciler \<Rightarrow> EventRecorder" where "GetEventRecorder rc = rc_recorder rc"
definition GetStatusUpdater :: "'l reconciler \<Rightarrow> StatusUpdater option" where "GetStatusUpdater rc = rc_status rc"
definition getConfig :: "'l reconciler \<Rightarrow> ControllerConfig option" where "getConfig rc = rc_config rc"
definition getRateLimiters :: "'l reconciler \<Rightarrow> (uid, nat option) gomap" where "getRateLimiters rc = rs_limiters (rc_limiters rc)"

definition r_calculateExpirationTime :: "gotime \<Rightarrow> resource \<Rightarrow> TTLSpec \<Rightarrow> ttl_error + gotime" where
  "r_calculateExpirationTime t resource ttlSpec = calculateExpirationTimeShared t resource ttlSpec"

definition DeleteResourceWithContext ::
    "('x) outside_scheme \<Rightarrow> resource \<Rightarrow> GarbageCollectionPolicy \<Rightarrow> nat \<Rightarrow> world \<Rightarrow> go_error option \<times> world" where
  "DeleteResourceWithContext out resource policy rateLimiter w = deleteResource out resource policy rateLimiter w"

definition r_deleteResourceWithBackoff ::
    "('x) outside_scheme \<Rightarrow> resource \<Rightarrow> GarbageCollectionPolicy \<Rightarrow> nat \<Rightarrow> world \<Rightarrow> go_error option \<times> world" where
  "r_deleteResourceWithBackoff out resource policy rateLimiter w =
     deleteResourceWithBackoffShared out (Some (DeleteResourceWithContext out resource policy rateLimiter)) None w"

text \<open>The function of backoff.go, which has the name of the method.\<close>

definition package_DeleteResourceWithBackoff ::
    "('x) outside_scheme \<Rightarrow> resource \<Rightarrow> GarbageCollectionPolicy \<Rightarrow> nat \<Rightarrow> world \<Rightarrow> go_error option \<times> world" where
  "package_DeleteResourceWithBackoff out resource policy rateLimiter w = deleteResource out resource policy rateLimiter w"

definition NewGCPolicyReconciler ::
    "ControllerConfig option \<Rightarrow> StatusUpdater option \<Rightarrow> EventRecorder \<Rightarrow> world \<Rightarrow> 'l reconciler \<times> world" where
  "NewGCPolicyReconciler cfg su er w = NewGCPolicyReconcilerWithRESTMapper cfg su er w"

text \<open>\<open>updatePolicyStatusShared\<close>, over the two methods of the evaluator that it calls.\<close>

definition updatePolicyStatusShared ::
    "'l reconciler \<Rightarrow> ('x) outside_scheme \<Rightarrow> GarbageCollectionPolicy \<Rightarrow> int \<Rightarrow> int \<Rightarrow> int \<Rightarrow> world \<Rightarrow>
      go_error option \<times> world" where
  "updatePolicyStatusShared evaluator out policy matched deleted pending w =
     (case GetStatusUpdater evaluator of
        None \<Rightarrow> (None, w)
      | Some statusUpdater \<Rightarrow>
          (case UpdateStatus out statusUpdater policy matched deleted pending w of
             (None, w) \<Rightarrow> (None, w)
           | (Some err, w) \<Rightarrow>
               (let cancelled = status_ctx_done out (wd_tick w); w = tick w
                in if cancelled then (None, w)
                   else
                     (let gcErr = policy_error policy ''status_update_failed'' ''failed to update policy status'' err;
                          w = emit (recordError (gp_Namespace policy) (gp_Name policy) ''status_update_failed'') w;
                          w = emit (if GetEventRecorder evaluator \<noteq> None
                                    then RecordStatusUpdateFailed (GetEventRecorder evaluator) policy gcErr else []) w
                      in (Some gcErr, w)))))"

text \<open>The service that \<open>getOrCreateEvaluationService\<close> makes over the store of an informer.\<close>

definition wired_service ::
    "'l rc_env \<Rightarrow> ('x) rc_outside_scheme \<Rightarrow> 'l reconciler \<Rightarrow> informer \<Rightarrow> 'l reconciler PolicyEvaluationService" where
  "wired_service env out rc informer =
     NewPolicyEvaluationService (NewInformerStoreResourceLister out informer) (GetSelectorMatcher env) GetConditionMatcher
       (GetRateLimiterProvider env) (GetBatchDeleter out rc) (rc_status rc) (rc_recorder rc) (rc_config rc)"

subsection \<open>The implementations of infrastructure.go\<close>

definition DefaultSelectorMatcher :: "as_selector \<Rightarrow> SelectorMatcher" where
  "DefaultSelectorMatcher as_sel resource spec = matchesSelectorsShared as_sel resource spec"

definition DefaultConditionMatcher :: ConditionMatcher where
  "DefaultConditionMatcher resource conditions = meetsConditionsShared resource conditions"

definition DefaultRateLimiterProvider :: "'l rate_pkg \<Rightarrow> ControllerConfig option \<Rightarrow> 'l rl_state RateLimiterProvider" where
  "DefaultRateLimiterProvider rp cfg policy st = Inr (GetOrCreateRateLimiter rp cfg policy st)"

subsection \<open>The wiring gives the model of an evaluation\<close>

lemmas wiring_defs = GetSelectorMatcher_def adapter_MatchesSelectors_def r_matchesSelectors_def
  GetConditionMatcher_def adapter_MeetsConditions_def r_meetsConditions_def GetBatchDeleter_def adapter_DeleteBatch_def
  GetRateLimiterProvider_def adapter_GetOrCreateRateLimiter_def r_getOrCreateRateLimiter_def NewInformerStoreResourceLister_def

lemma wired_simps [simp]:
  "pe_selectorMatcher (wired_service env out rc i) = matchesSelectorsShared (re_as_selector env)"
  "pe_conditionMatcher (wired_service env out rc i) = meetsConditionsShared"
  "pe_batchDeleter (wired_service env out rc i) = deleteBatch out (rc_recorder rc)"
  "pe_resourceLister (wired_service env out rc i) = (\<lambda>gvr namespace t. Inr (store_ListResources (store_List out t i) namespace))"
  "ev_config (wired_service env out rc i) = rc_config rc" "ev_recorder (wired_service env out rc i) = rc_recorder rc"
  "ev_status (wired_service env out rc i) = rc_status rc"
  "pe_rateLimiterProvider (wired_service env out rc i) policy rc' =
     (case getOrCreateRateLimiterShared (re_rate_pkg env) policy (rc_limiters rc') of
        Inl p \<Rightarrow> Inl p | Inr (l, rl) \<Rightarrow> Inr (Some l, rc'\<lparr>rc_limiters := rl\<rparr>))"
  by (simp_all add: wired_service_def NewPolicyEvaluationService_def wiring_defs fun_eq_iff split: sum.splits)

lemma direct_env_simps [simp]:
  "ev_config (direct_env env rc) = rc_config rc" "ev_recorder (direct_env env rc) = rc_recorder rc"
  "ev_status (direct_env env rc) = rc_status rc" "ev_rate_pkg (direct_env env rc) = re_rate_pkg env"
  "ev_as_selector (direct_env env rc) = re_as_selector env"
  by (simp_all add: direct_env_def)

text \<open>The state of an evaluation is that of the limiters, inside that of the reconciler.\<close>

definition in_reconciler :: "'l reconciler \<Rightarrow> 'a \<times> 'l rl_state \<times> world \<Rightarrow> 'a \<times> 'l reconciler \<times> world" where
  "in_reconciler rc = (\<lambda>(r, rl, w). (r, rc\<lparr>rc_limiters := rl\<rparr>, w))"

lemma in_reconciler_simp [simp]: "in_reconciler rc (r, rl, w) = (r, rc\<lparr>rc_limiters := rl\<rparr>, w)"
  by (simp add: in_reconciler_def)

lemma same_limiters [simp]: "rc\<lparr>rc_limiters := rc_limiters rc\<rparr> = rc"
  by simp

lemma wired_evaluateResources:
  "pe_evaluateResources (wired_service env out rc i) out p rs w = evaluateResources (re_as_selector env) out p rs w"
proof -
  have "injected_item (wired_service env out rc i) out p = service_item (re_as_selector env) out p"
    unfolding injected_item_def service_item_def fun_eq_iff wired_simps by simp
  then show ?thesis
    unfolding pe_evaluateResources_def evaluateResources_def by (simp only:)
qed

lemma wired_batches:
  "pe_deleteResourcesInBatches (wired_service env out rc i) out p rs reasons rc w =
    map_option (in_reconciler rc) (deleteResourcesInBatches (direct_env env rc) out p rs reasons (rc_limiters rc) w)"
  by (auto simp: pe_deleteResourcesInBatches_def deleteResourcesInBatches_def run_batches_def pe_getBatchSize_def check_ctx_def
      option.map_comp comp_def split_beta split: sum.splits intro!: option.map_cong)

lemma finish_evaluation_wired:
  "finish_evaluation (wired_service env out rc i) out p m d n w = finish_evaluation (direct_env env rc) out p m d n w"
  unfolding finish_evaluation_def updatePolicyStatus_def wired_simps direct_env_simps by (rule refl)

lemma wired_listed:
  "pe_evaluate_listed (wired_service env out rc i) out p rs rc w =
    map_option (in_reconciler rc) (evaluate_listed (direct_env env rc) out p rs (rc_limiters rc) w)"
proof -
  obtain res w1 where res: "evaluateResources (re_as_selector env) out p rs w = (res, w1)"
    by fastforce
  show ?thesis
    unfolding pe_evaluate_listed_def evaluate_listed_def wired_evaluateResources direct_env_simps(5) res Let_def prod.case
      wired_batches finish_evaluation_wired
    by (auto simp: case_prod_beta split: option.splits sum.splits)
qed

text \<open>
  C11. The adapters wire the service to the reconciler. The call of a cached service, as the
  reconciler model has it, is the call of the service with the dependencies that
  \<open>getOrCreateEvaluationService\<close> injects: the store of the informer of its target as lister, and
  the reconciler's own selectors, conditions, limiters and batch deletion behind the adapters.
\<close>

theorem adapters_wire_the_service:
  assumes "rc_ok rc" and "map_of (rc_services rc) k = Some svc"
  shows "\<exists>i. map_of (rc_informers rc) k = Some i \<and>
    service_EvaluatePolicy env out svc p rc w = pe_EvaluatePolicy (wired_service env out rc i) out (re_parse_gv env) p rc w"
proof -
  have "service_ok rc k svc"
    using assms unfolding rc_ok_def by blast
  then obtain sv where sv: "svc = Some sv" "map_of (rc_informers rc) k = Some (sv_informer sv)"
    and env: "service_env env sv = direct_env env rc"
    by (auto simp: service_ok_def service_env_def direct_env_def)
  have "service_EvaluatePolicy env out svc p rc w =
      pe_EvaluatePolicy (wired_service env out rc (sv_informer sv)) out (re_parse_gv env) p rc w"
    unfolding sv(1) service_EvaluatePolicy_def option.case env in_reconciler_def [symmetric] EvaluatePolicy_def pe_EvaluatePolicy_def
      read_clock_def Let_def prod.case wired_simps(4)
    by (auto simp: wired_listed option.map_comp comp_def in_reconciler_def case_prod_beta split: sum.splits)
  with sv(2) show ?thesis
    by blast
qed

theorem adapters_wire_the_service_witness:
  "\<exists>rc w i. service_EvaluatePolicy rc_env_example (example_outside example_policy)
      (go_index None (rc_services rc) (evaluationServiceKey example_policy)) example_policy rc w =
    pe_EvaluatePolicy (wired_service rc_env_example (example_outside example_policy) rc i) (example_outside example_policy)
      (re_parse_gv rc_env_example) example_policy rc w"
proof -
  let ?i = "\<lparr>inf_id = 0, inf_GVR = PolicyGVR, inf_Namespace = [], inf_Resync = 0\<rparr>" and ?k = "evaluationServiceKey example_policy"
  let ?rc = "new_reconciler None None None :: (int \<times> int) reconciler"
  let ?svc = "Some \<lparr>sv_informer = ?i, sv_status = None, sv_recorder = None, sv_config = Some NewControllerConfig\<rparr>"
  define rc where "rc = ?rc\<lparr>rc_informers := [(?k, ?i)], rc_factories := [(?k, \<lparr>fa_Resync = 0, fa_Namespace = []\<rparr>)],
    rc_created := 1, rc_services := [(?k, ?svc)]\<rparr>"
  have rc: "rc_ok rc" "map_of (rc_services rc) ?k = Some ?svc"
    by (auto simp: rc_def new_reconciler_def service_ok_def intro!: rc_okI split: if_splits)
  from rc(2) have svc: "go_index None (rc_services rc) ?k = ?svc"
    by (simp add: go_index_def)
  show ?thesis
    using adapters_wire_the_service [OF rc, of rc_env_example "example_outside example_policy" example_policy fresh_world]
    unfolding svc [symmetric] by blast
qed

subsection \<open>The forwarding operations\<close>

text \<open>The direct path updates the status as Evaluation has it, and the retries are those of Deletion.\<close>

lemma updatePolicyStatusShared_eq:
  "updatePolicyStatusShared rc out p m d n w = updatePolicyStatus (direct_env env rc) out p m d n w"
  unfolding updatePolicyStatusShared_def updatePolicyStatus_def GetStatusUpdater_def GetEventRecorder_def direct_env_simps
  by (rule refl)

lemma r_deleteResourceWithBackoff_eq: "r_deleteResourceWithBackoff out r p l w = DeleteResourceWithBackoff out r p l w"
proof -
  have "DeleteResourceWithContext out r p l = deleteResource out r p l"
    by (simp add: fun_eq_iff DeleteResourceWithContext_def)
  then show ?thesis
    by (simp only: r_deleteResourceWithBackoff_def DeleteResourceWithBackoff_def)
qed

text \<open>
  The function of the package with the name of the retrying method does not retry: its comment
  promises exponential backoff, but it asks the API server at most once, whatever the answer.
\<close>

theorem package_delete_does_not_retry:
  "length (requests (drop (length (wd_log w)) (wd_log (snd (package_DeleteResourceWithBackoff out r p l w))))) \<le> 1"
proof -
  obtain e w1 where wait: "limiter_Wait out l w = (e, w1)"
    by fastforce
  then have w1: "wd_log w1 = wd_log w @ [LimiterWait l]"
    by (auto simp: limiter_Wait_def Let_def split: option.splits)
  obtain gvr w2 where res: "resolveGVRForDeletion out r w1 = (gvr, w2)"
    by fastforce
  then have "wd_log w2 = wd_log w1"
    using resolveGVRForDeletion_log [of out r w1] by simp
  then show ?thesis
    using w1 wait res
    by (auto simp: package_DeleteResourceWithBackoff_def deleteResource_def performResourceDeletion_def Let_def
        split: option.splits)
qed

subsection \<open>Whatever is injected\<close>

text \<open>What the dependencies accept, and a limiter that is nil.\<close>

definition accepted ::
    "'s PolicyEvaluationService \<Rightarrow> ('x) outside_scheme \<Rightarrow> GarbageCollectionPolicy \<Rightarrow> resource \<Rightarrow> bool" where
  "accepted s out p r \<longleftrightarrow> pe_selectorMatcher s r (gs_TargetResource (gp_Spec p)) \<and>
     (\<forall>c. gs_Conditions (gp_Spec p) = Some c \<longrightarrow> pe_conditionMatcher s r c) \<and>
     (\<exists>t. ttl_over (now out t) (now out (Suc t)) r p)"

lemma injected_item_accepted:
  "set (er_ResourcesToDelete (fst (injected_item s out p r res w))) \<subseteq>
    set (er_ResourcesToDelete res) \<union> ({r} \<inter> Collect (accepted s out p))"
  using service_shouldDelete_fst [of "now out (wd_tick w)" "now out (Suc (wd_tick w))" r p]
  by (auto simp: injected_item_def read_clock_twice_eq Let_def add_to_delete_def add_pending_def accepted_def
      split: option.splits prod.splits)

lemma pe_evaluateResources_accepted:
  "set (er_ResourcesToDelete (fst (pe_evaluateResources s out p rs w))) \<subseteq> {r \<in> set rs. accepted s out p r}"
proof -
  let ?J = "\<lambda>res. set (er_ResourcesToDelete res) \<subseteq> {r \<in> set rs. accepted s out p r}"
  have "?J (fst (checked_loop out (injected_item s out p) 0 rs empty_result (tick w)))"
    by (rule checked_loop_result) (use injected_item_accepted [of s out p] in \<open>fastforce simp: empty_result_def\<close>)+
  then show ?thesis
    by (simp add: pe_evaluateResources_def check_ctx_def empty_result_def)
qed

text \<open>Two ways to delete that agree on the batches that come give the same run of the loop.\<close>

lemma batches_loop_same_Some:
  assumes "\<And>i e w. delete1 (batch_slice i e rs) w = delete2 (batch_slice i e rs) w"
    and "batches_loop out delete1 er p n rs i d w = Some y"
  shows "batches_loop out delete2 er p n rs i d w = Some y"
proof -
  have "(\<forall>i e w. delete1 (batch_slice i e rs) w = delete2 (batch_slice i e rs) w) \<longrightarrow>
      batches_loop out delete2 er p n rs i d w = Some y"
  proof (rule batches_loop.raw_induct [OF _ assms(2), where P="\<lambda>out delete er p n rs i d w y.
      (\<forall>i e w. delete (batch_slice i e rs) w = delete2 (batch_slice i e rs) w) \<longrightarrow>
      batches_loop out delete2 er p n rs i d w = Some y"], intro impI)
    fix loop out delete er p n rs i d w y
    assume ih: "\<And>out delete er p n rs i d w y. loop out delete er p n rs i d w = Some y \<Longrightarrow>
        (\<forall>i e w. delete (batch_slice i e rs) w = delete2 (batch_slice i e rs) w) \<longrightarrow>
        batches_loop out delete2 er p n rs i d w = Some y"
      and body: "(if \<not> i < int (length rs) then Some (Inr d, w)
        else if ctx_done out (wd_tick w) then Some (Inr d, tick w)
        else if \<not> (0 \<le> i \<and> i \<le> batch_end n i rs) then Some (Inl SliceBounds, tick w)
        else loop out delete er p n rs (i + n)
          (d + fst (fst (delete (batch_slice i (batch_end n i rs) rs) (tick w))))
          (emit (batch_bookkeeping er p (snd (fst (delete (batch_slice i (batch_end n i rs) rs) (tick w)))))
            (snd (delete (batch_slice i (batch_end n i rs) rs) (tick w))))) = Some y"
      and same: "\<forall>i e w. delete (batch_slice i e rs) w = delete2 (batch_slice i e rs) w"
    show "batches_loop out delete2 er p n rs i d w = Some y"
      using body ih same by (subst batches_loop.simps) (auto split: if_splits)
  qed
  with assms(1) show ?thesis
    by simp
qed

lemma batches_loop_same:
  assumes "\<And>i e w. delete1 (batch_slice i e rs) w = delete2 (batch_slice i e rs) w"
  shows "batches_loop out delete1 er p n rs i d w = batches_loop out delete2 er p n rs i d w"
  using batches_loop_same_Some [of delete1 rs delete2 out er p n i d w]
    batches_loop_same_Some [of delete2 rs delete1 out er p n i d w] assms
  by (cases "batches_loop out delete1 er p n rs i d w"; cases "batches_loop out delete2 er p n rs i d w") auto

lemma deleter_fields:
  "pe_selectorMatcher (s\<lparr>pe_batchDeleter := d\<rparr>) = pe_selectorMatcher s"
  "pe_conditionMatcher (s\<lparr>pe_batchDeleter := d\<rparr>) = pe_conditionMatcher s"
  "ev_config (s\<lparr>pe_batchDeleter := d\<rparr>) = ev_config s" "ev_recorder (s\<lparr>pe_batchDeleter := d\<rparr>) = ev_recorder s"
  "ev_status (s\<lparr>pe_batchDeleter := d\<rparr>) = ev_status s"
  by simp_all

lemma deleter_update [simp]:
  "pe_evaluateResources (s\<lparr>pe_batchDeleter := d\<rparr>) out p rs w = pe_evaluateResources s out p rs w"
  "finish_evaluation (s\<lparr>pe_batchDeleter := d\<rparr>) out p m k n w = finish_evaluation s out p m k n w"
proof -
  have "injected_item (s\<lparr>pe_batchDeleter := d\<rparr>) out p = injected_item s out p"
    unfolding injected_item_def fun_eq_iff deleter_fields by simp
  then show "pe_evaluateResources (s\<lparr>pe_batchDeleter := d\<rparr>) out p rs w = pe_evaluateResources s out p rs w"
    unfolding pe_evaluateResources_def by (simp only:)
  show "finish_evaluation (s\<lparr>pe_batchDeleter := d\<rparr>) out p m k n w = finish_evaluation s out p m k n w"
    unfolding finish_evaluation_def updatePolicyStatus_def deleter_fields by (rule refl)
qed

lemma pe_EvaluatePolicy_cong:
  assumes "\<And>g n t rs w. pe_resourceLister s g n t = Inr rs \<Longrightarrow>
    pe_evaluate_listed (s\<lparr>pe_batchDeleter := d1\<rparr>) out p rs st w = pe_evaluate_listed (s\<lparr>pe_batchDeleter := d2\<rparr>) out p rs st w"
  shows "pe_EvaluatePolicy (s\<lparr>pe_batchDeleter := d1\<rparr>) out parse_gv p st w =
    pe_EvaluatePolicy (s\<lparr>pe_batchDeleter := d2\<rparr>) out parse_gv p st w"
  unfolding pe_EvaluatePolicy_def read_clock_def Let_def prod.case using assms by (simp split: sum.splits)

lemma pe_evaluate_listed_cong:
  assumes "\<And>batch reasons st w. set batch \<subseteq> {r \<in> set rs. accepted s out p r} \<Longrightarrow>
    pe_deleteResourcesInBatches (s\<lparr>pe_batchDeleter := d1\<rparr>) out p batch reasons st w =
    pe_deleteResourcesInBatches (s\<lparr>pe_batchDeleter := d2\<rparr>) out p batch reasons st w"
  shows "pe_evaluate_listed (s\<lparr>pe_batchDeleter := d1\<rparr>) out p rs st w = pe_evaluate_listed (s\<lparr>pe_batchDeleter := d2\<rparr>) out p rs st w"
proof -
  obtain res w1 where res: "pe_evaluateResources s out p rs w = (res, w1)"
    by fastforce
  have "pe_deleteResourcesInBatches (s\<lparr>pe_batchDeleter := d1\<rparr>) out p (er_ResourcesToDelete res) (er_Reasons res) st w1 =
      pe_deleteResourcesInBatches (s\<lparr>pe_batchDeleter := d2\<rparr>) out p (er_ResourcesToDelete res) (er_Reasons res) st w1"
    by (rule assms) (use pe_evaluateResources_accepted [of s out p rs w] res in simp)
  then show ?thesis
    unfolding pe_evaluate_listed_def deleter_update res Let_def prod.case by (simp only:)
qed

text \<open>
  C12. Whatever is injected, the service hands to the deleter only what the other dependencies
  accept: a resource that the lister gave, that the selector matcher and, when the policy has
  conditions, the condition matcher accept, and whose TTL was over at a reading of the clock.
  Two deleters that agree on batches of such resources cannot be told apart.
\<close>

theorem deleter_gets_what_is_accepted:
  assumes "\<And>batch l reasons w. \<forall>r\<in>set batch. accepted s out p r \<and>
      (\<exists>g n t rs. pe_resourceLister s g n t = Inr rs \<and> r \<in> set rs) \<Longrightarrow>
    d1 batch p l reasons w = d2 batch p l reasons w"
  shows "pe_EvaluatePolicy (s\<lparr>pe_batchDeleter := d1\<rparr>) out parse_gv p st w =
    pe_EvaluatePolicy (s\<lparr>pe_batchDeleter := d2\<rparr>) out parse_gv p st w"
proof (rule pe_EvaluatePolicy_cong, rule pe_evaluate_listed_cong)
  fix g n t rs batch reasons st w
  assume listed: "pe_resourceLister s g n t = Inr rs" and batch: "set batch \<subseteq> {r \<in> set rs. accepted s out p r}"
  have "d1 (batch_slice i e batch) p l reasons w = d2 (batch_slice i e batch) p l reasons w" for i e l w
    by (rule assms) (use listed batch set_batch_slice [of i e batch] in blast)
  then have "batches_loop out (\<lambda>b. d1 b p l reasons) er p k batch 0 0 w = batches_loop out (\<lambda>b. d2 b p l reasons) er p k batch 0 0 w"
    for l er k w
    by (rule batches_loop_same)
  then show "pe_deleteResourcesInBatches (s\<lparr>pe_batchDeleter := d1\<rparr>) out p batch reasons st w =
      pe_deleteResourcesInBatches (s\<lparr>pe_batchDeleter := d2\<rparr>) out p batch reasons st w"
    by (simp add: pe_deleteResourcesInBatches_def check_ctx_def pe_getBatchSize_def split: sum.splits option.splits)
qed

definition injected_example :: "(int \<times> int) rl_state PolicyEvaluationService" where
  "injected_example = NewPolicyEvaluationService (\<lambda>_ _ _. Inr example_resources) (\<lambda>r spec. res_Namespace r = ''ns'')
     DefaultConditionMatcher (DefaultRateLimiterProvider pair_limiter None) (deleteBatch calm_outside None) None None None"

theorem deleter_gets_what_is_accepted_witness:
  "pe_EvaluatePolicy (injected_example\<lparr>pe_batchDeleter := deleteBatch calm_outside None\<rparr>) calm_outside split_gv example_policy
      NewDefaultRateLimiterProvider fresh_world =
    pe_EvaluatePolicy (injected_example\<lparr>pe_batchDeleter := (\<lambda>batch p l reasons w.
        if list_ex (\<lambda>r. res_Namespace r \<noteq> ''ns'') batch then ((0, [PlainError ''outside'']), w)
        else deleteBatch calm_outside None batch p l reasons w)\<rparr>) calm_outside split_gv example_policy
      NewDefaultRateLimiterProvider fresh_world"
  by (rule deleter_gets_what_is_accepted)
    (auto simp: accepted_def injected_example_def NewPolicyEvaluationService_def list_ex_iff)

text \<open>Without a limiter the service deletes nothing: the deleter is not called.\<close>

theorem nil_limiter_deletes_nothing:
  assumes "\<And>st. \<exists>st'. pe_rateLimiterProvider s p st = Inr (None, st')"
  shows "pe_EvaluatePolicy (s\<lparr>pe_batchDeleter := d1\<rparr>) out parse_gv p st w =
    pe_EvaluatePolicy (s\<lparr>pe_batchDeleter := d2\<rparr>) out parse_gv p st w"
proof (rule pe_EvaluatePolicy_cong, rule pe_evaluate_listed_cong)
  fix batch reasons st w
  obtain st' where "pe_rateLimiterProvider s p st = Inr (None, st')"
    using assms by blast
  then show "pe_deleteResourcesInBatches (s\<lparr>pe_batchDeleter := d1\<rparr>) out p batch reasons st w =
      pe_deleteResourcesInBatches (s\<lparr>pe_batchDeleter := d2\<rparr>) out p batch reasons st w"
    by (simp add: pe_deleteResourcesInBatches_def check_ctx_def)
qed

theorem nil_limiter_deletes_nothing_witness:
  "pe_EvaluatePolicy (injected_example\<lparr>pe_rateLimiterProvider := (\<lambda>_ st. Inr (None, st)), pe_batchDeleter := deleteBatch calm_outside None\<rparr>) calm_outside
      split_gv example_policy NewDefaultRateLimiterProvider fresh_world =
    pe_EvaluatePolicy (injected_example\<lparr>pe_rateLimiterProvider := (\<lambda>_ st. Inr (None, st)),
      pe_batchDeleter := (\<lambda>_ _ _ _ w. ((7, []), w))\<rparr>) calm_outside
      split_gv example_policy NewDefaultRateLimiterProvider fresh_world"
  by (rule nil_limiter_deletes_nothing) simp

end
