(* ===== verification/Error_Classes.thy ===== *)
theory Error_Classes
  imports Go_Errors
begin

text \<open>
  The two classifications of errors by their text: internal/errors/classified.go (transient,
  permanent, exhausted) and internal/logging/errors.go (categories for the log). A nil error
  is \<open>None\<close>.
\<close>

subsection \<open>internal/errors/classified.go\<close>

type_synonym ClassifyConfig = "string list"

definition defaultClassifyConfig :: ClassifyConfig where
  "defaultClassifyConfig =
    [''token budget exhausted'', ''budget exceeded'', ''context_length_exceeded'',
     ''exceeds the available context'', ''maximum context length'', ''rate limit exceeded'',
     ''quota exceeded'', ''resource exhausted'']"

definition isRetryableStatus :: "int \<Rightarrow> bool" where
  "isRetryableStatus code = (code \<in> {429, 502, 503, 504, 500})"

text \<open>At most three leading digits are read: \<open>n\<close> counts down from 3.\<close>

fun read_code :: "nat \<Rightarrow> string \<Rightarrow> int \<Rightarrow> int" where
  "read_code n [] code = code"
| "read_code n (ch # rest) code =
     (if \<not> is_digit ch \<or> n = 0 then code
      else read_code (n - 1) rest (code * 10 + int (digit_val ch)))"

fun extract_with_prefixes :: "string list \<Rightarrow> string \<Rightarrow> int" where
  "extract_with_prefixes [] msg = 0"
| "extract_with_prefixes (p # ps) msg =
     (case index_of msg p of
        Some idx \<Rightarrow>
          let code = read_code 3 (drop (idx + length p) msg) 0
          in if code \<ge> 100 \<and> code < 600 then code else extract_with_prefixes ps msg
      | None \<Rightarrow> extract_with_prefixes ps msg)"

definition extractHTTPStatus :: "string \<Rightarrow> int" where
  "extractHTTPStatus msg = extract_with_prefixes [''status '', ''http ''] msg"

definition isNetworkError :: "go_error \<Rightarrow> bool" where
  "isNetworkError e =
     (if (case errors_As (\<lambda>x. case x of NetError _ _ _ \<Rightarrow> True | _ \<Rightarrow> False) e of
            Some (NetError _ timeout _) \<Rightarrow> timeout | _ \<Rightarrow> False) then True
      else if errors_As (\<lambda>x. case x of NetError _ _ op \<Rightarrow> op | _ \<Rightarrow> False) e \<noteq> None then True
      else contains (error_text e) ''connection refused'' \<or>
           contains (error_text e) ''connection reset'' \<or>
           contains (error_text e) ''broken pipe'' \<or>
           contains (error_text e) ''no such host'' \<or>
           contains (error_text e) ''i/o timeout'')"

fun is_ClassifiedError :: "go_error \<Rightarrow> bool" where
  "is_ClassifiedError (ClassifiedError e c code) = True"
| "is_ClassifiedError _ = False"

text \<open>
  The first loop: \<open>Inl\<close> is the classified error that ends the function, \<open>Inr\<close> the innermost
  error of the chain. The chain gets shorter with every round, so the fuel \<open>size e\<close> is
  enough, see \<open>unwrap_loop_enough\<close>.
\<close>

fun unwrap_loop :: "nat \<Rightarrow> go_error \<Rightarrow> (go_error + go_error) option" where
  "unwrap_loop 0 unwrapped = None"
| "unwrap_loop (Suc n) unwrapped =
     (case errors_As is_ClassifiedError unwrapped of
        Some ce \<Rightarrow> Some (Inl ce)
      | None \<Rightarrow>
          (case err_unwrap unwrapped of
             Some e \<Rightarrow> unwrap_loop n e
           | None \<Rightarrow> Some (Inr unwrapped)))"

definition classify_root :: "go_error \<Rightarrow> go_error \<Rightarrow> ClassifyConfig \<Rightarrow> go_error" where
  "classify_root e unwrapped cfg =
     (let msg = to_lower (error_text unwrapped);
          sc = extractHTTPStatus msg
      in if list_ex (contains msg) cfg then ClassifiedError e ResourceExhausted 0
         else if sc > 0 \<and> isRetryableStatus sc then ClassifiedError e Transient sc
         else if sc > 0 \<and> (sc = 401 \<or> sc = 403) then ClassifiedError e Permanent sc
         else if sc > 0 \<and> sc = 404 then ClassifiedError e Permanent sc
         else if sc > 0 \<and> 400 \<le> sc \<and> sc < 500 then ClassifiedError e Permanent sc
         else if sc > 0 \<and> 500 \<le> sc then ClassifiedError e Transient sc
         else if isNetworkError unwrapped then ClassifiedError e Transient 0
         else ClassifiedError e Transient 0)"

definition classifyWithConfig :: "go_error option \<Rightarrow> ClassifyConfig \<Rightarrow> go_error option" where
  "classifyWithConfig err cfg =
     (case err of
        None \<Rightarrow> None
      | Some e \<Rightarrow>
          (case unwrap_loop (Suc (size e)) e of
             Some (Inl ce) \<Rightarrow> Some ce
           | Some (Inr unwrapped) \<Rightarrow> Some (classify_root e unwrapped cfg)
           | None \<Rightarrow> None))"

definition ClassifyError :: "go_error option \<Rightarrow> go_error option" where
  "ClassifyError err = classifyWithConfig err defaultClassifyConfig"

definition ClassifyErrorWithConfig :: "go_error option \<Rightarrow> ClassifyConfig \<Rightarrow> go_error option" where
  "ClassifyErrorWithConfig err cfg = classifyWithConfig err cfg"

definition RetryableHTTPStatus :: "int \<Rightarrow> bool" where
  "RetryableHTTPStatus code = isRetryableStatus code"

fun class_of :: "go_error option \<Rightarrow> ErrorClass option" where
  "class_of (Some (ClassifiedError e c code)) = Some c"
| "class_of _ = None"

definition IsTransient :: "go_error option \<Rightarrow> bool" where
  "IsTransient err = (class_of (ClassifyError err) = Some Transient)"

definition IsPermanent :: "go_error option \<Rightarrow> bool" where
  "IsPermanent err = (class_of (ClassifyError err) = Some Permanent)"

definition IsResourceExhausted :: "go_error option \<Rightarrow> bool" where
  "IsResourceExhausted err = (class_of (ClassifyError err) = Some ResourceExhausted)"

subsection \<open>The loop ends and finds the root\<close>

lemma err_unwrap_size: "err_unwrap e = Some e' \<Longrightarrow> size e' < size e"
  by (cases e) auto

lemma err_chain_unwrap:
  "err_chain e = e # (case err_unwrap e of None \<Rightarrow> [] | Some e' \<Rightarrow> err_chain e')"
  by (cases e rule: err_chain.cases) auto

definition err_root :: "go_error \<Rightarrow> go_error" where
  "err_root e = last (err_chain e)"

lemma err_root_unwrap: "err_root e = (case err_unwrap e of None \<Rightarrow> e | Some e' \<Rightarrow> err_root e')"
  by (subst err_root_def, subst err_chain_unwrap) (auto simp: err_root_def split: option.splits dest: arg_cong [where f=length] simp: err_chain_unwrap [of "_ :: go_error"])

lemma unwrap_loop_enough:
  "size e < n \<Longrightarrow>
    unwrap_loop n e =
      Some (case errors_As is_ClassifiedError e of Some ce \<Rightarrow> Inl ce | None \<Rightarrow> Inr (err_root e))"
proof (induction n e rule: unwrap_loop.induct)
  case (2 n e)
  show ?case
  proof (cases "errors_As is_ClassifiedError e")
    case None
    show ?thesis
    proof (cases "err_unwrap e")
      case (Some e')
      then have "errors_As is_ClassifiedError e' = None"
        using None by (simp add: errors_As_def err_chain_unwrap [of e] split: if_splits)
      with None Some 2 err_unwrap_size [OF Some] show ?thesis
        by (simp add: err_root_unwrap [of e])
    qed (simp add: None err_root_unwrap [of e])
  qed simp
qed simp

lemma classifyWithConfig_simps [simp]:
  "classifyWithConfig None cfg = None"
  "classifyWithConfig (Some e) cfg =
     Some (case errors_As is_ClassifiedError e of Some ce \<Rightarrow> ce
           | None \<Rightarrow> classify_root e (err_root e) cfg)"
  by (auto simp: classifyWithConfig_def unwrap_loop_enough simp del: unwrap_loop.simps
      split: option.splits)

lemma classified_As: "errors_As is_ClassifiedError e = Some ce \<Longrightarrow> \<exists>e' c n. ce = ClassifiedError e' c n"
  by (auto simp: errors_As_def find_Some_iff elim!: is_ClassifiedError.elims)

lemma classify_root_shape: "\<exists>c n. classify_root e r cfg = ClassifiedError e c n"
  by (auto simp: classify_root_def Let_def)

text \<open>
  C35. Every error gets a class (the unwrapping loop ends), and classifying is stable: an error
  that is classified already keeps its class and its status, and so does a wrapping of it.
\<close>

theorem classification_total_and_stable:
  "class_of (ClassifyError (Some e)) \<noteq> None \<and>
   ClassifyError (ClassifyError (Some e)) = ClassifyError (Some e) \<and>
   ClassifyError (map_option (WrapError msg) (ClassifyError (Some e))) = ClassifyError (Some e)"
proof -
  obtain e' c n where ce: "ClassifyError (Some e) = Some (ClassifiedError e' c n)"
    using classified_As [of e] classify_root_shape [of e "err_root e" defaultClassifyConfig]
    by (cases "errors_As is_ClassifiedError e") (auto simp: ClassifyError_def)
  moreover have "ClassifyError (Some (ClassifiedError e' c n)) = Some (ClassifiedError e' c n)"
    "ClassifyError (Some (WrapError msg (ClassifiedError e' c n))) = Some (ClassifiedError e' c n)"
    by (simp_all add: ClassifyError_def errors_As_def)
  ultimately show ?thesis
    by simp
qed

definition status_message :: "nat \<Rightarrow> string" where
  "status_message code = ''status '' @ show_nat code"

lemma show_nat_three:
  assumes "100 \<le> code" and "code < 1000"
  shows "show_nat code = [digit_char (code div 100), digit_char (code div 10 mod 10), digit_char (code mod 10)]"
proof -
  have "code div 10 div 10 = code div 100"
    by (simp add: div_mult2_eq [symmetric])
  moreover have "\<not> code < 10" "\<not> code div 10 < 10" "code div 100 < 10"
    using assms by auto
  ultimately show ?thesis
    by (simp add: show_nat.simps [of code] show_nat.simps [of "code div 10"] show_nat.simps [of "code div 100"])
qed

lemma to_lower_digits: "list_all is_digit ds \<Longrightarrow> to_lower ds = ds"
  by (auto simp: to_lower_def char_lower_def is_digit_def Let_def list_all_iff intro!: map_idI)

lemma extractHTTPStatus_message:
  assumes "100 \<le> code" and "code < 600"
  shows "extractHTTPStatus (to_lower (status_message code)) = int code"
proof -
  have digits: "code div 100 < 10" "code div 10 mod 10 < 10" "code mod 10 < 10"
    using assms by auto
  have low: "to_lower ''status '' = ''status ''"
    by code_simp
  have "code div 10 = 10 * (code div 100) + code div 10 mod 10"
    using mult_div_mod_eq [of 10 "code div 10"] by (simp add: div_mult2_eq [symmetric])
  moreover have "code = 10 * (code div 10) + code mod 10"
    by simp
  ultimately have "code = code div 100 * 100 + code div 10 mod 10 * 10 + code mod 10"
    by linarith
  then have sum: "int (code div 100) * 100 + int (code div 10 mod 10) * 10 + int (code mod 10) = int code"
    by linarith
  have msg: "to_lower (status_message code) = ''status '' @ show_nat code"
    unfolding status_message_def to_lower_append low
    using show_nat_digits [of code] by (simp only: to_lower_digits)
  have "read_code 3 (show_nat code) 0 = int code"
    using digits assms sum by (simp add: show_nat_three digit_char_props numeral_3_eq_3)
  with msg assms show ?thesis
    by (simp add: extractHTTPStatus_def Let_def)
qed

lemma errors_As_Plain [simp]: "errors_As is_ClassifiedError (PlainError msg) = None"
  "err_root (PlainError msg) = PlainError msg"
  by (simp_all add: errors_As_def err_root_def)

text \<open>
  A client error is never retried, a throttled or failing server always is: for a message
  \<open>status NNN\<close> that no exhaustion pattern matches, the class is permanent exactly for the
  codes 400 to 499 other than 429, and the code is recorded from 400 on.
\<close>

theorem status_decides_retry:
  assumes "100 \<le> code" and "code < 600"
    and "\<not> list_ex (contains (to_lower (status_message code))) cfg"
  shows "classifyWithConfig (Some (PlainError (status_message code))) cfg =
    Some (ClassifiedError (PlainError (status_message code))
      (if 400 \<le> code \<and> code < 500 \<and> code \<noteq> 429 then Permanent else Transient)
      (if 400 \<le> code then int code else 0))"
  using assms by (auto simp: classify_root_def Let_def extractHTTPStatus_message isRetryableStatus_def)

theorem status_decides_retry_witness:
  "class_of (classifyWithConfig (Some (PlainError (status_message 404))) []) = Some Permanent"
  using status_decides_retry [of 404 "[]"] by simp

text \<open>
  Only the innermost error counts: a status code in a message that wraps another error is
  not looked at, so a permanent \<open>HTTP 404\<close> around a plain cause is reported as transient.
\<close>

theorem wrapped_status_is_ignored:
  "class_of (ClassifyError (Some (WrapError ''HTTP 404'' (PlainError ''no body'')))) = Some Transient \<and>
   class_of (ClassifyError (Some (PlainError ''HTTP 404: no body''))) = Some Permanent"
  by code_simp

subsection \<open>internal/logging/errors.go\<close>

datatype ErrorCategory = Unknown | Validation | Authentication | Authorization | NotFound
  | Conflict | RateLimit | Timeout | Network | Database | External | Internal | Config | Temporary

definition contains_any :: "string \<Rightarrow> string list \<Rightarrow> bool" where
  "contains_any s ps = list_ex (contains s) ps"

definition category_of_text :: "string \<Rightarrow> ErrorCategory" where
  "category_of_text errMsg =
     (if contains_any errMsg [''not found'', ''does not exist''] then NotFound
      else if contains_any errMsg [''already exists'', ''duplicate'', ''conflict''] then Conflict
      else if contains_any errMsg [''unauthorized'', ''authentication failed'', ''invalid token'']
        then Authentication
      else if contains_any errMsg [''forbidden'', ''permission denied'', ''access denied'']
        then Authorization
      else if contains_any errMsg [''invalid'', ''validation'', ''malformed''] then Validation
      else if contains_any errMsg [''timeout'', ''deadline exceeded''] then Timeout
      else if contains_any errMsg [''rate limit'', ''too many requests''] then RateLimit
      else if contains_any errMsg [''connection refused'', ''connection reset'', ''network'']
        then Network
      else if contains_any errMsg [''database'', ''sql'', ''transaction''] then Database
      else if contains_any errMsg [''config'', ''configuration''] then Config
      else Internal)"

definition CategorizeError :: "go_error option \<Rightarrow> ErrorCategory" where
  "CategorizeError err =
     (case err of None \<Rightarrow> Unknown | Some e \<Rightarrow> category_of_text (to_lower (error_text e)))"

text \<open>The stack of the runtime is a parameter, and so is the development flag.\<close>

definition GetStackTrace :: "bool \<Rightarrow> string \<Rightarrow> nat \<Rightarrow> string" where
  "GetStackTrace isDevelopment stack skip =
     (if \<not> isDevelopment then []
      else if stack = [] then []
      else
        (let ls = split_on (CHR 0x0A) stack;
             start = 2 + skip * 2
         in if start \<ge> length ls then []
            else
              (let maxFrames = (if start + 20 > length ls then length ls else start + 20)
               in go_join [CHR 0x0A] (drop start (take maxFrames ls)))))"

record ErrorContext =
  ec_Category :: ErrorCategory
  ec_Code :: string
  ec_Message :: string
  ec_Stack :: string
  ec_WrappedErr :: "go_error option"

definition ExtractErrorContext :: "bool \<Rightarrow> string \<Rightarrow> go_error option \<Rightarrow> nat \<Rightarrow> ErrorContext" where
  "ExtractErrorContext isDevelopment stack err skipStack =
     (case err of
        None \<Rightarrow> \<lparr>ec_Category = Unknown, ec_Code = [], ec_Message = [], ec_Stack = [], ec_WrappedErr = None\<rparr>
      | Some e \<Rightarrow>
          \<lparr>ec_Category = CategorizeError err, ec_Code = [], ec_Message = error_text e,
           ec_Stack = GetStackTrace isDevelopment stack (skipStack + 1),
           ec_WrappedErr = (case err_unwrap e of Some u \<Rightarrow> Some u | None \<Rightarrow> Some e)\<rparr>)"

text \<open>The fields of the log entry, as names and values; \<open>zap.Skip()\<close> contributes none.\<close>

definition ErrorStackField :: "bool \<Rightarrow> string \<Rightarrow> (string \<times> string) list" where
  "ErrorStackField isDevelopment stack =
     (if stack = [] \<or> \<not> isDevelopment then [] else [(''error_stack'', stack)])"

fun category_text :: "ErrorCategory \<Rightarrow> string" where
  "category_text Unknown = ''unknown''"
| "category_text Validation = ''validation''"
| "category_text Authentication = ''authentication''"
| "category_text Authorization = ''authorization''"
| "category_text NotFound = ''not_found''"
| "category_text Conflict = ''conflict''"
| "category_text RateLimit = ''rate_limit''"
| "category_text Timeout = ''timeout''"
| "category_text Network = ''network''"
| "category_text Database = ''database''"
| "category_text External = ''external''"
| "category_text Internal = ''internal''"
| "category_text Config = ''config''"
| "category_text Temporary = ''temporary''"

definition ErrorFields :: "bool \<Rightarrow> string \<Rightarrow> go_error option \<Rightarrow> string \<Rightarrow> (string \<times> string) list" where
  "ErrorFields isDevelopment stack err errorCode =
     (case err of
        None \<Rightarrow> []
      | Some e \<Rightarrow>
          (let ctx = ExtractErrorContext isDevelopment stack err 2
           in [(''error'', error_text e), (''error_category'', category_text (ec_Category ctx))] @
              (if errorCode \<noteq> [] then [(''error_code'', errorCode)] else []) @
              (if ec_Stack ctx \<noteq> [] then ErrorStackField isDevelopment (ec_Stack ctx) else [])))"

definition log_WrapError :: "go_error option \<Rightarrow> string \<Rightarrow> go_error option" where
  "log_WrapError err msg = map_option (WrapError msg) err"

definition ExtractErrorCode :: "go_error \<Rightarrow> string" where
  "ExtractErrorCode e =
     (case errors_As (\<lambda>x. case x of ErrorWithCode _ _ _ \<Rightarrow> True | _ \<Rightarrow> False) e of
        Some (ErrorWithCode code _ _) \<Rightarrow> code
      | _ \<Rightarrow> [])"

definition IsRetryableError :: "go_error option \<Rightarrow> bool" where
  "IsRetryableError err =
     (if err = None then False
      else CategorizeError err \<in> {Temporary, Timeout, Network, External, RateLimit})"

definition IsClientError :: "go_error option \<Rightarrow> bool" where
  "IsClientError err =
     (if err = None then False
      else CategorizeError err \<in> {Validation, Authentication, Authorization, NotFound, Conflict})"

definition IsServerError :: "go_error option \<Rightarrow> bool" where
  "IsServerError err =
     (if err = None then False
      else CategorizeError err \<in> {Internal, Database, External, Config})"

lemma category_of_text_range:
  "category_of_text s \<in> {NotFound, Conflict, Authentication, Authorization, Validation, Timeout,
    RateLimit, Network, Database, Config, Internal}"
  by (simp add: category_of_text_def)

text \<open>
  Every error is exactly one of retryable, client error and server error, whatever its
  text. The categories \<open>temporary\<close> and \<open>external\<close>, which the retry test looks for, are never
  given.
\<close>

theorem error_kinds_partition:
  "CategorizeError (Some e) \<notin> {Temporary, External, Unknown} \<and>
   (IsRetryableError (Some e) \<longleftrightarrow> \<not> (IsClientError (Some e) \<or> IsServerError (Some e))) \<and>
   \<not> (IsClientError (Some e) \<and> IsServerError (Some e))"
proof -
  define c where "c = CategorizeError (Some e)"
  have "c \<in> {NotFound, Conflict, Authentication, Authorization, Validation, Timeout, RateLimit, Network,
      Database, Config, Internal}"
    using category_of_text_range by (simp add: c_def CategorizeError_def del: insert_iff)
  then show ?thesis
    unfolding IsRetryableError_def IsClientError_def IsServerError_def c_def [symmetric]
    by (elim insertE emptyE) simp_all
qed

end
