(* ===== verification/Masking.thy ===== *)
theory Masking
  imports Go_Strings
begin

text \<open>
  internal/logging/masking.go: what the log shows of identifiers, credentials, addresses and
  SQL. A regular expression is the function that replaces its matches from left to right.
\<close>

definition MaskUUID :: "string \<Rightarrow> string" where
  "MaskUUID uuid =
     (if uuid = [] then [] else if length uuid \<le> 8 then uuid else take 8 uuid @ ''...'')"

definition MaskToken :: "string \<Rightarrow> string" where
  "MaskToken token =
     (if token = [] then [] else if length token \<le> 4 then ''***'' else take 4 token @ ''...'')"

definition MaskEmail :: "string \<Rightarrow> string" where
  "MaskEmail email =
     (if email = [] then []
      else
        (let parts = split_on (CHR ''@'') email
         in if length parts \<noteq> 2 then ''***''
            else if length (parts ! 0) \<le> 3 then ''***@'' @ parts ! 1
            else take 3 (parts ! 0) @ ''...'' @ ''@'' @ parts ! 1))"

definition MaskIP :: "string \<Rightarrow> string" where
  "MaskIP ip =
     (if ip = [] then []
      else
        (let parts = split_on (CHR ''.'') ip
         in if length parts = 4 then parts ! 0 @ ''.x.x.x'' else ''***''))"

definition RedactPassword :: "string \<Rightarrow> string" where
  "RedactPassword password = ''[REDACTED]''"

definition RedactSecret :: "string \<Rightarrow> string" where
  "RedactSecret secret = ''[REDACTED]''"

subsection \<open>SQL\<close>

text \<open>The quote, and the replacement of every quoted literal. Behind the last quote nothing matches.\<close>

abbreviation quote :: char where "quote \<equiv> CHR 0x27"

function mask_literals :: "string \<Rightarrow> string" where
  "mask_literals [] = []"
| "mask_literals (c # r) =
     (if c = quote
      then (case dropWhile (\<lambda>x. x \<noteq> quote) r of
              [] \<Rightarrow> c # r
            | _ # rest \<Rightarrow> [quote, CHR ''?'', quote] @ mask_literals rest)
      else c # mask_literals r)"
  by pat_completeness auto
termination
proof (relation "measure length")
  show "(rest, c # r) \<in> measure length" if "c = quote" "dropWhile (\<lambda>x. x \<noteq> quote) r = x # rest"
    for c r x and rest :: string
    using length_dropWhile_le [of "\<lambda>x. x \<noteq> quote" r] that by simp
qed auto

text \<open>Whole numbers between word boundaries; the flag says whether a word character comes before.\<close>

definition is_word :: "char \<Rightarrow> bool" where
  "is_word c = (let n = (of_char c :: nat) in
     is_digit c \<or> (97 \<le> n \<and> n \<le> 122) \<or> (65 \<le> n \<and> n \<le> 90) \<or> n = 95)"

function mask_numbers :: "bool \<Rightarrow> string \<Rightarrow> string" where
  "mask_numbers before [] = []"
| "mask_numbers before (c # r) =
     (if \<not> before \<and> is_digit c
      then (let ds = takeWhile is_digit (c # r); rest = dropWhile is_digit (c # r)
            in (if rest \<noteq> [] \<and> is_word (hd rest) then ds else ''?'') @ mask_numbers True rest)
      else c # mask_numbers (is_word c) r)"
  by pat_completeness auto
termination
proof (relation "measure (length \<circ> snd)")
  show "((True, rest), before, c # r) \<in> measure (length \<circ> snd)"
    if "\<not> before \<and> is_digit c" "rest = dropWhile is_digit (c # r)" for before c r rest
    using that length_dropWhile_le [of is_digit r] by simp
qed auto

text \<open>Lower case UUIDs: the template, and the replacement.\<close>

definition is_hex :: "char \<Rightarrow> bool" where
  "is_hex c = (let n = (of_char c :: nat) in is_digit c \<or> (97 \<le> n \<and> n \<le> 102))"

definition uuid_template :: string where
  "uuid_template = ''xxxxxxxx-xxxx-xxxx-xxxx-xxxxxxxxxxxx''"

definition uuid_prefix :: "string \<Rightarrow> bool" where
  "uuid_prefix s \<longleftrightarrow>
     list_all2 (\<lambda>t c. if t = CHR ''-'' then c = t else is_hex c) uuid_template (take 36 s)"

lemma length_uuid_template: "length uuid_template = 36"
  by (simp add: uuid_template_def)

lemma uuid_prefix_length: "uuid_prefix s \<Longrightarrow> 36 \<le> length s"
  unfolding uuid_prefix_def by (drule list_all2_lengthD) (simp add: length_uuid_template)

function mask_uuids :: "string \<Rightarrow> string" where
  "mask_uuids s =
     (if uuid_prefix s then ''?'' @ mask_uuids (drop 36 s)
      else (case s of [] \<Rightarrow> [] | c # r \<Rightarrow> c # mask_uuids r))"
  by pat_completeness auto
termination
proof (relation "measure length")
  show "(drop 36 s, s) \<in> measure length" if "uuid_prefix s" for s
    using uuid_prefix_length [OF that] by simp
qed auto

declare mask_uuids.simps [simp del]

definition SanitizeSQL :: "string \<Rightarrow> string" where
  "SanitizeSQL query =
     (if query = [] then []
      else
        (let query = mask_literals query;
             query = mask_numbers False query;
             query = mask_uuids query
         in if length query > 200 then take 200 query @ ''...'' else query))"

subsection \<open>What masking hides\<close>

text \<open>
  Masking hides the secret part: two identifiers, tokens, mail addresses or IP addresses that
  agree in the part that is shown give the same text, and the text has a bounded length where
  the mask cuts.
\<close>

theorem masks_hide_the_rest:
  "(length a > 8 \<and> length b > 8 \<and> take 8 a = take 8 b \<longrightarrow> MaskUUID a = MaskUUID b) \<and>
   (length a > 4 \<and> length b > 4 \<and> take 4 a = take 4 b \<longrightarrow> MaskToken a = MaskToken b) \<and>
   (a \<noteq> [] \<and> b \<noteq> [] \<and> length a \<le> 4 \<and> length b \<le> 4 \<longrightarrow> MaskToken a = MaskToken b) \<and>
   (CHR ''@'' \<notin> set a \<and> CHR ''@'' \<notin> set b \<and> CHR ''@'' \<notin> set d \<and> length a > 3 \<and> length b > 3 \<and> take 3 a = take 3 b \<longrightarrow>
      MaskEmail (a @ ''@'' @ d) = MaskEmail (b @ ''@'' @ d)) \<and>
   (CHR ''.'' \<notin> set d \<and> count_list a (CHR ''.'') = 2 \<and> count_list b (CHR ''.'') = 2 \<longrightarrow>
      MaskIP (d @ ''.'' @ a) = MaskIP (d @ ''.'' @ b)) \<and>
   length (MaskUUID a) \<le> 11 \<and> length (MaskToken a) \<le> 7"
proof -
  have mail: "MaskEmail (x @ ''@'' @ d) = take 3 x @ ''...'' @ ''@'' @ d"
    if "CHR ''@'' \<notin> set x" "CHR ''@'' \<notin> set d" "length x > 3" for x
    using that by (simp add: MaskEmail_def split_on_append split_on_single)
  have ip: "MaskIP (d @ ''.'' @ x) = d @ ''.x.x.x''" if "CHR ''.'' \<notin> set d" "count_list x (CHR ''.'') = 2" for x
    using that by (simp add: MaskIP_def split_on_append length_split_on)
  show ?thesis
    by (auto simp: MaskUUID_def MaskToken_def mail ip simp del: append.simps)
qed

theorem masks_hide_the_rest_witness:
  "MaskUUID ''0123456789'' = MaskUUID ''01234567abcdef'' \<and> MaskEmail ''alice@example.org'' = MaskEmail ''alibaba@example.org''"
  using masks_hide_the_rest [of "''0123456789''" "''01234567abcdef''" "[]"]
    masks_hide_the_rest [of "''alice''" "''alibaba''" "''example.org''"]
  by simp

text \<open>The literals are replaced one after the other: text with balanced quotes splits off.\<close>

lemma mask_literals_append:
  "even (count_list pre quote) \<Longrightarrow> mask_literals (pre @ s) = mask_literals pre @ mask_literals s"
proof (induction pre rule: mask_literals.induct)
  case (2 c r)
  show ?case
  proof (cases "c = quote")
    case True
    show ?thesis
    proof (cases "dropWhile (\<lambda>x. x \<noteq> quote) r")
      case Nil
      then have "count_list r quote = 0"
        unfolding count_list_0_iff dropWhile_eq_Nil_conv by blast
      with 2(3) True show ?thesis by simp
    next
      case (Cons x rest)
      then have r: "r = takeWhile (\<lambda>x. x \<noteq> quote) r @ quote # rest" "x = quote"
        using takeWhile_dropWhile_id [of "\<lambda>x. x \<noteq> quote" r] hd_dropWhile [of "\<lambda>x. x \<noteq> quote" r] by auto
      have "count_list (takeWhile (\<lambda>x. x \<noteq> quote) r) quote = 0"
        by (auto simp: count_list_0_iff dest: set_takeWhileD)
      then have "count_list (takeWhile (\<lambda>x. x \<noteq> quote) r @ quote # rest) quote = Suc (count_list rest quote)"
        by simp
      then have "count_list r quote = Suc (count_list rest quote)"
        unfolding r(1) [symmetric] .
      with 2(3) True have "even (count_list rest quote)" by simp
      with 2(1) [OF True Cons] have "mask_literals (rest @ s) = mask_literals rest @ mask_literals s" .
      moreover have "dropWhile (\<lambda>x. x \<noteq> quote) (r @ s) = x # rest @ s"
      proof -
        have "\<exists>x\<in>set r. \<not> x \<noteq> quote"
          using Cons dropWhile_eq_Nil_conv [of "\<lambda>x. x \<noteq> quote" r] by auto
        then show ?thesis
          unfolding dropWhile_append using Cons by auto
      qed
      ultimately show ?thesis
        using True Cons by simp
    qed
  next
    case False
    with 2 show ?thesis by simp
  qed
qed simp

lemma mask_literals_quoted:
  "quote \<notin> set a \<Longrightarrow> mask_literals ([quote] @ a @ [quote] @ s) = [quote, CHR ''?'', quote] @ mask_literals s"
proof -
  assume "quote \<notin> set a"
  then have "dropWhile (\<lambda>x. x \<noteq> quote) (a @ quote # s) = quote # s"
    by (subst dropWhile_append2) auto
  then show ?thesis by simp
qed

text \<open>
  C39. String literals of a query never reach the log: two queries that differ only in the text
  between a pair of quotes are logged as the same text, whatever comes before (with closed
  quotes) and after. The text is cut at 200 characters.
\<close>

theorem sql_literals_are_hidden:
  assumes "even (count_list pre quote)" and "quote \<notin> set a" and "quote \<notin> set b"
  shows "SanitizeSQL (pre @ [quote] @ a @ [quote] @ post) = SanitizeSQL (pre @ [quote] @ b @ [quote] @ post) \<and>
    length (SanitizeSQL q) \<le> 203"
proof -
  have "mask_literals (pre @ [quote] @ a @ [quote] @ post) = mask_literals (pre @ [quote] @ b @ [quote] @ post)"
    unfolding mask_literals_append [OF assms(1)] mask_literals_quoted [OF assms(2)] mask_literals_quoted [OF assms(3)] ..
  moreover have "length (SanitizeSQL q) \<le> 203"
    by (simp add: SanitizeSQL_def Let_def)
  ultimately show ?thesis
    by (simp add: SanitizeSQL_def)
qed

theorem sql_literals_are_hidden_witness:
  "SanitizeSQL (''select * from users where name = '' @ [quote] @ ''alice'' @ [quote] @ []) =
   SanitizeSQL (''select * from users where name = '' @ [quote] @ ''bob'' @ [quote] @ [])"
  using sql_literals_are_hidden [of "''select * from users where name = ''" "''alice''" "''bob''" "[]" "[]"] by simp

text \<open>
  UUIDs are only hidden when none of their groups is a number: the numbers are replaced first,
  and what is left no longer looks like a UUID. Upper case UUIDs are not recognised.
\<close>

theorem uuids_leak_into_the_log:
  "SanitizeSQL ''id = deadbeef-cafe-4bad-8bad-c0ffee00babe'' = ''id = ?'' \<and>
   SanitizeSQL ''id = deadbeef-1234-4bad-8bad-c0ffee00babe'' = ''id = deadbeef-?-4bad-8bad-c0ffee00babe'' \<and>
   SanitizeSQL ''id = DEADBEEF-CAFE-4BAD-8BAD-C0FFEE00BABE'' = ''id = DEADBEEF-CAFE-4BAD-8BAD-C0FFEE00BABE''"
  by (intro conjI; code_simp)

end
