(* ===== verification/Logging.thy ===== *)
theory Logging
  imports World Env_Config Error_Classes Backoff Masking
begin

text \<open>
  internal/logging: logging.go, fields.go and context.go. A logger is what zap keeps for it (the
  least level, the fields of its context, the options), and a call of it is the list of entries
  that it writes, none or one. Encoding and output are left to zap. The context of a request is
  a list of values and the span of OpenTelemetry; the propagators of OpenTelemetry, when one is
  set, are parameters.
\<close>

subsection \<open>fields.go\<close>

datatype field_value =
    FString string
  | FInt int
  | FInt64 i64
  | FFloat gofloat
  | FBool bool
  | FStrings "string list"
  | FError go_error
  | FAny json

record field =
  fd_Key :: string
  fd_Value :: field_value

definition string_field :: "string \<Rightarrow> string \<Rightarrow> field" where
  "string_field key v = \<lparr>fd_Key = key, fd_Value = FString v\<rparr>"

definition int64_field :: "string \<Rightarrow> i64 \<Rightarrow> field" where
  "int64_field key v = \<lparr>fd_Key = key, fd_Value = FInt64 v\<rparr>"

definition RequestID :: "string \<Rightarrow> field" where "RequestID v = string_field ''request_id'' v"
definition TraceID :: "string \<Rightarrow> field" where "TraceID v = string_field ''trace_id'' v"
definition SpanID :: "string \<Rightarrow> field" where "SpanID v = string_field ''span_id'' v"
definition ClusterID :: "string \<Rightarrow> field" where "ClusterID v = string_field ''cluster_id'' v"
definition ResourceID :: "string \<Rightarrow> field" where "ResourceID v = string_field ''resource_id'' v"
definition ResourceType :: "string \<Rightarrow> field" where "ResourceType v = string_field ''resource_type'' v"
definition Operation :: "string \<Rightarrow> field" where "Operation v = string_field ''operation'' v"
definition HTTPMethod :: "string \<Rightarrow> field" where "HTTPMethod v = string_field ''http_method'' v"
definition RemoteAddr :: "string \<Rightarrow> field" where "RemoteAddr v = string_field ''remote_addr'' v"
definition UserAgent :: "string \<Rightarrow> field" where "UserAgent v = string_field ''user_agent'' v"

definition TenantID :: "string \<Rightarrow> bool \<Rightarrow> field" where
  "TenantID v maskUUID = string_field ''tenant_id'' (if maskUUID \<and> v \<noteq> [] then MaskUUID v else v)"

definition UserID :: "string \<Rightarrow> bool \<Rightarrow> field" where
  "UserID v maskUUID = string_field ''user_id'' (if maskUUID \<and> v \<noteq> [] then MaskUUID v else v)"

definition HTTPStatus :: "int \<Rightarrow> field" where
  "HTTPStatus status = \<lparr>fd_Key = ''http_status'', fd_Value = FInt status\<rparr>"

definition CacheHit :: "bool \<Rightarrow> field" where
  "CacheHit hit = \<lparr>fd_Key = ''cache_hit'', fd_Value = FBool hit\<rparr>"

text \<open>\<open>Duration.Milliseconds\<close> truncates toward zero.\<close>

definition Milliseconds :: "duration \<Rightarrow> i64" where
  "Milliseconds d = word_of_int (if sint d < 0 then - (- sint d div 1000000) else sint d div 1000000)"

definition Latency :: "duration \<Rightarrow> field" where
  "Latency d = int64_field ''latency_ms'' (Milliseconds d)"

definition DBDurationMs :: "i64 \<Rightarrow> field" where
  "DBDurationMs ms = int64_field ''db_duration_ms'' ms"

definition DBQuery :: "string \<Rightarrow> field" where
  "DBQuery query = string_field ''db_query'' (SanitizeSQL query)"

subsection \<open>logging.go\<close>

datatype log_level = DebugLevel | InfoLevel | WarnLevel | ErrorLevel

fun severity :: "log_level \<Rightarrow> nat" where
  "severity DebugLevel = 0"
| "severity InfoLevel = 1"
| "severity WarnLevel = 2"
| "severity ErrorLevel = 3"

record Logger =
  lg_level :: log_level
  lg_console :: bool
  lg_stacktrace :: bool
  lg_fields :: "field list"
  lg_componentName :: string

record log_entry =
  le_level :: log_level
  le_msg :: string
  le_fields :: "field list"
  le_stacktrace :: bool

record LoggerConfig =
  lc_ComponentName :: string
  lc_Development :: bool
  lc_LogLevel :: string
  lc_EnableStackTraces :: bool

definition isDevelopment :: "env \<Rightarrow> bool" where
  "isDevelopment env \<longleftrightarrow>
     env ''LOG_LEVEL'' = ''debug'' \<or> env ''DEVELOPMENT'' = ''true'' \<or> env ''ENV'' = ''development''"

definition getLogLevel :: "env \<Rightarrow> string \<Rightarrow> log_level" where
  "getLogLevel env lvl =
     (let lvl = (if lvl = [] then env ''LOG_LEVEL'' else lvl);
          lvl = (if lvl = [] then ''info'' else lvl)
      in if lvl = ''debug'' \<or> lvl = ''DEBUG'' then DebugLevel
         else if lvl = ''info'' \<or> lvl = ''INFO'' then InfoLevel
         else if lvl = ''warn'' \<or> lvl = ''WARN'' \<or> lvl = ''warning'' \<or> lvl = ''WARNING'' then WarnLevel
         else if lvl = ''error'' \<or> lvl = ''ERROR'' then ErrorLevel
         else InfoLevel)"

definition NewLoggerWithConfig :: "env \<Rightarrow> LoggerConfig \<Rightarrow> Logger" where
  "NewLoggerWithConfig env cfg =
     (let name = (if lc_ComponentName cfg = [] then ''unknown'' else lc_ComponentName cfg);
          devMode = (if \<not> lc_Development cfg then isDevelopment env else lc_Development cfg)
      in \<lparr>lg_level = getLogLevel env (lc_LogLevel cfg), lg_console = devMode,
          lg_stacktrace = (devMode \<or> lc_EnableStackTraces cfg),
          lg_fields = [string_field ''component'' name], lg_componentName = name\<rparr>)"

definition NewLogger :: "env \<Rightarrow> string \<Rightarrow> Logger" where
  "NewLogger env componentName =
     NewLoggerWithConfig env \<lparr>lc_ComponentName = componentName, lc_Development = isDevelopment env,
       lc_LogLevel = [], lc_EnableStackTraces = False\<rparr>"

text \<open>What zap does with a call: nothing below the level, else the fields of the logger come first.\<close>

definition zap_write :: "log_level \<Rightarrow> Logger \<Rightarrow> string \<Rightarrow> field list \<Rightarrow> log_entry list" where
  "zap_write lvl l msg fs =
     (if severity lvl < severity (lg_level l) then []
      else [\<lparr>le_level = lvl, le_msg = msg, le_fields = lg_fields l @ fs,
             le_stacktrace = (lg_stacktrace l \<and> severity lvl \<ge> severity ErrorLevel)\<rparr>])"

definition zap_With :: "field list \<Rightarrow> Logger \<Rightarrow> Logger" where
  "zap_With fs l = l\<lparr>lg_fields := lg_fields l @ fs\<rparr>"

definition log_Info :: "Logger \<Rightarrow> string \<Rightarrow> field list \<Rightarrow> log_entry list" where
  "log_Info l msg fs = zap_write InfoLevel l msg fs"

definition log_Debug :: "Logger \<Rightarrow> string \<Rightarrow> field list \<Rightarrow> log_entry list" where
  "log_Debug l msg fs = zap_write DebugLevel l msg fs"

definition log_Warn :: "Logger \<Rightarrow> string \<Rightarrow> field list \<Rightarrow> log_entry list" where
  "log_Warn l msg fs = zap_write WarnLevel l msg fs"

text \<open>The stack of the runtime at the call is the second argument.\<close>

definition log_Error :: "env \<Rightarrow> string \<Rightarrow> Logger \<Rightarrow> go_error option \<Rightarrow> string \<Rightarrow> field list \<Rightarrow> log_entry list" where
  "log_Error env runtimeStack l err msg fs =
     (case err of
        None \<Rightarrow> zap_write ErrorLevel l msg fs
      | Some e \<Rightarrow>
          (let hasCategory = list_ex (\<lambda>f. fd_Key f = ''error_category'') fs;
               errorFields = [\<lparr>fd_Key = ''error'', fd_Value = FError e\<rparr>];
               errorFields = errorFields @
                 (if \<not> hasCategory then [string_field ''error_category'' (category_text (CategorizeError err))] else []);
               errorFields = errorFields @
                 (if \<not> hasCategory \<and> isDevelopment env
                  then (let stack = GetStackTrace (isDevelopment env) runtimeStack 3
                        in if stack \<noteq> []
                           then map (\<lambda>(k, v). string_field k v) (ErrorStackField (isDevelopment env) stack) else [])
                  else [])
           in zap_write ErrorLevel l msg (fs @ errorFields)))"

definition WithComponent :: "string \<Rightarrow> Logger \<Rightarrow> Logger" where
  "WithComponent component l = (zap_With [string_field ''component'' component] l)\<lparr>lg_componentName := component\<rparr>"

definition WithField :: "string \<Rightarrow> json \<Rightarrow> Logger \<Rightarrow> Logger" where
  "WithField key v l = zap_With [\<lparr>fd_Key = key, fd_Value = FAny v\<rparr>] l"

definition WithFields :: "(string, json) gomap \<Rightarrow> Logger \<Rightarrow> Logger" where
  "WithFields fs l = zap_With (map (\<lambda>(k, v). \<lparr>fd_Key = k, fd_Value = FAny v\<rparr>) fs) l"

subsection \<open>context.go\<close>

record otel_span =
  os_recording :: bool
  os_valid :: bool
  os_trace :: "string option"
  os_span :: "string option"

record log_ctx =
  cx_values :: "(string \<times> string) list"
  cx_otel :: otel_span

definition no_span :: otel_span where
  "no_span = \<lparr>os_recording = False, os_valid = False, os_trace = None, os_span = None\<rparr>"

definition context_Background :: log_ctx where
  "context_Background = \<lparr>cx_values = [], cx_otel = no_span\<rparr>"

definition WithValue :: "string \<Rightarrow> string \<Rightarrow> log_ctx \<Rightarrow> log_ctx" where
  "WithValue key v c = c\<lparr>cx_values := (key, v) # cx_values c\<rparr>"

definition WithRequestID :: "string \<Rightarrow> log_ctx \<Rightarrow> log_ctx" where "WithRequestID = WithValue ''request_id''"
definition WithTenantID :: "string \<Rightarrow> log_ctx \<Rightarrow> log_ctx" where "WithTenantID = WithValue ''tenant_id''"
definition WithClusterID :: "string \<Rightarrow> log_ctx \<Rightarrow> log_ctx" where "WithClusterID = WithValue ''cluster_id''"
definition WithUserID :: "string \<Rightarrow> log_ctx \<Rightarrow> log_ctx" where "WithUserID = WithValue ''user_id''"
definition WithTraceID :: "string \<Rightarrow> log_ctx \<Rightarrow> log_ctx" where "WithTraceID = WithValue ''trace_id''"
definition WithSpanID :: "string \<Rightarrow> log_ctx \<Rightarrow> log_ctx" where "WithSpanID = WithValue ''span_id''"
definition WithResourceID :: "string \<Rightarrow> log_ctx \<Rightarrow> log_ctx" where "WithResourceID = WithValue ''resource_id''"

definition ctx_get :: "string \<Rightarrow> log_ctx option \<Rightarrow> string" where
  "ctx_get key ctx = (case ctx of None \<Rightarrow> [] | Some c \<Rightarrow> go_index [] (cx_values c) key)"

definition GetRequestID :: "log_ctx option \<Rightarrow> string" where "GetRequestID = ctx_get ''request_id''"
definition GetTenantID :: "log_ctx option \<Rightarrow> string" where "GetTenantID = ctx_get ''tenant_id''"
definition GetClusterID :: "log_ctx option \<Rightarrow> string" where "GetClusterID = ctx_get ''cluster_id''"
definition GetUserID :: "log_ctx option \<Rightarrow> string" where "GetUserID = ctx_get ''user_id''"
definition GetResourceID :: "log_ctx option \<Rightarrow> string" where "GetResourceID = ctx_get ''resource_id''"

definition GetTraceID :: "log_ctx option \<Rightarrow> string" where
  "GetTraceID ctx =
     (case ctx of
        None \<Rightarrow> []
      | Some c \<Rightarrow>
          (let span = cx_otel c
           in if os_recording span \<and> os_valid span \<and> os_trace span \<noteq> None then the (os_trace span)
              else ctx_get ''trace_id'' ctx))"

definition GetSpanID :: "log_ctx option \<Rightarrow> string" where
  "GetSpanID ctx =
     (case ctx of
        None \<Rightarrow> []
      | Some c \<Rightarrow>
          (let span = cx_otel c
           in if os_recording span \<and> os_valid span \<and> os_span span \<noteq> None then the (os_span span)
              else ctx_get ''span_id'' ctx))"

text \<open>The values of the context that a logger takes over.\<close>

definition WithContext_fields :: "log_ctx option \<Rightarrow> field list" where
  "WithContext_fields ctx =
     (if GetRequestID ctx \<noteq> [] then [RequestID (GetRequestID ctx)] else []) @
     (if GetTraceID ctx \<noteq> [] then [TraceID (GetTraceID ctx)] else []) @
     (if GetSpanID ctx \<noteq> [] then [SpanID (GetSpanID ctx)] else []) @
     (if GetTenantID ctx \<noteq> [] then [TenantID (GetTenantID ctx) True] else []) @
     (if GetUserID ctx \<noteq> [] then [UserID (GetUserID ctx) True] else []) @
     (if GetClusterID ctx \<noteq> [] then [ClusterID (GetClusterID ctx)] else []) @
     (if GetResourceID ctx \<noteq> [] then [ResourceID (GetResourceID ctx)] else [])"

definition log_WithContext :: "log_ctx option \<Rightarrow> Logger \<Rightarrow> Logger" where
  "log_WithContext ctx l =
     (if ctx = None then l
      else if length (WithContext_fields ctx) = 0 then l
      else zap_With (WithContext_fields ctx) l)"

definition InfoC :: "Logger \<Rightarrow> log_ctx option \<Rightarrow> string \<Rightarrow> field list \<Rightarrow> log_entry list" where
  "InfoC l ctx msg fs = log_Info (log_WithContext ctx l) msg fs"

definition DebugC :: "Logger \<Rightarrow> log_ctx option \<Rightarrow> string \<Rightarrow> field list \<Rightarrow> log_entry list" where
  "DebugC l ctx msg fs = log_Debug (log_WithContext ctx l) msg fs"

definition WarnC :: "Logger \<Rightarrow> log_ctx option \<Rightarrow> string \<Rightarrow> field list \<Rightarrow> log_entry list" where
  "WarnC l ctx msg fs = log_Warn (log_WithContext ctx l) msg fs"

definition ErrorC ::
    "env \<Rightarrow> string \<Rightarrow> Logger \<Rightarrow> log_ctx option \<Rightarrow> go_error option \<Rightarrow> string \<Rightarrow> field list \<Rightarrow> log_entry list" where
  "ErrorC env runtimeStack l ctx err msg fs = log_Error env runtimeStack (log_WithContext ctx l) err msg fs"

subsection \<open>Trace headers\<close>

text \<open>
  The headers of a request by their canonical names; \<open>Get\<close> of an absent header is empty. Of a
  propagator that is set, \<open>Extract\<close> and \<open>Inject\<close> are the parameters.
\<close>

type_synonym headers = "(string, string) gomap"

definition extract_traceparent :: "headers \<Rightarrow> log_ctx \<Rightarrow> log_ctx" where
  "extract_traceparent h ctx =
     (let traceparent = go_index [] h ''Traceparent''
      in if traceparent \<noteq> [] \<and> length traceparent \<ge> 36
         then
           (if length traceparent \<ge> 35
            then (let ctx = WithTraceID (take 32 (drop 3 traceparent)) ctx
                  in if length traceparent \<ge> 52 then WithSpanID (take 16 (drop 36 traceparent)) ctx else ctx)
            else ctx)
         else ctx)"

definition ExtractTraceContext :: "(headers \<Rightarrow> log_ctx \<Rightarrow> log_ctx) option \<Rightarrow> headers \<Rightarrow> log_ctx \<Rightarrow> log_ctx" where
  "ExtractTraceContext prop h ctx =
     (let ctx = (case prop of None \<Rightarrow> ctx | Some extract \<Rightarrow> extract h ctx);
          ctx = (if GetTraceID (Some ctx) = [] then extract_traceparent h ctx else ctx);
          ctx = (if GetTraceID (Some ctx) = []
                 then (let traceID = go_index [] h ''X-Trace-Id''
                       in if traceID \<noteq> [] then WithTraceID traceID ctx else ctx)
                 else ctx);
          requestID = go_index [] h ''X-Request-Id''
      in if requestID \<noteq> []
         then (let ctx = WithRequestID requestID ctx
               in if GetTraceID (Some ctx) = [] then WithTraceID requestID ctx else ctx)
         else ctx)"

definition PropagateTraceHeaders ::
    "(log_ctx \<Rightarrow> headers \<Rightarrow> headers) option \<Rightarrow> log_ctx option \<Rightarrow> headers \<Rightarrow> headers" where
  "PropagateTraceHeaders prop ctx h =
     (case ctx of
        None \<Rightarrow> h
      | Some c \<Rightarrow>
          (let h = (case prop of None \<Rightarrow> h | Some inject \<Rightarrow> inject c h);
               traceID = GetTraceID ctx;
               h = (if traceID \<noteq> []
                    then
                      (let h = (if go_index [] h ''Traceparent'' = []
                                then (let spanID = (if GetSpanID ctx = [] then ''0000000000000000'' else GetSpanID ctx)
                                      in go_put ''Traceparent'' (''00-'' @ traceID @ ''-'' @ spanID @ ''-01'') h)
                                else h)
                       in if go_index [] h ''X-Trace-Id'' = [] then go_put ''X-Trace-Id'' traceID h else h)
                    else h);
               requestID = GetRequestID ctx
           in if requestID \<noteq> [] \<and> go_index [] h ''X-Request-Id'' = []
              then go_put ''X-Request-Id'' requestID h else h))"

subsection \<open>Properties\<close>

lemma ctx_get_WithValue [simp]:
  "ctx_get key (Some (WithValue key' v c)) = (if key = key' then v else ctx_get key (Some c))"
  by (simp add: ctx_get_def WithValue_def go_index_def)

lemma cx_otel_WithValue [simp]: "cx_otel (WithValue k v c) = cx_otel c"
  by (simp add: WithValue_def)

lemmas context_defs = GetRequestID_def GetTraceID_def GetSpanID_def WithRequestID_def WithTraceID_def WithSpanID_def

text \<open>What a context without a span of OpenTelemetry sends.\<close>

definition sent :: "log_ctx \<Rightarrow> headers" where
  "sent c = PropagateTraceHeaders None (Some c) []"

definition traceparent_of :: "log_ctx \<Rightarrow> string" where
  "traceparent_of c = ''00-'' @ GetTraceID (Some c) @ ''-'' @
     (if GetSpanID (Some c) = [] then ''0000000000000000'' else GetSpanID (Some c)) @ ''-01''"

lemma sent_eq:
  assumes "GetTraceID (Some c) \<noteq> []"
  shows "sent c = [(''Traceparent'', traceparent_of c), (''X-Trace-Id'', GetTraceID (Some c))] @
    (if GetRequestID (Some c) = [] then [] else [(''X-Request-Id'', GetRequestID (Some c))])"
proof -
  have step: "go_index [] [] k = []" for k :: string
    by (simp add: go_index_def)
  have absent: "go_index [] [(''Traceparent'', tp)] ''X-Trace-Id'' = []"
    "go_index [] [(''Traceparent'', tp), (''X-Trace-Id'', t)] ''X-Request-Id'' = []" for tp t
    by (simp_all add: go_index_def)
  have put: "go_put ''Traceparent'' tp [] = [(''Traceparent'', tp)]"
    "go_put ''X-Trace-Id'' t [(''Traceparent'', tp)] = [(''Traceparent'', tp), (''X-Trace-Id'', t)]"
    "go_put ''X-Request-Id'' r [(''Traceparent'', tp), (''X-Trace-Id'', t)] =
      [(''Traceparent'', tp), (''X-Trace-Id'', t), (''X-Request-Id'', r)]" for tp t r
    by simp_all
  show ?thesis
    unfolding sent_def PropagateTraceHeaders_def option.case Let_def step if_P [OF refl] if_P [OF assms]
      traceparent_of_def [symmetric] put absent
    by simp
qed

lemma sent_headers:
  assumes "GetTraceID (Some c) \<noteq> []"
  shows "go_index [] (sent c) ''Traceparent'' = traceparent_of c"
    "go_index [] (sent c) ''X-Request-Id'' = GetRequestID (Some c)"
  by (simp_all add: sent_eq [OF assms] go_index_def)

text \<open>
  C38. The trace headers are a round trip: for a trace ID of 32 characters and a span ID of 16, what
  one service sends, the next one reads back; a missing span ID arrives as zeros.
\<close>

theorem trace_headers_round_trip:
  assumes "cx_otel c = no_span" and "length (GetTraceID (Some c)) = 32"
    and "GetSpanID (Some c) = [] \<or> length (GetSpanID (Some c)) = 16"
  shows "let c' = ExtractTraceContext None (sent c) context_Background
    in GetTraceID (Some c') = GetTraceID (Some c) \<and> GetRequestID (Some c') = GetRequestID (Some c) \<and>
       GetSpanID (Some c') = (if GetSpanID (Some c) = [] then ''0000000000000000'' else GetSpanID (Some c))"
proof -
  define t where "t = GetTraceID (Some c)"
  define s where "s = (if GetSpanID (Some c) = [] then ''0000000000000000'' else GetSpanID (Some c))"
  have len: "length t = 32" "length s = 16"
    using assms(2,3) by (auto simp: t_def s_def)
  have tp: "go_index [] (sent c) ''Traceparent'' = ''00-'' @ t @ ''-'' @ s @ ''-01''"
    and rq: "go_index [] (sent c) ''X-Request-Id'' = GetRequestID (Some c)"
  proof -
    have "GetTraceID (Some c) \<noteq> []" using assms(2) by auto
    from sent_headers [OF this] show "go_index [] (sent c) ''Traceparent'' = ''00-'' @ t @ ''-'' @ s @ ''-01''"
      "go_index [] (sent c) ''X-Request-Id'' = GetRequestID (Some c)"
      unfolding traceparent_of_def t_def s_def by simp_all
  qed
  have cut: "take 32 (drop 3 (''00-'' @ t @ ''-'' @ s @ ''-01'')) = t"
    "take 16 (drop 36 (''00-'' @ t @ ''-'' @ s @ ''-01'')) = s"
    using len by simp_all
  have extracted: "extract_traceparent (sent c) context_Background = WithSpanID s (WithTraceID t context_Background)"
    unfolding extract_traceparent_def tp Let_def cut using len by simp
  have empty: "GetTraceID (Some context_Background) = []" "GetRequestID (Some context_Background) = []"
    by (simp_all add: context_defs context_Background_def no_span_def ctx_get_def)
  have ids: "GetTraceID (Some (WithSpanID s (WithTraceID t context_Background))) = t"
    "GetSpanID (Some (WithSpanID s (WithTraceID t context_Background))) = s"
    by (simp_all add: context_defs context_Background_def no_span_def)
  have "t \<noteq> []" using len by auto
  then have "ExtractTraceContext None (sent c) context_Background =
      (if GetRequestID (Some c) \<noteq> [] then WithRequestID (GetRequestID (Some c)) (WithSpanID s (WithTraceID t context_Background))
       else WithSpanID s (WithTraceID t context_Background))"
    unfolding ExtractTraceContext_def extracted rq Let_def empty option.case ids
    by (simp add: ids) (simp add: context_defs context_Background_def no_span_def)
  then show ?thesis
    using empty ids unfolding t_def [symmetric] s_def [symmetric] Let_def
    by (simp add: context_defs context_Background_def no_span_def)
qed

theorem trace_headers_round_trip_witness:
  "GetTraceID (Some (ExtractTraceContext None (sent (WithTraceID (replicate 32 (CHR ''a'')) context_Background)) context_Background)) =
     replicate 32 (CHR ''a'')"
proof -
  define c where "c = WithTraceID (replicate 32 (CHR ''a'')) context_Background"
  have "cx_otel c = no_span" "GetTraceID (Some c) = replicate 32 (CHR ''a'')" "GetSpanID (Some c) = []"
    by (simp_all add: c_def context_defs context_Background_def no_span_def ctx_get_def WithValue_def go_index_def)
  then show ?thesis
    unfolding c_def [symmetric] using trace_headers_round_trip [of c] by (simp add: Let_def)
qed

text \<open>
  A trace ID that is no W3C trace ID does not survive: a request that only has a request ID gets
  it as its trace ID, and sent on in the header for 32 characters a UUID loses its last four
  characters, which end up in the span ID. The full ID in \<open>X-Trace-ID\<close> is then not looked at.
\<close>

theorem request_id_as_trace_id_is_mangled:
  "let c = ExtractTraceContext None [(''X-Request-Id'', ''deadbeef-cafe-4bad-8bad-c0ffee00babe'')] context_Background;
       c' = ExtractTraceContext None (sent c) context_Background
   in GetTraceID (Some c) = ''deadbeef-cafe-4bad-8bad-c0ffee00babe'' \<and>
      go_index [] (sent c) ''X-Trace-Id'' = ''deadbeef-cafe-4bad-8bad-c0ffee00babe'' \<and>
      GetTraceID (Some c') = ''deadbeef-cafe-4bad-8bad-c0ffee00'' \<and>
      GetSpanID (Some c') = ''abe-000000000000''"
  by code_simp

end
