(* ===== verification/Log_Helpers.thy ===== *)
theory Log_Helpers
  imports Logging
begin

text \<open>
  internal/logging: audit.go, performance.go and monitoring.go. Each helper is the entries that
  it writes. Values of the caller's own type (old and new configuration) are JSON; a measured
  duration and the result of the measured function are arguments.
\<close>

subsection \<open>audit.go\<close>

datatype AuditAction = AuditActionCreate | AuditActionRead | AuditActionUpdate | AuditActionDelete
  | AuditActionLogin | AuditActionLogout | AuditActionAuthorize | AuditActionConfigChange | AuditActionDataAccess

fun action_text :: "AuditAction \<Rightarrow> string" where
  "action_text AuditActionCreate = ''create''"
| "action_text AuditActionRead = ''read''"
| "action_text AuditActionUpdate = ''update''"
| "action_text AuditActionDelete = ''delete''"
| "action_text AuditActionLogin = ''login''"
| "action_text AuditActionLogout = ''logout''"
| "action_text AuditActionAuthorize = ''authorize''"
| "action_text AuditActionConfigChange = ''config_change''"
| "action_text AuditActionDataAccess = ''data_access''"

datatype AuditResult = AuditResultSuccess | AuditResultFailure | AuditResultDenied

fun result_text :: "AuditResult \<Rightarrow> string" where
  "result_text AuditResultSuccess = ''success''"
| "result_text AuditResultFailure = ''failure''"
| "result_text AuditResultDenied = ''denied''"

text \<open>The last lines of every helper: the fields of the caller, the user, and the entry.\<close>

definition audit_entry :: "Logger \<Rightarrow> log_ctx option \<Rightarrow> string \<Rightarrow> field list \<Rightarrow> field list \<Rightarrow> log_entry list" where
  "audit_entry l ctx msg allFields fs =
     (let allFields = allFields @ fs;
          userID = GetUserID ctx;
          allFields = (if userID \<noteq> [] then allFields @ [UserID userID True] else allFields)
      in log_Info (log_WithContext ctx l) msg allFields)"

definition LogUserAction ::
    "Logger \<Rightarrow> log_ctx option \<Rightarrow> AuditAction \<Rightarrow> string \<Rightarrow> string \<Rightarrow> AuditResult \<Rightarrow> field list \<Rightarrow> log_entry list" where
  "LogUserAction l ctx act resourceType resourceID res fs =
     audit_entry l ctx ''Audit: User action''
       [string_field ''audit_type'' ''user_action'', string_field ''audit_action'' (action_text act),
        string_field ''audit_result'' (result_text res), ResourceType resourceType, ResourceID resourceID] fs"

definition LogLogin ::
    "Logger \<Rightarrow> log_ctx option \<Rightarrow> AuditResult \<Rightarrow> string \<Rightarrow> string \<Rightarrow> field list \<Rightarrow> log_entry list" where
  "LogLogin l ctx res ipAddress userAgent fs =
     audit_entry l ctx ''Audit: Login attempt''
       [string_field ''audit_type'' ''authentication'', string_field ''audit_action'' (action_text AuditActionLogin),
        string_field ''audit_result'' (result_text res), RemoteAddr (MaskIP ipAddress), UserAgent userAgent] fs"

definition LogAuthorization ::
    "Logger \<Rightarrow> log_ctx option \<Rightarrow> string \<Rightarrow> string \<Rightarrow> string \<Rightarrow> AuditResult \<Rightarrow> field list \<Rightarrow> log_entry list" where
  "LogAuthorization l ctx resourceType resourceID permission res fs =
     audit_entry l ctx ''Audit: Authorization decision''
       [string_field ''audit_type'' ''authorization'', string_field ''audit_action'' (action_text AuditActionAuthorize),
        string_field ''audit_result'' (result_text res), ResourceType resourceType, ResourceID resourceID,
        string_field ''permission'' permission] fs"

definition LogConfigChange ::
    "Logger \<Rightarrow> log_ctx option \<Rightarrow> string \<Rightarrow> json option \<Rightarrow> json option \<Rightarrow> field list \<Rightarrow> log_entry list" where
  "LogConfigChange l ctx configKey oldValue newValue fs =
     audit_entry l ctx ''Audit: Configuration change''
       ([string_field ''audit_type'' ''config_change'', string_field ''audit_action'' (action_text AuditActionConfigChange),
         string_field ''audit_result'' (result_text AuditResultSuccess), string_field ''config_key'' configKey] @
        (case oldValue of None \<Rightarrow> [] | Some v \<Rightarrow> [\<lparr>fd_Key = ''config_old_value'', fd_Value = FAny v\<rparr>]) @
        (case newValue of None \<Rightarrow> [] | Some v \<Rightarrow> [\<lparr>fd_Key = ''config_new_value'', fd_Value = FAny v\<rparr>])) fs"

definition LogDataAccess :: "Logger \<Rightarrow> log_ctx option \<Rightarrow> string \<Rightarrow> string \<Rightarrow> field list \<Rightarrow> log_entry list" where
  "LogDataAccess l ctx dataType resourceID fs =
     audit_entry l ctx ''Audit: Data access''
       [string_field ''audit_type'' ''data_access'', string_field ''audit_action'' (action_text AuditActionDataAccess),
        string_field ''audit_result'' (result_text AuditResultSuccess), string_field ''data_type'' dataType,
        ResourceID resourceID] fs"

definition LogResourceOperation ::
    "Logger \<Rightarrow> log_ctx option \<Rightarrow> AuditAction \<Rightarrow> string \<Rightarrow> string \<Rightarrow> AuditResult \<Rightarrow> field list \<Rightarrow> log_entry list" where
  "LogResourceOperation l ctx act resourceType resourceID res fs =
     audit_entry l ctx ''Audit: Resource operation''
       [string_field ''audit_type'' ''resource_operation'', string_field ''audit_action'' (action_text act),
        string_field ''audit_result'' (result_text res), ResourceType resourceType, ResourceID resourceID] fs"

subsection \<open>performance.go\<close>

text \<open>The branch on the error that the helpers share.\<close>

definition log_outcome ::
    "env \<Rightarrow> string \<Rightarrow> Logger \<Rightarrow> log_ctx option \<Rightarrow> go_error option \<Rightarrow> string \<Rightarrow> string \<Rightarrow> field list \<Rightarrow> log_entry list" where
  "log_outcome env runtimeStack l ctx err failed completed allFields =
     (if err \<noteq> None then log_Error env runtimeStack (log_WithContext ctx l) err failed allFields
      else log_Info (log_WithContext ctx l) completed allFields)"

definition LogRequestProcessed ::
    "Logger \<Rightarrow> log_ctx option \<Rightarrow> string \<Rightarrow> duration \<Rightarrow> int \<Rightarrow> i64 \<Rightarrow> i64 \<Rightarrow> field list \<Rightarrow> log_entry list" where
  "LogRequestProcessed l ctx op d statusCode requestSize responseSize fs =
     log_Info (log_WithContext ctx l) ''Request processed''
       ([Operation op, Latency d, HTTPStatus statusCode, int64_field ''request_size_bytes'' requestSize,
         int64_field ''response_size_bytes'' responseSize] @ fs)"

definition LogDBCall ::
    "env \<Rightarrow> string \<Rightarrow> Logger \<Rightarrow> log_ctx option \<Rightarrow> string \<Rightarrow> string \<Rightarrow> duration \<Rightarrow> i64 \<Rightarrow> go_error option \<Rightarrow>
      field list \<Rightarrow> log_entry list" where
  "LogDBCall env runtimeStack l ctx op query d rowsAffected err fs =
     log_outcome env runtimeStack l ctx err ''Database operation failed'' ''Database operation completed''
       ([Operation op, DBQuery query, DBDurationMs (Milliseconds d), int64_field ''rows_affected'' rowsAffected] @ fs)"

definition LogCacheOperation ::
    "env \<Rightarrow> string \<Rightarrow> Logger \<Rightarrow> log_ctx option \<Rightarrow> string \<Rightarrow> string \<Rightarrow> bool \<Rightarrow> duration \<Rightarrow> go_error option \<Rightarrow>
      field list \<Rightarrow> log_entry list" where
  "LogCacheOperation env runtimeStack l ctx op key hit d err fs =
     (let allFields = [Operation op, string_field ''cache_key'' key, CacheHit hit, Latency d] @ fs
      in if err \<noteq> None then log_Error env runtimeStack (log_WithContext ctx l) err ''Cache operation failed'' allFields
         else log_Info (log_WithContext ctx l) ''Cache operation completed''
                (allFields @ [string_field ''cache_status'' (if hit then ''hit'' else ''miss'')]))"

definition LogExternalAPICall ::
    "env \<Rightarrow> string \<Rightarrow> Logger \<Rightarrow> log_ctx option \<Rightarrow> string \<Rightarrow> string \<Rightarrow> string \<Rightarrow> int \<Rightarrow> duration \<Rightarrow> i64 \<Rightarrow> i64 \<Rightarrow>
      go_error option \<Rightarrow> field list \<Rightarrow> log_entry list" where
  "LogExternalAPICall env runtimeStack l ctx service endpoint httpMethod statusCode d requestSize responseSize err fs =
     log_outcome env runtimeStack l ctx err ''External API call failed'' ''External API call completed''
       ([Operation ''external_api_call'', string_field ''external_service'' service,
         string_field ''external_endpoint'' endpoint, HTTPMethod httpMethod, HTTPStatus statusCode, Latency d,
         int64_field ''request_size_bytes'' requestSize, int64_field ''response_size_bytes'' responseSize] @ fs)"

definition LogMessageQueueOperation ::
    "env \<Rightarrow> string \<Rightarrow> Logger \<Rightarrow> log_ctx option \<Rightarrow> string \<Rightarrow> string \<Rightarrow> int \<Rightarrow> duration \<Rightarrow> go_error option \<Rightarrow>
      field list \<Rightarrow> log_entry list" where
  "LogMessageQueueOperation env runtimeStack l ctx op queueName messageCount d err fs =
     log_outcome env runtimeStack l ctx err ''Message queue operation failed'' ''Message queue operation completed''
       ([Operation op, string_field ''queue_name'' queueName,
         \<lparr>fd_Key = ''message_count'', fd_Value = FInt messageCount\<rparr>, Latency d] @ fs)"

definition LogFileOperation ::
    "env \<Rightarrow> string \<Rightarrow> Logger \<Rightarrow> log_ctx option \<Rightarrow> string \<Rightarrow> string \<Rightarrow> i64 \<Rightarrow> duration \<Rightarrow> go_error option \<Rightarrow>
      field list \<Rightarrow> log_entry list" where
  "LogFileOperation env runtimeStack l ctx op filePath fileSize d err fs =
     log_outcome env runtimeStack l ctx err ''File operation failed'' ''File operation completed''
       ([Operation op, string_field ''file_path'' filePath, int64_field ''file_size_bytes'' fileSize, Latency d] @ fs)"

definition MeasureDuration ::
    "env \<Rightarrow> string \<Rightarrow> Logger \<Rightarrow> log_ctx option \<Rightarrow> string \<Rightarrow> duration \<Rightarrow> go_error option \<Rightarrow> log_entry list \<times> go_error option" where
  "MeasureDuration env runtimeStack l ctx op measured err =
     (log_outcome env runtimeStack l ctx err ''Operation failed'' ''Operation completed''
        [Operation op, Latency measured], err)"

definition MeasureDurationWithFields ::
    "env \<Rightarrow> string \<Rightarrow> Logger \<Rightarrow> log_ctx option \<Rightarrow> string \<Rightarrow> field list \<Rightarrow> duration \<Rightarrow> go_error option \<Rightarrow>
      log_entry list \<times> go_error option" where
  "MeasureDurationWithFields env runtimeStack l ctx op fs measured err =
     (log_outcome env runtimeStack l ctx err ''Operation failed'' ''Operation completed''
        ([Operation op, Latency measured] @ fs), err)"

subsection \<open>monitoring.go\<close>

definition LogMetric ::
    "Logger \<Rightarrow> log_ctx option \<Rightarrow> string \<Rightarrow> gofloat \<Rightarrow> string \<Rightarrow> field list \<Rightarrow> log_entry list" where
  "LogMetric l ctx metricName v unit_name fs =
     log_Info (log_WithContext ctx l) ''Metric event''
       ([string_field ''metric_name'' metricName, \<lparr>fd_Key = ''metric_value'', fd_Value = FFloat v\<rparr>,
         string_field ''metric_unit'' unit_name, string_field ''event_type'' ''metric''] @ fs)"

definition LogCounter :: "Logger \<Rightarrow> log_ctx option \<Rightarrow> string \<Rightarrow> i64 \<Rightarrow> field list \<Rightarrow> log_entry list" where
  "LogCounter l ctx counterName increment fs =
     log_Info (log_WithContext ctx l) ''Counter event''
       ([string_field ''counter_name'' counterName, int64_field ''counter_increment'' increment,
         string_field ''event_type'' ''counter''] @ fs)"

definition LogHistogram ::
    "Logger \<Rightarrow> log_ctx option \<Rightarrow> string \<Rightarrow> gofloat \<Rightarrow> string \<Rightarrow> field list \<Rightarrow> log_entry list" where
  "LogHistogram l ctx histogramName v bucket fs =
     log_Info (log_WithContext ctx l) ''Histogram event''
       ([string_field ''histogram_name'' histogramName, \<lparr>fd_Key = ''histogram_value'', fd_Value = FFloat v\<rparr>,
         string_field ''histogram_bucket'' bucket, string_field ''event_type'' ''histogram''] @ fs)"

definition LogGauge :: "Logger \<Rightarrow> log_ctx option \<Rightarrow> string \<Rightarrow> gofloat \<Rightarrow> field list \<Rightarrow> log_entry list" where
  "LogGauge l ctx gaugeName v fs =
     log_Info (log_WithContext ctx l) ''Gauge event''
       ([string_field ''gauge_name'' gaugeName, \<lparr>fd_Key = ''gauge_value'', fd_Value = FFloat v\<rparr>,
         string_field ''event_type'' ''gauge''] @ fs)"

definition LogHealthCheck ::
    "env \<Rightarrow> string \<Rightarrow> Logger \<Rightarrow> log_ctx option \<Rightarrow> string \<Rightarrow> bool \<Rightarrow> duration \<Rightarrow> go_error option \<Rightarrow> field list \<Rightarrow> log_entry list" where
  "LogHealthCheck env runtimeStack l ctx checkName healthy d err fs =
     (let allFields = [string_field ''health_check_name'' checkName,
            \<lparr>fd_Key = ''health_check_healthy'', fd_Value = FBool healthy\<rparr>, Latency d,
            string_field ''event_type'' ''health_check''] @ fs
      in case err of
           Some e \<Rightarrow> log_Error env runtimeStack (log_WithContext ctx l) err ''Health check failed''
             (allFields @ [string_field ''health_check_error'' (error_text e)])
         | None \<Rightarrow> log_Info (log_WithContext ctx l) ''Health check completed'' allFields)"

definition LogCriticalEvent ::
    "env \<Rightarrow> string \<Rightarrow> Logger \<Rightarrow> log_ctx option \<Rightarrow> string \<Rightarrow> string \<Rightarrow> field list \<Rightarrow> log_entry list" where
  "LogCriticalEvent env runtimeStack l ctx eventName eventSeverity fs =
     log_Error env runtimeStack (log_WithContext ctx l) None ''Critical event''
       ([string_field ''critical_event_name'' eventName, string_field ''critical_event_severity'' eventSeverity,
         string_field ''event_type'' ''critical_event'', \<lparr>fd_Key = ''alert'', fd_Value = FBool True\<rparr>] @ fs)"

subsection \<open>Properties\<close>

abbreviation with_key :: "string \<Rightarrow> field list \<Rightarrow> field list" where
  "with_key key fs \<equiv> filter (\<lambda>f. fd_Key f = key) fs"

lemmas field_defs = string_field_def int64_field_def RequestID_def TraceID_def SpanID_def TenantID_def ClusterID_def
  ResourceID_def ResourceType_def RemoteAddr_def UserAgent_def

lemma context_user:
  "with_key ''user_id'' (WithContext_fields ctx) =
     (if GetUserID ctx = [] then [] else [string_field ''user_id'' (MaskUUID (GetUserID ctx))])"
  unfolding WithContext_fields_def by (simp add: field_defs UserID_def)

lemma logger_user:
  assumes "with_key ''user_id'' (lg_fields l) = []"
  shows "with_key ''user_id'' (lg_fields (log_WithContext ctx l)) =
    (if GetUserID ctx = [] then [] else [string_field ''user_id'' (MaskUUID (GetUserID ctx))])"
proof (cases "ctx = None")
  case True
  then show ?thesis
    using assms by (simp add: log_WithContext_def GetUserID_def ctx_get_def)
next
  case False
  then show ?thesis
    using assms context_user [of ctx] by (auto simp: log_WithContext_def zap_With_def split: if_splits)
qed

lemma audit_entry_user:
  assumes "with_key ''user_id'' (lg_fields l) = []" and "with_key ''user_id'' allFields = []" and "with_key ''user_id'' fs = []"
    and "e \<in> set (audit_entry l ctx msg allFields fs)"
  shows "with_key ''user_id'' (le_fields e) =
    (if GetUserID ctx = [] then [] else replicate 2 (string_field ''user_id'' (MaskUUID (GetUserID ctx))))"
  using assms logger_user [of l ctx]
  by (auto simp: audit_entry_def log_Info_def zap_write_def UserID_def string_field_def Let_def numeral_2_eq_2 split: if_splits)

text \<open>
  C40. Audit entries show a user only through \<open>MaskUUID\<close>: whichever helper writes the entry, what
  it holds under \<open>user_id\<close> is the first eight characters of the identifier in the context and dots,
  provided that the logger and the caller add no such field themselves. An identifier of at most
  eight characters, like the \<open>user-789\<close> of the README, is shown in full. The field is written twice,
  by the helper and by the logger with the context.
\<close>

theorem audit_abbreviates_the_user:
  assumes "with_key ''user_id'' (lg_fields l) = []" and "with_key ''user_id'' fs = []"
    and "e \<in> set (LogUserAction l ctx act rt ri res fs) \<union> set (LogLogin l ctx res ip agent fs) \<union>
      set (LogAuthorization l ctx rt ri perm res fs) \<union> set (LogConfigChange l ctx key old new fs) \<union>
      set (LogDataAccess l ctx dt ri fs) \<union> set (LogResourceOperation l ctx act rt ri res fs)"
  shows "with_key ''user_id'' (le_fields e) =
      (if GetUserID ctx = [] then []
       else replicate 2 (string_field ''user_id''
         (if length (GetUserID ctx) \<le> 8 then GetUserID ctx else take 8 (GetUserID ctx) @ ''...'')))"
proof -
  have "e \<in> set (audit_entry l ctx msg af fs) \<Longrightarrow> with_key ''user_id'' af = [] \<Longrightarrow>
      with_key ''user_id'' (le_fields e) =
      (if GetUserID ctx = [] then [] else replicate 2 (string_field ''user_id'' (MaskUUID (GetUserID ctx))))" for msg af
    using audit_entry_user [OF assms(1) _ assms(2)] by blast
  then have "with_key ''user_id'' (le_fields e) =
      (if GetUserID ctx = [] then [] else replicate 2 (string_field ''user_id'' (MaskUUID (GetUserID ctx))))"
    using assms(3)
    unfolding LogUserAction_def LogLogin_def LogAuthorization_def LogConfigChange_def LogDataAccess_def LogResourceOperation_def
    by (elim UnE) (simp_all add: field_defs split: option.splits)
  then show ?thesis
    by (simp add: MaskUUID_def)
qed

theorem audit_abbreviates_the_user_witness:
  "(\<exists>e. LogLogin (NewLogger (\<lambda>_. []) ''gc'') (Some (WithUserID ''0123456789'' context_Background)) AuditResultSuccess
      ''10.0.0.1'' ''curl'' [] = [e] \<and>
     with_key ''user_id'' (le_fields e) = replicate 2 (string_field ''user_id'' ''01234567...'')) \<and>
   (\<exists>e. LogLogin (NewLogger (\<lambda>_. []) ''gc'') (Some (WithUserID ''user-789'' context_Background)) AuditResultSuccess
      ''10.0.0.1'' ''curl'' [] = [e] \<and>
     with_key ''user_id'' (le_fields e) = replicate 2 (string_field ''user_id'' ''user-789''))"
proof -
  define l where "l = NewLogger (\<lambda>_. []) ''gc''"
  have l: "with_key ''user_id'' (lg_fields l) = []" "lg_level l = InfoLevel"
    by (simp_all add: l_def NewLogger_def NewLoggerWithConfig_def getLogLevel_def string_field_def Let_def)
  have "\<exists>e. LogLogin l (Some (WithUserID u context_Background)) AuditResultSuccess ''10.0.0.1'' ''curl'' [] = [e] \<and>
      with_key ''user_id'' (le_fields e) =
        replicate 2 (string_field ''user_id'' (if length u \<le> 8 then u else take 8 u @ ''...''))" if "u \<noteq> []" for u
  proof -
    define ctx where "ctx = Some (WithUserID u context_Background)"
    have user: "GetUserID ctx = u"
      by (simp add: ctx_def GetUserID_def WithUserID_def)
    have "lg_level (log_WithContext ctx l) = InfoLevel"
      using l(2) by (simp add: log_WithContext_def zap_With_def)
    then obtain e where e: "LogLogin l ctx AuditResultSuccess ''10.0.0.1'' ''curl'' [] = [e]"
      by (simp add: LogLogin_def audit_entry_def log_Info_def zap_write_def Let_def)
    with audit_abbreviates_the_user [OF l(1), of "[]" e ctx AuditActionRead "[]" "[]" AuditResultSuccess "''10.0.0.1''" "''curl''"]
    show ?thesis
      using that by (simp add: user ctx_def [symmetric])
  qed
  from this [of "''0123456789''"] this [of "''user-789''"] show ?thesis
    unfolding l_def by simp
qed

text \<open>
  Errors are always logged, with their category: every logger writes exactly one entry for an
  error, which holds the error; the category is that of the error when the caller gives none,
  and the one of the caller otherwise.
\<close>

theorem errors_are_logged_with_category:
  assumes "with_key ''error_category'' (lg_fields l) = []"
  shows "\<exists>entry. log_Error env stack l (Some e) msg fs = [entry] \<and> le_level entry = ErrorLevel \<and>
    \<lparr>fd_Key = ''error'', fd_Value = FError e\<rparr> \<in> set (le_fields entry) \<and>
    with_key ''error_category'' (le_fields entry) =
      (if with_key ''error_category'' fs = [] then [string_field ''error_category'' (category_text (CategorizeError (Some e)))]
       else with_key ''error_category'' fs)"
proof -
  have stack: "with_key ''error_category'' (map (\<lambda>(k, v). string_field k v) (ErrorStackField dev st)) = []" for dev st
    by (simp add: ErrorStackField_def string_field_def)
  have none: "list_ex (\<lambda>f. fd_Key f = ''error_category'') fs \<longleftrightarrow> with_key ''error_category'' fs \<noteq> []"
    by (auto simp: list_ex_iff filter_empty_conv)
  have level: "\<not> 3 < severity (lg_level l)"
    by (cases "lg_level l") simp_all
  have key: "fd_Key (string_field k v) = k" for k v
    by (simp add: string_field_def)
  show ?thesis
    using assms by (simp add: log_Error_def Let_def none zap_write_def level key stack)
qed

theorem errors_are_logged_with_category_witness:
  "\<exists>entry. log_Error (\<lambda>_. []) [] (NewLogger (\<lambda>_. []) ''gc'') (Some (PlainError ''HTTP 500'')) ''failed'' [] = [entry]"
proof -
  have "with_key ''error_category'' (lg_fields (NewLogger (\<lambda>_. []) ''gc'')) = []"
    by (simp add: NewLogger_def NewLoggerWithConfig_def string_field_def Let_def)
  from errors_are_logged_with_category [OF this] show ?thesis
    by blast
qed

text \<open>
  The level of the log is read in lower or upper case only: any other spelling is \<open>info\<close>. With
  \<open>LOG_LEVEL\<close> in upper case the level is debug, but the development mode is off.
\<close>

theorem log_level_spelling:
  "getLogLevel env ''Debug'' = InfoLevel \<and> getLogLevel env ''Error'' = InfoLevel \<and>
   getLogLevel ((\<lambda>_. [])(''LOG_LEVEL'' := ''DEBUG'')) [] = DebugLevel \<and>
   \<not> isDevelopment ((\<lambda>_. [])(''LOG_LEVEL'' := ''DEBUG'')) \<and>
   isDevelopment ((\<lambda>_. [])(''LOG_LEVEL'' := ''debug''))"
  by (simp add: getLogLevel_def isDevelopment_def)

end
