(* ===== verification/Log_Errors.thy ===== *)
theory Log_Errors
  imports Log_Helpers
begin

text \<open>
  The rest of internal/logging: the constructors of single fields in fields.go, audit.go,
  performance.go and monitoring.go, the enhanced error logger and the errors with a code of
  errors.go.
\<close>

subsection \<open>Constructors of fields\<close>

definition HTTPPath :: "string \<Rightarrow> field" where "HTTPPath path = string_field ''http_path'' path"
definition LatencyMs :: "i64 \<Rightarrow> field" where "LatencyMs ms = int64_field ''latency_ms'' ms"
definition ErrorCode_field :: "string \<Rightarrow> field" where "ErrorCode_field code = string_field ''error_code'' code"
definition Component_field :: "string \<Rightarrow> field" where "Component_field name = string_field ''component'' name"
definition Namespace_field :: "string \<Rightarrow> field" where "Namespace_field ns = string_field ''namespace'' ns"
definition Pod_field :: "string \<Rightarrow> field" where "Pod_field pod = string_field ''pod'' pod"
definition Node_field :: "string \<Rightarrow> field" where "Node_field node = string_field ''node'' node"
definition Kind_field :: "string \<Rightarrow> field" where "Kind_field kind = string_field ''kind'' kind"
definition Name_field :: "string \<Rightarrow> field" where "Name_field name = string_field ''name'' name"
definition int_field :: "string \<Rightarrow> int \<Rightarrow> field" where "int_field key v = \<lparr>fd_Key = key, fd_Value = FInt v\<rparr>"
definition RetryCount :: "int \<Rightarrow> field" where "RetryCount count = int_field ''retry_count'' count"
definition float_field :: "string \<Rightarrow> gofloat \<Rightarrow> field" where "float_field key v = \<lparr>fd_Key = key, fd_Value = FFloat v\<rparr>"
definition bool_field :: "string \<Rightarrow> bool \<Rightarrow> field" where "bool_field key v = \<lparr>fd_Key = key, fd_Value = FBool v\<rparr>"
definition duration_field :: "string \<Rightarrow> duration \<Rightarrow> field" where "duration_field key d = int64_field key (Milliseconds d)"
definition strings_field :: "string \<Rightarrow> string list \<Rightarrow> field" where "strings_field key vs = \<lparr>fd_Key = key, fd_Value = FStrings vs\<rparr>"

text \<open>\<open>zap.Error(nil)\<close> is the field that writes nothing.\<close>

definition error_field :: "go_error option \<Rightarrow> field list" where
  "error_field err = (case err of None \<Rightarrow> [] | Some e \<Rightarrow> [\<lparr>fd_Key = ''error'', fd_Value = FError e\<rparr>])"

definition AuditActionField :: "AuditAction \<Rightarrow> field" where "AuditActionField action = string_field ''audit_action'' (action_text action)"
definition AuditResultField :: "AuditResult \<Rightarrow> field" where "AuditResultField result = string_field ''audit_result'' (result_text result)"
definition AuditTypeField :: "string \<Rightarrow> field" where "AuditTypeField v = string_field ''audit_type'' v"
definition PermissionField :: "string \<Rightarrow> field" where "PermissionField v = string_field ''permission'' v"
definition ConfigKeyField :: "string \<Rightarrow> field" where "ConfigKeyField v = string_field ''config_key'' v"
definition DataTypeField :: "string \<Rightarrow> field" where "DataTypeField v = string_field ''data_type'' v"

definition RequestSizeBytes :: "i64 \<Rightarrow> field" where "RequestSizeBytes n = int64_field ''request_size_bytes'' n"
definition ResponseSizeBytes :: "i64 \<Rightarrow> field" where "ResponseSizeBytes n = int64_field ''response_size_bytes'' n"
definition RowsAffected :: "i64 \<Rightarrow> field" where "RowsAffected n = int64_field ''rows_affected'' n"
definition QueueName :: "string \<Rightarrow> field" where "QueueName v = string_field ''queue_name'' v"
definition MessageCount :: "int \<Rightarrow> field" where "MessageCount n = int_field ''message_count'' n"
definition ExternalService :: "string \<Rightarrow> field" where "ExternalService v = string_field ''external_service'' v"
definition ExternalEndpoint :: "string \<Rightarrow> field" where "ExternalEndpoint v = string_field ''external_endpoint'' v"
definition FilePath :: "string \<Rightarrow> field" where "FilePath v = string_field ''file_path'' v"
definition FileSizeBytes :: "i64 \<Rightarrow> field" where "FileSizeBytes n = int64_field ''file_size_bytes'' n"
definition ThroughputBytesPerSecond :: "gofloat \<Rightarrow> field" where
  "ThroughputBytesPerSecond v = float_field ''throughput_bytes_per_second'' v"
definition ConcurrentOperations :: "int \<Rightarrow> field" where "ConcurrentOperations n = int_field ''concurrent_operations'' n"

definition MetricName :: "string \<Rightarrow> field" where "MetricName v = string_field ''metric_name'' v"
definition MetricValue :: "gofloat \<Rightarrow> field" where "MetricValue v = float_field ''metric_value'' v"
definition MetricUnit :: "string \<Rightarrow> field" where "MetricUnit v = string_field ''metric_unit'' v"
definition HealthCheckName :: "string \<Rightarrow> field" where "HealthCheckName v = string_field ''health_check_name'' v"
definition HealthCheckHealthy :: "bool \<Rightarrow> field" where "HealthCheckHealthy v = bool_field ''health_check_healthy'' v"
definition EventType :: "string \<Rightarrow> field" where "EventType v = string_field ''event_type'' v"
definition AlertFlag :: "bool \<Rightarrow> field" where "AlertFlag v = bool_field ''alert'' v"
definition Severity_field :: "string \<Rightarrow> field" where "Severity_field v = string_field ''severity'' v"

subsection \<open>Errors with a code\<close>

text \<open>\<open>fmt.Sprintf\<close> is a parameter.\<close>

definition log_WrapErrorf :: "(string \<Rightarrow> 'a list \<Rightarrow> string) \<Rightarrow> go_error option \<Rightarrow> string \<Rightarrow> 'a list \<Rightarrow> go_error option" where
  "log_WrapErrorf sprintf err format args =
     (case err of None \<Rightarrow> None | Some e \<Rightarrow> Some (WrapError (sprintf format args) e))"

definition NewErrorWithCode :: "string \<Rightarrow> string \<Rightarrow> go_error" where
  "NewErrorWithCode code message = ErrorWithCode code message None"

definition NewErrorWithCodeAndCause :: "string \<Rightarrow> string \<Rightarrow> go_error option \<Rightarrow> go_error" where
  "NewErrorWithCodeAndCause code message cause = ErrorWithCode code message cause"

text \<open>
  A code survives wrapping: the code of an error, with a cause or not, is found again under
  any number of wrappings, and the outermost code wins over one in the cause.
\<close>

theorem error_code_round_trip:
  "ExtractErrorCode (foldr WrapError msgs (NewErrorWithCodeAndCause code message cause)) = code"
proof -
  let ?is = "\<lambda>x. case x of ErrorWithCode _ _ _ \<Rightarrow> True | _ \<Rightarrow> False"
  let ?e = "NewErrorWithCodeAndCause code message cause"
  have "errors_As ?is ?e = Some ?e"
    by (cases cause) (simp_all add: errors_As_def NewErrorWithCodeAndCause_def)
  then have "errors_As ?is (foldr WrapError msgs ?e) = Some ?e"
    by (induction msgs) (simp_all add: errors_As_def)
  then show ?thesis
    by (simp add: ExtractErrorCode_def NewErrorWithCodeAndCause_def)
qed

subsection \<open>The enhanced error logger\<close>

definition ErrorCategoryField :: "ErrorCategory \<Rightarrow> field" where
  "ErrorCategoryField category = string_field ''error_category'' (category_text category)"

record EnhancedErrorLogger =
  ee_logger :: Logger

definition NewEnhancedErrorLogger :: "Logger \<Rightarrow> EnhancedErrorLogger" where
  "NewEnhancedErrorLogger l = \<lparr>ee_logger = l\<rparr>"

text \<open>The stack of the runtime is an argument; the logger itself does not look at it again.\<close>

definition LogError ::
    "env \<Rightarrow> string \<Rightarrow> EnhancedErrorLogger \<Rightarrow> go_error option \<Rightarrow> string \<Rightarrow> string \<Rightarrow> field list \<Rightarrow> log_entry list" where
  "LogError env runtimeStack e err msg errorCode fs =
     (case err of
        None \<Rightarrow> []
      | Some _ \<Rightarrow>
          (let ctx = ExtractErrorContext (isDevelopment env) runtimeStack err 3;
               allFields = fs @ error_field err @ [ErrorCategoryField (ec_Category ctx)];
               allFields = (if errorCode \<noteq> [] then allFields @ [ErrorCode_field errorCode] else allFields);
               allFields = (if ec_Stack ctx \<noteq> []
                 then allFields @ map (\<lambda>(k, v). string_field k v) (ErrorStackField (isDevelopment env) (ec_Stack ctx))
                 else allFields)
           in log_Error env runtimeStack (ee_logger e) err msg allFields))"

definition with_key :: "string \<Rightarrow> log_entry \<Rightarrow> field list" where
  "with_key k entry = filter (\<lambda>f. fd_Key f = k) (le_fields entry)"

text \<open>
  Every error that is logged this way makes one entry with one category, which is that of the
  error, and its code when there is one; but the error itself is in the entry twice, since the
  enhanced logger adds it and the logger below adds it again.
\<close>

theorem LogError_repeats_the_error:
  assumes "\<forall>f\<in>set (lg_fields (ee_logger l) @ fs). fd_Key f \<notin> {''error'', ''error_category'', ''error_code''}"
  shows "\<exists>entry. LogError env stack l (Some e) msg code fs = [entry] \<and> le_level entry = ErrorLevel \<and>
    with_key ''error'' entry = concat (replicate 2 (error_field (Some e))) \<and>
    with_key ''error_category'' entry = [ErrorCategoryField (CategorizeError (Some e))] \<and>
    with_key ''error_code'' entry = (if code = [] then [] else [ErrorCode_field code])"
proof -
  have own: "filter (\<lambda>f. fd_Key f = k) (lg_fields (ee_logger l)) = []" "filter (\<lambda>f. fd_Key f = k) fs = []"
    if "k \<in> {''error'', ''error_category'', ''error_code''}" for k
    using assms that by (auto simp: filter_empty_conv)
  have "severity (lg_level (ee_logger l)) \<le> 3"
    by (cases "lg_level (ee_logger l)") simp_all
  then show ?thesis
    by (auto simp: LogError_def log_Error_def Let_def zap_write_def with_key_def own ExtractErrorContext_def ErrorStackField_def
        error_field_def ErrorCategoryField_def ErrorCode_field_def string_field_def numeral_2_eq_2)
qed

theorem LogError_repeats_the_error_witness:
  "\<exists>entry. LogError (\<lambda>_. []) [] (NewEnhancedErrorLogger (NewLogger (\<lambda>_. []) ''gc'')) (Some (PlainError ''timeout'')) ''m'' ''E1'' [] =
      [entry] \<and> length (with_key ''error'' entry) = 2"
proof -
  define l where "l = NewEnhancedErrorLogger (NewLogger (\<lambda>_. []) ''gc'')"
  have "lg_fields (ee_logger l) = [string_field ''component'' ''gc'']"
    by (simp add: l_def NewEnhancedErrorLogger_def NewLogger_def NewLoggerWithConfig_def Let_def)
  then have "\<forall>f\<in>set (lg_fields (ee_logger l) @ []). fd_Key f \<notin> {''error'', ''error_category'', ''error_code''}"
    by (simp add: string_field_def)
  from LogError_repeats_the_error [OF this, of "\<lambda>_. []" "[]" "PlainError ''timeout''" "''m''" "''E1''"] show ?thesis
    unfolding l_def by (auto simp: error_field_def numeral_2_eq_2)
qed

end
