(* ===== verification/Log_Sampling.thy ===== *)
theory Log_Sampling
  imports Logging
begin

text \<open>
  internal/logging/sampling.go: the sampler, the limiter per key, and the logger around both.
  Rates are the floats of Backoff. A sampler call answers \<open>None\<close> where the remainder by zero
  panics; what the conversion to \<open>uint64\<close> gives for a quotient out of range is left open by the
  language and is a parameter. The clock is an argument.
\<close>

subsection \<open>Floats\<close>

definition float_1_0 :: gofloat where "float_1_0 = \<lparr>mant = 1, expo = 0\<rparr>"
definition float_0_01 :: gofloat where "float_0_01 = \<lparr>mant = 5764607523034235, expo = - 59\<rparr>"

definition float_ge_1 :: "gofloat \<Rightarrow> bool" where
  "float_ge_1 x \<longleftrightarrow> (if expo x \<ge> 0 then mant x \<ge> 1 else mant x \<ge> 2 ^ nat (- expo x))"

text \<open>
  The quotient \<open>1.0 / x\<close> of a positive float: enough bits of the exact quotient, with a last bit
  for a remainder, so that the rounding to 53 bits is that of the exact value.
\<close>

definition float_inverse :: "gofloat \<Rightarrow> gofloat" where
  "float_inverse x =
     (let k = 55 + bit_width (mant x); q = 2 ^ k div mant x; r = 2 ^ k mod mant x
      in round53 (2 * q + (if r > 0 then 1 else 0)) (- expo x - int k - 1))"

definition u64_of_float :: "64 word \<Rightarrow> gofloat \<Rightarrow> 64 word" where
  "u64_of_float out_of_range x =
     (let i = int_of_float x in if 0 \<le> i \<and> i < 2 ^ 64 then word_of_int i else out_of_range)"

subsection \<open>The sampler\<close>

record SamplerConfig =
  sc_InfoSamplingRate :: gofloat
  sc_DebugSamplingRate :: gofloat
  sc_SuccessSamplingRate :: gofloat
  sc_ErrorSamplingRate :: gofloat
  sc_WarnSamplingRate :: gofloat

definition DefaultSamplerConfig :: SamplerConfig where
  "DefaultSamplerConfig = \<lparr>sc_InfoSamplingRate = float_0_1, sc_DebugSamplingRate = float_0_01,
     sc_SuccessSamplingRate = float_0_01, sc_ErrorSamplingRate = float_1_0, sc_WarnSamplingRate = float_1_0\<rparr>"

record Sampler =
  sa_config :: SamplerConfig
  sa_infoCounter :: "64 word"
  sa_debugCounter :: "64 word"
  sa_successCounter :: "64 word"

definition NewSampler :: "SamplerConfig \<Rightarrow> Sampler" where
  "NewSampler cfg = \<lparr>sa_config = cfg, sa_infoCounter = 0, sa_debugCounter = 0, sa_successCounter = 0\<rparr>"

text \<open>Go's \<open>%\<close> of a signed number takes the sign of the dividend.\<close>

definition shouldSample :: "i64 \<Rightarrow> gofloat \<Rightarrow> bool" where
  "shouldSample unixNano rate =
     (if float_ge_1 rate then True
      else if \<not> float_pos rate then False
      else
        (let n = sint unixNano; rest = (if n < 0 then - (- n mod 100) else n mod 100)
         in rest < sint (i64_of_float (float_mult rate (float_of_int 100)))))"

definition shouldSampleWithCounter :: "64 word \<Rightarrow> gofloat \<Rightarrow> 64 word \<Rightarrow> bool option \<times> 64 word" where
  "shouldSampleWithCounter oor rate counter =
     (if float_ge_1 rate then (Some True, counter)
      else if \<not> float_pos rate then (Some False, counter)
      else
        (let counter = counter + 1; threshold = u64_of_float oor (float_inverse rate)
         in (if threshold = 0 then None else Some (counter mod threshold = 0), counter)))"

definition ShouldLog :: "64 word \<Rightarrow> i64 \<Rightarrow> log_level \<Rightarrow> bool \<Rightarrow> Sampler \<Rightarrow> bool option \<times> Sampler" where
  "ShouldLog oor unixNano lvl isSuccess s =
     (case lvl of
        ErrorLevel \<Rightarrow>
          (Some (float_ge_1 (sc_ErrorSamplingRate (sa_config s)) \<or> shouldSample unixNano (sc_ErrorSamplingRate (sa_config s))), s)
      | WarnLevel \<Rightarrow>
          (Some (float_ge_1 (sc_WarnSamplingRate (sa_config s)) \<or> shouldSample unixNano (sc_WarnSamplingRate (sa_config s))), s)
      | InfoLevel \<Rightarrow>
          if isSuccess
          then
            (let s = s\<lparr>sa_successCounter := sa_successCounter s + 1\<rparr>; rate = sc_SuccessSamplingRate (sa_config s)
             in if float_ge_1 rate then (Some True, s)
                else (let (r, n) = shouldSampleWithCounter oor rate (sa_successCounter s)
                      in (r, s\<lparr>sa_successCounter := n\<rparr>)))
          else
            (let s = s\<lparr>sa_infoCounter := sa_infoCounter s + 1\<rparr>; rate = sc_InfoSamplingRate (sa_config s)
             in if float_ge_1 rate then (Some True, s)
                else (let (r, n) = shouldSampleWithCounter oor rate (sa_infoCounter s)
                      in (r, s\<lparr>sa_infoCounter := n\<rparr>)))
      | DebugLevel \<Rightarrow>
          (let s = s\<lparr>sa_debugCounter := sa_debugCounter s + 1\<rparr>; rate = sc_DebugSamplingRate (sa_config s)
           in if float_ge_1 rate then (Some True, s)
              else (let (r, n) = shouldSampleWithCounter oor rate (sa_debugCounter s)
                    in (r, s\<lparr>sa_debugCounter := n\<rparr>))))"

subsection \<open>The limiter per key\<close>

record LogLimiterConfig =
  rc_MaxLogsPerSecond :: int
  rc_WindowSize :: duration
  rc_CleanupInterval :: duration

record LogLimiter =
  ll_max :: int
  ll_window :: duration
  ll_entries :: "(string, gotime list) gomap"
  ll_cleanupInterval :: duration
  ll_lastCleanup :: gotime

definition DefaultRateLimiterConfig :: LogLimiterConfig where
  "DefaultRateLimiterConfig =
     \<lparr>rc_MaxLogsPerSecond = 10, rc_WindowSize = time_Second, rc_CleanupInterval = 60 * time_Second\<rparr>"

definition NewLogLimiter :: "LogLimiterConfig \<Rightarrow> gotime \<Rightarrow> LogLimiter" where
  "NewLogLimiter cfg now' = \<lparr>ll_max = rc_MaxLogsPerSecond cfg, ll_window = rc_WindowSize cfg, ll_entries = [],
     ll_cleanupInterval = rc_CleanupInterval cfg, ll_lastCleanup = now'\<rparr>"

definition after :: "gotime \<Rightarrow> gotime list \<Rightarrow> gotime list" where
  "after start ts = filter (\<lambda>t. time_After t start) ts"

definition cleanup :: "gotime \<Rightarrow> LogLimiter \<Rightarrow> LogLimiter" where
  "cleanup now' rl =
     (let windowStart = time_Add now' (- ll_window rl * 2)
      in rl\<lparr>ll_entries := filter (\<lambda>(key, ts). length ts \<noteq> 0)
              (map (\<lambda>(key, ts). (key, after windowStart ts)) (ll_entries rl))\<rparr>)"

text \<open>
  When the answer is no, the map keeps the old slice, whose array was compacted in place; as the
  slice never has more entries than the limit, nothing was removed then (\<open>refused_unchanged\<close>).
\<close>

definition Allow :: "gotime \<Rightarrow> string \<Rightarrow> LogLimiter \<Rightarrow> bool \<times> LogLimiter" where
  "Allow now' key rl =
     (if ll_max rl \<le> 0 then (True, rl)
      else
        (let rl = (if sint (time_Since now' (ll_lastCleanup rl)) > sint (ll_cleanupInterval rl)
                   then (cleanup now' rl)\<lparr>ll_lastCleanup := now'\<rparr> else rl);
             timestamps = go_index [] (ll_entries rl) key;
             windowStart = time_Add now' (- ll_window rl);
             timestamps = after windowStart timestamps
         in if int (length timestamps) \<ge> ll_max rl then (False, rl)
            else (True, rl\<lparr>ll_entries := go_put key (timestamps @ [now']) (ll_entries rl)\<rparr>)))"

subsection \<open>The logger around both\<close>

record SampledLogger =
  sl_logger :: Logger
  sl_sampler :: Sampler
  sl_limiter :: LogLimiter

definition NewSampledLogger :: "Logger \<Rightarrow> SamplerConfig \<Rightarrow> LogLimiterConfig \<Rightarrow> gotime \<Rightarrow> SampledLogger" where
  "NewSampledLogger l sc lc now' = \<lparr>sl_logger = l, sl_sampler = NewSampler sc, sl_limiter = NewLogLimiter lc now'\<rparr>"

text \<open>The two tests before an entry; the clock is read for each.\<close>

definition sl_admit ::
    "64 word \<Rightarrow> gotime \<Rightarrow> i64 \<Rightarrow> log_level \<Rightarrow> bool \<Rightarrow> string \<Rightarrow> SampledLogger \<Rightarrow> bool option \<times> SampledLogger" where
  "sl_admit oor now' unixNano lvl isSuccess key sl =
     (let (ok, rl) = Allow now' key (sl_limiter sl); sl = sl\<lparr>sl_limiter := rl\<rparr>
      in if \<not> ok then (Some False, sl)
         else (let (r, s) = ShouldLog oor unixNano lvl isSuccess (sl_sampler sl) in (r, sl\<lparr>sl_sampler := s\<rparr>)))"

definition sl_Info ::
    "64 word \<Rightarrow> gotime \<Rightarrow> i64 \<Rightarrow> string \<Rightarrow> bool \<Rightarrow> string \<Rightarrow> field list \<Rightarrow> SampledLogger \<Rightarrow>
      log_entry list option \<times> SampledLogger" where
  "sl_Info oor now' unixNano msg isSuccess key fs sl =
     (let (r, sl) = sl_admit oor now' unixNano InfoLevel isSuccess key sl
      in (map_option (\<lambda>ok. if ok then log_Info (sl_logger sl) msg fs else []) r, sl))"

definition sl_Debug ::
    "64 word \<Rightarrow> gotime \<Rightarrow> i64 \<Rightarrow> string \<Rightarrow> string \<Rightarrow> field list \<Rightarrow> SampledLogger \<Rightarrow>
      log_entry list option \<times> SampledLogger" where
  "sl_Debug oor now' unixNano msg key fs sl =
     (let (r, sl) = sl_admit oor now' unixNano DebugLevel False key sl
      in (map_option (\<lambda>ok. if ok then log_Debug (sl_logger sl) msg fs else []) r, sl))"

definition sl_Warn :: "gotime \<Rightarrow> string \<Rightarrow> string \<Rightarrow> field list \<Rightarrow> SampledLogger \<Rightarrow> log_entry list \<times> SampledLogger" where
  "sl_Warn now' msg key fs sl =
     (let (ok, rl) = Allow now' key (sl_limiter sl); sl = sl\<lparr>sl_limiter := rl\<rparr>
      in (if \<not> ok then [] else log_Warn (sl_logger sl) msg fs, sl))"

definition sl_Error ::
    "env \<Rightarrow> string \<Rightarrow> gotime \<Rightarrow> go_error option \<Rightarrow> string \<Rightarrow> string \<Rightarrow> field list \<Rightarrow> SampledLogger \<Rightarrow>
      log_entry list \<times> SampledLogger" where
  "sl_Error env stack now' err msg key fs sl =
     (let (ok, rl) = Allow now' key (sl_limiter sl); sl = sl\<lparr>sl_limiter := rl\<rparr>
      in (if \<not> ok then [] else log_Error env stack (sl_logger sl) err msg fs, sl))"

subsection \<open>The limiter is a sliding window\<close>

text \<open>The calls one after the other, and the specification: the history holds what was allowed.\<close>

fun run_allow :: "(gotime \<times> string) list \<Rightarrow> LogLimiter \<Rightarrow> bool list" where
  "run_allow [] rl = []"
| "run_allow ((t, key) # calls) rl = (case Allow t key rl of (ok, rl) \<Rightarrow> ok # run_allow calls rl)"

definition in_window :: "int \<Rightarrow> gotime \<Rightarrow> string \<Rightarrow> (gotime \<times> string) list \<Rightarrow> (gotime \<times> string) list" where
  "in_window w t key h = filter (\<lambda>(u, k). k = key \<and> t - w < u \<and> u \<le> t) h"

fun window_spec :: "int \<Rightarrow> int \<Rightarrow> (gotime \<times> string) list \<Rightarrow> (gotime \<times> string) list \<Rightarrow> bool list" where
  "window_spec m w h [] = []"
| "window_spec m w h ((t, key) # calls) =
     (let ok = int (length (in_window w t key h)) < m
      in ok # window_spec m w (if ok then h @ [(t, key)] else h) calls)"

definition allowed :: "(gotime \<times> string) list \<Rightarrow> bool list \<Rightarrow> (gotime \<times> string) list" where
  "allowed calls oks = map fst (filter snd (zip calls oks))"

lemma allowed_simps [simp]:
  "allowed [] oks = []" "allowed (c # calls) (ok # oks) = (if ok then c # allowed calls oks else allowed calls oks)"
  by (simp_all add: allowed_def)

lemma after_after: "a \<le> b \<Longrightarrow> after b (after a ts) = after b ts"
  by (auto simp: after_def time_After_def intro: filter_cong)

lemma after_snoc: "a < t \<Longrightarrow> after a (ts @ [t]) = after a ts @ [t]"
  by (simp add: after_def time_After_def)

definition times_of :: "string \<Rightarrow> (gotime \<times> string) list \<Rightarrow> gotime list" where
  "times_of key h = map fst (filter (\<lambda>(u, k). k = key) h)"

lemma times_of_snoc: "times_of key (h @ [(t, k)]) = times_of key h @ (if k = key then [t] else [])"
  by (simp add: times_of_def)

lemma length_in_window:
  assumes "\<forall>(u, k)\<in>set h. u \<le> t"
  shows "length (in_window w t key h) = length (after (t - w) (times_of key h))"
proof -
  have "in_window w t key h = filter (\<lambda>(u, k). k = key \<and> t - w < u) h"
    unfolding in_window_def using assms by (intro filter_cong) auto
  moreover have "length (filter (\<lambda>(u, k). k = key \<and> t - w < u) h) = length (after (t - w) (times_of key h))"
    by (induction h) (auto simp: after_def times_of_def time_After_def)
  ultimately show ?thesis by simp
qed

text \<open>The state holds, per key, the allowed times of the last window at least.\<close>

definition window_inv :: "int \<Rightarrow> gotime \<Rightarrow> (gotime \<times> string) list \<Rightarrow> LogLimiter \<Rightarrow> bool" where
  "window_inv w t h rl \<longleftrightarrow> wf_map (ll_entries rl) \<and> (\<forall>(u, k)\<in>set h. u \<le> t) \<and>
     (\<forall>key. after (t - w) (go_index [] (ll_entries rl) key) = after (t - w) (times_of key h))"

lemma window_inv_later:
  assumes "window_inv w t h rl" and "t \<le> t'"
  shows "window_inv w t' h rl"
proof -
  have eq: "after (t' - w) (after (t - w) xs) = after (t' - w) xs" for xs
    using assms(2) by (simp add: after_after)
  have "after (t' - w) (go_index [] (ll_entries rl) key) = after (t' - w) (times_of key h)" for key
  proof -
    have "after (t - w) (go_index [] (ll_entries rl) key) = after (t - w) (times_of key h)"
      using assms(1) by (simp add: window_inv_def)
    from arg_cong [OF this, of "after (t' - w)"] show ?thesis
      unfolding eq .
  qed
  moreover have "\<forall>(u, k)\<in>set h. u \<le> t'"
    using assms unfolding window_inv_def by auto
  ultimately show ?thesis
    using assms(1) by (simp add: window_inv_def)
qed

lemma window_negated:
  fixes d :: duration
  assumes "0 < sint d" and "sint d < 2 ^ 62"
  shows "sint (- d) = - sint d" "sint (- d * 2) = - (2 * sint d)"
proof -
  have "- d = word_of_int (- sint d)" "- d * 2 = word_of_int (- (2 * sint d))"
    by (simp_all add: wi_hom_neg [symmetric] wi_hom_mult [symmetric] mult.commute)
  moreover have "sint (word_of_int (- sint d) :: i64) = - sint d" "sint (word_of_int (- (2 * sint d)) :: i64) = - (2 * sint d)"
    using assms by (intro sint_i64_of_int; simp)+
  ultimately show "sint (- d) = - sint d" "sint (- d * 2) = - (2 * sint d)" by (simp_all only:)
qed

lemma map_of_cleanup_entries:
  "wf_map es \<Longrightarrow> go_index [] (filter (\<lambda>(k, ts). length ts \<noteq> 0) (map (\<lambda>(k, ts). (k, after a ts)) es)) key =
     after a (go_index [] es key)"
proof (induction es)
  case (Cons e es)
  obtain k ts where e: "e = (k, ts)" by (cases e)
  have "map_of (filter (\<lambda>(k, ts). length ts \<noteq> 0) (map (\<lambda>(k, ts). (k, after a ts)) es)) k = None"
    using Cons.prems e by (force simp: map_of_eq_None_iff)
  with Cons e show ?case
    by (auto simp: go_index_def split: if_splits)
qed (simp add: go_index_def after_def)

lemma window_cleanup_keeps:
  assumes "window_inv w t h rl" and "w = sint (ll_window rl)" and "0 < w" and "w < 2 ^ 62"
  shows "window_inv w t h ((cleanup t rl)\<lparr>ll_lastCleanup := u\<rparr>)"
proof -
  have "time_Add t (- ll_window rl * 2) = t - 2 * w"
    using assms window_negated [of "ll_window rl"] unfolding time_Add_def by linarith
  then have start: "time_Add t (- (ll_window rl * 2)) = t - 2 * w"
    by simp
  have "wf_map (filter (\<lambda>(k, ts). length ts \<noteq> 0) (map (\<lambda>(k, ts). (k, after a ts)) es))"
    if "wf_map es" for a and es :: "(string, gotime list) gomap"
    using that by (induction es) force+
  moreover have "after (t - w) (after (t - 2 * w) xs) = after (t - w) xs" for xs
    using assms(3) by (simp add: after_after)
  ultimately show ?thesis
    using assms(1) by (simp add: window_inv_def cleanup_def Let_def start map_of_cleanup_entries [simplified])
qed

lemma Allow_step:
  assumes "window_inv w t h rl" and "w = sint (ll_window rl)" and "0 < w" and "w < 2 ^ 62" and "0 < ll_max rl"
  shows "\<exists>rl'. Allow t key rl = (int (length (in_window w t key h)) < ll_max rl, rl') \<and>
    window_inv w t (if int (length (in_window w t key h)) < ll_max rl then h @ [(t, key)] else h) rl' \<and>
    ll_max rl' = ll_max rl \<and> ll_window rl' = ll_window rl"
proof -
  define rl1 where "rl1 = (if sint (time_Since t (ll_lastCleanup rl)) > sint (ll_cleanupInterval rl)
     then (cleanup t rl)\<lparr>ll_lastCleanup := t\<rparr> else rl)"
  have same: "ll_max rl1 = ll_max rl" "ll_window rl1 = ll_window rl"
    by (simp_all add: rl1_def cleanup_def Let_def)
  have inv: "window_inv w t h rl1"
    using assms(1) window_cleanup_keeps [OF assms(1-4)] by (simp add: rl1_def)
  have start: "time_Add t (- ll_window rl1) = t - w"
    using assms(2-4) window_negated [of "ll_window rl"] by (simp add: time_Add_def same)
  define ts where "ts = after (t - w) (go_index [] (ll_entries rl1) key)"
  have ts: "ts = after (t - w) (times_of key h)" "length ts = length (in_window w t key h)"
    using inv length_in_window [of h t w key] by (auto simp: window_inv_def ts_def)
  have allow: "Allow t key rl = (if int (length ts) \<ge> ll_max rl then (False, rl1)
      else (True, rl1\<lparr>ll_entries := go_put key (ts @ [t]) (ll_entries rl1)\<rparr>))"
    using assms(5) start unfolding Allow_def rl1_def [symmetric] Let_def ts_def same by simp
  have "window_inv w t (h @ [(t, key)]) (rl1\<lparr>ll_entries := go_put key (ts @ [t]) (ll_entries rl1)\<rparr>)"
  proof -
    have "after (t - w) ts = ts"
      unfolding ts_def by (simp add: after_after)
    then have "after (t - w) (ts @ [t]) = after (t - w) (times_of key (h @ [(t, key)]))"
      using assms(3) ts(1) by (simp add: after_snoc times_of_snoc)
    moreover have "go_index [] (go_put key (ts @ [t]) (ll_entries rl1)) k =
        (if k = key then ts @ [t] else go_index [] (ll_entries rl1) k)" for k
      by (simp add: go_index_def)
    ultimately show ?thesis
      using inv by (auto simp: window_inv_def times_of_snoc)
  qed
  with inv show ?thesis
    unfolding allow ts(2) using same by auto
qed

lemma run_allow_refines:
  assumes "window_inv w t0 h rl" and "w = sint (ll_window rl)" and "0 < w" and "w < 2 ^ 62" and "0 < ll_max rl"
    and "sorted (map fst calls)" and "\<forall>(t, k)\<in>set calls. t0 \<le> t"
  shows "run_allow calls rl = window_spec (ll_max rl) w h calls"
  using assms
proof (induction calls arbitrary: t0 h rl)
  case (Cons c calls)
  obtain t key where c: "c = (t, key)" by (cases c)
  define ok where "ok = (int (length (in_window w t key h)) < ll_max rl)"
  have "window_inv w t h rl"
    using window_inv_later [OF Cons.prems(1)] Cons.prems(7) c by auto
  from Allow_step [OF this Cons.prems(2-5), of key] obtain rl' where rl': "Allow t key rl = (ok, rl')"
    "window_inv w t (if ok then h @ [(t, key)] else h) rl'" "ll_max rl' = ll_max rl" "ll_window rl' = ll_window rl"
    unfolding ok_def by blast
  have "run_allow calls rl' = window_spec (ll_max rl') w (if ok then h @ [(t, key)] else h) calls"
    by (rule Cons.IH [OF rl'(2)]) (use Cons.prems c rl' in auto)
  then show ?case
    by (simp add: c rl' ok_def Let_def)
qed simp

lemma window_spec_bounded:
  assumes "\<forall>T k. int (length (in_window w T k h)) \<le> m" and "0 < m" and "0 < w"
    and "sorted (map fst calls)" and "\<forall>(u, k)\<in>set h. \<forall>(t, k')\<in>set calls. u \<le> t"
  shows "int (length (in_window w T k (h @ allowed calls (window_spec m w h calls)))) \<le> m"
  using assms
proof (induction calls arbitrary: h)
  case (Cons c calls)
  obtain t key where c: "c = (t, key)" by (cases c)
  define ok where "ok = (int (length (in_window w t key h)) < m)"
  define h' where "h' = (if ok then h @ [(t, key)] else h)"
  have "int (length (in_window w T' k' h')) \<le> m" for T' k'
  proof (cases "ok \<and> k' = key \<and> T' - w < t \<and> t \<le> T'")
    case True
    have "in_window w T' k' h = filter (\<lambda>(u, k). T' - w < u) (in_window w t key h)"
      using True Cons.prems(5) unfolding in_window_def filter_filter c by (intro filter_cong) auto
    then have "length (in_window w T' k' h) \<le> length (in_window w t key h)" by simp
    with True show ?thesis
      by (simp add: h'_def in_window_def ok_def)
  next
    case False
    then have "in_window w T' k' h' = in_window w T' k' h"
      by (auto simp: h'_def in_window_def)
    with Cons.prems(1) show ?thesis by simp
  qed
  moreover have "\<forall>(u, k)\<in>set h'. \<forall>(t', k')\<in>set calls. u \<le> t'"
    using Cons.prems(4,5) by (auto simp: h'_def c)
  ultimately have "int (length (in_window w T k (h' @ allowed calls (window_spec m w h' calls)))) \<le> m"
    using Cons.prems by (intro Cons.IH) (simp_all add: c)
  then show ?case
    by (simp add: c ok_def [symmetric] Let_def h'_def split: if_splits)
qed simp

text \<open>
  C37. The log limiter is an exact sliding window: for calls in the order of time, it allows a call
  exactly when fewer than the limit were allowed for its key in the window that ends there,
  whatever the periodic cleanup removed. So no window, wherever it ends, has more entries of a
  key than the limit.
\<close>

theorem log_limiter_is_a_sliding_window:
  assumes "0 < rc_MaxLogsPerSecond cfg" and "0 < sint (rc_WindowSize cfg)" and "sint (rc_WindowSize cfg) < 2 ^ 62"
    and "sorted (map fst calls)"
  shows "run_allow calls (NewLogLimiter cfg t0) = window_spec (rc_MaxLogsPerSecond cfg) (sint (rc_WindowSize cfg)) [] calls \<and>
    int (length (in_window (sint (rc_WindowSize cfg)) T key (allowed calls (run_allow calls (NewLogLimiter cfg t0))))) \<le>
      rc_MaxLogsPerSecond cfg"
proof -
  define start where "start = (if calls = [] then 0 else fst (hd calls))"
  have "run_allow calls (NewLogLimiter cfg t0) =
      window_spec (ll_max (NewLogLimiter cfg t0)) (sint (rc_WindowSize cfg)) [] calls"
  proof (rule run_allow_refines [where ?t0.0=start])
    show "window_inv (sint (rc_WindowSize cfg)) start [] (NewLogLimiter cfg t0)"
      by (simp add: window_inv_def NewLogLimiter_def times_of_def go_index_def)
    show "\<forall>(t, k)\<in>set calls. start \<le> t"
      using assms(4) by (cases calls) (auto simp: start_def)
  qed (use assms in \<open>simp_all add: NewLogLimiter_def\<close>)
  then have eq: "run_allow calls (NewLogLimiter cfg t0) =
      window_spec (rc_MaxLogsPerSecond cfg) (sint (rc_WindowSize cfg)) [] calls"
    by (simp add: NewLogLimiter_def)
  show ?thesis
    unfolding eq
    using window_spec_bounded [of "sint (rc_WindowSize cfg)" "[]" "rc_MaxLogsPerSecond cfg" calls T key] assms
    by (simp add: in_window_def)
qed

theorem log_limiter_is_a_sliding_window_witness:
  "run_allow [(0, ''a''), (10, ''a''), (20, ''b''), (1000000005, ''a'')] (NewLogLimiter (DefaultRateLimiterConfig\<lparr>rc_MaxLogsPerSecond := 1\<rparr>) 0) =
     [True, False, True, True]"
proof -
  define calls :: "(gotime \<times> string) list" where "calls = [(0, ''a''), (10, ''a''), (20, ''b''), (1000000005, ''a'')]"
  define cfg where "cfg = DefaultRateLimiterConfig\<lparr>rc_MaxLogsPerSecond := 1\<rparr>"
  have "rc_MaxLogsPerSecond cfg = 1" "sint (rc_WindowSize cfg) = 1000000000"
    by (simp_all add: cfg_def DefaultRateLimiterConfig_def time_Second_def)
  moreover have "sorted (map fst calls)" by (simp add: calls_def)
  ultimately have "run_allow calls (NewLogLimiter cfg 0) = window_spec 1 1000000000 [] calls"
    using log_limiter_is_a_sliding_window [of cfg calls 0] by simp
  also have "\<dots> = [True, False, True, True]"
    by (simp add: calls_def in_window_def Let_def)
  finally show ?thesis
    unfolding calls_def cfg_def .
qed

text \<open>A refusal removed nothing from the old slice, whose array the compaction overwrites.\<close>

definition slices_short :: "LogLimiter \<Rightarrow> bool" where
  "slices_short rl \<longleftrightarrow> (\<forall>key. int (length (go_index [] (ll_entries rl) key)) \<le> max 0 (ll_max rl))"

lemma length_after: "length (after a ts) \<le> length ts"
  by (simp add: after_def)

lemma Allow_slices_short:
  assumes "slices_short rl" and "wf_map (ll_entries rl)"
  shows "slices_short (snd (Allow t key rl))"
proof -
  define rl1 where "rl1 = (if sint (time_Since t (ll_lastCleanup rl)) > sint (ll_cleanupInterval rl)
     then (cleanup t rl)\<lparr>ll_lastCleanup := t\<rparr> else rl)"
  have le: "int (length (go_index [] (ll_entries rl1) k)) \<le> int (length (go_index [] (ll_entries rl) k))" for k
    using assms(2) by (simp add: rl1_def cleanup_def Let_def map_of_cleanup_entries [simplified] length_after)
  have same: "ll_max rl1 = ll_max rl"
    by (simp add: rl1_def cleanup_def Let_def)
  have short: "int (length (go_index [] (ll_entries rl1) k)) \<le> max 0 (ll_max rl1)" for k
    using order_trans [OF le] assms(1) unfolding same slices_short_def by blast
  then have "slices_short rl1" by (simp add: slices_short_def)
  with assms(1) short show ?thesis
    unfolding Allow_def rl1_def [symmetric] Let_def
    by (auto simp: slices_short_def go_index_def)
qed

lemma refused_unchanged:
  "int (length ts) \<le> m \<Longrightarrow> m \<le> int (length (after a ts)) \<Longrightarrow> after a ts = ts"
  unfolding after_def by (metis (no_types, lifting) filter_id_conv length_filter_less nat_int_comparison(2) order_trans not_le)

subsection \<open>The sampler counts twice\<close>

lemma inverses: "int_of_float (float_inverse float_0_1) = 10" "int_of_float (float_inverse float_0_01) = 100"
  by code_simp+

lemma thresholds: "u64_of_float oor (float_inverse float_0_1) = 10" "u64_of_float oor (float_inverse float_0_01) = 100"
  by (simp_all add: u64_of_float_def inverses)

fun sample_calls :: "64 word \<Rightarrow> log_level \<Rightarrow> bool \<Rightarrow> nat \<Rightarrow> Sampler \<Rightarrow> bool option list" where
  "sample_calls oor lvl isSuccess 0 s = []"
| "sample_calls oor lvl isSuccess (Suc n) s =
     (case ShouldLog oor 0 lvl isSuccess s of (r, s) \<Rightarrow> r # sample_calls oor lvl isSuccess n s)"

lemma counter_mod:
  assumes "2 * Suc i < 2 ^ 64" and "n < 2 ^ 64"
  shows "(of_nat (2 * i) + 1 + 1 :: 64 word) mod of_nat n = 0 \<longleftrightarrow> n dvd 2 * Suc i"
proof -
  have "of_nat (2 * i) + 1 + 1 = (of_nat (2 * Suc i) :: 64 word)"
    by simp
  moreover have "unat (of_nat k :: 64 word) = k" if "k < 2 ^ 64" for k
    using that by (simp add: unsigned_of_nat take_bit_nat_eq_self)
  then have "unat (of_nat (2 * Suc i) :: 64 word) = 2 * Suc i" "unat (of_nat n :: 64 word) = n"
    using assms by blast+
  ultimately have "unat ((of_nat (2 * i) + 1 + 1 :: 64 word) mod of_nat n) = 2 * Suc i mod n"
    by (simp only: unat_mod)
  then show ?thesis
    unfolding unat_eq_zero [symmetric] by (simp add: dvd_eq_mod_eq_0)
qed

lemma not_ge_1: "\<not> float_ge_1 float_0_1" "\<not> float_ge_1 float_0_01" "float_ge_1 float_1_0"
  "float_pos float_0_1" "float_pos float_0_01"
  by (simp_all add: float_ge_1_def float_pos_def float_0_1_def float_0_01_def float_1_0_def)

text \<open>The counter a call uses, and its threshold with the default rates.\<close>

fun counter_of :: "log_level \<Rightarrow> bool \<Rightarrow> Sampler \<Rightarrow> 64 word" where
  "counter_of InfoLevel True s = sa_successCounter s"
| "counter_of InfoLevel False s = sa_infoCounter s"
| "counter_of DebugLevel b s = sa_debugCounter s"
| "counter_of lvl b s = 0"

definition default_threshold :: "log_level \<Rightarrow> bool \<Rightarrow> nat" where
  "default_threshold lvl isSuccess = (if lvl = InfoLevel \<and> \<not> isSuccess then 10 else 100)"

lemma sampled_call:
  assumes "sa_config s = DefaultSamplerConfig" and "lvl = InfoLevel \<or> lvl = DebugLevel"
    and "counter_of lvl b s = of_nat (2 * i)" and "2 * Suc i < 2 ^ 64"
  shows "\<exists>s'. ShouldLog oor t lvl b s = (Some (default_threshold lvl b dvd 2 * Suc i), s') \<and>
    sa_config s' = DefaultSamplerConfig \<and> counter_of lvl b s' = of_nat (2 * Suc i)"
proof -
  have even: "(of_nat (2 * i) + 1 + 1 :: 64 word) = of_nat (2 * Suc i)"
    by simp
  have two: "2 + of_nat (2 * i) = (of_nat (2 * i) + 1 + 1 :: 64 word)"
    by simp
  have mods: "(2 + of_nat (2 * i) :: 64 word) mod 10 = 0 \<longleftrightarrow> 10 dvd Suc (Suc (2 * i))"
    "(2 + of_nat (2 * i) :: 64 word) mod 100 = 0 \<longleftrightarrow> 100 dvd Suc (Suc (2 * i))"
    unfolding two using counter_mod [OF assms(4), of 10] counter_mod [OF assms(4), of 100] by simp_all
  show ?thesis
    using assms(1-3) unfolding default_threshold_def
    by (cases b; elim disjE)
      (simp_all add: ShouldLog_def shouldSampleWithCounter_def DefaultSamplerConfig_def not_ge_1 thresholds Let_def
        mods even [symmetric] del: of_nat_mult)
qed

text \<open>
  The sampler logs twice as often as configured: each call counts its counter twice, so with the
  default rates of 10, 1 and 1 percent every fifth of the info entries and every fiftieth of the
  entries for successes and for debugging is logged. Errors and warnings are all logged.
\<close>

theorem default_sampling_rates:
  assumes "2 * n < 2 ^ 64"
  shows "sample_calls oor InfoLevel False n (NewSampler DefaultSamplerConfig) = map (\<lambda>i. Some (5 dvd Suc i)) [0..<n] \<and>
    sample_calls oor InfoLevel True n (NewSampler DefaultSamplerConfig) = map (\<lambda>i. Some (50 dvd Suc i)) [0..<n] \<and>
    sample_calls oor DebugLevel b n (NewSampler DefaultSamplerConfig) = map (\<lambda>i. Some (50 dvd Suc i)) [0..<n] \<and>
    fst (ShouldLog oor t ErrorLevel b (NewSampler DefaultSamplerConfig)) = Some True \<and>
    fst (ShouldLog oor t WarnLevel b (NewSampler DefaultSamplerConfig)) = Some True"
proof -
  have run: "sample_calls oor lvl b k s = map (\<lambda>i. Some (default_threshold lvl b dvd 2 * Suc i)) [j..<j + k]"
    if "sa_config s = DefaultSamplerConfig" "lvl = InfoLevel \<or> lvl = DebugLevel" "counter_of lvl b s = of_nat (2 * j)"
      "2 * (j + k) < 2 ^ 64" for lvl b s j k
    using that
  proof (induction k arbitrary: s j)
    case (Suc k)
    have "2 * Suc j < 2 ^ 64" using Suc.prems(4) by simp
    from sampled_call [OF Suc.prems(1-3) this] obtain s' where s':
      "ShouldLog oor 0 lvl b s = (Some (default_threshold lvl b dvd 2 * Suc j), s')"
      "sa_config s' = DefaultSamplerConfig" "counter_of lvl b s' = of_nat (2 * Suc j)" by blast
    have "sample_calls oor lvl b k s' = map (\<lambda>i. Some (default_threshold lvl b dvd 2 * Suc i)) [Suc j..<Suc j + k]"
      by (rule Suc.IH [OF s'(2) Suc.prems(2) s'(3)]) (use Suc.prems(4) in simp)
    moreover have "[j..<j + Suc k] = j # [Suc j..<Suc j + k]"
      by (simp add: upt_conv_Cons)
    ultimately show ?case
      by (simp add: s'(1) del: upt_Suc mult_Suc_right)
  qed simp
  have halves: "(10 dvd 2 * Suc i) = (5 dvd Suc i)" "(100 dvd 2 * Suc i) = (50 dvd Suc i)" for i
    using dvd_times_left_cancel_iff [of 2 5 "Suc i"] dvd_times_left_cancel_iff [of 2 50 "Suc i"] by simp_all
  have start: "sa_config (NewSampler DefaultSamplerConfig) = DefaultSamplerConfig"
    "counter_of lvl b (NewSampler DefaultSamplerConfig) = of_nat (2 * 0)" if "lvl = InfoLevel \<or> lvl = DebugLevel" for lvl b
    using that by (cases b; auto simp: NewSampler_def)+
  have "sample_calls oor lvl b n (NewSampler DefaultSamplerConfig) =
      map (\<lambda>i. Some (default_threshold lvl b dvd 2 * Suc i)) [0..<n]" if "lvl = InfoLevel \<or> lvl = DebugLevel" for lvl b
    using run [OF start(1) [OF that] that start(2) [OF that], of n] assms by simp
  then show ?thesis
    by (simp add: default_threshold_def halves ShouldLog_def NewSampler_def DefaultSamplerConfig_def not_ge_1
        del: mult_Suc_right)
qed

theorem default_sampling_rates_witness:
  "sample_calls 0 InfoLevel False 10 (NewSampler DefaultSamplerConfig) =
     map Some [False, False, False, False, True, False, False, False, False, True]"
proof -
  have "sample_calls 0 InfoLevel False 10 (NewSampler DefaultSamplerConfig) = map (\<lambda>i. Some (5 dvd Suc i)) [0..<10]"
    using default_sampling_rates [of 10 0] by simp
  also have "\<dots> = map Some [False, False, False, False, True, False, False, False, False, True]"
    by code_simp
  finally show ?thesis .
qed

end
