(* ===== verification/Tools.thy ===== *)
theory Tools
  imports Validation Evaluation
begin

text \<open>
  What stands beside the controller: cmd/validate-examples, which runs the validator over
  files, the lister of infrastructure.go that asks the API server, and the event sink of
  internal/events. Reading files, the YAML parser and the API server are arguments.
\<close>

subsection \<open>cmd/validate-examples\<close>

datatype example_file = Unreadable string | YamlError string | ParsedPolicy GarbageCollectionPolicy

datatype example_error = ReadFailed string | ParseFailed string | ValidationError validation_error

fun validate_loop ::
    "k8s_syntax \<Rightarrow> (string \<times> example_file) list \<Rightarrow> (string \<times> example_error) list \<Rightarrow> nat \<Rightarrow>
      (string \<times> example_error) list \<times> nat" where
  "validate_loop k8s [] errors validCount = (errors, validCount)"
| "validate_loop k8s ((fname, content) # files) errors validCount =
     (if contains fname ''README'' then validate_loop k8s files errors validCount
      else
        (case content of
           Unreadable err \<Rightarrow> validate_loop k8s files (errors @ [(fname, ReadFailed err)]) validCount
         | YamlError err \<Rightarrow> validate_loop k8s files (errors @ [(fname, ParseFailed err)]) validCount
         | ParsedPolicy policy \<Rightarrow>
             (case ValidatePolicy k8s policy of
                Inl err \<Rightarrow> validate_loop k8s files (errors @ [(fname, ValidationError err)]) validCount
              | Inr _ \<Rightarrow> validate_loop k8s files errors (validCount + 1))))"

text \<open>The exit code, the errors that are printed, and the number of valid files.\<close>

definition validate_examples ::
    "k8s_syntax \<Rightarrow> string + (string \<times> example_file) list \<Rightarrow> int \<times> (string \<times> example_error) list \<times> nat" where
  "validate_examples k8s glob =
     (case glob of
        Inl err \<Rightarrow> (1, [], 0)
      | Inr files \<Rightarrow>
          (let (errors, validCount) = validate_loop k8s files [] 0
           in if length errors > 0 then (1, errors, validCount) else (0, [], validCount)))"

definition example_ok :: "k8s_syntax \<Rightarrow> string \<times> example_file \<Rightarrow> bool" where
  "example_ok k8s f = (case snd f of ParsedPolicy p \<Rightarrow> is_ok (ValidatePolicy k8s p) | _ \<Rightarrow> False)"

lemma validate_loop_eq:
  "\<exists>errs. validate_loop k8s files errors n =
     (errors @ errs, n + length (filter (\<lambda>f. \<not> contains (fst f) ''README'' \<and> example_ok k8s f) files)) \<and>
     map fst errs = map fst (filter (\<lambda>f. \<not> contains (fst f) ''README'' \<and> \<not> example_ok k8s f) files)"
proof (induction files arbitrary: errors n)
  case (Cons f files)
  obtain fname content where f: "f = (fname, content)" by (cases f)
  show ?case
  proof (cases "contains fname ''README''")
    case True
    with Cons [of errors n] show ?thesis by (simp add: f)
  next
    case False
    have step: "validate_loop k8s (f # files) errors n =
      (if example_ok k8s f then validate_loop k8s files errors (n + 1)
       else validate_loop k8s files (errors @ [(fname, case content of Unreadable e \<Rightarrow> ReadFailed e | YamlError e \<Rightarrow> ParseFailed e
         | ParsedPolicy p \<Rightarrow> (case ValidatePolicy k8s p of Inl e \<Rightarrow> ValidationError e | Inr _ \<Rightarrow> undefined))]) n)"
      using False by (auto simp: f example_ok_def split: example_file.split sum.split)
    show ?thesis
    proof (cases "example_ok k8s f")
      case True
      with Cons [of errors "n + 1"] False show ?thesis
        unfolding step by (auto simp: f)
    next
      case bad: False
      define e where "e = (fname, case content of Unreadable e \<Rightarrow> ReadFailed e | YamlError e \<Rightarrow> ParseFailed e
         | ParsedPolicy p \<Rightarrow> (case ValidatePolicy k8s p of Inl e \<Rightarrow> ValidationError e | Inr _ \<Rightarrow> undefined))"
      obtain errs where "validate_loop k8s files (errors @ [e]) n =
          (errors @ [e] @ errs, n + length (filter (\<lambda>f. \<not> contains (fst f) ''README'' \<and> example_ok k8s f) files))"
        "map fst errs = map fst (filter (\<lambda>f. \<not> contains (fst f) ''README'' \<and> \<not> example_ok k8s f) files)"
        using Cons [of "errors @ [e]" n] by auto
      with bad False show ?thesis
        unfolding step e_def [symmetric] by (intro exI [of _ "e # errs"]) (simp add: f e_def)
    qed
  qed
qed simp

text \<open>
  The tool accepts exactly the good directories: it exits with 0 if and only if every file whose
  name has no README parses to a policy that the validator accepts; otherwise it exits with 1
  and names exactly the files at fault, in order.
\<close>

theorem validate_examples_exact:
  "let judged = filter (\<lambda>f. \<not> contains (fst f) ''README'') files; r = validate_examples k8s (Inr files)
   in fst r = (if list_all (example_ok k8s) judged then 0 else 1) \<and>
      map fst (fst (snd r)) = map fst (filter (\<lambda>f. \<not> example_ok k8s f) judged) \<and>
      snd (snd r) = length (filter (example_ok k8s) judged)"
proof -
  obtain errs where loop: "validate_loop k8s files [] 0 =
      (errs, length (filter (\<lambda>f. \<not> contains (fst f) ''README'' \<and> example_ok k8s f) files))"
    and errs: "map fst errs = map fst (filter (\<lambda>f. \<not> contains (fst f) ''README'' \<and> \<not> example_ok k8s f) files)"
    using validate_loop_eq [of k8s files "[]" 0] by auto
  have "map fst errs = [] \<longleftrightarrow> list_all (example_ok k8s) (filter (\<lambda>f. \<not> contains (fst f) ''README'') files)"
    unfolding errs by (force simp: list_all_iff filter_empty_conv)
  then have "errs = [] \<longleftrightarrow> list_all (example_ok k8s) (filter (\<lambda>f. \<not> contains (fst f) ''README'') files)"
    by simp
  then show ?thesis
    using errs by (auto simp: validate_examples_def loop Let_def conj_commute)
qed

subsection \<open>infrastructure.go: listing through the API server\<close>

text \<open>The list call: for one namespace, or for all.\<close>

definition api_ListResources ::
    "(string option \<Rightarrow> go_error + resource list) \<Rightarrow> string \<Rightarrow> go_error + resource list" where
  "api_ListResources list_call namespace =
     (if namespace = [] then list_call None else list_call (Some namespace))"

text \<open>Documented behaviour: a call for a namespace lists its objects.\<close>

definition lists_namespaces :: "(string option \<Rightarrow> go_error + resource list) \<Rightarrow> resource list \<Rightarrow> bool" where
  "lists_namespaces list_call rs \<longleftrightarrow>
     list_call None = Inr rs \<and> (\<forall>ns. list_call (Some ns) = Inr (filter (\<lambda>r. res_Namespace r = ns) rs))"

text \<open>
  The two listers agree for every namespace but the star: the lister over the informer takes it
  for all namespaces, the lister over the API server for a namespace of that name, which no
  object has.
\<close>

theorem listers_agree_but_for_the_star:
  assumes "lists_namespaces list_call rs"
  shows "(ns \<noteq> ''*'' \<longrightarrow> api_ListResources list_call ns = Inr (store_ListResources (map Some rs) ns)) \<and>
    ((\<forall>r\<in>set rs. res_Namespace r \<noteq> ''*'') \<longrightarrow>
       api_ListResources list_call ''*'' = Inr [] \<and> store_ListResources (map Some rs) ''*'' = rs)"
proof -
  have "store_ListResources (map Some rs) ns =
      (if ns = [] \<or> ns = ''*'' then rs else filter (\<lambda>r. res_Namespace r = ns) rs)" for ns
    by (induction rs) (auto simp: store_ListResources_def)
  then show ?thesis
    using assms by (auto simp: lists_namespaces_def api_ListResources_def filter_empty_conv)
qed

theorem listers_agree_but_for_the_star_witness:
  "store_ListResources (map Some [plain_resource ''ns'' ''a'' 0]) ''*'' = [plain_resource ''ns'' ''a'' 0]"
proof -
  define rs where "rs = [plain_resource ''ns'' ''a'' 0]"
  have "lists_namespaces (\<lambda>ns. Inr (case ns of None \<Rightarrow> rs | Some n \<Rightarrow> filter (\<lambda>r. res_Namespace r = n) rs)) rs"
    by (simp add: lists_namespaces_def)
  from listers_agree_but_for_the_star [OF this] show ?thesis
    by (simp add: rs_def plain_resource_def)
qed

text \<open>
  The wrappers around a shared informer of client-go and its factory: \<open>'i\<close> is the informer, the
  record holds the methods that the wrappers call.
\<close>

record ('i, 'f, 's, 'h, 'r) informer_lib =
  lib_GetStore :: "'i \<Rightarrow> 's"
  lib_HasSynced :: "'i \<Rightarrow> bool"
  lib_AddEventHandler :: "'i \<Rightarrow> 'h \<Rightarrow> go_error + 'r"
  lib_ForResource :: "'f \<Rightarrow> GroupVersionResource \<Rightarrow> 'i"
  lib_Start :: "'f \<Rightarrow> 'f"

record 'i DefaultResourceInformer =
  di_informer :: 'i

definition NewDefaultResourceInformer :: "'i \<Rightarrow> 'i DefaultResourceInformer" where
  "NewDefaultResourceInformer i = \<lparr>di_informer = i\<rparr>"

definition di_GetStore :: "('i, 'f, 's, 'h, 'r) informer_lib \<Rightarrow> 'i DefaultResourceInformer \<Rightarrow> 's" where
  "di_GetStore lib d = lib_GetStore lib (di_informer d)"

definition di_HasSynced :: "('i, 'f, 's, 'h, 'r) informer_lib \<Rightarrow> 'i DefaultResourceInformer \<Rightarrow> bool" where
  "di_HasSynced lib d = lib_HasSynced lib (di_informer d)"

definition di_AddEventHandler ::
    "('i, 'f, 's, 'h, 'r) informer_lib \<Rightarrow> 'i DefaultResourceInformer \<Rightarrow> 'h \<Rightarrow> go_error + 'r" where
  "di_AddEventHandler lib d handler = lib_AddEventHandler lib (di_informer d) handler"

record 'f DefaultResourceInformerFactory =
  df_factory :: 'f

definition NewDefaultResourceInformerFactory :: "'f \<Rightarrow> 'f DefaultResourceInformerFactory" where
  "NewDefaultResourceInformerFactory f = \<lparr>df_factory = f\<rparr>"

definition df_ForResource ::
    "('i, 'f, 's, 'h, 'r) informer_lib \<Rightarrow> 'f DefaultResourceInformerFactory \<Rightarrow> GroupVersionResource \<Rightarrow> 'i DefaultResourceInformer" where
  "df_ForResource lib f gvr = NewDefaultResourceInformer (lib_ForResource lib (df_factory f) gvr)"

definition df_Start ::
    "('i, 'f, 's, 'h, 'r) informer_lib \<Rightarrow> 'f DefaultResourceInformerFactory \<Rightarrow> 'f DefaultResourceInformerFactory" where
  "df_Start lib f = f\<lparr>df_factory := lib_Start lib (df_factory f)\<rparr>"

subsection \<open>internal/events\<close>

text \<open>The sink: an answer that the cluster has no events for the object counts as success.\<close>

definition sink_Create :: "('e \<Rightarrow> go_error + 'e) \<Rightarrow> 'e \<Rightarrow> go_error + 'e" where
  "sink_Create create event =
     (case create event of
        Inl err \<Rightarrow> if contains (error_text err) ''does not allow this method'' then Inr event else Inl err
      | Inr created \<Rightarrow> Inr created)"

definition sink_Update :: "('e \<Rightarrow> go_error + 'e) \<Rightarrow> 'e \<Rightarrow> go_error + 'e" where
  "sink_Update update event = update event"

definition sink_Patch :: "(string \<Rightarrow> 'd \<Rightarrow> go_error + 'e) \<Rightarrow> ('e \<Rightarrow> string) \<Rightarrow> 'e \<Rightarrow> 'd \<Rightarrow> go_error + 'e" where
  "sink_Patch patch event_Name oldEvent patch_data = patch (event_Name oldEvent) patch_data"

text \<open>
  A recorder is that of client-go for a component, whose broadcaster writes to the events of a
  client, or to nothing when there is none. It is never nil, as \<open>World\<close> has it.
\<close>

record 'c Recorder =
  rec_sink :: "'c option"
  rec_component :: string

definition NewRecorder :: "'c option \<Rightarrow> string \<Rightarrow> 'c Recorder" where
  "NewRecorder client component = \<lparr>rec_sink = client, rec_component = component\<rparr>"

definition NewEventRecorder :: "'c option \<Rightarrow> 'c Recorder" where
  "NewEventRecorder client = NewRecorder client ''gc-controller''"

definition events_Event ::
    "EventRecorder \<Rightarrow> GarbageCollectionPolicy \<Rightarrow> string \<Rightarrow> string \<Rightarrow> string \<Rightarrow> effect list" where
  "events_Event er policy eventType reason message =
     (if er = None \<or> er = Some False then []
      else [SendEvent (gp_Namespace policy) (gp_Name policy) eventType reason message])"

definition GetResourceName :: "string option \<Rightarrow> string" where
  "GetResourceName name = (case name of Some n \<Rightarrow> n | None \<Rightarrow> ''unknown'')"

subsection \<open>A filter for informers\<close>

text \<open>
  The label selector of the options of a list call. The first argument is the text of a selector,
  or \<open>None\<close> when the API machinery rejects it. Nothing in the program calls the function; its
  informers hold all resources of their target.
\<close>

definition buildLabelSelectorFilter ::
    "(LabelSelector \<Rightarrow> string option) \<Rightarrow> GarbageCollectionPolicy \<Rightarrow> string \<Rightarrow> string" where
  "buildLabelSelectorFilter selector_text policy options =
     (case tr_LabelSelector (gs_TargetResource (gp_Spec policy)) of
        None \<Rightarrow> options
      | Some ls \<Rightarrow> (case selector_text ls of Some t \<Rightarrow> t | None \<Rightarrow> options))"

subsection \<open>register.go: the names of the API\<close>

definition GroupName :: string where "GroupName = ''gc.ops.zen-mesh.io''"

text \<open>A group with its version, and names within the group.\<close>

definition SchemeGroupVersion :: "string \<times> string" where
  "SchemeGroupVersion = (GroupName, ''v1alpha1'')"

definition Kind_of_group :: "string \<Rightarrow> string \<times> string" where
  "Kind_of_group kind = (fst SchemeGroupVersion, kind)"

definition Resource_of_group :: "string \<Rightarrow> string \<times> string" where
  "Resource_of_group resource = (fst SchemeGroupVersion, resource)"

text \<open>
  A scheme knows types by their group version and kind, and group versions; both are calls of the
  API machinery.
\<close>

definition addKnownTypes ::
    "(string \<times> string \<Rightarrow> string list \<Rightarrow> 'sch \<Rightarrow> 'sch) \<Rightarrow> (string \<times> string \<Rightarrow> 'sch \<Rightarrow> 'sch) \<Rightarrow> 'sch \<Rightarrow> 'sch" where
  "addKnownTypes add_types add_group scheme =
     add_group SchemeGroupVersion
       (add_types SchemeGroupVersion [''GarbageCollectionPolicy'', ''GarbageCollectionPolicyList''] scheme)"

text \<open>
  The names fit together: the resource under which the status updater writes policies is what the
  controller itself derives from the registered group, version and kind.
\<close>

theorem policy_resource_is_registered:
  "ParseGVR split_gv (fst SchemeGroupVersion @ ''/'' @ snd SchemeGroupVersion) (snd (Kind_of_group ''GarbageCollectionPolicy'')) =
     Inr PolicyGVR \<and>
   (gvr_Group PolicyGVR, gvr_Resource PolicyGVR) = Resource_of_group ''garbagecollectionpolicies''"
  by code_simp

end
