(* ===== verification/Deep_Copy.thy ===== *)
theory Deep_Copy
  imports Api_Types
begin

text \<open>
  The copies of pkg/api/v1alpha1/zz_generated.deepcopy.go, over an explicit store. The other
  theories see a policy as a value, in which a pointer is an option and a slice a list; here a
  policy is what the program holds, structs with addresses in them. A copy is right when it
  looks the same and reaches no cell of the original. All copies are, with one exception: the
  copy of a spec keeps the pointer \<open>EvaluationInterval\<close> of the original.
\<close>

subsection \<open>The store\<close>

type_synonym addr = nat

record mem_FieldCondition =
  mfc_FieldPath :: string
  mfc_Operator :: string
  mfc_Value :: string
  mfc_Values :: "addr option"

record mem_ConditionsSpec =
  mcs_Phase :: "addr option"
  mcs_HasLabels :: "addr option"
  mcs_HasAnnotations :: "addr option"
  mcs_And :: "addr option"

record mem_FieldSelectorSpec =
  mfs_MatchFields :: "addr option"

record mem_TargetResourceSpec =
  mtr_APIVersion :: string
  mtr_Kind :: string
  mtr_Namespace :: string
  mtr_LabelSelector :: "addr option"
  mtr_FieldSelector :: "addr option"

record mem_TTLSpec =
  mttl_SecondsAfterCreation :: "addr option"
  mttl_FieldPath :: string
  mttl_Mappings :: "addr option"
  mttl_Default :: "addr option"
  mttl_RelativeTo :: string
  mttl_SecondsAfter :: "addr option"

record mem_BehaviorSpec =
  mbh_MaxDeletionsPerSecond :: int
  mbh_BatchSize :: int
  mbh_DryRun :: bool
  mbh_Finalizer :: string
  mbh_PropagationPolicy :: string
  mbh_GracePeriodSeconds :: "addr option"

record mem_PolicySpec =
  mgs_TargetResource :: mem_TargetResourceSpec
  mgs_TTL :: mem_TTLSpec
  mgs_Conditions :: "addr option"
  mgs_Behavior :: mem_BehaviorSpec
  mgs_EvaluationInterval :: "addr option"
  mgs_Paused :: bool

record mem_PolicyStatus =
  mst_Phase :: string
  mst_ResourcesMatched :: int
  mst_ResourcesDeleted :: int
  mst_ResourcesPending :: int
  mst_LastGCRun :: "addr option"
  mst_NextGCRun :: "addr option"
  mst_Conditions :: "addr option"

text \<open>The structs of the package meta/v1 are the type \<open>'o\<close>; \<open>TypeMeta\<close> is two strings.\<close>

record 'o mem_Policy =
  mgp_TypeMeta :: "string \<times> string"
  mgp_ObjectMeta :: 'o
  mgp_Spec :: mem_PolicySpec
  mgp_Status :: mem_PolicyStatus

record 'o mem_PolicyList =
  mpl_TypeMeta :: "string \<times> string"
  mpl_ListMeta :: 'o
  mpl_Items :: "addr option"

text \<open>
  What an address holds: the target of a pointer, a Go map, or the array of a slice, which no
  other slice overlaps. A cell that was made and not yet filled is \<open>Zeroed\<close>.
\<close>

datatype 'o cell =
    Zeroed
  | Int64 (the_Int64: i64)
  | Duration (the_Duration: i64)
  | IntMap (the_IntMap: "(string, i64) gomap")
  | StringMap (the_StringMap: "(string, string) gomap")
  | Strings (the_Strings: "string list")
  | LabelConditions (the_LabelConditions: "LabelCondition list")
  | AnnotationConditions (the_AnnotationConditions: "AnnotationCondition list")
  | FieldConditions (the_FieldConditions: "mem_FieldCondition list")
  | Policies (the_Policies: "'o mem_Policy list")
  | Metas (the_Metas: "'o list")
  | Meta (the_Meta: 'o)
  | ALabelCondition (the_LabelCondition: LabelCondition)
  | AnAnnotationCondition (the_AnnotationCondition: AnnotationCondition)
  | AFieldCondition (the_FieldCondition: mem_FieldCondition)
  | AConditionsSpec (the_ConditionsSpec: mem_ConditionsSpec)
  | AFieldSelectorSpec (the_FieldSelectorSpec: mem_FieldSelectorSpec)
  | ATargetResourceSpec (the_TargetResourceSpec: mem_TargetResourceSpec)
  | ATTLSpec (the_TTLSpec: mem_TTLSpec)
  | ABehaviorSpec (the_BehaviorSpec: mem_BehaviorSpec)
  | APolicySpec (the_PolicySpec: mem_PolicySpec)
  | APolicyStatus (the_PolicyStatus: mem_PolicyStatus)
  | APolicy (the_Policy: "'o mem_Policy")
  | APolicyList (the_PolicyList: "'o mem_PolicyList")

record 'o store =
  st_next :: addr
  st_cells :: "addr \<Rightarrow> 'o cell"

definition alloc :: "'o store \<Rightarrow> addr \<times> 'o store" where
  "alloc h = (st_next h, h\<lparr>st_next := Suc (st_next h), st_cells := (st_cells h)(st_next h := Zeroed)\<rparr>)"

definition put_cell :: "addr \<Rightarrow> 'o cell \<Rightarrow> 'o store \<Rightarrow> 'o store" where
  "put_cell a c h = h\<lparr>st_cells := (st_cells h)(a := c)\<rparr>"

lemma store_simps [simp]:
  "st_next (put_cell a c h) = st_next h" "st_cells (put_cell a c h) = (st_cells h)(a := c)"
  "fst (alloc h) = st_next h" "st_next (snd (alloc h)) = Suc (st_next h)"
  "st_cells (snd (alloc h)) = (st_cells h)(st_next h := Zeroed)"
  by (simp_all add: put_cell_def alloc_def)

subsection \<open>The steps of a copy\<close>

text \<open>A copying takes the receiver and gives what it leaves in \<open>out\<close>.\<close>

type_synonym ('a, 'o) copying = "'a \<Rightarrow> 'o store \<Rightarrow> 'a \<times> 'o store"

text \<open>
  The block for a field that is a pointer, a map or a slice: nil stays nil; otherwise a cell is
  made and filled with the copy of what the old one holds. The body of every \<open>DeepCopy\<close> is the
  same block. \<open>copy_items\<close> is the loop over a slice, \<open>copy_entries\<close> the one over a map, and a
  struct is a shallow copy of which fields are then replaced in turn.
\<close>

definition new_copy :: "('o cell \<Rightarrow> 'a) \<Rightarrow> ('a \<Rightarrow> 'o cell) \<Rightarrow> ('a, 'o) copying \<Rightarrow> (addr option, 'o) copying" where
  "new_copy get put copy p h =
     (case p of
        None \<Rightarrow> (None, h)
      | Some a \<Rightarrow>
          (let (b, h) = alloc h;
               (y, h) = copy (get (st_cells h a)) h
           in (Some b, put_cell b (put y) h)))"

definition assign :: "('a, 'o) copying" where
  "assign x h = (x, h)"

fun copy_items :: "('a, 'o) copying \<Rightarrow> ('a list, 'o) copying" where
  "copy_items copy [] h = ([], h)"
| "copy_items copy (x # xs) h =
     (let (y, h) = copy x h;
          (ys, h) = copy_items copy xs h
      in (y # ys, h))"

definition copy_entries :: "(('k, 'v) gomap, 'o) copying" where
  "copy_entries m h = (go_put_all m [], h)"

definition set_field :: "('a \<Rightarrow> 'b) \<Rightarrow> (('b \<Rightarrow> 'b) \<Rightarrow> 'a \<Rightarrow> 'a) \<Rightarrow> ('b, 'o) copying \<Rightarrow> ('a, 'o) copying" where
  "set_field get upd copy x h = (let (y, h) = copy (get x) h in (upd (\<lambda>_. y) x, h))"

fun in_order :: "('a, 'o) copying list \<Rightarrow> ('a, 'o) copying" where
  "in_order [] x h = (x, h)"
| "in_order (c # cs) x h = (let (x, h) = c x h in in_order cs x h)"

definition copy_int64 :: "(addr option, 'o) copying" where
  "copy_int64 = new_copy the_Int64 Int64 assign"

definition copy_strings :: "(addr option, 'o) copying" where
  "copy_strings = new_copy the_Strings Strings (copy_items assign)"

subsection \<open>The generated functions\<close>

definition LabelCondition_DeepCopyInto :: "(LabelCondition, 'o) copying" where
  "LabelCondition_DeepCopyInto = assign"

definition LabelCondition_DeepCopy :: "(addr option, 'o) copying" where
  "LabelCondition_DeepCopy = new_copy the_LabelCondition ALabelCondition LabelCondition_DeepCopyInto"

definition AnnotationCondition_DeepCopyInto :: "(AnnotationCondition, 'o) copying" where
  "AnnotationCondition_DeepCopyInto = assign"

definition AnnotationCondition_DeepCopy :: "(addr option, 'o) copying" where
  "AnnotationCondition_DeepCopy = new_copy the_AnnotationCondition AnAnnotationCondition AnnotationCondition_DeepCopyInto"

definition FieldCondition_DeepCopyInto :: "(mem_FieldCondition, 'o) copying" where
  "FieldCondition_DeepCopyInto = in_order [set_field mfc_Values mfc_Values_update copy_strings]"

definition FieldCondition_DeepCopy :: "(addr option, 'o) copying" where
  "FieldCondition_DeepCopy = new_copy the_FieldCondition AFieldCondition FieldCondition_DeepCopyInto"

definition FieldSelectorSpec_DeepCopyInto :: "(mem_FieldSelectorSpec, 'o) copying" where
  "FieldSelectorSpec_DeepCopyInto =
     in_order [set_field mfs_MatchFields mfs_MatchFields_update (new_copy the_StringMap StringMap copy_entries)]"

definition FieldSelectorSpec_DeepCopy :: "(addr option, 'o) copying" where
  "FieldSelectorSpec_DeepCopy = new_copy the_FieldSelectorSpec AFieldSelectorSpec FieldSelectorSpec_DeepCopyInto"

definition BehaviorSpec_DeepCopyInto :: "(mem_BehaviorSpec, 'o) copying" where
  "BehaviorSpec_DeepCopyInto = in_order [set_field mbh_GracePeriodSeconds mbh_GracePeriodSeconds_update copy_int64]"

definition BehaviorSpec_DeepCopy :: "(addr option, 'o) copying" where
  "BehaviorSpec_DeepCopy = new_copy the_BehaviorSpec ABehaviorSpec BehaviorSpec_DeepCopyInto"

definition ConditionsSpec_DeepCopyInto :: "(mem_ConditionsSpec, 'o) copying" where
  "ConditionsSpec_DeepCopyInto = in_order
     [set_field mcs_Phase mcs_Phase_update copy_strings,
      set_field mcs_HasLabels mcs_HasLabels_update
        (new_copy the_LabelConditions LabelConditions (copy_items assign)),
      set_field mcs_HasAnnotations mcs_HasAnnotations_update
        (new_copy the_AnnotationConditions AnnotationConditions (copy_items assign)),
      set_field mcs_And mcs_And_update
        (new_copy the_FieldConditions FieldConditions (copy_items FieldCondition_DeepCopyInto))]"

definition ConditionsSpec_DeepCopy :: "(addr option, 'o) copying" where
  "ConditionsSpec_DeepCopy = new_copy the_ConditionsSpec AConditionsSpec ConditionsSpec_DeepCopyInto"

definition TTLSpec_DeepCopyInto :: "(mem_TTLSpec, 'o) copying" where
  "TTLSpec_DeepCopyInto = in_order
     [set_field mttl_SecondsAfterCreation mttl_SecondsAfterCreation_update copy_int64,
      set_field mttl_Mappings mttl_Mappings_update (new_copy the_IntMap IntMap copy_entries),
      set_field mttl_Default mttl_Default_update copy_int64,
      set_field mttl_SecondsAfter mttl_SecondsAfter_update copy_int64]"

definition TTLSpec_DeepCopy :: "(addr option, 'o) copying" where
  "TTLSpec_DeepCopy = new_copy the_TTLSpec ATTLSpec TTLSpec_DeepCopyInto"

text \<open>
  What the program uses of the package meta/v1, which is not part of the sources: \<open>DeepCopyInto\<close>
  of its structs and \<open>DeepCopy\<close> of a time. How its structs look and what they reach is
  \<open>am_shape\<close>, of a type that comes below.
\<close>

record ('a, 'o, 'v) shape =
  sh_view :: "'a \<Rightarrow> 'o store \<Rightarrow> 'v"
  sh_cells :: "'a \<Rightarrow> 'o store \<Rightarrow> addr set"
  sh_keep :: "'a \<Rightarrow> 'o store \<Rightarrow> addr set"
  sh_tidy :: "'a \<Rightarrow> 'o store \<Rightarrow> bool"

record ('o, 'v) apimachinery =
  am_DeepCopyInto :: "('o, 'o) copying"
  am_Time_DeepCopy :: "(addr option, 'o) copying"
  am_shape :: "('o, 'o, 'v) shape"
  am_selector :: "'v \<Rightarrow> LabelSelector"
  am_time :: "'v \<Rightarrow> int"

definition TargetResourceSpec_DeepCopyInto ::
    "('o, 'v) apimachinery \<Rightarrow> (mem_TargetResourceSpec, 'o) copying" where
  "TargetResourceSpec_DeepCopyInto am = in_order
     [set_field mtr_LabelSelector mtr_LabelSelector_update (new_copy the_Meta Meta (am_DeepCopyInto am)),
      set_field mtr_FieldSelector mtr_FieldSelector_update
        (new_copy the_FieldSelectorSpec AFieldSelectorSpec FieldSelectorSpec_DeepCopyInto)]"

definition TargetResourceSpec_DeepCopy :: "('o, 'v) apimachinery \<Rightarrow> (addr option, 'o) copying" where
  "TargetResourceSpec_DeepCopy am =
     new_copy the_TargetResourceSpec ATargetResourceSpec (TargetResourceSpec_DeepCopyInto am)"

definition GarbageCollectionPolicySpec_DeepCopyInto :: "('o, 'v) apimachinery \<Rightarrow> (mem_PolicySpec, 'o) copying" where
  "GarbageCollectionPolicySpec_DeepCopyInto am = in_order
     [set_field mgs_TargetResource mgs_TargetResource_update (TargetResourceSpec_DeepCopyInto am),
      set_field mgs_TTL mgs_TTL_update TTLSpec_DeepCopyInto,
      set_field mgs_Conditions mgs_Conditions_update
        (new_copy the_ConditionsSpec AConditionsSpec ConditionsSpec_DeepCopyInto),
      set_field mgs_Behavior mgs_Behavior_update BehaviorSpec_DeepCopyInto]"

definition GarbageCollectionPolicySpec_DeepCopy :: "('o, 'v) apimachinery \<Rightarrow> (addr option, 'o) copying" where
  "GarbageCollectionPolicySpec_DeepCopy am =
     new_copy the_PolicySpec APolicySpec (GarbageCollectionPolicySpec_DeepCopyInto am)"

definition GarbageCollectionPolicyStatus_DeepCopyInto ::
    "('o, 'v) apimachinery \<Rightarrow> (mem_PolicyStatus, 'o) copying" where
  "GarbageCollectionPolicyStatus_DeepCopyInto am = in_order
     [set_field mst_LastGCRun mst_LastGCRun_update (am_Time_DeepCopy am),
      set_field mst_NextGCRun mst_NextGCRun_update (am_Time_DeepCopy am),
      set_field mst_Conditions mst_Conditions_update
        (new_copy the_Metas Metas (copy_items (am_DeepCopyInto am)))]"

definition GarbageCollectionPolicyStatus_DeepCopy :: "('o, 'v) apimachinery \<Rightarrow> (addr option, 'o) copying" where
  "GarbageCollectionPolicyStatus_DeepCopy am =
     new_copy the_PolicyStatus APolicyStatus (GarbageCollectionPolicyStatus_DeepCopyInto am)"

definition GarbageCollectionPolicy_DeepCopyInto :: "('o, 'v) apimachinery \<Rightarrow> ('o mem_Policy, 'o) copying" where
  "GarbageCollectionPolicy_DeepCopyInto am = in_order
     [set_field mgp_ObjectMeta mgp_ObjectMeta_update (am_DeepCopyInto am),
      set_field mgp_Spec mgp_Spec_update (GarbageCollectionPolicySpec_DeepCopyInto am),
      set_field mgp_Status mgp_Status_update (GarbageCollectionPolicyStatus_DeepCopyInto am)]"

definition GarbageCollectionPolicy_DeepCopy :: "('o, 'v) apimachinery \<Rightarrow> (addr option, 'o) copying" where
  "GarbageCollectionPolicy_DeepCopy am = new_copy the_Policy APolicy (GarbageCollectionPolicy_DeepCopyInto am)"

definition GarbageCollectionPolicy_DeepCopyObject :: "('o, 'v) apimachinery \<Rightarrow> (addr option, 'o) copying" where
  "GarbageCollectionPolicy_DeepCopyObject am p h =
     (let (c, h) = GarbageCollectionPolicy_DeepCopy am p h
      in if c \<noteq> None then (c, h) else (None, h))"

definition GarbageCollectionPolicyList_DeepCopyInto ::
    "('o, 'v) apimachinery \<Rightarrow> ('o mem_PolicyList, 'o) copying" where
  "GarbageCollectionPolicyList_DeepCopyInto am = in_order
     [set_field mpl_ListMeta mpl_ListMeta_update (am_DeepCopyInto am),
      set_field mpl_Items mpl_Items_update
        (new_copy the_Policies Policies (copy_items (GarbageCollectionPolicy_DeepCopyInto am)))]"

definition GarbageCollectionPolicyList_DeepCopy :: "('o, 'v) apimachinery \<Rightarrow> (addr option, 'o) copying" where
  "GarbageCollectionPolicyList_DeepCopy am =
     new_copy the_PolicyList APolicyList (GarbageCollectionPolicyList_DeepCopyInto am)"

definition GarbageCollectionPolicyList_DeepCopyObject :: "('o, 'v) apimachinery \<Rightarrow> (addr option, 'o) copying" where
  "GarbageCollectionPolicyList_DeepCopyObject am p h =
     (let (c, h) = GarbageCollectionPolicyList_DeepCopy am p h
      in if c \<noteq> None then (c, h) else (None, h))"

subsection \<open>What a copy promises\<close>

text \<open>
  The shape of a type: how a value of it looks in a store, with all pointers followed, which
  cells it reaches, which of these a copy may keep, and whether its maps are maps. All this
  depends on the cells that are reached only.
\<close>

definition agree :: "addr set \<Rightarrow> 'o store \<Rightarrow> 'o store \<Rightarrow> bool" where
  "agree A h h' \<longleftrightarrow> (\<forall>a\<in>A. st_cells h' a = st_cells h a)"

definition framed :: "('a, 'o, 'v) shape \<Rightarrow> bool" where
  "framed sh \<longleftrightarrow> (\<forall>x h. sh_keep sh x h \<subseteq> sh_cells sh x h) \<and>
     (\<forall>x h h'. agree (sh_cells sh x h) h h' \<longrightarrow> sh_view sh x h' = sh_view sh x h \<and>
        sh_cells sh x h' = sh_cells sh x h \<and> sh_keep sh x h' = sh_keep sh x h \<and> sh_tidy sh x h' = sh_tidy sh x h)"

definition allocated :: "('a, 'o, 'v) shape \<Rightarrow> 'a \<Rightarrow> 'o store \<Rightarrow> bool" where
  "allocated sh x h \<longleftrightarrow> sh_cells sh x h \<subseteq> {..<st_next h} \<and> sh_tidy sh x h"

definition extends :: "'o store \<Rightarrow> 'o store \<Rightarrow> bool" where
  "extends h h' \<longleftrightarrow> st_next h \<le> st_next h' \<and> agree {..<st_next h} h h'"

definition copied :: "('a, 'o, 'v) shape \<Rightarrow> 'a \<Rightarrow> 'o store \<Rightarrow> 'a \<Rightarrow> 'o store \<Rightarrow> bool" where
  "copied sh x h y h' \<longleftrightarrow> extends h h' \<and> allocated sh y h' \<and> sh_view sh y h' = sh_view sh x h \<and>
     sh_cells sh y h' \<inter> {..<st_next h} \<subseteq> sh_keep sh x h"

locale deep_copier =
  fixes sh :: "('a, 'o, 'v) shape" and copy :: "('a, 'o) copying"
  assumes framed: "framed sh"
    and copied: "allocated sh x h \<Longrightarrow> copied sh x h (fst (copy x h)) (snd (copy x h))"
begin

text \<open>The original looks as before; and it keeps looking so, whatever is done to what the copy does not keep.\<close>

lemma original_unchanged:
  assumes "allocated sh x h"
  shows "sh_view sh x (snd (copy x h)) = sh_view sh x h" and "allocated sh x (snd (copy x h))"
proof -
  have "extends h (snd (copy x h))"
    using copied [OF assms] by (simp add: copied_def)
  then have "agree (sh_cells sh x h) h (snd (copy x h))" "st_next h \<le> st_next (snd (copy x h))"
    using assms by (auto simp: extends_def agree_def allocated_def)
  then show "sh_view sh x (snd (copy x h)) = sh_view sh x h" and "allocated sh x (snd (copy x h))"
    using framed assms unfolding framed_def allocated_def by auto
qed

text \<open>
  Later writes to cells of the original do not show in the copy, as long as the kept cells
  are left alone; and writes to cells that were made for the copy do not show in the original.
\<close>

lemma copy_survives:
  assumes "allocated sh x h" and "agree (- (sh_cells sh x h - sh_keep sh x h)) (snd (copy x h)) h''"
  shows "sh_view sh (fst (copy x h)) h'' = sh_view sh x h"
proof -
  let ?y = "fst (copy x h)" and ?h = "snd (copy x h)"
  have c: "copied sh x h ?y ?h"
    using copied [OF assms(1)] .
  then have "sh_cells sh ?y ?h \<inter> (sh_cells sh x h - sh_keep sh x h) = {}"
    using assms(1) unfolding copied_def allocated_def by blast
  then have "agree (sh_cells sh ?y ?h) ?h h''"
    using assms(2) by (auto simp: agree_def)
  then show ?thesis
    using framed c unfolding framed_def copied_def by simp
qed

lemma original_survives:
  assumes "allocated sh x h" and "agree {..<st_next h} (snd (copy x h)) h''"
  shows "sh_view sh x h'' = sh_view sh x h"
proof -
  have "extends h (snd (copy x h))"
    using copied [OF assms(1)] by (simp add: copied_def)
  then have "agree (sh_cells sh x h) h h''"
    using assms by (auto simp: agree_def extends_def allocated_def subset_iff)
  then show ?thesis
    using framed by (simp add: framed_def)
qed

end

lemma agree_mono: "agree A h h' \<Longrightarrow> B \<subseteq> A \<Longrightarrow> agree B h h'"
  by (auto simp: agree_def)

lemma extends_refl [simp]: "extends h h"
  by (simp add: extends_def agree_def)

lemma extends_trans: "extends h h' \<Longrightarrow> extends h' h'' \<Longrightarrow> extends h h''"
  unfolding extends_def agree_def by force

lemma extends_alloc [simp]: "extends h (snd (alloc h))"
  by (simp add: extends_def agree_def)

lemma extends_put: "st_next h \<le> a \<Longrightarrow> extends h h' \<Longrightarrow> extends h (put_cell a c h')"
  by (simp add: extends_def agree_def)

text \<open>What holds of a value holds in a store with more cells.\<close>

lemma extends_same:
  assumes "framed sh" and "allocated sh x h" and "extends h h'"
  shows "sh_view sh x h' = sh_view sh x h" and "sh_cells sh x h' = sh_cells sh x h"
    and "sh_keep sh x h' = sh_keep sh x h" and "allocated sh x h'"
proof -
  have "agree (sh_cells sh x h) h h'" "st_next h \<le> st_next h'"
    using assms(2,3) by (auto simp: extends_def allocated_def intro: agree_mono)
  then show "sh_view sh x h' = sh_view sh x h" and "sh_cells sh x h' = sh_cells sh x h"
    and "sh_keep sh x h' = sh_keep sh x h" and "allocated sh x h'"
    using assms(1,2) unfolding framed_def allocated_def by auto
qed

lemma copied_grow:
  assumes "framed sh" and "copied sh x h y h'" and "extends h' h''"
  shows "copied sh x h y h''"
  using assms extends_same [OF assms(1) _ assms(3), of y] unfolding copied_def by (auto intro: extends_trans)

lemma copied_from:
  assumes "framed sh" and "allocated sh x h0" and "extends h0 h" and "copied sh x h y h'"
  shows "copied sh x h0 y h'"
proof -
  have "{..<st_next h0} \<subseteq> {..<st_next h}"
    using assms(3) by (auto simp: extends_def)
  then show ?thesis
    using extends_same [OF assms(1-3)] assms(3,4) unfolding copied_def by (auto intro: extends_trans)
qed

subsection \<open>Shapes\<close>

definition flat :: "('a \<Rightarrow> 'v) \<Rightarrow> ('a, 'o, 'v) shape" where
  "flat f = \<lparr>sh_view = (\<lambda>x _. f x), sh_cells = (\<lambda>_ _. {}), sh_keep = (\<lambda>_ _. {}), sh_tidy = (\<lambda>_ _. True)\<rparr>"

definition entries :: "(('k, 'v) gomap, 'o, ('k, 'v) gomap) shape" where
  "entries = (flat (\<lambda>m. m))\<lparr>sh_tidy := (\<lambda>m _. wf_map m)\<rparr>"

definition pointer :: "('o cell \<Rightarrow> 'a) \<Rightarrow> ('a, 'o, 'v) shape \<Rightarrow> (addr option, 'o, 'v option) shape" where
  "pointer get sh =
     \<lparr>sh_view = (\<lambda>p h. map_option (\<lambda>a. sh_view sh (get (st_cells h a)) h) p),
      sh_cells = (\<lambda>p h. case p of None \<Rightarrow> {} | Some a \<Rightarrow> insert a (sh_cells sh (get (st_cells h a)) h)),
      sh_keep = (\<lambda>p h. case p of None \<Rightarrow> {} | Some a \<Rightarrow> sh_keep sh (get (st_cells h a)) h),
      sh_tidy = (\<lambda>p h. case p of None \<Rightarrow> True | Some a \<Rightarrow> sh_tidy sh (get (st_cells h a)) h)\<rparr>"

definition items :: "('a, 'o, 'v) shape \<Rightarrow> ('a list, 'o, 'v list) shape" where
  "items sh =
     \<lparr>sh_view = (\<lambda>xs h. map (\<lambda>x. sh_view sh x h) xs), sh_cells = (\<lambda>xs h. \<Union>x\<in>set xs. sh_cells sh x h),
      sh_keep = (\<lambda>xs h. \<Union>x\<in>set xs. sh_keep sh x h), sh_tidy = (\<lambda>xs h. \<forall>x\<in>set xs. sh_tidy sh x h)\<rparr>"

text \<open>A pointer that the copy keeps.\<close>

definition shared :: "('a, 'o, 'v) shape \<Rightarrow> ('a, 'o, 'v) shape" where
  "shared sh = sh\<lparr>sh_keep := sh_cells sh\<rparr>"

text \<open>A field of a struct, a struct of two parts, and another look at a value.\<close>

definition on :: "('a \<Rightarrow> 'b) \<Rightarrow> ('b, 'o, 'v) shape \<Rightarrow> ('a, 'o, 'v) shape" where
  "on f sh = \<lparr>sh_view = (\<lambda>x. sh_view sh (f x)), sh_cells = (\<lambda>x. sh_cells sh (f x)),
     sh_keep = (\<lambda>x. sh_keep sh (f x)), sh_tidy = (\<lambda>x. sh_tidy sh (f x))\<rparr>"

definition both :: "('a, 'o, 'v) shape \<Rightarrow> ('a, 'o, 'u) shape \<Rightarrow> ('a, 'o, 'v \<times> 'u) shape" where
  "both sh sh' = \<lparr>sh_view = (\<lambda>x h. (sh_view sh x h, sh_view sh' x h)),
     sh_cells = (\<lambda>x h. sh_cells sh x h \<union> sh_cells sh' x h), sh_keep = (\<lambda>x h. sh_keep sh x h \<union> sh_keep sh' x h),
     sh_tidy = (\<lambda>x h. sh_tidy sh x h \<and> sh_tidy sh' x h)\<rparr>"

definition seen :: "('v \<Rightarrow> 'u) \<Rightarrow> ('a, 'o, 'v) shape \<Rightarrow> ('a, 'o, 'u) shape" where
  "seen g sh = \<lparr>sh_view = (\<lambda>x h. g (sh_view sh x h)), sh_cells = sh_cells sh, sh_keep = sh_keep sh, sh_tidy = sh_tidy sh\<rparr>"

lemmas shape_defs = flat_def entries_def pointer_def items_def shared_def on_def both_def seen_def

lemma agree_Un [simp]: "agree (A \<union> B) h h' \<longleftrightarrow> agree A h h' \<and> agree B h h'"
  and agree_insert [simp]: "agree (insert a A) h h' \<longleftrightarrow> st_cells h' a = st_cells h a \<and> agree A h h'"
  and agree_UN [simp]: "agree (\<Union>x\<in>X. F x) h h' \<longleftrightarrow> (\<forall>x\<in>X. agree (F x) h h')"
  by (auto simp: agree_def)

lemma framedI:
  assumes "\<And>x h. sh_keep sh x h \<subseteq> sh_cells sh x h"
    and "\<And>x h h'. agree (sh_cells sh x h) h h' \<Longrightarrow> sh_view sh x h' = sh_view sh x h \<and> sh_cells sh x h' = sh_cells sh x h \<and>
      sh_keep sh x h' = sh_keep sh x h \<and> sh_tidy sh x h' = sh_tidy sh x h"
  shows "framed sh"
  using assms by (simp add: framed_def)

lemma framed_keep: "framed sh \<Longrightarrow> sh_keep sh x h \<subseteq> sh_cells sh x h"
  by (simp add: framed_def)

lemma framed_same:
  assumes "framed sh" and "agree (sh_cells sh x h) h h'"
  shows "sh_view sh x h' = sh_view sh x h" "sh_cells sh x h' = sh_cells sh x h"
    "sh_keep sh x h' = sh_keep sh x h" "sh_tidy sh x h' = sh_tidy sh x h"
  using assms by (simp_all add: framed_def)

lemma framed_flat [intro]: "framed (flat f)"
  by (rule framedI) (simp_all add: flat_def)

lemma framed_entries [intro]: "framed entries"
  by (rule framedI) (simp_all add: entries_def flat_def)

lemma framed_pointer [intro]: "framed sh \<Longrightarrow> framed (pointer get sh)"
  by (rule framedI)
    (auto simp: pointer_def framed_same dest: framed_keep [THEN subsetD] split: option.splits)

lemma framed_items [intro]:
  assumes "framed sh"
  shows "framed (items sh)"
proof (rule framedI)
  fix xs h h'
  assume "agree (sh_cells (items sh) xs h) h h'"
  then have "\<And>x. x \<in> set xs \<Longrightarrow> agree (sh_cells sh x h) h h'"
    by (simp add: items_def)
  note same = framed_same [OF assms this]
  then show "sh_view (items sh) xs h' = sh_view (items sh) xs h \<and> sh_cells (items sh) xs h' = sh_cells (items sh) xs h \<and>
      sh_keep (items sh) xs h' = sh_keep (items sh) xs h \<and> sh_tidy (items sh) xs h' = sh_tidy (items sh) xs h"
    by (simp add: items_def)
qed (use framed_keep [OF assms] in \<open>auto simp: items_def\<close>)

lemma framed_shared [intro]: "framed sh \<Longrightarrow> framed (shared sh)"
  by (rule framedI) (auto simp: shared_def framed_same)

lemma framed_on [intro]: "framed sh \<Longrightarrow> framed (on f sh)"
  by (rule framedI) (simp_all add: on_def framed_same framed_keep)

lemma framed_both [intro]: "framed sh \<Longrightarrow> framed sh' \<Longrightarrow> framed (both sh sh')"
  by (rule framedI) (auto simp: both_def framed_same dest: framed_keep [THEN subsetD])

lemma framed_seen [intro]: "framed sh \<Longrightarrow> framed (seen g sh)"
  by (rule framedI) (simp_all add: seen_def framed_same framed_keep)

subsection \<open>The steps are right\<close>

lemma copierI:
  assumes "framed sh" and "\<And>x h y h'. copy x h = (y, h') \<Longrightarrow> allocated sh x h \<Longrightarrow> copied sh x h y h'"
  shows "deep_copier sh copy"
  using assms by unfold_locales auto

lemma copierD: "deep_copier sh copy \<Longrightarrow> copy x h = (y, h') \<Longrightarrow> allocated sh x h \<Longrightarrow> copied sh x h y h'"
  using deep_copier.copied [of sh copy x h] by simp

text \<open>An assignment copies what a copy may keep.\<close>

lemma assign_copier:
  assumes "framed sh" and "\<And>x h. sh_cells sh x h \<subseteq> sh_keep sh x h"
  shows "deep_copier sh assign"
  using assms by (intro copierI) (auto simp: copied_def assign_def)

lemma flat_copier [intro]: "deep_copier (flat f) assign"
  by (rule assign_copier [OF framed_flat]) (simp add: flat_def)

lemma put_all_new: "distinct (map fst (m @ kvs)) \<Longrightarrow> go_put_all kvs m = m @ kvs"
proof (induction kvs m rule: go_put_all.induct)
  case (2 k v kvs m)
  then have "k \<notin> fst ` set m"
    by auto
  then have "go_put k v m = m @ [(k, v)]"
    by (induction m) auto
  with 2 show ?case
    by simp
qed simp

lemma entries_copier [intro]: "deep_copier entries copy_entries"
  by (rule copierI [OF framed_entries])
    (auto simp: copied_def allocated_def copy_entries_def entries_def flat_def put_all_new)

lemma pointer_copier [intro]:
  assumes "deep_copier sh c" and "\<And>y. get (put y) = y"
  shows "deep_copier (pointer get sh) (new_copy get put c)"
proof (rule copierI)
  note framed = deep_copier.framed [OF assms(1)]
  then show "framed (pointer get sh)"
    by (rule framed_pointer)
  fix p h q h'
  assume run: "new_copy get put c p h = (q, h')" and ok: "allocated (pointer get sh) p h"
  show "copied (pointer get sh) p h q h'"
  proof (cases p)
    case None
    with run show ?thesis
      by (auto simp: new_copy_def copied_def allocated_def pointer_def)
  next
    case (Some a)
    define x where "x = get (st_cells h a)"
    define b where "b = st_next h"
    obtain y h2 where y: "c x (snd (alloc h)) = (y, h2)"
      by fastforce
    from ok Some have a: "a < st_next h" and x: "allocated sh x h"
      by (auto simp: allocated_def pointer_def x_def)
    then have q: "q = Some b" "h' = put_cell b (put y) h2"
      using run Some y by (auto simp: new_copy_def x_def b_def alloc_def)
    have late: "copied sh x (snd (alloc h)) y h2"
      using copierD [OF assms(1) y extends_same(4) [OF framed x extends_alloc]] .
    from this have c: "copied sh x h y h2" and grown: "Suc b \<le> st_next h2"
      using copied_from [OF framed x extends_alloc] by (auto simp: copied_def extends_def b_def)
    have fresh: "b \<notin> sh_cells sh y h2"
    proof
      assume "b \<in> sh_cells sh y h2"
      with late have "b \<in> sh_keep sh x (snd (alloc h))"
        by (auto simp: copied_def b_def)
      then have "b \<in> sh_cells sh x h"
        using extends_same(3) [OF framed x extends_alloc] framed_keep [OF framed, of x h] by auto
      with x show False
        by (auto simp: allocated_def b_def)
    qed
    define h3 where "h3 = put_cell b (put y) h2"
    have "agree (sh_cells sh y h2) h2 h3"
      using fresh by (auto simp: agree_def h3_def)
    note same = framed_same [OF framed this]
    have "extends h h3" "st_cells h3 b = put y" "st_next h3 = st_next h2"
      using c by (auto simp: copied_def h3_def b_def intro: extends_put)
    with c same grown show ?thesis
      unfolding q(2) h3_def [symmetric]
      by (auto simp: copied_def allocated_def pointer_def q(1) Some x_def [symmetric] assms(2) b_def)
  qed
qed

lemma items_copier [intro]:
  assumes "deep_copier sh c"
  shows "deep_copier (items sh) (copy_items c)"
proof (rule copierI)
  note framed = deep_copier.framed [OF assms]
  then show "framed (items sh)"
    by (rule framed_items)
  show "copied (items sh) xs h ys h'" if "copy_items c xs h = (ys, h')" and "allocated (items sh) xs h" for xs h ys h'
    using that
  proof (induction xs arbitrary: h ys)
    case Nil
    then show ?case
      by (auto simp: copied_def allocated_def items_def)
  next
    case (Cons x xs)
    obtain y h1 zs where run: "c x h = (y, h1)" "copy_items c xs h1 = (zs, h')" and ys: "ys = y # zs"
      using Cons.prems(1) by (auto simp: Let_def split: prod.splits)
    have x: "allocated sh x h" and xs: "allocated (items sh) xs h"
      using Cons.prems(2) by (auto simp: allocated_def items_def)
    note y = copierD [OF assms run(1) x]
    then have e: "extends h h1"
      by (simp add: copied_def)
    have zs: "copied (items sh) xs h zs h'"
      using copied_from [OF framed_items [OF framed] xs e Cons.IH [OF run(2)]]
        extends_same(4) [OF framed_items [OF framed] xs e] by blast
    moreover have "extends h1 h'"
      using Cons.IH [OF run(2) extends_same(4) [OF framed_items [OF framed] xs e]] by (simp add: copied_def)
    then have "copied sh x h y h'"
      using copied_grow [OF framed y] by blast
    ultimately show ?case
      by (auto simp: copied_def allocated_def items_def ys)
  qed
qed

subsection \<open>Structs\<close>

text \<open>
  A struct is copied field by field. A shape ignores a field when it does not depend on it, and
  a copying leaves a field when it does not assign to it.
\<close>

definition ignores :: "('a, 'o, 'v) shape \<Rightarrow> (('b \<Rightarrow> 'b) \<Rightarrow> 'a \<Rightarrow> 'a) \<Rightarrow> bool" where
  "ignores sh upd \<longleftrightarrow> (\<forall>y x h. sh_view sh (upd (\<lambda>_. y) x) h = sh_view sh x h \<and>
     sh_cells sh (upd (\<lambda>_. y) x) h = sh_cells sh x h \<and> sh_keep sh (upd (\<lambda>_. y) x) h = sh_keep sh x h \<and>
     sh_tidy sh (upd (\<lambda>_. y) x) h = sh_tidy sh x h)"

definition leaves :: "('a \<Rightarrow> 'b) \<Rightarrow> ('a, 'o) copying \<Rightarrow> bool" where
  "leaves f c \<longleftrightarrow> (\<forall>x h. f (fst (c x h)) = f x)"

lemma leaves_in_order [simp]: "list_all (leaves f) cs \<Longrightarrow> leaves f (in_order cs)"
proof (induction cs)
  case (Cons c cs)
  then show ?case
    by (auto simp: leaves_def Let_def split: prod.split) (metis fst_conv)
qed (simp add: leaves_def)

lemma leaves_set_field [simp]: "(\<And>y x. f (upd (\<lambda>_. y) x) = f x) \<Longrightarrow> leaves f (set_field g upd c)"
  by (simp add: leaves_def set_field_def Let_def split: prod.split)

lemma ignores_on [simp]: "(\<And>y x. f (upd (\<lambda>_. y) x) = f x) \<Longrightarrow> ignores (on f sh) upd"
  by (simp add: ignores_def on_def)

lemma ignores_flat [simp]: "(\<And>y x. f (upd (\<lambda>_. y) x) = f x) \<Longrightarrow> ignores (flat f) upd"
  by (simp add: ignores_def flat_def)

lemma ignores_both [simp]: "ignores sh upd \<Longrightarrow> ignores sh' upd \<Longrightarrow> ignores (both sh sh') upd"
  by (simp add: ignores_def both_def)

lemma on_copied: "copied (on f sh) x h y h' \<longleftrightarrow> copied sh (f x) h (f y) h'"
  and on_allocated: "allocated (on f sh) x h \<longleftrightarrow> allocated sh (f x) h"
  by (simp_all add: copied_def allocated_def on_def)

lemma both_copied: "copied sh x h y h' \<Longrightarrow> copied sh' x h y h' \<Longrightarrow> copied (both sh sh') x h y h'"
  and both_allocated: "allocated (both sh sh') x h \<longleftrightarrow> allocated sh x h \<and> allocated sh' x h"
  by (auto simp: copied_def allocated_def both_def)

lemma field_copier:
  assumes "deep_copier sh c" and "deep_copier rest (in_order cs)"
    and "\<And>y x. get (upd (\<lambda>_. y) x) = y" and "list_all (leaves get) cs" and "ignores rest upd"
  shows "deep_copier (both (on get sh) rest) (in_order (set_field get upd c # cs))"
proof (rule copierI)
  note framed = deep_copier.framed [OF assms(1)] deep_copier.framed [OF assms(2)]
  then show "framed (both (on get sh) rest)"
    by (intro framed_both framed_on)
  fix x h y h'
  assume run: "in_order (set_field get upd c # cs) x h = (y, h')" and ok: "allocated (both (on get sh) rest) x h"
  obtain z h1 where z: "c (get x) h = (z, h1)"
    by fastforce
  define x1 where "x1 = upd (\<lambda>_. z) x"
  have y: "in_order cs x1 h1 = (y, h')"
    using run z by (simp add: set_field_def x1_def)
  have x: "allocated sh (get x) h" "allocated rest x h"
    using ok by (simp_all add: both_allocated on_allocated)
  note cz = copierD [OF assms(1) z x(1)]
  then have e: "extends h h1"
    by (simp add: copied_def)
  have rest1: "allocated rest x1 h = allocated rest x h" "copied rest x1 h y h' = copied rest x h y h'"
    using assms(5) by (simp_all add: ignores_def allocated_def copied_def x1_def)
  with x(2) have x1: "allocated rest x1 h"
    by simp
  note cy = copierD [OF assms(2) y extends_same(4) [OF framed(2) x1 e]]
  have "get y = z"
    using assms(3,4) leaves_in_order [OF assms(4)] y unfolding leaves_def x1_def by (metis fst_conv)
  then have "copied (on get sh) x h y h'"
    using copied_grow [OF framed(1) cz, of h'] cy unfolding on_copied by (simp add: copied_def)
  moreover have "copied rest x h y h'"
    using copied_from [OF framed(2) x1 e cy] rest1 by simp
  ultimately show "copied (both (on get sh) rest) x h y h'"
    by (rule both_copied)
qed

lemma in_order_Nil: "in_order [] = assign"
  by (simp add: fun_eq_iff assign_def)

lemma seen_copier:
  assumes "deep_copier sh c"
  shows "deep_copier (seen g sh) c"
proof (rule copierI)
  show "framed (seen g sh)"
    using deep_copier.framed [OF assms] by (rule framed_seen)
  show "copied (seen g sh) x h y h'" if "c x h = (y, h')" and "allocated (seen g sh) x h" for x h y h'
    using copierD [OF assms that(1)] that(2) by (simp add: copied_def allocated_def seen_def)
qed

text \<open>The last part of a struct, the fields that are only assigned.\<close>

lemma rest_copier: "deep_copier (flat f) (in_order [])"
  unfolding in_order_Nil by (rule flat_copier)

lemma kept_copier: "framed sh \<Longrightarrow> deep_copier (both (flat f) (on g (shared sh))) (in_order [])"
  unfolding in_order_Nil
  by (rule assign_copier, intro framed_both framed_on framed_shared framed_flat)
    (simp_all add: both_def on_def shared_def flat_def)

subsection \<open>The shapes of the API\<close>

text \<open>
  How the structs look: as the records of the other theories, in which a nil slice or map is
  empty. A status and a policy show more than these records hold.
\<close>

definition or_nil :: "'a list option \<Rightarrow> 'a list" where
  "or_nil p = (case p of None \<Rightarrow> [] | Some xs \<Rightarrow> xs)"

definition int64_shape :: "(addr option, 'o, i64 option) shape" where
  "int64_shape = pointer the_Int64 (flat (\<lambda>v. v))"

definition strings_shape :: "(addr option, 'o, string list option) shape" where
  "strings_shape = pointer the_Strings (items (flat (\<lambda>v. v)))"

definition FieldCondition_shape :: "(mem_FieldCondition, 'o, FieldCondition) shape" where
  "FieldCondition_shape = seen (\<lambda>(values, path, op, v).
       \<lparr>fc_FieldPath = path, fc_Operator = op, fc_Value = v, fc_Values = or_nil values\<rparr>)
     (both (on mfc_Values strings_shape) (flat (\<lambda>c. (mfc_FieldPath c, mfc_Operator c, mfc_Value c))))"

definition FieldSelectorSpec_shape :: "(mem_FieldSelectorSpec, 'o, FieldSelectorSpec) shape" where
  "FieldSelectorSpec_shape = seen (\<lambda>(m, _). \<lparr>fs_MatchFields = or_nil m\<rparr>)
     (both (on mfs_MatchFields (pointer the_StringMap entries)) (flat (\<lambda>_. ())))"

definition BehaviorSpec_shape :: "(mem_BehaviorSpec, 'o, BehaviorSpec) shape" where
  "BehaviorSpec_shape = seen (\<lambda>(grace, rate, batch, dry, finalizer, propagation).
       \<lparr>bh_MaxDeletionsPerSecond = rate, bh_BatchSize = batch, bh_DryRun = dry, bh_Finalizer = finalizer,
        bh_PropagationPolicy = propagation, bh_GracePeriodSeconds = grace\<rparr>)
     (both (on mbh_GracePeriodSeconds int64_shape)
       (flat (\<lambda>b. (mbh_MaxDeletionsPerSecond b, mbh_BatchSize b, mbh_DryRun b, mbh_Finalizer b, mbh_PropagationPolicy b))))"

definition ConditionsSpec_shape :: "(mem_ConditionsSpec, 'o, ConditionsSpec) shape" where
  "ConditionsSpec_shape = seen (\<lambda>(phase, labels, annotations, fields, _).
       \<lparr>cs_Phase = or_nil phase, cs_HasLabels = or_nil labels, cs_HasAnnotations = or_nil annotations,
        cs_And = or_nil fields\<rparr>)
     (both (on mcs_Phase strings_shape)
       (both (on mcs_HasLabels (pointer the_LabelConditions (items (flat (\<lambda>v. v)))))
         (both (on mcs_HasAnnotations (pointer the_AnnotationConditions (items (flat (\<lambda>v. v)))))
           (both (on mcs_And (pointer the_FieldConditions (items FieldCondition_shape))) (flat (\<lambda>_. ()))))))"

definition TTLSpec_shape :: "(mem_TTLSpec, 'o, TTLSpec) shape" where
  "TTLSpec_shape = seen (\<lambda>(fixed, mappings, default, relative, path, relativeTo).
       \<lparr>ttl_SecondsAfterCreation = fixed, ttl_FieldPath = path, ttl_Mappings = or_nil mappings,
        ttl_Default = default, ttl_RelativeTo = relativeTo, ttl_SecondsAfter = relative\<rparr>)
     (both (on mttl_SecondsAfterCreation int64_shape)
       (both (on mttl_Mappings (pointer the_IntMap entries))
         (both (on mttl_Default int64_shape)
           (both (on mttl_SecondsAfter int64_shape) (flat (\<lambda>t. (mttl_FieldPath t, mttl_RelativeTo t)))))))"

text \<open>The structs without types of meta/v1; each interpretation is that the copy of the struct is right.\<close>

interpretation int64_copy: deep_copier int64_shape copy_int64
  unfolding int64_shape_def copy_int64_def by (intro pointer_copier flat_copier) simp

interpretation strings_copy: deep_copier strings_shape copy_strings
  unfolding strings_shape_def copy_strings_def by (intro pointer_copier items_copier flat_copier) simp

interpretation FieldCondition_copy: deep_copier FieldCondition_shape FieldCondition_DeepCopyInto
  unfolding FieldCondition_shape_def FieldCondition_DeepCopyInto_def
  by (intro seen_copier field_copier rest_copier strings_copy.deep_copier_axioms) simp_all

interpretation FieldSelectorSpec_copy: deep_copier FieldSelectorSpec_shape FieldSelectorSpec_DeepCopyInto
  unfolding FieldSelectorSpec_shape_def FieldSelectorSpec_DeepCopyInto_def
  by (intro seen_copier field_copier rest_copier pointer_copier entries_copier) simp_all

interpretation BehaviorSpec_copy: deep_copier BehaviorSpec_shape BehaviorSpec_DeepCopyInto
  unfolding BehaviorSpec_shape_def BehaviorSpec_DeepCopyInto_def
  by (intro seen_copier field_copier rest_copier int64_copy.deep_copier_axioms) simp_all

interpretation ConditionsSpec_copy: deep_copier ConditionsSpec_shape ConditionsSpec_DeepCopyInto
  unfolding ConditionsSpec_shape_def ConditionsSpec_DeepCopyInto_def
  by (intro seen_copier field_copier rest_copier pointer_copier items_copier flat_copier
      strings_copy.deep_copier_axioms FieldCondition_copy.deep_copier_axioms) simp_all

interpretation TTLSpec_copy: deep_copier TTLSpec_shape TTLSpec_DeepCopyInto
  unfolding TTLSpec_shape_def TTLSpec_DeepCopyInto_def
  by (intro seen_copier field_copier rest_copier pointer_copier entries_copier int64_copy.deep_copier_axioms) simp_all

subsection \<open>Structs with types of meta/v1\<close>

text \<open>
  Documented behaviour of the package: its deep copies look like the originals and share nothing
  with them.
\<close>

definition lawful :: "('o, 'v) apimachinery \<Rightarrow> bool" where
  "lawful am \<longleftrightarrow> deep_copier (am_shape am) (am_DeepCopyInto am) \<and>
     deep_copier (pointer the_Meta (am_shape am)) (am_Time_DeepCopy am) \<and>
     (\<forall>x h. sh_keep (am_shape am) x h = {})"

definition TargetResourceSpec_shape ::
    "('o, 'v) apimachinery \<Rightarrow> (mem_TargetResourceSpec, 'o, TargetResourceSpec) shape" where
  "TargetResourceSpec_shape am = seen (\<lambda>(labels, fields, version, kind, namespace).
       \<lparr>tr_APIVersion = version, tr_Kind = kind, tr_Namespace = namespace,
        tr_LabelSelector = map_option (am_selector am) labels, tr_FieldSelector = fields\<rparr>)
     (both (on mtr_LabelSelector (pointer the_Meta (am_shape am)))
       (both (on mtr_FieldSelector (pointer the_FieldSelectorSpec FieldSelectorSpec_shape))
         (flat (\<lambda>t. (mtr_APIVersion t, mtr_Kind t, mtr_Namespace t)))))"

definition duration_shape :: "(addr option, 'o, i64 option) shape" where
  "duration_shape = pointer the_Duration (flat (\<lambda>v. v))"

text \<open>A spec without its interval, and with it, a pointer that the copy keeps.\<close>

definition PolicySpec_parts ::
    "('o, 'v) apimachinery \<Rightarrow> (mem_PolicySpec, 'o, 'u) shape \<Rightarrow> (mem_PolicySpec, 'o,
      TargetResourceSpec \<times> TTLSpec \<times> ConditionsSpec option \<times> BehaviorSpec \<times> 'u) shape" where
  "PolicySpec_parts am rest =
     both (on mgs_TargetResource (TargetResourceSpec_shape am))
       (both (on mgs_TTL TTLSpec_shape)
         (both (on mgs_Conditions (pointer the_ConditionsSpec ConditionsSpec_shape))
           (both (on mgs_Behavior BehaviorSpec_shape) rest)))"

definition PolicySpec_core :: "('o, 'v) apimachinery \<Rightarrow> (mem_PolicySpec, 'o, GarbageCollectionPolicySpec) shape" where
  "PolicySpec_core am = seen (\<lambda>(target, ttl, conditions, behavior, paused).
       \<lparr>gs_TargetResource = target, gs_TTL = ttl, gs_Conditions = conditions, gs_Behavior = behavior,
        gs_EvaluationInterval = None, gs_Paused = paused\<rparr>)
     (PolicySpec_parts am (flat mgs_Paused))"

definition PolicySpec_shape :: "('o, 'v) apimachinery \<Rightarrow> (mem_PolicySpec, 'o, GarbageCollectionPolicySpec) shape" where
  "PolicySpec_shape am = seen (\<lambda>(target, ttl, conditions, behavior, paused, interval).
       \<lparr>gs_TargetResource = target, gs_TTL = ttl, gs_Conditions = conditions, gs_Behavior = behavior,
        gs_EvaluationInterval = interval, gs_Paused = paused\<rparr>)
     (PolicySpec_parts am (both (flat mgs_Paused) (on mgs_EvaluationInterval (shared duration_shape))))"

definition PolicyStatus_shape ::
    "('o, 'v) apimachinery \<Rightarrow> (mem_PolicyStatus, 'o, GarbageCollectionPolicyStatus \<times> 'v list option) shape" where
  "PolicyStatus_shape am = seen (\<lambda>(last, nextRun, conditions, phase, matched, deleted, pending).
       (\<lparr>st_Phase = phase, st_ResourcesMatched = matched, st_ResourcesDeleted = deleted,
         st_ResourcesPending = pending, st_LastGCRun = map_option (am_time am) last,
         st_NextGCRun = map_option (am_time am) nextRun\<rparr>, conditions))
     (both (on mst_LastGCRun (pointer the_Meta (am_shape am)))
       (both (on mst_NextGCRun (pointer the_Meta (am_shape am)))
         (both (on mst_Conditions (pointer the_Metas (items (am_shape am))))
           (flat (\<lambda>s. (mst_Phase s, mst_ResourcesMatched s, mst_ResourcesDeleted s, mst_ResourcesPending s))))))"

definition Policy_shape ::
    "('o, 'v) apimachinery \<Rightarrow> ('o mem_Policy, 'o,
      'v \<times> GarbageCollectionPolicySpec \<times> (GarbageCollectionPolicyStatus \<times> 'v list option) \<times> string \<times> string) shape" where
  "Policy_shape am =
     both (on mgp_ObjectMeta (am_shape am))
       (both (on mgp_Spec (PolicySpec_shape am))
         (both (on mgp_Status (PolicyStatus_shape am)) (flat mgp_TypeMeta)))"

definition PolicyList_shape ::
    "('o, 'v) apimachinery \<Rightarrow> ('o mem_PolicyList, 'o, 'v \<times>
      ('v \<times> GarbageCollectionPolicySpec \<times> (GarbageCollectionPolicyStatus \<times> 'v list option) \<times> string \<times> string) list option \<times>
      string \<times> string) shape" where
  "PolicyList_shape am =
     both (on mpl_ListMeta (am_shape am))
       (both (on mpl_Items (pointer the_Policies (items (Policy_shape am)))) (flat mpl_TypeMeta))"

lemma lawful_copiers:
  assumes "lawful am"
  shows "deep_copier (am_shape am) (am_DeepCopyInto am)"
    and "deep_copier (pointer the_Meta (am_shape am)) (am_Time_DeepCopy am)"
  using assms by (simp_all add: lawful_def)

lemma TargetResourceSpec_copier:
  "lawful am \<Longrightarrow> deep_copier (TargetResourceSpec_shape am) (TargetResourceSpec_DeepCopyInto am)"
  unfolding TargetResourceSpec_shape_def TargetResourceSpec_DeepCopyInto_def
  by (intro seen_copier field_copier rest_copier pointer_copier lawful_copiers(1)
      FieldSelectorSpec_copy.deep_copier_axioms) simp_all

lemma PolicySpec_parts_copier:
  assumes "lawful am" and "deep_copier rest (in_order [])"
    and "ignores rest mgs_TargetResource_update" "ignores rest mgs_TTL_update" "ignores rest mgs_Conditions_update"
      "ignores rest mgs_Behavior_update"
  shows "deep_copier (PolicySpec_parts am rest) (GarbageCollectionPolicySpec_DeepCopyInto am)"
  unfolding PolicySpec_parts_def GarbageCollectionPolicySpec_DeepCopyInto_def
  by (intro field_copier pointer_copier TargetResourceSpec_copier TTLSpec_copy.deep_copier_axioms
      ConditionsSpec_copy.deep_copier_axioms BehaviorSpec_copy.deep_copier_axioms assms) (simp_all add: assms)

lemma PolicySpec_core_copier: "lawful am \<Longrightarrow> deep_copier (PolicySpec_core am) (GarbageCollectionPolicySpec_DeepCopyInto am)"
  unfolding PolicySpec_core_def
  by (intro seen_copier PolicySpec_parts_copier rest_copier) simp_all

lemma framed_duration: "framed duration_shape"
  unfolding duration_shape_def by (intro framed_pointer framed_flat)

lemma PolicySpec_copier: "lawful am \<Longrightarrow> deep_copier (PolicySpec_shape am) (GarbageCollectionPolicySpec_DeepCopyInto am)"
  unfolding PolicySpec_shape_def
  by (intro seen_copier PolicySpec_parts_copier kept_copier framed_duration) simp_all

lemma PolicyStatus_copier: "lawful am \<Longrightarrow> deep_copier (PolicyStatus_shape am) (GarbageCollectionPolicyStatus_DeepCopyInto am)"
  unfolding PolicyStatus_shape_def GarbageCollectionPolicyStatus_DeepCopyInto_def
  by (intro seen_copier field_copier rest_copier pointer_copier items_copier lawful_copiers) simp_all

lemma Policy_copier: "lawful am \<Longrightarrow> deep_copier (Policy_shape am) (GarbageCollectionPolicy_DeepCopyInto am)"
  unfolding Policy_shape_def GarbageCollectionPolicy_DeepCopyInto_def
  by (intro field_copier rest_copier lawful_copiers(1) PolicySpec_copier PolicyStatus_copier) simp_all

lemma PolicyList_copier: "lawful am \<Longrightarrow> deep_copier (PolicyList_shape am) (GarbageCollectionPolicyList_DeepCopyInto am)"
  unfolding PolicyList_shape_def GarbageCollectionPolicyList_DeepCopyInto_def
  by (intro field_copier rest_copier pointer_copier items_copier lawful_copiers(1) Policy_copier) simp_all

subsection \<open>What the copies keep\<close>

definition keepless :: "('a, 'o, 'v) shape \<Rightarrow> bool" where
  "keepless sh \<longleftrightarrow> (\<forall>x h. sh_keep sh x h = {})"

lemma keepless_shapes:
  "keepless (flat f)" "keepless entries" "keepless sh' \<Longrightarrow> keepless (pointer get sh')" "keepless sh' \<Longrightarrow> keepless (items sh')"
  by (auto simp: keepless_def shape_defs split: option.splits)

lemma keepless_on [simp]: "keepless sh \<Longrightarrow> keepless (on f sh)"
  by (simp add: keepless_def on_def)

lemma keepless_both [simp]: "keepless sh \<Longrightarrow> keepless sh' \<Longrightarrow> keepless (both sh sh')"
  by (simp add: keepless_def both_def)

lemma keepless_seen [simp]: "keepless sh \<Longrightarrow> keepless (seen g sh)"
  by (simp add: keepless_def seen_def)

lemmas keepless_simps = keepless_shapes int64_shape_def strings_shape_def FieldCondition_shape_def
  FieldSelectorSpec_shape_def BehaviorSpec_shape_def ConditionsSpec_shape_def TTLSpec_shape_def
  TargetResourceSpec_shape_def PolicyStatus_shape_def

lemma keepless_lib: "lawful am \<Longrightarrow> keepless (am_shape am)"
  by (simp add: lawful_def keepless_def)

lemma keepless_structs:
  "lawful am \<Longrightarrow> keepless (TargetResourceSpec_shape am)" "keepless TTLSpec_shape"
  "keepless (pointer the_ConditionsSpec ConditionsSpec_shape)" "keepless BehaviorSpec_shape"
  by (simp_all add: keepless_simps keepless_lib)

lemma keepless_parts: "lawful am \<Longrightarrow> sh_keep (PolicySpec_parts am rest) s h = sh_keep rest s h"
  by (simp add: PolicySpec_parts_def both_def on_def keepless_structs [unfolded keepless_def, rule_format])

lemma keepless_core: "lawful am \<Longrightarrow> keepless (PolicySpec_core am)"
  by (simp add: keepless_def PolicySpec_core_def seen_def keepless_parts) (simp add: flat_def)

lemma spec_keep: "lawful am \<Longrightarrow> sh_keep (PolicySpec_shape am) s h = set_option (mgs_EvaluationInterval s)"
  by (simp add: PolicySpec_shape_def seen_def keepless_parts)
    (auto simp: duration_shape_def shape_defs split: option.splits)

lemma policy_keep: "lawful am \<Longrightarrow> sh_keep (Policy_shape am) p h = set_option (mgs_EvaluationInterval (mgp_Spec p))"
proof -
  assume am: "lawful am"
  have "keepless (am_shape am)" "keepless (PolicyStatus_shape am)"
    using am by (simp_all add: keepless_simps keepless_lib)
  then show ?thesis
    by (simp add: Policy_shape_def both_def on_def keepless_def spec_keep [OF am]) (simp add: flat_def)
qed

text \<open>The intervals of the policies of a list.\<close>

definition items_of :: "'o store \<Rightarrow> addr option \<Rightarrow> 'o mem_Policy list" where
  "items_of h l = (case l of
     None \<Rightarrow> []
   | Some a \<Rightarrow> (case mpl_Items (the_PolicyList (st_cells h a)) of
       None \<Rightarrow> []
     | Some b \<Rightarrow> the_Policies (st_cells h b)))"

definition intervals :: "'o store \<Rightarrow> addr option \<Rightarrow> addr set" where
  "intervals h l = (\<Union>p\<in>set (items_of h l). set_option (mgs_EvaluationInterval (mgp_Spec p)))"

abbreviation list_object :: "('o, 'v) apimachinery \<Rightarrow> (addr option, 'o, _) shape" where
  "list_object am \<equiv> pointer the_PolicyList (PolicyList_shape am)"

lemma list_keep: "lawful am \<Longrightarrow> sh_keep (list_object am) l h = intervals h l"
proof -
  assume am: "lawful am"
  have "keepless (am_shape am)"
    using am by (rule keepless_lib)
  then have "sh_keep (PolicyList_shape am) x h = sh_keep (pointer the_Policies (items (Policy_shape am))) (mpl_Items x) h" for x
    by (simp add: PolicyList_shape_def both_def on_def keepless_def) (simp add: flat_def)
  then show ?thesis
    by (auto simp: pointer_def items_def policy_keep [OF am] intervals_def items_of_def split: option.splits)
qed

lemma DeepCopyObject_eq:
  "GarbageCollectionPolicyList_DeepCopyObject am = GarbageCollectionPolicyList_DeepCopy am"
  "GarbageCollectionPolicy_DeepCopyObject am = GarbageCollectionPolicy_DeepCopy am"
  by (auto simp: fun_eq_iff GarbageCollectionPolicyList_DeepCopyObject_def GarbageCollectionPolicy_DeepCopyObject_def Let_def
      split: prod.split)

text \<open>
  C18. The copy of a list of policies, as the machinery of Kubernetes asks for it, looks like the
  list, changes no cell of it, and shares nothing with it but the evaluation intervals of its
  policies; so that whatever is written later to the other cells of the original does not show
  in the copy, and what is written to the cells made for the copy does not show in the original.
\<close>

theorem list_copy_is_separate:
  assumes "lawful am" and "allocated (list_object am) l h"
    and "GarbageCollectionPolicyList_DeepCopyObject am l h = (l', h')"
  shows "extends h h' \<and> sh_view (list_object am) l' h' = sh_view (list_object am) l h \<and>
    sh_cells (list_object am) l' h' \<inter> sh_cells (list_object am) l h \<subseteq> intervals h l \<and>
    (\<forall>h''. agree (- (sh_cells (list_object am) l h - intervals h l)) h' h'' \<longrightarrow>
       sh_view (list_object am) l' h'' = sh_view (list_object am) l h) \<and>
    (\<forall>h''. agree {..<st_next h} h' h'' \<longrightarrow> sh_view (list_object am) l h'' = sh_view (list_object am) l h)"
proof -
  have c: "deep_copier (list_object am) (GarbageCollectionPolicyList_DeepCopy am)"
    unfolding GarbageCollectionPolicyList_DeepCopy_def
    using PolicyList_copier [OF assms(1)] by (rule pointer_copier) simp
  have run: "GarbageCollectionPolicyList_DeepCopy am l h = (l', h')"
    using assms(3) by (simp add: DeepCopyObject_eq)
  have "copied (list_object am) l h l' h'"
    using copierD [OF c run assms(2)] .
  moreover have "sh_cells (list_object am) l h \<subseteq> {..<st_next h}"
    using assms(2) by (simp add: allocated_def)
  ultimately show ?thesis
    using deep_copier.copy_survives [OF c assms(2)] deep_copier.original_survives [OF c assms(2)] run
    unfolding copied_def list_keep [OF assms(1)] by auto
qed

subsection \<open>The copy of a spec, later\<close>

lemma spec_view: "sh_view (PolicySpec_shape am) s h = (sh_view (PolicySpec_core am) s h)
    \<lparr>gs_EvaluationInterval := map_option (\<lambda>i. the_Duration (st_cells h i)) (mgs_EvaluationInterval s)\<rparr>"
  by (simp add: PolicySpec_shape_def PolicySpec_core_def seen_def PolicySpec_parts_def both_def on_def duration_shape_def
      shared_def pointer_def flat_def)

lemma spec_cells: "sh_cells (PolicySpec_shape am) s h =
    sh_cells (PolicySpec_core am) s h \<union> set_option (mgs_EvaluationInterval s)"
  by (auto simp: PolicySpec_shape_def PolicySpec_core_def seen_def PolicySpec_parts_def both_def on_def duration_shape_def
      shared_def pointer_def flat_def split: option.splits)

lemma spec_tidy: "sh_tidy (PolicySpec_shape am) s h = sh_tidy (PolicySpec_core am) s h"
  by (simp add: PolicySpec_shape_def PolicySpec_core_def seen_def PolicySpec_parts_def both_def on_def duration_shape_def
      shared_def pointer_def flat_def split: option.splits)

abbreviation spec_pointer :: "('o, 'v) apimachinery \<Rightarrow> (addr option, 'o, GarbageCollectionPolicySpec option) shape" where
  "spec_pointer am \<equiv> pointer the_PolicySpec (PolicySpec_shape am)"

text \<open>
  When later only cells of the original were written to, the copy still looks as the original
  did, but for the interval, which is whatever the cell of the original holds now.
\<close>

lemma spec_copy_later:
  assumes "lawful am" and "allocated (spec_pointer am) (Some a) h"
    and "GarbageCollectionPolicySpec_DeepCopy am (Some a) h = (q, h')"
    and "agree (- sh_cells (spec_pointer am) (Some a) h) h' h''"
  shows "\<exists>b. q = Some b \<and> sh_view (PolicySpec_shape am) (the_PolicySpec (st_cells h'' b)) h'' =
    (sh_view (PolicySpec_shape am) (the_PolicySpec (st_cells h a)) h)
      \<lparr>gs_EvaluationInterval := map_option (\<lambda>i. the_Duration (st_cells h'' i))
         (mgs_EvaluationInterval (the_PolicySpec (st_cells h a)))\<rparr>"
proof -
  define core where "core = pointer the_PolicySpec (PolicySpec_core am)"
  define s where "s = the_PolicySpec (st_cells h a)"
  obtain y h2 where y: "GarbageCollectionPolicySpec_DeepCopyInto am s (snd (alloc h)) = (y, h2)"
    by fastforce
  define b where "b = st_next h"
  have q: "q = Some b" "h' = put_cell b (APolicySpec y) h2"
    using assms(2,3) y by (auto simp: GarbageCollectionPolicySpec_DeepCopy_def new_copy_def alloc_def s_def b_def
        allocated_def pointer_def)
  have "deep_copier core (GarbageCollectionPolicySpec_DeepCopy am)"
    unfolding core_def GarbageCollectionPolicySpec_DeepCopy_def
    using PolicySpec_core_copier [OF assms(1)] by (rule pointer_copier) simp
  note c = deep_copier.copy_survives [OF this] deep_copier.copied [OF this]
  have old: "sh_cells (spec_pointer am) (Some a) h \<subseteq> {..<st_next h}"
    "sh_cells core (Some a) h \<subseteq> sh_cells (spec_pointer am) (Some a) h" "allocated core (Some a) h"
    using assms(2) by (auto simp: allocated_def core_def pointer_def spec_cells spec_tidy)
  have "sh_keep core (Some a) h = {}"
    using keepless_core [OF assms(1)] by (simp add: core_def pointer_def keepless_def)
  with c(2) [OF old(3)] assms(3) q(1) old(1)
  have "sh_cells core q h' \<inter> sh_cells (spec_pointer am) (Some a) h = {}"
    "framed core" "sh_view core q h' = sh_view core (Some a) h"
    using \<open>deep_copier core _\<close> by (auto simp: copied_def deep_copier.framed)
  moreover from this assms(4) have "agree (sh_cells core q h') h' h''"
    by (auto simp: agree_def)
  ultimately have "sh_view core q h'' = sh_view core (Some a) h"
    by (simp add: framed_same)
  then have look: "sh_view (PolicySpec_core am) (the_PolicySpec (st_cells h'' b)) h'' = sh_view (PolicySpec_core am) s h"
    by (simp add: core_def pointer_def q(1) s_def)
  have "b \<notin> sh_cells (spec_pointer am) (Some a) h"
    using old(1) by (auto simp: b_def)
  then have "the_PolicySpec (st_cells h'' b) = y"
    using assms(4) by (simp add: agree_def q(2))
  moreover have "leaves mgs_EvaluationInterval (GarbageCollectionPolicySpec_DeepCopyInto am)"
    unfolding GarbageCollectionPolicySpec_DeepCopyInto_def by (intro leaves_in_order) simp
  then have "mgs_EvaluationInterval y = mgs_EvaluationInterval s"
    using y unfolding leaves_def by (metis fst_conv)
  ultimately show ?thesis
    using look by (simp add: q(1) spec_view s_def)
qed

subsection \<open>An example\<close>

text \<open>Structs of meta/v1 that are a name and a map of labels, and a policy in a store.\<close>

definition example_DeepCopyInto :: "(string \<times> addr option, string \<times> addr option) copying" where
  "example_DeepCopyInto = in_order [set_field snd apsnd (new_copy the_StringMap StringMap copy_entries)]"

definition example_machinery ::
    "(string \<times> addr option, (string, string) gomap option \<times> string) apimachinery" where
  "example_machinery = \<lparr>am_DeepCopyInto = example_DeepCopyInto,
     am_Time_DeepCopy = new_copy the_Meta Meta example_DeepCopyInto,
     am_shape = both (on snd (pointer the_StringMap entries)) (flat fst),
     am_selector = (\<lambda>(labels, _). \<lparr>ls_MatchLabels = or_nil labels, ls_MatchExpressions = []\<rparr>),
     am_time = (\<lambda>_. 0)\<rparr>"

lemma example_lawful: "lawful example_machinery"
proof -
  have "deep_copier (both (on snd (pointer the_StringMap entries)) (flat fst)) example_DeepCopyInto"
    unfolding example_DeepCopyInto_def
    by (intro field_copier rest_copier pointer_copier entries_copier) simp_all
  moreover from this have "deep_copier (pointer the_Meta (both (on snd (pointer the_StringMap entries)) (flat fst)))
      (new_copy the_Meta Meta example_DeepCopyInto)"
    by (rule pointer_copier) simp
  moreover have "keepless (both (on snd (pointer the_StringMap entries)) (flat fst))"
    by (simp add: keepless_shapes)
  ultimately show ?thesis
    by (simp add: lawful_def example_machinery_def keepless_def)
qed

definition example_spec :: mem_PolicySpec where
  "example_spec = \<lparr>
     mgs_TargetResource = \<lparr>mtr_APIVersion = ''v1'', mtr_Kind = ''Pod'', mtr_Namespace = [],
       mtr_LabelSelector = Some 4, mtr_FieldSelector = None\<rparr>,
     mgs_TTL = \<lparr>mttl_SecondsAfterCreation = Some 3, mttl_FieldPath = [], mttl_Mappings = None, mttl_Default = None,
       mttl_RelativeTo = [], mttl_SecondsAfter = None\<rparr>,
     mgs_Conditions = None,
     mgs_Behavior = \<lparr>mbh_MaxDeletionsPerSecond = 0, mbh_BatchSize = 0, mbh_DryRun = False, mbh_Finalizer = [],
       mbh_PropagationPolicy = [], mbh_GracePeriodSeconds = None\<rparr>,
     mgs_EvaluationInterval = Some 2, mgs_Paused = False\<rparr>"

definition example_mem_policy :: "(string \<times> addr option) mem_Policy" where
  "example_mem_policy = \<lparr>mgp_TypeMeta = ([], []), mgp_ObjectMeta = (''p'', None), mgp_Spec = example_spec,
     mgp_Status = \<lparr>mst_Phase = [], mst_ResourcesMatched = 0, mst_ResourcesDeleted = 0, mst_ResourcesPending = 0,
       mst_LastGCRun = None, mst_NextGCRun = None, mst_Conditions = None\<rparr>\<rparr>"

definition example_store :: "(string \<times> addr option) store" where
  "example_store = \<lparr>st_next = 8, st_cells = (\<lambda>_. Zeroed)
     (0 := APolicyList \<lparr>mpl_TypeMeta = ([], []), mpl_ListMeta = ([], None), mpl_Items = Some 1\<rparr>,
      1 := Policies [example_mem_policy], 2 := Duration 60, 3 := Int64 7, 4 := Meta ([], Some 5),
      5 := StringMap [(''app'', ''x'')], 6 := APolicySpec example_spec, 7 := Strings [])\<rparr>"

lemmas example_defs = example_store_def example_mem_policy_def example_spec_def example_machinery_def
  shape_defs PolicyList_shape_def Policy_shape_def PolicySpec_shape_def PolicySpec_parts_def TargetResourceSpec_shape_def
  TTLSpec_shape_def BehaviorSpec_shape_def PolicyStatus_shape_def int64_shape_def duration_shape_def

lemma example_allocated:
  "allocated (list_object example_machinery) (Some 0) example_store"
  "allocated (spec_pointer example_machinery) (Some 6) example_store"
  by (simp_all add: allocated_def example_defs)

theorem list_copy_is_separate_witness:
  "\<exists>l' h'. GarbageCollectionPolicyList_DeepCopyObject example_machinery (Some 0) example_store = (l', h') \<and>
    sh_view (list_object example_machinery) l' (put_cell 3 (Int64 1) h') =
      sh_view (list_object example_machinery) (Some 0) example_store"
proof -
  obtain l' h' where run: "GarbageCollectionPolicyList_DeepCopyObject example_machinery (Some 0) example_store = (l', h')"
    by fastforce
  have "3 \<in> sh_cells (list_object example_machinery) (Some 0) example_store - intervals example_store (Some 0)"
    by (simp add: intervals_def items_of_def) (simp add: example_defs)
  then have "agree (- (sh_cells (list_object example_machinery) (Some 0) example_store - intervals example_store (Some 0)))
      h' (put_cell 3 (Int64 1) h')"
    by (auto simp: agree_def)
  with run list_copy_is_separate [OF example_lawful example_allocated(1) run] show ?thesis
    by blast
qed

end
