(* ===== verification/Tracking.thy ===== *)
theory Tracking
  imports Deep_Copy Reconciler
begin

text \<open>
  The tracked specs of the reconciler. The model of the reconciler keeps the value of a spec; the
  program keeps a pointer to a deep copy, while the policy itself may be written to elsewhere. The
  theorem says for what the value can stand.
\<close>

definition trackPolicySpec_copy ::
    "('o, 'v) apimachinery \<Rightarrow> uid \<Rightarrow> addr option \<Rightarrow> (uid, addr option) gomap \<Rightarrow> 'o store \<Rightarrow>
      (uid, addr option) gomap \<times> 'o store" where
  "trackPolicySpec_copy am u spec specs h =
     (let (specCopy, h) = GarbageCollectionPolicySpec_DeepCopy am spec h
      in (go_put u specCopy specs, h))"

lemma recreation_needs_target:
  "gs_TargetResource S' = gs_TargetResource S \<Longrightarrow>
    shouldRecreateInformer policy (trackPolicySpec u S' rc) = shouldRecreateInformer policy (trackPolicySpec u S rc)"
  by (simp add: shouldRecreateInformer_def trackPolicySpec_def Let_def)

text \<open>
  C17. A tracked spec is what it was when it was tracked. Whatever is written later to any cell of
  the policy, the copy under the UID still looks like the spec at the time of the call, with one
  exception: its evaluation interval is the one that the policy has by then, because the copy
  holds the pointer of the original. Whether informers are recreated does not depend on it, and
  is decided as by the model of the reconciler, which keeps the value.
\<close>

theorem tracked_spec_is_frozen:
  assumes "lawful am" and "allocated (spec_pointer am) (Some a) h"
    and "trackPolicySpec_copy am u (Some a) specs h = (specs', h')"
    and "agree (- sh_cells (spec_pointer am) (Some a) h) h' h''"
  shows "\<exists>b. map_of specs' u = Some (Some b) \<and>
    (let S = sh_view (PolicySpec_shape am) (the_PolicySpec (st_cells h a)) h;
         S' = sh_view (PolicySpec_shape am) (the_PolicySpec (st_cells h'' b)) h''
     in S' = S\<lparr>gs_EvaluationInterval := map_option (\<lambda>i. the_Duration (st_cells h'' i))
            (mgs_EvaluationInterval (the_PolicySpec (st_cells h a)))\<rparr> \<and>
        shouldRecreateInformer policy (trackPolicySpec u S' rc) =
          shouldRecreateInformer policy (trackPolicySpec u S rc))"
proof -
  obtain q where q: "GarbageCollectionPolicySpec_DeepCopy am (Some a) h = (q, h')" and specs: "specs' = go_put u q specs"
    using assms(3) by (auto simp: trackPolicySpec_copy_def split: prod.splits)
  from spec_copy_later [OF assms(1,2) q assms(4)] show ?thesis
    by (auto simp: specs Let_def intro!: recreation_needs_target)
qed

theorem tracked_spec_is_frozen_witness:
  "\<exists>b specs' h'. trackPolicySpec_copy example_machinery ''u'' (Some 6) [] example_store = (specs', h') \<and>
    map_of specs' ''u'' = Some (Some b) \<and>
    (let h'' = put_cell 2 (Duration 1) (put_cell 3 (Int64 1) h');
         S' = sh_view (PolicySpec_shape example_machinery) (the_PolicySpec (st_cells h'' b)) h''
     in ttl_SecondsAfterCreation (gs_TTL S') = Some 7 \<and> gs_EvaluationInterval S' = Some 1)"
proof -
  obtain specs' h' where run: "trackPolicySpec_copy example_machinery ''u'' (Some 6) [] example_store = (specs', h')"
    by fastforce
  let ?h = "put_cell 2 (Duration 1) (put_cell 3 (Int64 1) h')"
  have "{2, 3} \<subseteq> sh_cells (spec_pointer example_machinery) (Some 6) example_store"
    by (simp add: example_defs)
  then have "agree (- sh_cells (spec_pointer example_machinery) (Some 6) example_store) h' ?h"
    by (auto simp: agree_def)
  note tracked = tracked_spec_is_frozen [OF example_lawful example_allocated(2) run this]
  have "ttl_SecondsAfterCreation (gs_TTL (sh_view (PolicySpec_shape example_machinery)
      (the_PolicySpec (st_cells example_store 6)) example_store)) = Some 7"
    "mgs_EvaluationInterval (the_PolicySpec (st_cells example_store 6)) = Some 2"
    by (simp_all add: example_defs)
  with run tracked show ?thesis
    by (fastforce simp: Let_def)
qed

end
