(* ===== verification/Spec2Isabelle.thy ===== *)
theory Spec2Isabelle
  imports Startup Services Log_Errors Log_Sampling Tools Tracking
begin

text \<open>
  A model of zen-gc, a Kubernetes controller that deletes resources when the time to live that a
  \<open>GarbageCollectionPolicy\<close> gives them is over, and the properties that make it correct.

  The program. \<open>runMain\<close> (cmd/gc-controller/main.go) reads flags and environment, starts the
  health server and the admission webhook (pkg/webhook), makes the reconciler (pkg/controller)
  and hands it to a manager of the library controller-runtime, under a leader election
  (internal/election). The manager calls \<open>Reconcile\<close> for one policy after the other: it fetches
  the policy, keeps its tracking, and evaluates it. An evaluation lists the resources of the
  target, keeps those that match the selectors, decides for each whether its TTL
  (internal/ttl) has passed and its conditions hold, deletes them in batches through a rate
  limiter with retries (internal/ratelimiter, internal/backoff), and writes the status of the
  policy, events and metrics. The webhook fills in defaults and refuses malformed policies
  (pkg/validation) before the controller ever sees them.

  Theories, from the bottom:

  \<^item> Prelude, Go_Strings, Go_Time, Go_Errors: what the source uses of the language and its standard
    library (maps in the order of one iteration, 64-bit wrap-around, strings, instants with
    RFC 3339, error values with their chains), together with internal/errors/errors.go.
  \<^item> Api_Types: pkg/api/v1alpha1/types.go. Field_Path, Selectors, Conditions, GVR, TTL: field paths,
    selectors and conditions of pkg/controller/shared.go, pkg/validation/gvr.go and internal/ttl,
    each with a specification without loops. Decision joins TTL and conditions into the decision
    to delete, in both versions of the code.
  \<^item> Deep_Copy, Tracking: zz_generated.deepcopy.go over an explicit store of cells, where aliasing
    shows, and the copy that \<open>trackPolicySpec\<close> keeps; that the other theories may see a policy as a
    value rests on them.
  \<^item> Env_Config, Controller_Config: internal/config and pkg/config. Backoff, Rate_Limiter:
    internal/backoff, and the lookup of the limiters in shared.go and infrastructure.go.
  \<^item> World: what the controller observes and what it does, see below. Deletion (gvr_resolver.go,
    the deletion of a resource, retries, batches), Status (status_updater.go), Evaluation
    (evaluate_policy_refactored.go and evaluate_policy_shared.go).
  \<^item> Reconciler, Reconciler_Runs: reconciler.go and reconciler_helpers.go; the state of the reconciler,
    one \<open>Reconcile\<close>, and the inductive predicate \<open>rc_reach\<close> of the reachable states. Collection: what
    a reconciliation achieves when nothing fails, the status it writes, and its metrics.
    Services: interfaces.go and adapters.go, the service with whatever is injected, and that the
    wiring of the reconciler gives the evaluation that the other theories use.
  \<^item> Validation, Webhook: pkg/validation/validator.go, whose error is that of the first failing check
    in one list of all checks, and pkg/webhook/webhook.go. Json_Patch: the patches of RFC 6902 on JSON
    documents, by which the patches of the webhook get their meaning. Health, Election, Startup:
    internal/health, health.go and leadership.go, internal/election, and main.go.
  \<^item> Error_Classes: internal/errors/classified.go and internal/logging/errors.go. Masking, Logging,
    Log_Helpers, Log_Errors, Log_Sampling: the rest of internal/logging. Tools: cmd/validate-examples,
    the listers of infrastructure.go, internal/events, the names of register.go.

  State and operations. A struct is a record with its fields, a pointer that may be nil an option, a
  Go map an association list without duplicate keys, an error an option of \<open>go_error\<close> or the left
  side of a sum, a panic a value of \<open>panic\<close>. Code that acts on the outside takes a \<open>world\<close> and
  returns it: the world holds the log of the effects (calls of the API server, waits, sleeps,
  events, metrics, status updates) and a tick; every observation is a field of the record
  \<open>outside\<close>, read at the tick, which it advances. So the API server, its caches, the clock and the
  cancellation of the context may answer differently each time, and the theorems hold for all of
  their answers.

  What the lemmas show. The specifications come first: TTL, Conditions, Selectors and Decision
  characterise when a resource is deleted, in one formula each; the lemmas on \<open>deletable\<close> in
  Evaluation carry it through both versions of an evaluation. The locale \<open>world_relation\<close> lifts a
  relation that holds for single steps to deletions, retries and batches,
  \<open>evaluation_relation\<close> extends it to whole evaluations, and the
  interpretations for logs and for the name cache give what an evaluation may do and what it
  keeps: the log relation \<open>logs\<close> fixes for each deletion the resource, its name and namespace, the
  options, and the names under which the API server is asked for its kind.
  The locales \<open>path_parser\<close>, \<open>selector_matcher\<close>, \<open>validator_op\<close>, \<open>limiter_store\<close>,
  \<open>refreshing_store\<close>, \<open>checker_contract\<close> and \<open>deep_copier\<close> state the other interfaces. The invariant of the
  reconciler is proved for \<open>rc_reach\<close>. Safety and progress are separate: Reconciler_Runs bounds what a
  reconciliation may do whatever the outside answers, Collection says what it does in a state that
  is reached, after whatever failures, once the outside is \<open>healthy\<close>, namely the calls for all
  resources that are due, in order and once each, and the status with their numbers. The
  properties of this theory combine start, webhook and reconciler.

  Bounds and termination. The retry loop terminates by the steps of the backoff that are left, the
  parsers of strings by their length. Only the loop over the batches may run for ever, when the
  batch size is 0: it is a partial function into options, and that it returns for every positive
  batch size is proved, in Evaluation for the loop and in Reconciler_Runs for \<open>Reconcile\<close>. No fuel is
  used. Integers that may overflow are words of 64 bits; sizes and counts that stay far below are
  \<open>int\<close>. Floats are exact dyadic numbers with the rounding of IEEE 754 to 53 bits, without
  infinities and subnormal numbers; where the language leaves a conversion out of range open, the
  result is a parameter (\<open>Log_Sampling\<close>) or that of amd64 (\<open>Backoff\<close>).

  Parameters. Code outside the repository is never defined here: the API machinery
  (\<open>k8s_syntax\<close>, \<open>webhook_codec\<close>, the label selectors, discovery), the token bucket of
  golang.org/x/time (\<open>rate_pkg\<close>), client-go (\<open>outside\<close>, the elector), controller-runtime
  (\<open>boot_world\<close>), the structs of meta/v1 with their copies (\<open>apimachinery\<close>), the propagators of
  OpenTelemetry. What a theorem needs of them is a hypothesis of it, in words of their
  documentation, and its witness instantiates them.

  Not modelled: package documentation and the usage examples of the loggers, which are comments;
  the mocks of pkg/controller/testing, which only tests use; the registry of the metrics and the
  buckets of their histograms, which belong to a library (their names, kinds and labels are in
  World); the command line library; log lines of the controller. Concurrency is modelled where the
  code relies on it: the two phases of the limiter lookup interleave in Rate_Limiter, and the
  callbacks of the elector in Election, which run in goroutines of their own; the setup in
  \<open>runController\<close> is one step there. The other locks guard single steps, which are atomic in the
  model.
\<close>

section \<open>Properties across components\<close>

text \<open>What a reached reconciler does next, from the invariant.\<close>

lemma reached_answers:
  assumes "rc_reach env out cfg rc w" and "stores_exist out"
    and "batches_positive out (Some (effective_config cfg))"
  obtains res err rc' w' where "Reconcile env out req rc w = Some (Inr (res, err), rc', w')"
    "reconcile_fine env out req rc w rc' w'" "rc_config rc = Some (effective_config cfg)"
proof -
  have ok: "rc_ok rc" "rc_config rc = Some (effective_config cfg)" "wd_gvr_cache w \<noteq> None"
    using rc_reach_ok [OF assms] by auto
  then show ?thesis
    using Reconcile_total [of rc w out env req] assms(2,3) that by auto
qed

text \<open>
  C1. The program as it is started: when the flag for the batch size is positive and every
  informer has its store, the reconciler that \<open>runMain\<close> builds never panics and never hangs,
  whatever policies it is given and however often it has run, and its intervals are those of the flag.
\<close>

theorem started_controller_is_safe:
  assumes "Built cfg \<in> set (fst (runMain b f))" and "fl_batchSize (mf_config f) > 0"
    and "rc_reach env out (Some cfg) rc w" and "stores_exist out"
  shows "\<exists>res err rc' w'. Reconcile env out req rc w = Some (Inr (res, err), rc', w') \<and>
    getRequeueInterval rc = fl_gcInterval (mf_config f)"
proof -
  have "main_config (bw_parsers b) (bw_env b) (mf_config f) = Inr cfg"
    by (rule Built_config [OF assms(1)])
  then have cfg: "cc_BatchSize cfg = fl_batchSize (mf_config f)" "cc_GCInterval cfg = fl_gcInterval (mf_config f)"
    by (auto simp: main_config_def WithMaxConcurrentEvaluations_def WithBatchSize_def WithMaxDeletionsPerSecond_def
        WithGCInterval_def split: prod.splits option.splits)
  with assms(2) have "batches_positive out (Some (effective_config (Some cfg)))"
    by (simp add: batches_positive_def resolveBatchSize_def effective_config_def)
  from reached_answers [OF assms(3,4) this, of req] obtain res err rc' w' where
    "Reconcile env out req rc w = Some (Inr (res, err), rc', w')" "rc_config rc = Some cfg"
    unfolding effective_config_def by (metis option.case(2))
  then show ?thesis
    using cfg by (simp add: getRequeueInterval_def)
qed

theorem started_controller_is_safe_witness:
  "\<exists>res err rc' w'. Reconcile rc_env_example (rc_calm (fixed_policy 60)) (''ns'', ''p'')
      (new_reconciler (Some NewControllerConfig) None None) (fresh_world\<lparr>wd_gvr_cache := Some []\<rparr>) =
    Some (Inr (res, err), rc', w')"
proof -
  have reach: "rc_reach rc_env_example (rc_calm (fixed_policy 60)) (Some NewControllerConfig)
      (new_reconciler (Some NewControllerConfig) None None) (fresh_world\<lparr>wd_gvr_cache := Some []\<rparr>)"
    by (rule rc_reach.start [OF NewGCPolicyReconcilerWithRESTMapper_def])
  have built: "Built NewControllerConfig \<in> set (fst (runMain calm_boot default_main_flags))"
    "fl_batchSize (mf_config default_main_flags) > 0"
    by (simp add: calm_run) (simp add: default_main_flags_def default_flags_def DefaultBatchSize_def)
  show ?thesis
    using started_controller_is_safe [OF built reach] rc_calm_fine [OF example_batch] by blast
qed

text \<open>
  C2. The webhook protects the controller: when every policy it is given went through the
  defaults of the webhook and its validation and every informer has its store, no configuration
  makes a reached reconciler hang or panic, not even a batch size of 0; and what it asks the API
  server to delete are expired resources of an active policy, each under a name that discovery
  answers for its kind, or under a plural of the kind.
\<close>

theorem admitted_policies_are_safe:
  assumes "rc_reach env out cfg rc w" and "stores_exist out"
    and "\<And>t nn p. get_policy out t nn = Inr p \<Longrightarrow> \<exists>q. p = with_defaults q \<and> ValidatePolicy k8s p = Inr ()"
  shows "\<exists>res err rc' w' es. Reconcile env out req rc w = Some (Inr (res, err), rc', w') \<and>
    wd_log w' = wd_log w @ es \<and>
    (\<forall>dr. DeleteCall dr \<in> set es \<longrightarrow> (\<exists>p t i r. get_policy out (wd_tick w) req = Inr p \<and> \<not> gs_Paused (gp_Spec p) \<and>
       Some r \<in> set (store_List out t i) \<and> deletable (re_as_selector env) out p r \<and> request_for (served_names out) r p dr))"
proof -
  have "resolveBatchSize p cfg' > 0" if got: "get_policy out t nn = Inr p" for t nn p cfg'
  proof -
    obtain q where q: "p = with_defaults q" "ValidatePolicy k8s p = Inr ()"
      using assms(3) [OF got] by blast
    then show ?thesis
      using validated_batches [of k8s q cfg'] by simp
  qed
  then have batches: "batches_positive out (Some (effective_config cfg))"
    by (simp add: batches_positive_def)
  obtain res err rc' w' where run: "Reconcile env out req rc w = Some (Inr (res, err), rc', w')"
    and fine: "reconcile_fine env out req rc w rc' w'"
    by (rule reached_answers [OF assms(1,2) batches, of req])
  obtain es where "wd_log w' = wd_log w @ es" "\<And>dr. DeleteCall dr \<in> set es \<Longrightarrow>
      (\<exists>p r t i. get_policy out (wd_tick w) req = Inr p \<and> \<not> gs_Paused (gp_Spec p) \<and>
          \<not> bh_DryRun (gs_Behavior (gp_Spec p)) \<and> Some r \<in> set (store_List out t i) \<and>
          deletable (re_as_selector env) out p r \<and> request_for (names_of out w) r p dr)"
    using reconcile_fine_deletes [OF fine] by metis
  moreover have names: "names_of out w = served_names out"
    using rc_reach_ok [OF assms(1,2) batches] by (simp add: fun_eq_iff confirmed_names)
  ultimately have "\<forall>dr. DeleteCall dr \<in> set es \<longrightarrow> (\<exists>p t i r. get_policy out (wd_tick w) req = Inr p \<and> \<not> gs_Paused (gp_Spec p) \<and>
       Some r \<in> set (store_List out t i) \<and> deletable (re_as_selector env) out p r \<and> request_for (served_names out) r p dr)"
    unfolding names by blast
  with run \<open>wd_log w' = wd_log w @ es\<close> show ?thesis
    by blast
qed

definition admitted_example :: GarbageCollectionPolicy where
  "admitted_example = with_defaults (configmap_policy ''v1'' (zero_TTLSpec\<lparr>ttl_SecondsAfterCreation := Some 60\<rparr>))"

theorem admitted_policies_are_safe_witness:
  "\<exists>res err rc' w'. Reconcile rc_env_example (rc_calm admitted_example) (''ns'', ''p'')
      (new_reconciler (Some (NewControllerConfig\<lparr>cc_BatchSize := 0\<rparr>)) None None) (fresh_world\<lparr>wd_gvr_cache := Some []\<rparr>) =
    Some (Inr (res, err), rc', w')"
proof -
  have reach: "rc_reach rc_env_example (rc_calm admitted_example) (Some (NewControllerConfig\<lparr>cc_BatchSize := 0\<rparr>))
      (new_reconciler (Some (NewControllerConfig\<lparr>cc_BatchSize := 0\<rparr>)) None None) (fresh_world\<lparr>wd_gvr_cache := Some []\<rparr>)"
    by (rule rc_reach.start [OF NewGCPolicyReconcilerWithRESTMapper_def])
  have "is_ok (ValidatePolicy lenient_syntax (configmap_policy ''v1'' (zero_TTLSpec\<lparr>ttl_SecondsAfterCreation := Some 60\<rparr>)))"
    unfolding ValidatePolicy_ok
    by (simp add: configmap_policy_def zero_defs target_ok_def api_version_ok_def namespace_ok_def selector_ok_def
        ttl_ok_def behavior_ok_def lenient_syntax_def i64_pos_def)
  then have valid: "ValidatePolicy lenient_syntax admitted_example = Inr ()"
    unfolding is_ok_unit admitted_example_def using defaults_validity by simp
  have "stores_exist (rc_calm admitted_example)"
    by (simp add: stores_exist_def)
  moreover have "\<exists>q. p = with_defaults q \<and> ValidatePolicy lenient_syntax p = Inr ()"
    if "get_policy (rc_calm admitted_example) t nn = Inr p" for t nn p
    using that valid by (auto simp: admitted_example_def)
  ultimately show ?thesis
    using admitted_policies_are_safe [OF reach, of lenient_syntax "(''ns'', ''p'')"] by blast
qed

end
